(* ===== verification/Py_Prelude.thy ===== *)
theory Py_Prelude
  imports Complex_Main "HOL-Library.Word"
begin

text \<open>
  The vocabulary shared by every component of the development.

  \<^item> Python values that the code hands over without looking inside (arguments of native calls,
    fields whose annotation Python does not enforce) are values of \<open>pyval\<close>; exceptions are
    values of \<open>pyexc\<close>. A Python \<open>str\<close> is represented by its UTF-8 encoding, a
    \<open>string\<close> (a list of 8-bit characters); \<open>bytes\<close> is a list of 8-bit words.
  \<^item> Code with effects is a function of type \<open>('s, 'a) py\<close>: it takes the state of the
    component and returns an exception or a value together with the new state, so that an
    assignment made before a \<open>raise\<close> is kept. \<open>try/except\<close> and \<open>try/finally\<close>
    are combinators.
  \<^item> Calls into the native extension module \<open>_awscrt\<close> and invocations of user callbacks
    are observable: they are appended, in order, to a trace of events.
\<close>

named_theorems py_monad \<open>unfolding rules of the state and exception combinators\<close>
named_theorems enum_defs \<open>values and member lists of the IntEnum classes\<close>

section \<open>Values and exceptions\<close>

type_synonym byte = "8 word"
type_synonym bytes = "byte list"

datatype pyexc =
    AssertionError
  | AttributeError string
  | CancelledError
  | InvalidStateError
  | KeyError
  | OverflowError string
  | RuntimeError string
  | TypeError string
  | UnboundLocalError string
  | ValueError string
  | BuiltinExc string
  | AwsCrtError int string string
  | S3ResponseError int string string int "(string \<times> string) list" "bytes option" "string option"
  | ReturnCodeExc int
  | SubscribeError string
  | BlockingIOError
  | UserExc nat

datatype pyval =
    PNone
  | PBool bool
  | PInt int
  | PFloat rat
  | PStr string
  | PBytes bytes
  | PList "pyval list"
  | PTuple "pyval list"
  | PEnum string int
  | PExc pyexc
  | PFun nat
  | PObj string nat

text \<open>Truth value testing: an \<open>IntEnum\<close> member is an \<open>int\<close> and is falsy at 0.\<close>

fun truthy :: "pyval \<Rightarrow> bool" where
  "truthy PNone = False"
| "truthy (PBool b) = b"
| "truthy (PInt i) = (i \<noteq> 0)"
| "truthy (PFloat r) = (r \<noteq> 0)"
| "truthy (PStr s) = (s \<noteq> [])"
| "truthy (PBytes b) = (b \<noteq> [])"
| "truthy (PList xs) = (xs \<noteq> [])"
| "truthy (PTuple xs) = (xs \<noteq> [])"
| "truthy (PEnum c i) = (i \<noteq> 0)"
| "truthy (PExc e) = True"
| "truthy (PFun f) = True"
| "truthy (PObj c n) = True"

text \<open>The value of \<open>a or b\<close>.\<close>

definition py_or :: "pyval \<Rightarrow> pyval \<Rightarrow> pyval" where
  "py_or a b = (if truthy a then a else b)"

text \<open>
  \<open>isinstance(v, c)\<close> for the built-in classes the code asks about; \<open>bool\<close> and the
  \<open>IntEnum\<close> classes are subclasses of \<open>int\<close>, and \<open>collections.abc.Sequence\<close>
  has \<open>str\<close>, \<open>bytes\<close>, \<open>list\<close> and \<open>tuple\<close> as its instances.
\<close>

fun isinstance :: "pyval \<Rightarrow> string \<Rightarrow> bool" where
  "isinstance PNone c = (c = ''NoneType'')"
| "isinstance (PBool _) c = (c = ''bool'' \<or> c = ''int'')"
| "isinstance (PInt _) c = (c = ''int'')"
| "isinstance (PFloat _) c = (c = ''float'')"
| "isinstance (PStr _) c = (c = ''str'' \<or> c = ''Sequence'')"
| "isinstance (PBytes _) c = (c = ''bytes'' \<or> c = ''Sequence'')"
| "isinstance (PList _) c = (c = ''list'' \<or> c = ''Sequence'')"
| "isinstance (PTuple _) c = (c = ''tuple'' \<or> c = ''Sequence'')"
| "isinstance (PEnum d _) c = (c = d \<or> c = ''int'')"
| "isinstance (PExc _) c = (c = ''Exception'')"
| "isinstance (PFun _) c = (c = ''function'')"
| "isinstance (PObj d _) c = (c = d)"

fun callable :: "pyval \<Rightarrow> bool" where
  "callable (PFun _) = True"
| "callable _ = False"

text \<open>Embeddings of typed optional values, \<open>None\<close> being \<open>PNone\<close>.\<close>

definition pv :: "('a \<Rightarrow> pyval) \<Rightarrow> 'a option \<Rightarrow> pyval" where
  "pv f x = (case x of None \<Rightarrow> PNone | Some a \<Rightarrow> f a)"

lemma pv_simps [simp]: "pv f None = PNone" "pv f (Some a) = f a"
  by (simp_all add: pv_def)

lemma truthy_pv [simp]: "truthy (pv f x) = (\<exists>a. x = Some a \<and> truthy (f a))"
  by (cases x) simp_all

section \<open>Observable events\<close>

text \<open>
  \<open>Native f args\<close> is a call of \<open>_awscrt.f\<close>; \<open>Callback f args\<close> an invocation of
  the user function registered under the name \<open>f\<close>; \<open>Print\<close> a line written to stderr;
  \<open>Acquire\<close> and \<open>Release\<close> the entry and the exit of a \<open>with lock\<close> block.
  The state of a component extends the record \<open>world\<close>, which holds the trace so far.
\<close>

datatype ev =
    Native string "pyval list"
  | Callback string "pyval list"
  | Print string
  | Acquire string
  | Release string

record world =
  trace :: "ev list"

section \<open>Effects\<close>

type_synonym ('s, 'a) py = "'s \<Rightarrow> (pyexc + 'a) \<times> 's"

definition ret :: "'a \<Rightarrow> ('s, 'a) py" where
  [py_monad]: "ret x = (\<lambda>s. (Inr x, s))"

definition raise :: "pyexc \<Rightarrow> ('s, 'a) py" where
  [py_monad]: "raise e = (\<lambda>s. (Inl e, s))"

definition bindE :: "('s, 'a) py \<Rightarrow> ('a \<Rightarrow> ('s, 'b) py) \<Rightarrow> ('s, 'b) py" where
  [py_monad]: "bindE m k = (\<lambda>s. case m s of (Inl e, s') \<Rightarrow> (Inl e, s') | (Inr x, s') \<Rightarrow> k x s')"

definition thenE :: "('s, 'a) py \<Rightarrow> ('s, 'b) py \<Rightarrow> ('s, 'b) py" where
  [py_monad]: "thenE m k = bindE m (\<lambda>_. k)"

definition getE :: "('s \<Rightarrow> 'a) \<Rightarrow> ('s, 'a) py" where
  [py_monad]: "getE f = (\<lambda>s. (Inr (f s), s))"

definition updE :: "('s \<Rightarrow> 's) \<Rightarrow> ('s, unit) py" where
  [py_monad]: "updE f = (\<lambda>s. (Inr (), f s))"

definition try_except :: "('s, 'a) py \<Rightarrow> (pyexc \<Rightarrow> ('s, 'a) py) \<Rightarrow> ('s, 'a) py" where
  [py_monad]: "try_except m h = (\<lambda>s. case m s of (Inl e, s') \<Rightarrow> h e s' | (Inr x, s') \<Rightarrow> (Inr x, s'))"

text \<open>The clean-up runs in every case; an exception it raises replaces the outcome of the body.\<close>

definition try_finally :: "('s, 'a) py \<Rightarrow> ('s, unit) py \<Rightarrow> ('s, 'a) py" where
  [py_monad]: "try_finally m f =
     (\<lambda>s. case m s of (r, s1) \<Rightarrow>
        (case f s1 of (Inl e, s2) \<Rightarrow> (Inl e, s2) | (Inr _, s2) \<Rightarrow> (r, s2)))"

text \<open>\<open>assert b\<close>.\<close>

definition py_assert :: "bool \<Rightarrow> ('s, unit) py" where
  [py_monad]: "py_assert b = (if b then ret () else raise AssertionError)"

text \<open>A user function that may raise: \<open>None\<close> for a normal return.\<close>

definition user_outcome :: "pyexc option \<Rightarrow> ('s, unit) py" where
  [py_monad]: "user_outcome r = (case r of None \<Rightarrow> ret () | Some e \<Rightarrow> raise e)"

definition emit :: "ev \<Rightarrow> ('a world_scheme, unit) py" where
  [py_monad]: "emit e = updE (\<lambda>s. s\<lparr>trace := trace s @ [e]\<rparr>)"

text \<open>
  The native module is a parameter: for each call it says what is raised or returned. The
  call itself is recorded whatever its outcome.
\<close>

type_synonym native_env = "string \<Rightarrow> pyval list \<Rightarrow> pyexc + pyval"

definition native :: "native_env \<Rightarrow> string \<Rightarrow> pyval list \<Rightarrow> ('a world_scheme, pyval) py" where
  [py_monad]: "native N f args =
     thenE (emit (Native f args)) (\<lambda>s. (N f args, s))"

text \<open>User functions are a parameter too; \<open>None\<close> is a normal return.\<close>

type_synonym user_env = "string \<Rightarrow> pyval list \<Rightarrow> pyexc option"

definition callback :: "user_env \<Rightarrow> string \<Rightarrow> pyval list \<Rightarrow> ('a world_scheme, unit) py" where
  [py_monad]: "callback U f args = thenE (emit (Callback f args)) (user_outcome (U f args))"

text \<open>\<open>with lock: body\<close>: the lock is released however the body ends.\<close>

definition with_lock :: "string \<Rightarrow> ('a world_scheme, 'b) py \<Rightarrow> ('a world_scheme, 'b) py" where
  [py_monad]: "with_lock l m = thenE (emit (Acquire l)) (try_finally m (emit (Release l)))"

lemma bindE_assoc: "bindE (bindE m k) h = bindE m (\<lambda>x. bindE (k x) h)"
  by (rule ext) (auto simp: bindE_def split: prod.splits sum.splits)

lemma bindE_ret [simp]: "bindE m ret = m" "bindE (ret x) k = k x"
  by (rule ext, auto simp: bindE_def ret_def split: prod.splits sum.splits)

lemma bindE_raise [simp]: "bindE (raise e) k = raise e"
  by (rule ext) (simp add: bindE_def raise_def)

lemma try_finally_runs:
  "snd (f (snd (m s))) = snd (try_finally m f s)"
  by (auto simp: try_finally_def split: prod.splits sum.splits)

text \<open>The effect of the building blocks on the state, apart from the trace.\<close>

lemma callback_state: "snd (callback U f args s) = s\<lparr>trace := trace s @ [Callback f args]\<rparr>"
  by (auto simp: py_monad split: option.splits)

lemma callback_to: "callback U f args s = (r, s') \<Longrightarrow> s' = s\<lparr>trace := trace s @ [Callback f args]\<rparr>"
  by (metis callback_state snd_conv)

lemma native_state: "snd (native N f args s) = s\<lparr>trace := trace s @ [Native f args]\<rparr>"
  by (simp add: py_monad)

lemma snd_thenE_ret: "snd (thenE m (ret x) s) = snd (m s)"
  by (auto simp: py_monad split: prod.splits sum.splits)

end
