(* ===== verification/Int_Enum.thy ===== *)
theory Int_Enum
  imports Py_Prelude
begin

text \<open>
  \<open>enum.IntEnum\<close> classes. A class is a datatype with its members in declaration order and
  the integer each stands for. Calling the class on an integer, \<open>C(v)\<close>, returns the member
  with that value and raises \<open>ValueError\<close> if there is none; \<open>enum_call\<close> models this
  lookup, \<open>enum_try\<close> the recurring \<open>try: return C(v) except: return None\<close>.
  The locale states what a class has to satisfy (members listed completely, values distinct);
  the lookups are then a partial inverse of \<open>.value\<close>. The two laws of such an inverse are
  themselves an interface, \<open>codec\<close>, met by the other encodings of the development too.
\<close>

definition enum_call :: "'e list \<Rightarrow> ('e \<Rightarrow> int) \<Rightarrow> int \<Rightarrow> pyexc + 'e" where
  "enum_call members val v =
     (case find (\<lambda>e. val e = v) members of
        None \<Rightarrow> Inl (ValueError ''not a valid enum value'')
      | Some e \<Rightarrow> Inr e)"

definition enum_try :: "'e list \<Rightarrow> ('e \<Rightarrow> int) \<Rightarrow> int \<Rightarrow> 'e option" where
  "enum_try members val v =
     (case enum_call members val v of Inl _ \<Rightarrow> None | Inr e \<Rightarrow> Some e)"

lemma enum_univI: "(\<And>x. x \<in> set ms) \<Longrightarrow> set ms = UNIV"
  by auto

locale codec =
  fixes enc :: "'a \<Rightarrow> 'b"
    and dec :: "'b \<Rightarrow> 'a option"
  assumes dec_enc: "dec (enc x) = Some x"
    and enc_dec: "dec y = Some x \<Longrightarrow> enc x = y"
begin

lemma enc_inj: "enc x = enc x' \<Longrightarrow> x = x'"
  by (metis dec_enc option.inject)

lemma dec_eq_Some_iff: "dec y = Some x \<longleftrightarrow> y = enc x"
  using dec_enc enc_dec by auto

lemma dec_None_iff: "dec y = None \<longleftrightarrow> (\<forall>x. enc x \<noteq> y)"
  using dec_enc enc_dec by (metis option.exhaust option.simps(3))

end

locale int_enum =
  fixes members :: "'e list"
    and val :: "'e \<Rightarrow> int"
  assumes members_all: "set members = UNIV"
    and val_distinct: "distinct (map val members)"
begin

lemma val_inj: "val a = val b \<Longrightarrow> a = b"
  using members_all val_distinct by (metis UNIV_I distinct_map inj_on_contraD)

lemma call_val: "enum_call members val (val e) = Inr e"
proof -
  have "e \<in> set members" using members_all by simp
  then obtain a where a: "find (\<lambda>x. val x = val e) members = Some a"
    by (cases "find (\<lambda>x. val x = val e) members") (auto simp: find_None_iff)
  then have "val a = val e" by (auto simp: find_Some_iff)
  with a show ?thesis by (simp add: enum_call_def val_inj)
qed

lemma call_Inr: "enum_call members val v = Inr e \<Longrightarrow> val e = v"
  by (auto simp: enum_call_def find_Some_iff split: option.splits)

lemma call_cases:
  "(\<exists>e. v = val e \<and> enum_call members val v = Inr e) \<or>
   (v \<notin> range val \<and> enum_call members val v = Inl (ValueError ''not a valid enum value''))"
proof (cases "v \<in> range val")
  case True
  then show ?thesis using call_val by auto
next
  case False
  then have "find (\<lambda>e. val e = v) members = None"
    by (auto simp: find_None_iff)
  with False show ?thesis by (simp add: enum_call_def)
qed

lemma try_val: "enum_try members val (val e) = Some e"
  by (simp add: enum_try_def call_val)

lemma try_Some: "enum_try members val v = Some e \<Longrightarrow> val e = v"
  by (auto simp: enum_try_def call_Inr split: sum.splits)

end

sublocale int_enum \<subseteq> codec val "enum_try members val"
  by unfold_locales (rule try_val, rule try_Some)

end
