(* ===== verification/Io_Types.thy ===== *)
theory Io_Types
  imports Int_Enum
begin

text \<open>
  The enumerations of \<open>awscrt/io.py\<close>.
\<close>

datatype CertificateSource =
    CERTIFICATE_FILES
  | PKCS11
  | WINDOWS_CERT_STORE
  | PKCS12_FILE

primrec CertificateSource_value :: "CertificateSource \<Rightarrow> int" where
  "CertificateSource_value CertificateSource.CERTIFICATE_FILES = 0"
| "CertificateSource_value CertificateSource.PKCS11 = 1"
| "CertificateSource_value CertificateSource.WINDOWS_CERT_STORE = 2"
| "CertificateSource_value CertificateSource.PKCS12_FILE = 4"

definition CertificateSource_members :: "CertificateSource list" where
  [enum_defs]: "CertificateSource_members =
    [CertificateSource.CERTIFICATE_FILES, CertificateSource.PKCS11,
     CertificateSource.WINDOWS_CERT_STORE, CertificateSource.PKCS12_FILE]"

interpretation CertificateSource_enum: int_enum CertificateSource_members CertificateSource_value
  by (unfold_locales, rule enum_univI, case_tac x, simp_all add: enum_defs)

datatype LogLevel =
    NoLogs
  | Fatal
  | Error
  | Warn
  | Info
  | Debug
  | Trace

primrec LogLevel_value :: "LogLevel \<Rightarrow> int" where
  "LogLevel_value LogLevel.NoLogs = 0"
| "LogLevel_value LogLevel.Fatal = 1"
| "LogLevel_value LogLevel.Error = 2"
| "LogLevel_value LogLevel.Warn = 3"
| "LogLevel_value LogLevel.Info = 4"
| "LogLevel_value LogLevel.Debug = 5"
| "LogLevel_value LogLevel.Trace = 6"

definition LogLevel_members :: "LogLevel list" where
  [enum_defs]: "LogLevel_members =
    [LogLevel.NoLogs, LogLevel.Fatal, LogLevel.Error, LogLevel.Warn, LogLevel.Info,
     LogLevel.Debug, LogLevel.Trace]"

interpretation LogLevel_enum: int_enum LogLevel_members LogLevel_value
  by (unfold_locales, rule enum_univI, case_tac x, simp_all add: enum_defs)

datatype SocketDomain =
    IPv4
  | IPv6
  | Local

primrec SocketDomain_value :: "SocketDomain \<Rightarrow> int" where
  "SocketDomain_value SocketDomain.IPv4 = 0"
| "SocketDomain_value SocketDomain.IPv6 = 1"
| "SocketDomain_value SocketDomain.Local = 2"

definition SocketDomain_members :: "SocketDomain list" where
  [enum_defs]: "SocketDomain_members =
    [SocketDomain.IPv4, SocketDomain.IPv6, SocketDomain.Local]"

interpretation SocketDomain_enum: int_enum SocketDomain_members SocketDomain_value
  by (unfold_locales, rule enum_univI, case_tac x, simp_all add: enum_defs)

datatype SocketType =
    Stream
  | DGram

primrec SocketType_value :: "SocketType \<Rightarrow> int" where
  "SocketType_value SocketType.Stream = 0"
| "SocketType_value SocketType.DGram = 1"

definition SocketType_members :: "SocketType list" where
  [enum_defs]: "SocketType_members =
    [SocketType.Stream, SocketType.DGram]"

interpretation SocketType_enum: int_enum SocketType_members SocketType_value
  by (unfold_locales, rule enum_univI, case_tac x, simp_all add: enum_defs)

datatype TlsVersion =
    SSLv3
  | TLSv1
  | TLSv1_1
  | TLSv1_2
  | TLSv1_3
  | DEFAULT

primrec TlsVersion_value :: "TlsVersion \<Rightarrow> int" where
  "TlsVersion_value TlsVersion.SSLv3 = 0"
| "TlsVersion_value TlsVersion.TLSv1 = 1"
| "TlsVersion_value TlsVersion.TLSv1_1 = 2"
| "TlsVersion_value TlsVersion.TLSv1_2 = 3"
| "TlsVersion_value TlsVersion.TLSv1_3 = 4"
| "TlsVersion_value TlsVersion.DEFAULT = 128"

definition TlsVersion_members :: "TlsVersion list" where
  [enum_defs]: "TlsVersion_members =
    [TlsVersion.SSLv3, TlsVersion.TLSv1, TlsVersion.TLSv1_1, TlsVersion.TLSv1_2,
     TlsVersion.TLSv1_3, TlsVersion.DEFAULT]"

interpretation TlsVersion_enum: int_enum TlsVersion_members TlsVersion_value
  by (unfold_locales, rule enum_univI, case_tac x, simp_all add: enum_defs)

datatype TlsCipherPref =
    DEFAULT
  | PQ_TLSv1_0_2021_05
  | PQ_DEFAULT
  | TLSv1_2_2025_07

primrec TlsCipherPref_value :: "TlsCipherPref \<Rightarrow> int" where
  "TlsCipherPref_value TlsCipherPref.DEFAULT = 0"
| "TlsCipherPref_value TlsCipherPref.PQ_TLSv1_0_2021_05 = 6"
| "TlsCipherPref_value TlsCipherPref.PQ_DEFAULT = 8"
| "TlsCipherPref_value TlsCipherPref.TLSv1_2_2025_07 = 9"

definition TlsCipherPref_members :: "TlsCipherPref list" where
  [enum_defs]: "TlsCipherPref_members =
    [TlsCipherPref.DEFAULT, TlsCipherPref.PQ_TLSv1_0_2021_05, TlsCipherPref.PQ_DEFAULT,
     TlsCipherPref.TLSv1_2_2025_07]"

interpretation TlsCipherPref_enum: int_enum TlsCipherPref_members TlsCipherPref_value
  by (unfold_locales, rule enum_univI, case_tac x, simp_all add: enum_defs)

datatype InitializeFinalizeBehavior =
    DEFAULT
  | OMIT
  | STRICT

primrec InitializeFinalizeBehavior_value :: "InitializeFinalizeBehavior \<Rightarrow> int" where
  "InitializeFinalizeBehavior_value InitializeFinalizeBehavior.DEFAULT = 0"
| "InitializeFinalizeBehavior_value InitializeFinalizeBehavior.OMIT = 1"
| "InitializeFinalizeBehavior_value InitializeFinalizeBehavior.STRICT = 2"

definition InitializeFinalizeBehavior_members :: "InitializeFinalizeBehavior list" where
  [enum_defs]: "InitializeFinalizeBehavior_members =
    [InitializeFinalizeBehavior.DEFAULT, InitializeFinalizeBehavior.OMIT,
     InitializeFinalizeBehavior.STRICT]"

interpretation InitializeFinalizeBehavior_enum: int_enum InitializeFinalizeBehavior_members InitializeFinalizeBehavior_value
  by (unfold_locales, rule enum_univI, case_tac x, simp_all add: enum_defs)

end
