(* ===== verification/Py_Logic.thy ===== *)
theory Py_Logic
  imports Py_Prelude
begin

text \<open>
  Reasoning principles for the effectful code of the components: Hoare triples with a
  postcondition for the normal and one for the exceptional outcome, a discipline for nested
  locks, and invariants of event-driven objects, the last as a locale that each of them
  interprets.
\<close>

section \<open>Triples\<close>

definition valid ::
  "('s \<Rightarrow> bool) \<Rightarrow> ('s, 'a) py \<Rightarrow> ('a \<Rightarrow> 's \<Rightarrow> bool) \<Rightarrow> (pyexc \<Rightarrow> 's \<Rightarrow> bool) \<Rightarrow> bool" where
  "valid P m Q X =
     (\<forall>s. P s \<longrightarrow> (case m s of (Inl e, s') \<Rightarrow> X e s' | (Inr a, s') \<Rightarrow> Q a s'))"

lemma validD_Inr: "valid P m Q X \<Longrightarrow> P s \<Longrightarrow> m s = (Inr a, s') \<Longrightarrow> Q a s'"
  by (auto simp: valid_def split: prod.splits sum.splits)

lemma validD_Inl: "valid P m Q X \<Longrightarrow> P s \<Longrightarrow> m s = (Inl e, s') \<Longrightarrow> X e s'"
  by (auto simp: valid_def split: prod.splits sum.splits)

lemma validD_inv: "valid P m (\<lambda>_. I) (\<lambda>_. I) \<Longrightarrow> P s \<Longrightarrow> I (snd (m s))"
  by (cases "m s"; cases "fst (m s)") (auto simp: valid_def)

lemma valid_weaken:
  "valid P m Q X \<Longrightarrow> (\<And>s. P' s \<Longrightarrow> P s) \<Longrightarrow> (\<And>a s. Q a s \<Longrightarrow> Q' a s) \<Longrightarrow>
   (\<And>e s. X e s \<Longrightarrow> X' e s) \<Longrightarrow> valid P' m Q' X'"
  by (fastforce simp: valid_def split: prod.splits sum.splits)

lemma valid_ret: "(\<And>s. P s \<Longrightarrow> Q x s) \<Longrightarrow> valid P (ret x) Q X"
  by (simp add: valid_def ret_def)

lemma valid_raise: "(\<And>s. P s \<Longrightarrow> X e s) \<Longrightarrow> valid P (raise e) Q X"
  by (simp add: valid_def raise_def)

lemma valid_updE: "(\<And>s. P s \<Longrightarrow> Q () (f s)) \<Longrightarrow> valid P (updE f) Q X"
  by (simp add: valid_def updE_def)

lemma valid_getE: "(\<And>s. P s \<Longrightarrow> Q (f s) s) \<Longrightarrow> valid P (getE f) Q X"
  by (simp add: valid_def getE_def)

lemma valid_bindE:
  "valid P m R X \<Longrightarrow> (\<And>a. valid (R a) (k a) Q X) \<Longrightarrow> valid P (bindE m k) Q X"
  by (fastforce simp: valid_def bindE_def split: prod.splits sum.splits)

lemma valid_bind_spec:
  "valid P0 m R X0 \<Longrightarrow> (\<And>s. P s \<Longrightarrow> P0 s) \<Longrightarrow> (\<And>e s. X0 e s \<Longrightarrow> X e s) \<Longrightarrow>
   (\<And>a. valid (R a) (k a) Q X) \<Longrightarrow> valid P (bindE m k) Q X"
  by (rule valid_bindE [where R = R]) (auto intro: valid_weaken)

lemma valid_thenE:
  "valid P m R X \<Longrightarrow> (\<And>a. valid (R a) k Q X) \<Longrightarrow> valid P (thenE m k) Q X"
  unfolding thenE_def by (rule valid_bindE)

lemma valid_getE_bind:
  "(\<And>x. valid (\<lambda>s. P s \<and> f s = x) (k x) Q X) \<Longrightarrow> valid P (bindE (getE f) k) Q X"
  by (auto simp: valid_def bindE_def getE_def)

text \<open>Native calls and lock operations change nothing but the trace.\<close>

definition trace_indep :: "('a world_scheme \<Rightarrow> bool) \<Rightarrow> bool" where
  "trace_indep P = (\<forall>s t. P (s\<lparr>trace := t\<rparr>) = P s)"

lemma trace_indepD: "trace_indep P \<Longrightarrow> P (s\<lparr>trace := t\<rparr>) = P s"
  by (simp add: trace_indep_def)

lemma valid_native:
  "trace_indep P \<Longrightarrow> valid P (native N f args) (\<lambda>_. P) (\<lambda>_. P)"
  by (auto simp: valid_def py_monad trace_indepD split: sum.splits)

lemma valid_native_then:
  "trace_indep P \<Longrightarrow> (\<And>e s. P s \<Longrightarrow> X e s) \<Longrightarrow> valid P k Q X \<Longrightarrow>
   valid P (thenE (native N f args) k) Q X"
  unfolding thenE_def by (rule valid_bind_spec [OF valid_native [of P]])

lemma valid_updE_ret:
  "(\<And>s. P s \<Longrightarrow> Q x (f s)) \<Longrightarrow> valid P (thenE (updE f) (ret x)) Q X"
  by (simp add: valid_def py_monad)

lemma valid_with_lock:
  assumes "valid P m Q X" "trace_indep P" "\<And>a. trace_indep (Q a)" "\<And>e. trace_indep (X e)"
  shows "valid P (with_lock l m) Q X"
proof -
  have "case with_lock l m s of (Inl e, s') \<Rightarrow> X e s' | (Inr a, s') \<Rightarrow> Q a s'" if "P s" for s
  proof -
    let ?s = "s\<lparr>trace := trace s @ [Acquire l]\<rparr>"
    have "P ?s" using that assms(2) by (simp add: trace_indepD)
    with assms(1) have "case m ?s of (Inl e, s') \<Rightarrow> X e s' | (Inr a, s') \<Rightarrow> Q a s'"
      by (simp add: valid_def)
    with assms(3,4) show ?thesis
      by (cases "m ?s"; cases "fst (m ?s)") (auto simp: py_monad trace_indepD)
  qed
  then show ?thesis by (simp add: valid_def)
qed

section \<open>Lock discipline\<close>

text \<open>
  Checking a sequence of events against a rank of the locks: a lock may be acquired only while
  every lock already held has a strictly greater rank (so that no thread waits for a lock it
  holds, and no two threads wait for each other), and locks are released in the opposite order.
\<close>

fun locks_run :: "(string \<Rightarrow> nat) \<Rightarrow> string list \<Rightarrow> ev list \<Rightarrow> string list option" where
  "locks_run rank held [] = Some held"
| "locks_run rank held (Acquire l # es) =
     (if list_all (\<lambda>h. rank l < rank h) held then locks_run rank (l # held) es else None)"
| "locks_run rank held (Release l # es) =
     (case held of [] \<Rightarrow> None | h # hs \<Rightarrow> if h = l then locks_run rank hs es else None)"
| "locks_run rank held (_ # es) = locks_run rank held es"

lemma locks_run_append:
  "locks_run rank held (es @ fs) =
     Option.bind (locks_run rank held es) (\<lambda>h. locks_run rank h fs)"
  by (induction rank held es rule: locks_run.induct) (auto split: list.splits)

text \<open>\<open>disciplined rank r m\<close>: \<open>m\<close> acquires only locks ranked below \<open>r\<close>, in decreasing
  order, and gives back all it acquires.\<close>

definition disciplined :: "(string \<Rightarrow> nat) \<Rightarrow> nat \<Rightarrow> ('a world_scheme, 'b) py \<Rightarrow> bool" where
  "disciplined rank r m =
     (\<forall>s. \<exists>es. trace (snd (m s)) = trace s @ es \<and>
        (\<forall>held. list_all (\<lambda>h. r \<le> rank h) held \<longrightarrow> locks_run rank held es = Some held))"

lemma disciplined_pure: "(\<And>s. trace (snd (m s)) = trace s) \<Longrightarrow> disciplined rank r m"
  unfolding disciplined_def by (intro allI exI [of _ "[]"]) simp

lemma disciplined_simple:
  "disciplined rank r (ret x)" "disciplined rank r (getE f)"
  "(\<And>s. trace (g s) = trace s) \<Longrightarrow> disciplined rank r (updE g)"
  by (simp_all add: disciplined_pure py_monad)

lemma disciplined_native: "disciplined rank r (native N f args)"
  unfolding disciplined_def
  by (intro allI exI [of _ "[Native f args]"]) (simp add: py_monad)

lemma disciplined_bindE:
  assumes m: "disciplined rank r m" and k: "\<And>a. disciplined rank r (k a)"
  shows "disciplined rank r (bindE m k)"
  unfolding disciplined_def
proof
  fix s
  obtain x s1 where ms: "m s = (x, s1)" by fastforce
  from m ms obtain es where es: "trace s1 = trace s @ es"
    "\<And>held. list_all (\<lambda>h. r \<le> rank h) held \<Longrightarrow> locks_run rank held es = Some held"
    unfolding disciplined_def by (metis snd_conv)
  show "\<exists>es. trace (snd (bindE m k s)) = trace s @ es \<and>
     (\<forall>held. list_all (\<lambda>h. r \<le> rank h) held \<longrightarrow> locks_run rank held es = Some held)"
  proof (cases x)
    case (Inl e)
    with ms es show ?thesis by (auto simp: bindE_def)
  next
    case (Inr a)
    from k [of a] obtain fs where fs: "trace (snd (k a s1)) = trace s1 @ fs"
      "\<And>held. list_all (\<lambda>h. r \<le> rank h) held \<Longrightarrow> locks_run rank held fs = Some held"
      unfolding disciplined_def by blast
    show ?thesis
      by (rule exI [of _ "es @ fs"]) (simp add: bindE_def ms Inr es fs locks_run_append)
  qed
qed

lemma disciplined_thenE:
  "disciplined rank r m \<Longrightarrow> disciplined rank r k \<Longrightarrow> disciplined rank r (thenE m k)"
  unfolding thenE_def by (rule disciplined_bindE)

lemma trace_with_lock:
  "trace (snd (m (s\<lparr>trace := trace s @ [Acquire l]\<rparr>))) = (trace s @ [Acquire l]) @ es \<Longrightarrow>
   trace (snd (with_lock l m s)) = trace s @ Acquire l # es @ [Release l]"
  by (cases "m (s\<lparr>trace := trace s @ [Acquire l]\<rparr>)") (auto simp: py_monad)

lemma disciplined_with_lock:
  assumes m: "disciplined rank (rank l) m" and l: "rank l < r"
  shows "disciplined rank r (with_lock l m)"
  unfolding disciplined_def
proof
  fix s
  from m obtain es where
    es: "trace (snd (m (s\<lparr>trace := trace s @ [Acquire l]\<rparr>))) = (trace s @ [Acquire l]) @ es"
    and ok: "\<And>held. list_all (\<lambda>h. rank l \<le> rank h) held \<Longrightarrow> locks_run rank held es = Some held"
    unfolding disciplined_def
    by (metis (no_types, lifting) select_convs(1) surjective update_convs(1))
  have "locks_run rank held (Acquire l # es @ [Release l]) = Some held"
    if h: "list_all (\<lambda>h. r \<le> rank h) held" for held
  proof -
    have "list_all (\<lambda>h. rank l < rank h) held"
      using h l by (auto simp: list_all_iff)
    moreover from this have "list_all (\<lambda>h. rank l \<le> rank h) (l # held)"
      by (auto simp: list_all_iff)
    ultimately show ?thesis by (simp add: locks_run_append ok)
  qed
  with trace_with_lock [of m s l es, OF es]
  show "\<exists>es. trace (snd (with_lock l m s)) = trace s @ es \<and>
     (\<forall>held. list_all (\<lambda>h. r \<le> rank h) held \<longrightarrow> locks_run rank held es = Some held)"
    by blast
qed

lemmas disciplined_intros =
  disciplined_simple disciplined_native disciplined_bindE disciplined_thenE disciplined_with_lock

section \<open>Event-driven objects\<close>

text \<open>
  An object whose methods are called by the native layer and by the user, in any order the
  environment allows: \<open>step s e s'\<close>. A property that holds of every initial state and is
  kept by every step holds in every reachable state.
\<close>

inductive run_steps :: "('s \<Rightarrow> 'e \<Rightarrow> 's \<Rightarrow> bool) \<Rightarrow> 's \<Rightarrow> 'e list \<Rightarrow> 's \<Rightarrow> bool"
  for step where
  run_Nil: "run_steps step s [] s"
| run_Cons: "step s e s' \<Longrightarrow> run_steps step s' es s'' \<Longrightarrow> run_steps step s (e # es) s''"

inductive_simps run_steps_Nil [simp]: "run_steps step s [] s'"
inductive_simps run_steps_Cons: "run_steps step s (e # es) s'"

lemma run_steps_append:
  "run_steps step s (es @ fs) s'' \<longleftrightarrow> (\<exists>s'. run_steps step s es s' \<and> run_steps step s' fs s'')"
  by (induction es arbitrary: s) (auto simp: run_steps_Cons)

locale invariant_system =
  fixes start :: "'s \<Rightarrow> bool"
    and step :: "'s \<Rightarrow> 'e \<Rightarrow> 's \<Rightarrow> bool"
    and good :: "'s \<Rightarrow> bool"
  assumes start_good: "start s \<Longrightarrow> good s"
    and step_good: "good s \<Longrightarrow> step s e s' \<Longrightarrow> good s'"
begin

lemma run_good: "run_steps step s es s' \<Longrightarrow> good s \<Longrightarrow> good s'"
  by (induction rule: run_steps.induct) (auto intro: step_good)

lemma reachable_good: "start s \<Longrightarrow> run_steps step s es s' \<Longrightarrow> good s'"
  using run_good start_good by blast

end

text \<open>With a quantity that no step decreases, a fact about it survives every run.\<close>

locale monotone_system = invariant_system start step good
  for start :: "'s \<Rightarrow> bool" and step :: "'s \<Rightarrow> 'e \<Rightarrow> 's \<Rightarrow> bool" and good :: "'s \<Rightarrow> bool" +
  fixes stable :: "'s \<Rightarrow> bool"
  assumes step_stable: "good s \<Longrightarrow> stable s \<Longrightarrow> step s e s' \<Longrightarrow> stable s'"
begin

lemma run_stable: "run_steps step s es s' \<Longrightarrow> good s \<Longrightarrow> stable s \<Longrightarrow> stable s'"
  by (induction rule: run_steps.induct) (auto intro: step_good step_stable)

end

end
