(* ===== verification/Crt_Exceptions.thy ===== *)
theory Crt_Exceptions
  imports Py_Prelude
begin

text \<open>
  \<open>awscrt/exceptions.py\<close>. The tables behind a CRT error code (the built-in exception it
  corresponds to, its name and its message) belong to the native libraries and are a parameter.
\<close>

record crt_errors =
  corresponding_builtin_exception :: "int \<Rightarrow> string option"
  error_name :: "int \<Rightarrow> string"
  error_message :: "int \<Rightarrow> string"

definition from_code :: "crt_errors \<Rightarrow> int \<Rightarrow> pyexc" where
  "from_code E code =
     (case corresponding_builtin_exception E code of
        Some builtin \<Rightarrow> BuiltinExc builtin
      | None \<Rightarrow> AwsCrtError code (error_name E code) (error_message E code))"

text \<open>\<open>isinstance(e, AwsCrtError)\<close>; \<open>S3ResponseError\<close> is a subclass.\<close>

fun is_AwsCrtError :: "pyexc \<Rightarrow> bool" where
  "is_AwsCrtError (AwsCrtError _ _ _) = True"
| "is_AwsCrtError (S3ResponseError _ _ _ _ _ _ _) = True"
| "is_AwsCrtError _ = False"

fun exc_code :: "pyexc \<Rightarrow> int" where
  "exc_code (AwsCrtError c _ _) = c"
| "exc_code (S3ResponseError c _ _ _ _ _ _) = c"
| "exc_code _ = 0"

fun AwsCrtError_str :: "pyexc \<Rightarrow> string" where
  "AwsCrtError_str (AwsCrtError _ n m) = n @ '': '' @ m"
| "AwsCrtError_str (S3ResponseError _ n m _ _ _ _) = n @ '': '' @ m"
| "AwsCrtError_str _ = []"

lemma from_code_AwsCrtError:
  "is_AwsCrtError (from_code E c) \<longleftrightarrow> corresponding_builtin_exception E c = None"
  by (auto simp: from_code_def split: option.splits)

lemma exc_code_from_code: "is_AwsCrtError (from_code E c) \<Longrightarrow> exc_code (from_code E c) = c"
  by (auto simp: from_code_def split: option.splits)

text \<open>A concrete error table, for evaluating the definitions on examples.\<close>

definition crt_errors_ex :: crt_errors where
  "crt_errors_ex = \<lparr>corresponding_builtin_exception = (\<lambda>_. None), error_name = (\<lambda>_. ''E''),
     error_message = (\<lambda>_. ''m'')\<rparr>"

end
