(* ===== verification/Io.thy ===== *)
theory Io
  imports Io_Types Py_Strings Py_Logic Crt_Exceptions
begin

text \<open>
  \<open>awscrt/io.py\<close>: the process-wide default event loop group, host resolver and client
  bootstrap with the locks that guard them; TLS context options and their factory methods; the
  adapter that presents a Python stream to the native layer. The file system is a parameter.
\<close>

section \<open>Event loop group, host resolver, bootstrap\<close>

text \<open>
  Objects get numbers as they are created. \<open>resolver_elg\<close> and \<open>bootstrap_parts\<close>
  record what an object was built from; the three \<open>static\<close> fields are the class attributes
  \<open>_static_event_loop_group\<close>, \<open>_static_host_resolver\<close> and
  \<open>_static_client_bootstrap\<close>.
\<close>

record io_state = world +
  next_id :: nat
  elgs :: "nat set"
  resolver_elg :: "nat \<rightharpoonup> nat"
  bootstrap_parts :: "nat \<rightharpoonup> nat \<times> nat"
  static_event_loop_group :: "nat option"
  static_host_resolver :: "nat option"
  static_client_bootstrap :: "nat option"

definition io_init :: io_state where
  "io_init = \<lparr>trace = [], next_id = 0, elgs = {}, resolver_elg = Map.empty,
     bootstrap_parts = Map.empty, static_event_loop_group = None, static_host_resolver = None,
     static_client_bootstrap = None\<rparr>"

definition EventLoopGroup_init :: "native_env \<Rightarrow> int option \<Rightarrow> int option \<Rightarrow> (io_state, nat) py" where
  "EventLoopGroup_init N num_threads cpu_group =
     (let num_threads = (case num_threads of None \<Rightarrow> 0 | Some n \<Rightarrow> n);
          is_pinned = (cpu_group \<noteq> None);
          cpu_group = (case cpu_group of None \<Rightarrow> 0 | Some g \<Rightarrow> g)
      in bindE (getE next_id) (\<lambda>n.
         thenE (native N ''event_loop_group_new''
                 [PInt num_threads, PBool is_pinned, PInt cpu_group, PFun n])
        (thenE (updE (\<lambda>s. s\<lparr>next_id := Suc n, elgs := insert n (elgs s)\<rparr>))
        (ret n))))"

definition EventLoopGroup_get_or_create_static_default :: "native_env \<Rightarrow> (io_state, nat) py" where
  "EventLoopGroup_get_or_create_static_default N =
     with_lock ''EventLoopGroup''
       (bindE (getE static_event_loop_group) (\<lambda>st. case st of
          Some g \<Rightarrow> ret g
        | None \<Rightarrow> bindE (EventLoopGroup_init N None None) (\<lambda>g.
            thenE (updE (\<lambda>s. s\<lparr>static_event_loop_group := Some g\<rparr>)) (ret g))))"

definition EventLoopGroup_release_static_default :: "(io_state, unit) py" where
  "EventLoopGroup_release_static_default =
     with_lock ''EventLoopGroup'' (updE (\<lambda>s. s\<lparr>static_event_loop_group := None\<rparr>))"

definition DefaultHostResolver_init :: "native_env \<Rightarrow> nat \<Rightarrow> int \<Rightarrow> (io_state, nat) py" where
  "DefaultHostResolver_init N g max_hosts =
     bindE (getE next_id) (\<lambda>n.
       thenE (native N ''host_resolver_new_default'' [PInt max_hosts, PObj ''EventLoopGroup'' g])
      (thenE (updE (\<lambda>s. s\<lparr>next_id := Suc n, resolver_elg := (resolver_elg s)(n \<mapsto> g)\<rparr>))
      (ret n)))"

definition DefaultHostResolver_get_or_create_static_default :: "native_env \<Rightarrow> (io_state, nat) py" where
  "DefaultHostResolver_get_or_create_static_default N =
     with_lock ''DefaultHostResolver''
       (bindE (getE static_host_resolver) (\<lambda>st. case st of
          Some r \<Rightarrow> ret r
        | None \<Rightarrow> bindE (EventLoopGroup_get_or_create_static_default N) (\<lambda>g.
            bindE (DefaultHostResolver_init N g 16) (\<lambda>r.
            thenE (updE (\<lambda>s. s\<lparr>static_host_resolver := Some r\<rparr>)) (ret r)))))"

definition DefaultHostResolver_release_static_default :: "(io_state, unit) py" where
  "DefaultHostResolver_release_static_default =
     with_lock ''DefaultHostResolver'' (updE (\<lambda>s. s\<lparr>static_host_resolver := None\<rparr>))"

definition ClientBootstrap_init :: "native_env \<Rightarrow> nat \<Rightarrow> nat \<Rightarrow> (io_state, nat) py" where
  "ClientBootstrap_init N g r =
     bindE (getE next_id) (\<lambda>n.
       thenE (native N ''client_bootstrap_new''
               [PObj ''EventLoopGroup'' g, PObj ''DefaultHostResolver'' r, PFun n])
      (thenE (updE (\<lambda>s. s\<lparr>next_id := Suc n, bootstrap_parts := (bootstrap_parts s)(n \<mapsto> (g, r))\<rparr>))
      (ret n)))"

definition ClientBootstrap_get_or_create_static_default :: "native_env \<Rightarrow> (io_state, nat) py" where
  "ClientBootstrap_get_or_create_static_default N =
     with_lock ''ClientBootstrap''
       (bindE (getE static_client_bootstrap) (\<lambda>st. case st of
          Some b \<Rightarrow> ret b
        | None \<Rightarrow>
            bindE (EventLoopGroup_get_or_create_static_default N) (\<lambda>g.
            bindE (DefaultHostResolver_get_or_create_static_default N) (\<lambda>r.
            bindE (ClientBootstrap_init N g r) (\<lambda>b.
            thenE (updE (\<lambda>s. s\<lparr>static_client_bootstrap := Some b\<rparr>)) (ret b))))))"

definition ClientBootstrap_release_static_default :: "(io_state, unit) py" where
  "ClientBootstrap_release_static_default =
     with_lock ''ClientBootstrap'' (updE (\<lambda>s. s\<lparr>static_client_bootstrap := None\<rparr>))"

section \<open>Logging and sockets\<close>

definition io_init_logging :: "native_env \<Rightarrow> pyval \<Rightarrow> pyval \<Rightarrow> ('a world_scheme, pyval) py" where
  "io_init_logging N log_level file_name =
     thenE (py_assert (log_level \<noteq> PNone))
    (thenE (py_assert (file_name \<noteq> PNone))
       (native N ''init_logging'' [log_level, file_name]))"

definition io_set_log_level :: "native_env \<Rightarrow> pyval \<Rightarrow> ('a world_scheme, pyval) py" where
  "io_set_log_level N log_level =
     thenE (py_assert (log_level \<noteq> PNone)) (native N ''set_log_level'' [log_level])"

record SocketOptions =
  domain :: SocketDomain
  type_ :: SocketType
  connect_timeout_ms :: int
  keep_alive :: bool
  keep_alive_timeout_secs :: int
  keep_alive_interval_secs :: int
  keep_alive_max_probes :: int

definition SocketOptions_init :: SocketOptions where
  "SocketOptions_init = \<lparr>domain = IPv6, type_ = Stream, connect_timeout_ms = 5000,
     keep_alive = False, keep_alive_timeout_secs = 0, keep_alive_interval_secs = 0,
     keep_alive_max_probes = 0\<rparr>"

section \<open>TLS context options\<close>

record TlsContextOptions =
  min_tls_ver :: TlsVersion
  ca_dirpath :: pyval
  ca_buffer :: pyval
  cipher_pref :: TlsCipherPref
  alpn_list :: pyval
  certificate_buffer :: pyval
  private_key_buffer :: pyval
  pkcs12_filepath :: pyval
  pkcs12_password :: pyval
  verify_peer :: bool
  no_certificate_revocation :: bool
  pkcs11_lib :: pyval
  pkcs11_user_pin :: pyval
  pkcs11_slot_id :: pyval
  pkcs11_token_label :: pyval
  pkcs11_private_key_label :: pyval
  pkcs11_cert_file_path :: pyval
  pkcs11_cert_file_contents :: pyval
  windows_cert_store_path :: pyval
  certificate_source :: "CertificateSource option"

definition TlsContextOptions_init :: TlsContextOptions where
  "TlsContextOptions_init = \<lparr>min_tls_ver = TlsVersion.DEFAULT, ca_dirpath = PNone, ca_buffer = PNone,
     cipher_pref = TlsCipherPref.DEFAULT, alpn_list = PNone, certificate_buffer = PNone,
     private_key_buffer = PNone, pkcs12_filepath = PNone, pkcs12_password = PNone,
     verify_peer = True, no_certificate_revocation = False, pkcs11_lib = PNone,
     pkcs11_user_pin = PNone, pkcs11_slot_id = PNone, pkcs11_token_label = PNone,
     pkcs11_private_key_label = PNone, pkcs11_cert_file_path = PNone,
     pkcs11_cert_file_contents = PNone, windows_cert_store_path = PNone,
     certificate_source = None\<rparr>"

text \<open>\<open>read_file\<close> is \<open>_read_binary_file\<close> on the file system at hand.\<close>

type_synonym file_env = "string \<Rightarrow> pyexc + bytes"

fun read_binary_file :: "file_env \<Rightarrow> pyval \<Rightarrow> pyexc + pyval" where
  "read_binary_file F (PStr path) = (case F path of Inl e \<Rightarrow> Inl e | Inr b \<Rightarrow> Inr (PBytes b))"
| "read_binary_file F _ = Inl (TypeError ''path'')"

definition create_client_with_mtls :: "pyval \<Rightarrow> pyval \<Rightarrow> pyexc + TlsContextOptions" where
  "create_client_with_mtls cert_buffer key_buffer =
     (if \<not> isinstance cert_buffer ''bytes'' then Inl AssertionError
      else if \<not> isinstance key_buffer ''bytes'' then Inl AssertionError
      else Inr (TlsContextOptions_init\<lparr>certificate_buffer := cert_buffer,
             private_key_buffer := key_buffer,
             certificate_source := Some CERTIFICATE_FILES\<rparr>))"

definition create_client_with_mtls_from_path :: "file_env \<Rightarrow> pyval \<Rightarrow> pyval \<Rightarrow> pyexc + TlsContextOptions" where
  "create_client_with_mtls_from_path F cert_filepath pk_filepath =
     (if \<not> isinstance cert_filepath ''str'' then Inl AssertionError
      else if \<not> isinstance pk_filepath ''str'' then Inl AssertionError
      else (case read_binary_file F cert_filepath of
              Inl e \<Rightarrow> Inl e
            | Inr cert_buffer \<Rightarrow>
                (case read_binary_file F pk_filepath of
                   Inl e \<Rightarrow> Inl e
                 | Inr key_buffer \<Rightarrow> create_client_with_mtls cert_buffer key_buffer)))"

definition opt_isinstance :: "pyval \<Rightarrow> string \<Rightarrow> bool" where
  "opt_isinstance v c = (isinstance v c \<or> v = PNone)"

definition create_client_with_mtls_pkcs11 ::
  "pyval \<Rightarrow> pyval \<Rightarrow> pyval \<Rightarrow> pyval \<Rightarrow> pyval \<Rightarrow> pyval \<Rightarrow> pyval \<Rightarrow> pyexc + TlsContextOptions" where
  "create_client_with_mtls_pkcs11 lib user_pin slot_id token_label private_key_label cert_file_path
       cert_file_contents =
     (if \<not> isinstance lib ''Pkcs11Lib'' then Inl AssertionError
      else if \<not> opt_isinstance user_pin ''str'' then Inl AssertionError
      else if \<not> opt_isinstance slot_id ''int'' then Inl AssertionError
      else if \<not> opt_isinstance token_label ''str'' then Inl AssertionError
      else if \<not> opt_isinstance private_key_label ''str'' then Inl AssertionError
      else if \<not> opt_isinstance cert_file_path ''str'' then Inl AssertionError
      else Inr (TlsContextOptions_init\<lparr>pkcs11_lib := lib, pkcs11_user_pin := user_pin,
             pkcs11_slot_id := slot_id, pkcs11_token_label := token_label,
             pkcs11_private_key_label := private_key_label,
             pkcs11_cert_file_path := cert_file_path,
             pkcs11_cert_file_contents := cert_file_contents,
             certificate_source := Some PKCS11\<rparr>))"

definition create_client_with_mtls_pkcs12 :: "pyval \<Rightarrow> pyval \<Rightarrow> pyexc + TlsContextOptions" where
  "create_client_with_mtls_pkcs12 filepath password =
     (if \<not> isinstance filepath ''str'' then Inl AssertionError
      else if \<not> isinstance password ''str'' then Inl AssertionError
      else Inr (TlsContextOptions_init\<lparr>pkcs12_filepath := filepath, pkcs12_password := password,
             certificate_source := Some PKCS12_FILE\<rparr>))"

definition create_client_with_mtls_windows_cert_store_path :: "pyval \<Rightarrow> pyexc + TlsContextOptions" where
  "create_client_with_mtls_windows_cert_store_path cert_path =
     (if \<not> isinstance cert_path ''str'' then Inl AssertionError
      else Inr (TlsContextOptions_init\<lparr>windows_cert_store_path := cert_path,
             certificate_source := Some WINDOWS_CERT_STORE\<rparr>))"

definition create_server :: "pyval \<Rightarrow> pyval \<Rightarrow> pyexc + TlsContextOptions" where
  "create_server cert_buffer key_buffer =
     (if \<not> isinstance cert_buffer ''bytes'' then Inl AssertionError
      else if \<not> isinstance key_buffer ''bytes'' then Inl AssertionError
      else Inr (TlsContextOptions_init\<lparr>certificate_buffer := cert_buffer,
             private_key_buffer := key_buffer, verify_peer := False\<rparr>))"

definition create_server_from_path :: "file_env \<Rightarrow> pyval \<Rightarrow> pyval \<Rightarrow> pyexc + TlsContextOptions" where
  "create_server_from_path F cert_filepath pk_filepath =
     (if \<not> isinstance cert_filepath ''str'' then Inl AssertionError
      else if \<not> isinstance pk_filepath ''str'' then Inl AssertionError
      else (case read_binary_file F cert_filepath of
              Inl e \<Rightarrow> Inl e
            | Inr cert_buffer \<Rightarrow>
                (case read_binary_file F pk_filepath of
                   Inl e \<Rightarrow> Inl e
                 | Inr key_buffer \<Rightarrow> create_server cert_buffer key_buffer)))"

definition create_server_pkcs12 :: "pyval \<Rightarrow> pyval \<Rightarrow> pyexc + TlsContextOptions" where
  "create_server_pkcs12 filepath password =
     (if \<not> isinstance filepath ''str'' then Inl AssertionError
      else if \<not> isinstance password ''str'' then Inl AssertionError
      else Inr (TlsContextOptions_init\<lparr>pkcs12_filepath := filepath, pkcs12_password := password,
             verify_peer := False\<rparr>))"

definition override_default_trust_store :: "pyval \<Rightarrow> TlsContextOptions \<Rightarrow> pyexc + TlsContextOptions" where
  "override_default_trust_store rootca_buffer opt =
     (if \<not> isinstance rootca_buffer ''bytes'' then Inl AssertionError
      else Inr (opt\<lparr>ca_buffer := rootca_buffer\<rparr>))"

definition override_default_trust_store_from_path ::
  "file_env \<Rightarrow> pyval \<Rightarrow> pyval \<Rightarrow> TlsContextOptions \<Rightarrow> pyexc + TlsContextOptions" where
  "override_default_trust_store_from_path F dirpath filepath opt =
     (if \<not> opt_isinstance dirpath ''str'' then Inl AssertionError
      else if \<not> opt_isinstance filepath ''str'' then Inl AssertionError
      else if truthy filepath then
        (case read_binary_file F filepath of
           Inl e \<Rightarrow> Inl e
         | Inr buf \<Rightarrow>
             (case override_default_trust_store buf opt of
                Inl e \<Rightarrow> Inl e
              | Inr opt' \<Rightarrow> Inr (opt'\<lparr>ca_dirpath := dirpath\<rparr>)))
      else Inr (opt\<lparr>ca_dirpath := dirpath\<rparr>))"

text \<open>\<open>';'.join(alpn_list)\<close> accepts sequences of strings only.\<close>

fun strs_of :: "pyval list \<Rightarrow> string list option" where
  "strs_of [] = Some []"
| "strs_of (PStr s # vs) = map_option (Cons s) (strs_of vs)"
| "strs_of (_ # vs) = None"

fun seq_items :: "pyval \<Rightarrow> pyval list option" where
  "seq_items (PList vs) = Some vs"
| "seq_items (PTuple vs) = Some vs"
| "seq_items _ = None"

definition alpn_list_to_str :: "pyval \<Rightarrow> pyexc + pyval" where
  "alpn_list_to_str alpn =
     (if truthy alpn then
        (if isinstance alpn ''str'' then Inl AssertionError
         else (case Option.bind (seq_items alpn) strs_of of
                 None \<Rightarrow> Inl (TypeError ''sequence item: expected str instance'')
               | Some ss \<Rightarrow> Inr (PStr (join_with (CHR '';'') ss))))
      else Inr PNone)"

record ClientTlsContext =
  ctx_min_tls_ver :: TlsVersion
  ctx_cipher_pref :: TlsCipherPref
  ctx_certificate_source :: "CertificateSource option"
  ctx_binding :: pyval

definition ClientTlsContext_init ::
  "native_env \<Rightarrow> TlsContextOptions \<Rightarrow> ('a world_scheme, ClientTlsContext) py" where
  "ClientTlsContext_init N opt =
     bindE (\<lambda>s. (alpn_list_to_str (alpn_list opt), s)) (\<lambda>alpn.
     bindE (native N ''client_tls_ctx_new''
       [PInt (TlsVersion_value (min_tls_ver opt)), PInt (TlsCipherPref_value (cipher_pref opt)),
        ca_dirpath opt, ca_buffer opt, alpn, certificate_buffer opt, private_key_buffer opt,
        pkcs12_filepath opt, pkcs12_password opt, PBool (verify_peer opt),
        PBool (no_certificate_revocation opt), pkcs11_lib opt, pkcs11_user_pin opt,
        pkcs11_slot_id opt, pkcs11_token_label opt, pkcs11_private_key_label opt,
        pkcs11_cert_file_path opt, pkcs11_cert_file_contents opt, windows_cert_store_path opt])
     (\<lambda>b. ret \<lparr>ctx_min_tls_ver = min_tls_ver opt, ctx_cipher_pref = cipher_pref opt,
              ctx_certificate_source = certificate_source opt, ctx_binding = b\<rparr>))"

section \<open>TLS connections\<close>

record TlsConnectionOptions =
  tco_tls_ctx :: ClientTlsContext
  tls_binding :: pyval

definition TlsConnectionOptions_init ::
  "native_env \<Rightarrow> ClientTlsContext \<Rightarrow> ('a world_scheme, TlsConnectionOptions) py" where
  "TlsConnectionOptions_init N ctx =
     bindE (native N ''tls_connections_options_new_from_ctx'' [ctx_binding ctx])
       (\<lambda>b. ret \<lparr>tco_tls_ctx = ctx, tls_binding = b\<rparr>)"

definition set_alpn_list :: "native_env \<Rightarrow> TlsConnectionOptions \<Rightarrow> pyval \<Rightarrow> ('a world_scheme, unit) py" where
  "set_alpn_list N opt alpn =
     bindE (\<lambda>s. (alpn_list_to_str alpn, s)) (\<lambda>a.
     thenE (native N ''tls_connection_options_set_alpn_list'' [tls_binding opt, a]) (ret ()))"

definition set_server_name :: "native_env \<Rightarrow> TlsConnectionOptions \<Rightarrow> pyval \<Rightarrow> ('a world_scheme, unit) py" where
  "set_server_name N opt server_name =
     thenE (native N ''tls_connection_options_set_server_name'' [tls_binding opt, server_name]) (ret ())"

definition is_alpn_available :: "native_env \<Rightarrow> ('a world_scheme, pyval) py" where
  "is_alpn_available N = native N ''is_alpn_available'' []"

definition new_connection_options :: "native_env \<Rightarrow> ClientTlsContext \<Rightarrow> ('a world_scheme, TlsConnectionOptions) py" where
  "new_connection_options N ctx = TlsConnectionOptions_init N ctx"

definition TlsCipherPref_is_supported :: "native_env \<Rightarrow> TlsCipherPref \<Rightarrow> ('a world_scheme, pyval) py" where
  "TlsCipherPref_is_supported N p = native N ''is_tls_cipher_supported'' [PInt (TlsCipherPref_value p)]"

section \<open>Input streams\<close>

text \<open>
  A Python stream is known by the reading methods it has. \<open>readinto1\<close> and \<open>readinto\<close>
  fill a buffer of the given size and return the bytes they wrote (\<open>None\<close>: no data yet);
  \<open>read1\<close> and \<open>read\<close> return new bytes. Any of them may raise, \<open>BlockingIOError\<close>
  in particular.
\<close>

record stream =
  readinto1_m :: "(nat \<Rightarrow> pyexc + bytes option) option"
  readinto_m :: "(nat \<Rightarrow> pyexc + bytes option) option"
  read1_m :: "(nat \<Rightarrow> pyexc + bytes) option"
  read_m :: "(nat \<Rightarrow> pyexc + bytes) option"

text \<open>A slice assignment \<open>m[:n] = data\<close>, \<open>n = len(data)\<close>, fails if \<open>m\<close> is shorter.\<close>

definition write_prefix :: "bytes \<Rightarrow> bytes \<Rightarrow> pyexc + bytes" where
  "write_prefix m data =
     (if length data \<le> length m then Inr (data @ drop (length data) m)
      else Inl (ValueError ''memoryview assignment: lvalue and rvalue have different structures''))"

definition filled :: "bytes \<Rightarrow> pyexc + bytes option \<Rightarrow> (pyexc + nat option) \<times> bytes" where
  "filled m r =
     (case r of
        Inl e \<Rightarrow> (Inl e, m)
      | Inr None \<Rightarrow> (Inr None, m)
      | Inr (Some data) \<Rightarrow> (Inr (Some (length data)), data @ drop (length data) m))"

definition read_attempt :: "stream \<Rightarrow> bytes \<Rightarrow> (pyexc + nat option) \<times> bytes" where
  "read_attempt st m =
     (case readinto1_m st of
        Some f \<Rightarrow> filled m (f (length m))
      | None \<Rightarrow>
     (case readinto_m st of
        Some f \<Rightarrow> filled m (f (length m))
      | None \<Rightarrow>
     (case (case read1_m st of Some f \<Rightarrow> f (length m)
            | None \<Rightarrow> (case read_m st of Some f \<Rightarrow> f (length m)
                      | None \<Rightarrow> Inl (AttributeError ''read''))) of
        Inl e \<Rightarrow> (Inl e, m)
      | Inr data \<Rightarrow>
          (case write_prefix m data of
             Inl e \<Rightarrow> (Inl e, m)
           | Inr m' \<Rightarrow> (Inr (Some (length data)), m')))))"

definition read_into_memoryview :: "stream \<Rightarrow> bytes \<Rightarrow> (pyexc + nat option) \<times> bytes" where
  "read_into_memoryview st m =
     (case read_attempt st m of
        (r, m') \<Rightarrow> if r = Inl BlockingIOError then (Inr None, m') else (r, m'))"

text \<open>\<open>InputStream.wrap\<close>: what a caller may pass is nothing, an \<open>InputStream\<close>, or some
  other object, which must have a callable \<open>read\<close>.\<close>

datatype stream_arg = NoStream | Wrapped nat stream | RawStream stream

definition InputStream_init :: "native_env \<Rightarrow> nat \<Rightarrow> stream_arg \<Rightarrow> ('a world_scheme, stream_arg) py" where
  "InputStream_init N n a =
     (case a of
        NoStream \<Rightarrow> raise (TypeError ''I/O stream type expected'')
      | RawStream st \<Rightarrow>
          (if read_m st = None then raise (TypeError ''I/O stream type expected'')
           else thenE (native N ''input_stream_new'' [PObj ''InputStream'' n]) (ret (Wrapped n st)))
      | Wrapped _ _ \<Rightarrow> raise (TypeError ''I/O stream type expected''))"

definition InputStream_wrap ::
  "native_env \<Rightarrow> nat \<Rightarrow> stream_arg \<Rightarrow> bool \<Rightarrow> ('a world_scheme, stream_arg) py" where
  "InputStream_wrap N n a allow_none =
     (case a of
        NoStream \<Rightarrow> if allow_none then ret NoStream else InputStream_init N n NoStream
      | Wrapped k st \<Rightarrow> ret (Wrapped k st)
      | RawStream st \<Rightarrow> InputStream_init N n (RawStream st))"

definition Pkcs11Lib_init ::
  "native_env \<Rightarrow> string \<Rightarrow> InitializeFinalizeBehavior option \<Rightarrow> ('a world_scheme, pyval) py" where
  "Pkcs11Lib_init N file behavior =
     (let behavior = (case behavior of None \<Rightarrow> InitializeFinalizeBehavior.DEFAULT | Some b \<Rightarrow> b)
      in native N ''pkcs11_lib_new''
           [PStr file, PEnum ''InitializeFinalizeBehavior'' (InitializeFinalizeBehavior_value behavior)])"

section \<open>Locks\<close>

text \<open>The rank of the three class-level locks: bootstrap above resolver above event loop group.\<close>

definition io_lock_rank :: "string \<Rightarrow> nat" where
  "io_lock_rank l =
     (if l = ''EventLoopGroup'' then 0 else if l = ''DefaultHostResolver'' then 1 else 2)"

text \<open>The operations on the process-wide defaults, as the program may call them.\<close>

datatype io_op = GetELG | ReleaseELG | GetResolver | ReleaseResolver | GetBootstrap | ReleaseBootstrap

fun io_exec :: "native_env \<Rightarrow> io_op \<Rightarrow> (io_state, nat option) py" where
  "io_exec N GetELG = bindE (EventLoopGroup_get_or_create_static_default N) (\<lambda>g. ret (Some g))"
| "io_exec N ReleaseELG = thenE EventLoopGroup_release_static_default (ret None)"
| "io_exec N GetResolver =
     bindE (DefaultHostResolver_get_or_create_static_default N) (\<lambda>r. ret (Some r))"
| "io_exec N ReleaseResolver = thenE DefaultHostResolver_release_static_default (ret None)"
| "io_exec N GetBootstrap =
     bindE (ClientBootstrap_get_or_create_static_default N) (\<lambda>b. ret (Some b))"
| "io_exec N ReleaseBootstrap = thenE ClientBootstrap_release_static_default (ret None)"

lemma disciplined_ELG_init: "disciplined rank r (EventLoopGroup_init N n g)"
  unfolding EventLoopGroup_init_def Let_def by (intro disciplined_intros) simp

lemma disciplined_ELG:
  "0 < r \<Longrightarrow> disciplined io_lock_rank r (EventLoopGroup_get_or_create_static_default N)"
  unfolding EventLoopGroup_get_or_create_static_default_def
  by (auto intro!: disciplined_intros disciplined_ELG_init simp: io_lock_rank_def split: option.splits)

lemma disciplined_Resolver_init: "disciplined rank r (DefaultHostResolver_init N g n)"
  unfolding DefaultHostResolver_init_def by (intro disciplined_intros) simp

lemma disciplined_Resolver:
  "1 < r \<Longrightarrow> disciplined io_lock_rank r (DefaultHostResolver_get_or_create_static_default N)"
  unfolding DefaultHostResolver_get_or_create_static_default_def
  by (auto intro!: disciplined_intros disciplined_ELG disciplined_Resolver_init
      simp: io_lock_rank_def split: option.splits)

lemma disciplined_Bootstrap_init: "disciplined rank r (ClientBootstrap_init N g n)"
  unfolding ClientBootstrap_init_def by (intro disciplined_intros) simp

lemma disciplined_Bootstrap:
  "2 < r \<Longrightarrow> disciplined io_lock_rank r (ClientBootstrap_get_or_create_static_default N)"
  unfolding ClientBootstrap_get_or_create_static_default_def
  by (auto intro!: disciplined_intros disciplined_ELG disciplined_Resolver disciplined_Bootstrap_init
      simp: io_lock_rank_def split: option.splits)

lemma disciplined_releases:
  "0 < r \<Longrightarrow> disciplined io_lock_rank r EventLoopGroup_release_static_default"
  "1 < r \<Longrightarrow> disciplined io_lock_rank r DefaultHostResolver_release_static_default"
  "2 < r \<Longrightarrow> disciplined io_lock_rank r ClientBootstrap_release_static_default"
  unfolding EventLoopGroup_release_static_default_def DefaultHostResolver_release_static_default_def
    ClientBootstrap_release_static_default_def
  by (auto intro!: disciplined_intros simp: io_lock_rank_def)

lemma io_exec_disciplined: "disciplined io_lock_rank 3 (io_exec N op)"
  by (cases op)
    (auto intro!: disciplined_intros disciplined_ELG disciplined_Resolver disciplined_Bootstrap
      disciplined_releases)

section \<open>The defaults are well formed\<close>

definition io_wf :: "io_state \<Rightarrow> bool" where
  "io_wf s =
     ((\<forall>n \<in> elgs s \<union> dom (resolver_elg s) \<union> dom (bootstrap_parts s). n < next_id s) \<and>
      ran (resolver_elg s) \<subseteq> elgs s \<and>
      (\<forall>b g r. bootstrap_parts s b = Some (g, r) \<longrightarrow> g \<in> elgs s \<and> r \<in> dom (resolver_elg s)) \<and>
      (\<forall>g. static_event_loop_group s = Some g \<longrightarrow> g \<in> elgs s) \<and>
      (\<forall>r. static_host_resolver s = Some r \<longrightarrow> r \<in> dom (resolver_elg s)) \<and>
      (\<forall>b. static_client_bootstrap s = Some b \<longrightarrow> b \<in> dom (bootstrap_parts s)))"

lemma io_wf_trace [simp]: "io_wf (s\<lparr>trace := t\<rparr>) = io_wf s"
  by (simp add: io_wf_def)

lemma wf_new_elg:
  "io_wf s \<Longrightarrow> io_wf (s\<lparr>next_id := Suc (next_id s), elgs := insert (next_id s) (elgs s)\<rparr>)"
  unfolding io_wf_def by (intro conjI) (auto simp: less_Suc_eq)

lemma wf_new_resolver:
  "io_wf s \<Longrightarrow> g \<in> elgs s \<Longrightarrow>
   io_wf (s\<lparr>next_id := Suc (next_id s), resolver_elg := (resolver_elg s)(next_id s \<mapsto> g)\<rparr>)"
  unfolding io_wf_def by (intro conjI) (auto simp: less_Suc_eq ran_def)

lemma wf_new_bootstrap:
  "io_wf s \<Longrightarrow> g \<in> elgs s \<Longrightarrow> r \<in> dom (resolver_elg s) \<Longrightarrow>
   io_wf (s\<lparr>next_id := Suc (next_id s),
     bootstrap_parts := (bootstrap_parts s)(next_id s \<mapsto> (g, r))\<rparr>)"
  unfolding io_wf_def by (intro conjI) (auto simp: less_Suc_eq)

lemma wf_set_static:
  "io_wf s \<Longrightarrow> g \<in> elgs s \<Longrightarrow> io_wf (s\<lparr>static_event_loop_group := Some g\<rparr>)"
  "io_wf s \<Longrightarrow> r \<in> dom (resolver_elg s) \<Longrightarrow> io_wf (s\<lparr>static_host_resolver := Some r\<rparr>)"
  "io_wf s \<Longrightarrow> b \<in> dom (bootstrap_parts s) \<Longrightarrow> io_wf (s\<lparr>static_client_bootstrap := Some b\<rparr>)"
  by (auto simp: io_wf_def)

lemma wf_release:
  "io_wf s \<Longrightarrow> io_wf (s\<lparr>static_event_loop_group := None\<rparr>)"
  "io_wf s \<Longrightarrow> io_wf (s\<lparr>static_host_resolver := None\<rparr>)"
  "io_wf s \<Longrightarrow> io_wf (s\<lparr>static_client_bootstrap := None\<rparr>)"
  by (auto simp: io_wf_def)

lemma ELG_init_spec:
  "valid (\<lambda>s. io_wf s \<and> G \<subseteq> elgs s) (EventLoopGroup_init N nt cg)
     (\<lambda>g s. io_wf s \<and> insert g G \<subseteq> elgs s) (\<lambda>_. io_wf)"
  unfolding EventLoopGroup_init_def Let_def
  by (intro valid_getE_bind valid_native_then valid_updE_ret)
    (auto simp: trace_indep_def intro: wf_new_elg)

lemma ELG_get_spec:
  "valid (\<lambda>s. io_wf s \<and> G \<subseteq> elgs s) (EventLoopGroup_get_or_create_static_default N)
     (\<lambda>g s. io_wf s \<and> insert g G \<subseteq> elgs s \<and> static_event_loop_group s = Some g) (\<lambda>_. io_wf)"
  unfolding EventLoopGroup_get_or_create_static_default_def
proof (intro valid_with_lock valid_getE_bind)
  fix st
  let ?body = "case st of Some g \<Rightarrow> ret g
     | None \<Rightarrow> bindE (EventLoopGroup_init N None None) (\<lambda>g.
         thenE (updE (static_event_loop_group_update (\<lambda>_. Some g))) (ret g))"
  show "valid (\<lambda>s. (io_wf s \<and> G \<subseteq> elgs s) \<and> static_event_loop_group s = st) ?body
     (\<lambda>g s. io_wf s \<and> insert g G \<subseteq> elgs s \<and> static_event_loop_group s = Some g) (\<lambda>_. io_wf)"
  proof (cases st)
    case None
    then show ?thesis
      by (auto intro!: valid_bind_spec [OF ELG_init_spec [of G]] valid_updE_ret wf_set_static)
  next
    case (Some g)
    then show ?thesis by (auto intro!: valid_ret simp: io_wf_def)
  qed
qed (simp_all add: trace_indep_def)

lemma Resolver_init_spec:
  "valid (\<lambda>s. io_wf s \<and> insert g G \<subseteq> elgs s) (DefaultHostResolver_init N g n)
     (\<lambda>r s. io_wf s \<and> G \<subseteq> elgs s \<and> r \<in> dom (resolver_elg s)) (\<lambda>_. io_wf)"
  unfolding DefaultHostResolver_init_def
  by (intro valid_getE_bind valid_native_then valid_updE_ret)
    (auto simp: trace_indep_def intro: wf_new_resolver)

lemma Resolver_get_spec:
  "valid (\<lambda>s. io_wf s \<and> G \<subseteq> elgs s) (DefaultHostResolver_get_or_create_static_default N)
     (\<lambda>r s. io_wf s \<and> G \<subseteq> elgs s \<and> r \<in> dom (resolver_elg s) \<and> static_host_resolver s = Some r)
     (\<lambda>_. io_wf)"
  unfolding DefaultHostResolver_get_or_create_static_default_def
proof (intro valid_with_lock valid_getE_bind)
  fix st
  let ?body = "case st of Some r \<Rightarrow> ret r
     | None \<Rightarrow> bindE (EventLoopGroup_get_or_create_static_default N) (\<lambda>g.
         bindE (DefaultHostResolver_init N g 16) (\<lambda>r.
         thenE (updE (static_host_resolver_update (\<lambda>_. Some r))) (ret r)))"
  show "valid (\<lambda>s. (io_wf s \<and> G \<subseteq> elgs s) \<and> static_host_resolver s = st) ?body
     (\<lambda>r s. io_wf s \<and> G \<subseteq> elgs s \<and> r \<in> dom (resolver_elg s) \<and> static_host_resolver s = Some r)
     (\<lambda>_. io_wf)"
  proof (cases st)
    case None
    show ?thesis unfolding None option.case
      by (rule valid_bind_spec [OF ELG_get_spec [of G]], simp, assumption,
          rule valid_bind_spec [OF Resolver_init_spec [of _ G]], simp, assumption)
        (auto intro!: valid_updE_ret wf_set_static)
  next
    case (Some r)
    then show ?thesis by (auto intro!: valid_ret simp: io_wf_def)
  qed
qed (simp_all add: trace_indep_def)

lemma Bootstrap_init_spec:
  "valid (\<lambda>s. io_wf s \<and> g \<in> elgs s \<and> r \<in> dom (resolver_elg s)) (ClientBootstrap_init N g r)
     (\<lambda>b s. io_wf s \<and> bootstrap_parts s b = Some (g, r)) (\<lambda>_. io_wf)"
  unfolding ClientBootstrap_init_def
  by (intro valid_getE_bind valid_native_then valid_updE_ret)
    (auto simp: trace_indep_def intro: wf_new_bootstrap)

lemma Bootstrap_get_spec:
  "valid io_wf (ClientBootstrap_get_or_create_static_default N)
     (\<lambda>b s. io_wf s \<and> static_client_bootstrap s = Some b) (\<lambda>_. io_wf)"
  unfolding ClientBootstrap_get_or_create_static_default_def
proof (intro valid_with_lock valid_getE_bind)
  fix st
  let ?body = "case st of Some b \<Rightarrow> ret b
     | None \<Rightarrow> bindE (EventLoopGroup_get_or_create_static_default N) (\<lambda>g.
         bindE (DefaultHostResolver_get_or_create_static_default N) (\<lambda>r.
         bindE (ClientBootstrap_init N g r) (\<lambda>b.
         thenE (updE (static_client_bootstrap_update (\<lambda>_. Some b))) (ret b))))"
  show "valid (\<lambda>s. io_wf s \<and> static_client_bootstrap s = st) ?body
     (\<lambda>b s. io_wf s \<and> static_client_bootstrap s = Some b) (\<lambda>_. io_wf)"
  proof (cases st)
    case None
    show ?thesis unfolding None option.case
    proof (rule valid_bind_spec [OF ELG_get_spec [of "{}"]], simp, assumption)
      fix g
      show "valid (\<lambda>s. io_wf s \<and> insert g {} \<subseteq> elgs s \<and> static_event_loop_group s = Some g)
         (bindE (DefaultHostResolver_get_or_create_static_default N) (\<lambda>r.
            bindE (ClientBootstrap_init N g r) (\<lambda>b.
            thenE (updE (static_client_bootstrap_update (\<lambda>_. Some b))) (ret b))))
         (\<lambda>b s. io_wf s \<and> static_client_bootstrap s = Some b) (\<lambda>_. io_wf)"
        by (rule valid_bind_spec [OF Resolver_get_spec [of "{g}"]], simp, assumption,
            rule valid_bind_spec [OF Bootstrap_init_spec [of g]], simp, assumption)
          (auto intro!: valid_updE_ret wf_set_static)
    qed
  next
    case (Some b)
    then show ?thesis by (auto intro!: valid_ret)
  qed
qed (simp_all add: trace_indep_def)

lemma release_specs:
  "valid io_wf EventLoopGroup_release_static_default (\<lambda>_. io_wf) (\<lambda>_. io_wf)"
  "valid io_wf DefaultHostResolver_release_static_default (\<lambda>_. io_wf) (\<lambda>_. io_wf)"
  "valid io_wf ClientBootstrap_release_static_default (\<lambda>_. io_wf) (\<lambda>_. io_wf)"
  unfolding EventLoopGroup_release_static_default_def DefaultHostResolver_release_static_default_def
    ClientBootstrap_release_static_default_def
  by (auto intro!: valid_with_lock valid_updE wf_release simp: trace_indep_def)

lemma io_exec_wf: "valid io_wf (io_exec N op) (\<lambda>_. io_wf) (\<lambda>_. io_wf)"
proof (cases op)
  case GetELG
  show ?thesis unfolding GetELG io_exec.simps
    by (rule valid_bind_spec [OF ELG_get_spec [of "{}"]]) (auto intro!: valid_ret)
next
  case GetResolver
  show ?thesis unfolding GetResolver io_exec.simps
    by (rule valid_bind_spec [OF Resolver_get_spec [of "{}"]]) (auto intro!: valid_ret)
next
  case GetBootstrap
  show ?thesis unfolding GetBootstrap io_exec.simps
    by (rule valid_bind_spec [OF Bootstrap_get_spec]) (auto intro!: valid_ret)
qed (auto intro!: valid_thenE release_specs valid_ret)

definition io_step :: "native_env \<Rightarrow> io_state \<Rightarrow> io_op \<Rightarrow> io_state \<Rightarrow> bool" where
  "io_step N s op s' = (s' = snd (io_exec N op s))"

interpretation io_sys: invariant_system "\<lambda>s. s = io_init" "io_step N" io_wf for N
proof unfold_locales
  show "io_wf s" if "s = io_init" for s
    using that by (simp add: io_wf_def io_init_def)
  show "io_wf s'" if "io_wf s" "io_step N s e s'" for s e s'
    using that validD_inv [OF io_exec_wf] by (simp add: io_step_def)
qed

section \<open>The defaults are singletons\<close>

lemma bootstrap_frame:
  "static_client_bootstrap (snd (EventLoopGroup_get_or_create_static_default N s)) =
     static_client_bootstrap s"
  "static_client_bootstrap (snd (DefaultHostResolver_get_or_create_static_default N s)) =
     static_client_bootstrap s"
  "static_client_bootstrap (snd (EventLoopGroup_release_static_default s)) = static_client_bootstrap s"
  "static_client_bootstrap (snd (DefaultHostResolver_release_static_default s)) =
     static_client_bootstrap s"
  unfolding EventLoopGroup_get_or_create_static_default_def EventLoopGroup_init_def
    DefaultHostResolver_get_or_create_static_default_def DefaultHostResolver_init_def
    EventLoopGroup_release_static_default_def DefaultHostResolver_release_static_default_def Let_def
  by (simp_all add: py_monad split: option.splits sum.splits)

lemma bootstrap_get_present:
  "static_client_bootstrap s = Some b \<Longrightarrow>
   ClientBootstrap_get_or_create_static_default N s =
     (Inr b, s\<lparr>trace := trace s @ [Acquire ''ClientBootstrap'', Release ''ClientBootstrap'']\<rparr>)"
  by (simp add: ClientBootstrap_get_or_create_static_default_def py_monad)

lemma bootstrap_get_sets:
  "ClientBootstrap_get_or_create_static_default N s = (Inr b, s') \<Longrightarrow>
   static_client_bootstrap s' = Some b"
  unfolding ClientBootstrap_get_or_create_static_default_def
  by (auto simp: py_monad split: option.splits sum.splits prod.splits)

lemma io_exec_keeps_bootstrap:
  assumes "op \<noteq> ReleaseBootstrap" "static_client_bootstrap s = Some b"
  shows "static_client_bootstrap (snd (io_exec N op s)) = Some b"
  using assms bootstrap_frame(1,2) [of N s] bootstrap_frame(3,4) [of s]
  by (cases op) (auto simp: bootstrap_get_present bindE_def thenE_def ret_def
      split: sum.splits prod.splits)

definition io_step_keep :: "native_env \<Rightarrow> io_state \<Rightarrow> io_op \<Rightarrow> io_state \<Rightarrow> bool" where
  "io_step_keep N s op s' = (op \<noteq> ReleaseBootstrap \<and> io_step N s op s')"

interpretation io_keep:
  monotone_system "\<lambda>s. s = io_init" "io_step_keep N" io_wf "\<lambda>s. static_client_bootstrap s = Some b"
  for N b
  by unfold_locales
    (auto simp: io_step_keep_def io_step_def intro: io_sys.start_good
      io_sys.step_good [unfolded io_step_def] io_exec_keeps_bootstrap)

lemma run_keep:
  "run_steps (io_step N) s ops s' \<Longrightarrow> ReleaseBootstrap \<notin> set ops \<Longrightarrow>
   run_steps (io_step_keep N) s ops s'"
  by (induction rule: run_steps.induct) (auto intro!: run_Cons run_Nil simp: io_step_keep_def)

lemma bootstrap_stays:
  assumes "run_steps (io_step N) io_init ops0 s0"
    and "ClientBootstrap_get_or_create_static_default N s0 = (Inr b, s1)"
    and "run_steps (io_step N) s1 ops s2"
    and "ReleaseBootstrap \<notin> set ops"
  shows "static_client_bootstrap s2 = Some b"
proof -
  have "io_wf s0" using assms(1) by (rule io_sys.reachable_good [OF refl])
  then have "io_wf s1" using validD_Inr [OF Bootstrap_get_spec] assms(2) by blast
  moreover have "static_client_bootstrap s1 = Some b" using assms(2) by (rule bootstrap_get_sets)
  ultimately show ?thesis
    using io_keep.run_stable [OF run_keep [OF assms(3,4)]] by blast
qed

text \<open>
  Once the default client bootstrap has been obtained, every later request for it returns
  the same object, creates nothing and touches no lock but its own, whatever else is requested or
  released in between, until the bootstrap itself is released.
\<close>

lemma bootstrap_static_singleton:
  assumes "run_steps (io_step N) io_init ops0 s0"
    and "ClientBootstrap_get_or_create_static_default N s0 = (Inr b, s1)"
    and "run_steps (io_step N) s1 ops s2"
    and "ReleaseBootstrap \<notin> set ops"
  shows "ClientBootstrap_get_or_create_static_default N s2 =
    (Inr b, s2\<lparr>trace := trace s2 @ [Acquire ''ClientBootstrap'', Release ''ClientBootstrap'']\<rparr>)"
  by (rule bootstrap_get_present [OF bootstrap_stays [OF assms]])

definition native_ok :: native_env where
  "native_ok f args = Inr PNone"

lemmas io_defs =
  EventLoopGroup_get_or_create_static_default_def EventLoopGroup_init_def
  DefaultHostResolver_get_or_create_static_default_def DefaultHostResolver_init_def
  ClientBootstrap_get_or_create_static_default_def ClientBootstrap_init_def
  EventLoopGroup_release_static_default_def DefaultHostResolver_release_static_default_def
  ClientBootstrap_release_static_default_def Let_def native_ok_def

text \<open>
  (C17) Every operation on the process-wide defaults takes the class locks in one global order
  (bootstrap, then resolver, then event loop group), never asks for a lock it already holds, and
  gives back every lock it took, also when the native layer raises: no deadlock among them.
\<close>

theorem io_lock_order:
  "\<exists>es. trace (snd (io_exec N op s)) = trace s @ es \<and> locks_run io_lock_rank [] es = Some []"
  using io_exec_disciplined [of N op] unfolding disciplined_def by fastforce


definition stream_ex :: stream where
  "stream_ex = \<lparr>readinto1_m = None, readinto_m = Some (\<lambda>n. Inr (Some (take n [7]))), read1_m = None,
     read_m = Some (\<lambda>n. Inr [])\<rparr>"


end
