(* ===== verification/Futures.thy ===== *)
theory Futures
  imports Py_Prelude
begin

text \<open>
  \<open>concurrent.futures.Future\<close>, as the standard library has it: pending, running, cancelled
  or finished with a result or an exception. Completing a future that is already done raises
  \<open>InvalidStateError\<close>. The locale \<open>oneshot\<close> states the contract the rest of the
  package relies on, that a completion takes effect exactly once; it is interpreted on the
  model of \<open>Future\<close>.
\<close>

datatype 'a fut =
    Pending
  | Running
  | Cancelled
  | Finished "pyexc + 'a"

fun fut_done :: "'a fut \<Rightarrow> bool" where
  "fut_done Pending = False"
| "fut_done Running = False"
| "fut_done Cancelled = True"
| "fut_done (Finished r) = True"

definition fut_cancelled :: "'a fut \<Rightarrow> bool" where
  "fut_cancelled f = (case f of Cancelled \<Rightarrow> True | _ \<Rightarrow> False)"

definition fut_complete :: "pyexc + 'a \<Rightarrow> 'a fut \<Rightarrow> pyexc + 'a fut" where
  "fut_complete r f = (if fut_done f then Inl InvalidStateError else Inr (Finished r))"

definition set_result :: "'a \<Rightarrow> 'a fut \<Rightarrow> pyexc + 'a fut" where
  "set_result v = fut_complete (Inr v)"

definition set_exception :: "pyexc \<Rightarrow> 'a fut \<Rightarrow> pyexc + 'a fut" where
  "set_exception e = fut_complete (Inl e)"

text \<open>\<open>cancel()\<close> returns whether the future is cancelled afterwards.\<close>

fun fut_cancel :: "'a fut \<Rightarrow> bool \<times> 'a fut" where
  "fut_cancel Pending = (True, Cancelled)"
| "fut_cancel Running = (False, Running)"
| "fut_cancel Cancelled = (True, Cancelled)"
| "fut_cancel (Finished r) = (False, Finished r)"

text \<open>\<open>set_running_or_notify_cancel()\<close>, which the package calls on fresh futures to
  prevent cancellation.\<close>

fun fut_set_running :: "'a fut \<Rightarrow> 'a fut" where
  "fut_set_running Pending = Running"
| "fut_set_running f = f"

fun fut_outcome :: "'a fut \<Rightarrow> (pyexc + 'a) option" where
  "fut_outcome (Finished r) = Some r"
| "fut_outcome _ = None"

text \<open>Completing a future held in a field of the state.\<close>

definition resolve :: "('s \<Rightarrow> 'a fut) \<Rightarrow> ('a fut \<Rightarrow> 's \<Rightarrow> 's) \<Rightarrow> pyexc + 'a \<Rightarrow> ('s, unit) py" where
  "resolve rd wr r =
     (\<lambda>s. case fut_complete r (rd s) of Inl e \<Rightarrow> (Inl e, s) | Inr f \<Rightarrow> (Inr (), wr f s))"

section \<open>The contract\<close>

locale oneshot =
  fixes fresh :: 'f
    and complete :: "'r \<Rightarrow> 'f \<Rightarrow> pyexc + 'f"
    and outcome :: "'f \<Rightarrow> 'r option"
    and is_done :: "'f \<Rightarrow> bool"
  assumes fresh_open: "\<not> is_done fresh"
    and complete_open: "\<not> is_done f \<Longrightarrow> \<exists>f'. complete r f = Inr f' \<and> outcome f' = Some r"
    and complete_done: "is_done f \<Longrightarrow> complete r f = Inl InvalidStateError"
    and outcome_done: "outcome f = Some r \<Longrightarrow> is_done f"
begin

lemma complete_Inr: "complete r f = Inr f' \<Longrightarrow> \<not> is_done f \<and> outcome f' = Some r \<and> is_done f'"
  using complete_open [of f r] complete_done [of f r] outcome_done by (cases "is_done f") auto

lemma complete_twice:
  "complete r f = Inr f' \<Longrightarrow> complete r' f' = Inl InvalidStateError"
  using complete_Inr complete_done by blast

lemma complete_fresh: "\<exists>f. complete r fresh = Inr f \<and> outcome f = Some r \<and> is_done f"
  using complete_open [OF fresh_open, of r] outcome_done by blast

text \<open>Of a sequence of attempts on an open future the first one wins, and the rest fail.\<close>

primrec attempts :: "'r list \<Rightarrow> 'f \<Rightarrow> 'f" where
  "attempts [] f = f"
| "attempts (r # rs) f = attempts rs (case complete r f of Inl _ \<Rightarrow> f | Inr f' \<Rightarrow> f')"

lemma attempts_done: "is_done f \<Longrightarrow> attempts rs f = f"
  by (induction rs) (simp_all add: complete_done)

lemma first_attempt_wins: "\<not> is_done f \<Longrightarrow> outcome (attempts (r # rs) f) = Some r"
  using complete_open [of f r] by (auto simp: attempts_done outcome_done)

end

interpretation py_future: oneshot Pending fut_complete fut_outcome fut_done
proof unfold_locales
  fix f :: "'a fut" and r
  show "fut_outcome f = Some r \<Longrightarrow> fut_done f" by (cases f) simp_all
qed (simp_all add: fut_complete_def)

lemma fut_complete_open [simp]: "\<not> fut_done f \<Longrightarrow> fut_complete r f = Inr (Finished r)"
  by (simp add: fut_complete_def)

lemma fut_complete_done [simp]: "fut_done f \<Longrightarrow> fut_complete r f = Inl InvalidStateError"
  by (simp add: fut_complete_def)

lemma set_running_no_cancel: "fut_cancel (fut_set_running Pending) = (False, Running)"
  by simp

lemma cancel_outcome: "fut_outcome (snd (fut_cancel f)) = fut_outcome f"
  by (cases f) simp_all

lemma snd_resolve: "snd (resolve rd wr r s) = (if fut_done (rd s) then s else wr (Finished r) s)"
  by (simp add: resolve_def)

lemma try_finally_resolve:
  "snd (try_finally m (resolve rd wr r) s) =
     (let s1 = snd (m s) in if fut_done (rd s1) then s1 else wr (Finished r) s1)"
  by (auto simp: try_finally_def resolve_def Let_def split: prod.splits sum.splits)

section \<open>Futures settled by events\<close>

text \<open>
  A future held by an object that processes events. Each event either leaves it alone or tries to
  complete it, \<open>trigger e\<close> saying with what. Whatever the order and number of the events,
  the future ends up with the outcome of the first event that triggers it.
\<close>

fun first_some :: "('e \<Rightarrow> 'r option) \<Rightarrow> 'e list \<Rightarrow> 'r option" where
  "first_some f [] = None"
| "first_some f (e # es) = (case f e of None \<Rightarrow> first_some f es | Some r \<Rightarrow> Some r)"

fun run_events :: "('e \<Rightarrow> 's \<Rightarrow> 's) \<Rightarrow> 'e list \<Rightarrow> 's \<Rightarrow> 's" where
  "run_events exec [] s = s"
| "run_events exec (e # es) s = run_events exec es (exec e s)"

lemma run_events_append: "run_events exec (es @ fs) s = run_events exec fs (run_events exec es s)"
  by (induction es arbitrary: s) simp_all

definition settle :: "(pyexc + 'a) option \<Rightarrow> 'a fut \<Rightarrow> 'a fut" where
  "settle r f = (case r of None \<Rightarrow> f | Some r \<Rightarrow> if fut_done f then f else Finished r)"

locale settled_slot =
  fixes present :: "'s \<Rightarrow> bool"
    and slot :: "'s \<Rightarrow> 'a fut"
    and exec :: "'e \<Rightarrow> 's \<Rightarrow> 's"
    and trigger :: "'e \<Rightarrow> (pyexc + 'a) option"
  assumes present_exec: "present s \<Longrightarrow> present (exec e s)"
    and slot_exec: "present s \<Longrightarrow> slot (exec e s) = settle (trigger e) (slot s)"
begin

lemma present_run: "present s \<Longrightarrow> present (run_events exec es s)"
  by (induction es arbitrary: s) (simp_all add: present_exec)

lemma done_run: "present s \<Longrightarrow> fut_done (slot s) \<Longrightarrow> slot (run_events exec es s) = slot s"
proof (induction es arbitrary: s)
  case (Cons e es)
  have "slot (exec e s) = slot s"
    using Cons.prems by (auto simp: slot_exec settle_def split: option.splits)
  with Cons show ?case by (simp add: present_exec)
qed simp

lemma settled_run:
  "present s \<Longrightarrow> slot (run_events exec es s) = settle (first_some trigger es) (slot s)"
proof (induction es arbitrary: s)
  case (Cons e es)
  then have p: "present (exec e s)" by (simp add: present_exec)
  show ?case
  proof (cases "trigger e")
    case None
    then have "slot (exec e s) = slot s" using Cons.prems by (simp add: slot_exec settle_def)
    with Cons.IH [OF p] None show ?thesis by simp
  next
    case (Some r)
    then have "fut_done (slot (exec e s))" using Cons.prems by (simp add: slot_exec settle_def)
    from done_run [OF p this] Some Cons.prems show ?thesis by (simp add: slot_exec)
  qed
qed (simp add: settle_def)

end

end
