(* ===== verification/Http.thy ===== *)
theory Http
  imports Io Futures
begin

text \<open>
  \<open>awscrt/http.py\<close>: HTTP/2 settings and their ranges, connection establishment and shutdown
  (\<open>_HttpClientConnectionCore\<close>), request streams and their completion futures, messages,
  headers and proxy options. The header block itself lives in the native library; the operations
  read it through its size and its indexed access, which are parameters.
\<close>

section \<open>Enumerations\<close>

datatype HttpVersion =
    Unknown
  | Http1_0
  | Http1_1
  | Http2

primrec HttpVersion_value :: "HttpVersion \<Rightarrow> int" where
  "HttpVersion_value HttpVersion.Unknown = 0"
| "HttpVersion_value HttpVersion.Http1_0 = 1"
| "HttpVersion_value HttpVersion.Http1_1 = 2"
| "HttpVersion_value HttpVersion.Http2 = 3"

definition HttpVersion_members :: "HttpVersion list" where
  [enum_defs]: "HttpVersion_members =
    [HttpVersion.Unknown, HttpVersion.Http1_0, HttpVersion.Http1_1, HttpVersion.Http2]"

interpretation HttpVersion_enum: int_enum HttpVersion_members HttpVersion_value
  by (unfold_locales, rule enum_univI, case_tac x, simp_all add: enum_defs)

datatype Http2SettingID =
    HEADER_TABLE_SIZE
  | ENABLE_PUSH
  | MAX_CONCURRENT_STREAMS
  | INITIAL_WINDOW_SIZE
  | MAX_FRAME_SIZE
  | MAX_HEADER_LIST_SIZE

primrec Http2SettingID_value :: "Http2SettingID \<Rightarrow> int" where
  "Http2SettingID_value Http2SettingID.HEADER_TABLE_SIZE = 1"
| "Http2SettingID_value Http2SettingID.ENABLE_PUSH = 2"
| "Http2SettingID_value Http2SettingID.MAX_CONCURRENT_STREAMS = 3"
| "Http2SettingID_value Http2SettingID.INITIAL_WINDOW_SIZE = 4"
| "Http2SettingID_value Http2SettingID.MAX_FRAME_SIZE = 5"
| "Http2SettingID_value Http2SettingID.MAX_HEADER_LIST_SIZE = 6"

definition Http2SettingID_members :: "Http2SettingID list" where
  [enum_defs]: "Http2SettingID_members =
    [Http2SettingID.HEADER_TABLE_SIZE, Http2SettingID.ENABLE_PUSH,
     Http2SettingID.MAX_CONCURRENT_STREAMS, Http2SettingID.INITIAL_WINDOW_SIZE,
     Http2SettingID.MAX_FRAME_SIZE, Http2SettingID.MAX_HEADER_LIST_SIZE]"

interpretation Http2SettingID_enum: int_enum Http2SettingID_members Http2SettingID_value
  by (unfold_locales, rule enum_univI, case_tac x, simp_all add: enum_defs)

datatype HttpProxyConnectionType =
    Legacy
  | Forwarding
  | Tunneling

primrec HttpProxyConnectionType_value :: "HttpProxyConnectionType \<Rightarrow> int" where
  "HttpProxyConnectionType_value HttpProxyConnectionType.Legacy = 0"
| "HttpProxyConnectionType_value HttpProxyConnectionType.Forwarding = 1"
| "HttpProxyConnectionType_value HttpProxyConnectionType.Tunneling = 2"

definition HttpProxyConnectionType_members :: "HttpProxyConnectionType list" where
  [enum_defs]: "HttpProxyConnectionType_members =
    [HttpProxyConnectionType.Legacy, HttpProxyConnectionType.Forwarding,
     HttpProxyConnectionType.Tunneling]"

interpretation HttpProxyConnectionType_enum: int_enum HttpProxyConnectionType_members HttpProxyConnectionType_value
  by (unfold_locales, rule enum_univI, case_tac x, simp_all add: enum_defs)

datatype HttpProxyAuthenticationType =
    Nothing
  | Basic

primrec HttpProxyAuthenticationType_value :: "HttpProxyAuthenticationType \<Rightarrow> int" where
  "HttpProxyAuthenticationType_value HttpProxyAuthenticationType.Nothing = 0"
| "HttpProxyAuthenticationType_value HttpProxyAuthenticationType.Basic = 1"

definition HttpProxyAuthenticationType_members :: "HttpProxyAuthenticationType list" where
  [enum_defs]: "HttpProxyAuthenticationType_members =
    [HttpProxyAuthenticationType.Nothing, HttpProxyAuthenticationType.Basic]"

interpretation HttpProxyAuthenticationType_enum: int_enum HttpProxyAuthenticationType_members HttpProxyAuthenticationType_value
  by (unfold_locales, rule enum_univI, case_tac x, simp_all add: enum_defs)

section \<open>HTTP/2 settings\<close>

fun Http2SettingID_name :: "Http2SettingID \<Rightarrow> string" where
  "Http2SettingID_name HEADER_TABLE_SIZE = ''HEADER_TABLE_SIZE''"
| "Http2SettingID_name ENABLE_PUSH = ''ENABLE_PUSH''"
| "Http2SettingID_name MAX_CONCURRENT_STREAMS = ''MAX_CONCURRENT_STREAMS''"
| "Http2SettingID_name INITIAL_WINDOW_SIZE = ''INITIAL_WINDOW_SIZE''"
| "Http2SettingID_name MAX_FRAME_SIZE = ''MAX_FRAME_SIZE''"
| "Http2SettingID_name MAX_HEADER_LIST_SIZE = ''MAX_HEADER_LIST_SIZE''"

fun VALID_RANGES :: "Http2SettingID \<Rightarrow> int \<times> int" where
  "VALID_RANGES HEADER_TABLE_SIZE = (0, 2 ^ 32 - 1)"
| "VALID_RANGES ENABLE_PUSH = (0, 1)"
| "VALID_RANGES MAX_CONCURRENT_STREAMS = (0, 2 ^ 32 - 1)"
| "VALID_RANGES INITIAL_WINDOW_SIZE = (0, 2 ^ 31 - 1)"
| "VALID_RANGES MAX_FRAME_SIZE = (2 ^ 14, 2 ^ 24 - 1)"
| "VALID_RANGES MAX_HEADER_LIST_SIZE = (0, 2 ^ 32 - 1)"

record Http2Setting =
  setting_id :: Http2SettingID
  setting_value :: int

definition validate_setting_value :: "Http2SettingID \<Rightarrow> int \<Rightarrow> pyexc + unit" where
  "validate_setting_value i v =
     (case VALID_RANGES i of (min_value, max_value) \<Rightarrow>
        if \<not> (min_value \<le> v \<and> v \<le> max_value)
        then Inl (ValueError (Http2SettingID_name i @ '' must be between '' @ str_int min_value @
               '' and '' @ str_int max_value @ '', got '' @ str_int v))
        else Inr ())"

definition Http2Setting_init :: "Http2SettingID \<Rightarrow> int \<Rightarrow> pyexc + Http2Setting" where
  "Http2Setting_init i v =
     (case validate_setting_value i v of
        Inl e \<Rightarrow> Inl e
      | Inr _ \<Rightarrow> Inr \<lparr>setting_id = i, setting_value = v\<rparr>)"

definition Http2Setting_str :: "Http2Setting \<Rightarrow> string" where
  "Http2Setting_str st =
     ''Http2Setting('' @ Http2SettingID_name (setting_id st) @ ''='' @ str_int (setting_value st) @ '')''"

section \<open>Proxy options\<close>

record HttpProxyOptions =
  proxy_host_name :: string
  proxy_port :: int
  proxy_tls_connection_options :: pyval
  auth_type :: HttpProxyAuthenticationType
  auth_username :: "string option"
  auth_password :: "string option"
  connection_type :: HttpProxyConnectionType

text \<open>The constructor with its defaults.\<close>

definition HttpProxyOptions_init :: "string \<Rightarrow> int \<Rightarrow> HttpProxyOptions" where
  "HttpProxyOptions_init host port = \<lparr>proxy_host_name = host, proxy_port = port,
     proxy_tls_connection_options = PNone, auth_type = HttpProxyAuthenticationType.Nothing,
     auth_username = None, auth_password = None, connection_type = HttpProxyConnectionType.Legacy\<rparr>"

section \<open>Connections\<close>

text \<open>The classes a connection object may have.\<close>

datatype conn_class = HttpClientConnectionC | Http2ClientConnectionC
  | AIOHttpClientConnectionC | AIOHttp2ClientConnectionC

record http_connection =
  conn_class :: conn_class
  conn_host_name :: string
  conn_port :: int
  conn_binding :: pyval
  conn_version :: HttpVersion

text \<open>
  \<open>_HttpClientConnectionCore\<close>. \<open>connect_future\<close> is the future handed to the user and
  \<open>has_connect_future\<close> whether the core still refers to it; \<open>shutdown_future\<close> is the
  shutdown future of the connection object, once there is one.
\<close>

record conn_core = world +
  core_host_name :: string
  core_port :: int
  connect_future :: "http_connection fut"
  has_connect_future :: bool
  expected_version :: "HttpVersion option"
  on_remote_settings_changed_cb :: pyval
  asyncio_connection :: bool
  shutdown_future :: "unit fut option"

text \<open>The arguments of \<open>HttpClientConnectionBase._generic_new\<close>.\<close>

record conn_args =
  arg_host_name :: string
  arg_port :: int
  arg_bootstrap :: pyval
  arg_socket_options :: pyval
  arg_tls_connection_options :: pyval
  arg_proxy_options :: pyval
  arg_expected_version :: "HttpVersion option"
  arg_initial_settings :: "Http2Setting list option"
  arg_on_remote_settings_changed :: pyval
  arg_asyncio_connection :: bool
  arg_manual_window_management :: bool
  arg_initial_window_size :: "int option"
  arg_read_buffer_capacity :: "int option"
  arg_conn_manual_window_management :: bool
  arg_conn_window_size_threshold :: "int option"
  arg_stream_window_size_threshold :: "int option"

definition generic_args :: "string \<Rightarrow> int \<Rightarrow> conn_args" where
  "generic_args host port = \<lparr>arg_host_name = host, arg_port = port, arg_bootstrap = PNone,
     arg_socket_options = PNone, arg_tls_connection_options = PNone, arg_proxy_options = PNone,
     arg_expected_version = None, arg_initial_settings = None,
     arg_on_remote_settings_changed = PNone, arg_asyncio_connection = False,
     arg_manual_window_management = False, arg_initial_window_size = None,
     arg_read_buffer_capacity = None, arg_conn_manual_window_management = False,
     arg_conn_window_size_threshold = None, arg_stream_window_size_threshold = None\<rparr>"

definition conn_core_init :: "conn_args \<Rightarrow> conn_core" where
  "conn_core_init a = \<lparr>trace = [], core_host_name = arg_host_name a, core_port = arg_port a,
     connect_future = Pending, has_connect_future = True,
     expected_version = arg_expected_version a,
     on_remote_settings_changed_cb = arg_on_remote_settings_changed a,
     asyncio_connection = arg_asyncio_connection a, shutdown_future = None\<rparr>"

definition pv_setting :: "Http2Setting \<Rightarrow> pyval" where
  "pv_setting st = PTuple [PEnum ''Http2SettingID'' (Http2SettingID_value (setting_id st)),
     PInt (setting_value st)]"

abbreviation fail_connect :: "pyexc \<Rightarrow> (conn_core, unit) py" where
  "fail_connect e \<equiv> resolve connect_future (\<lambda>f. connect_future_update (\<lambda>_. f)) (Inl e)"

text \<open>
  \<open>_generic_new\<close>, run on the freshly created core: \<open>D\<close> is the outcome of asking for
  the default bootstrap. Everything inside the \<open>try\<close> that raises ends up in the future.
\<close>

definition generic_new :: "native_env \<Rightarrow> (pyexc + pyval) \<Rightarrow> conn_args \<Rightarrow> (conn_core, unit) py" where
  "generic_new N D a =
     thenE (py_assert (opt_isinstance (arg_bootstrap a) ''ClientBootstrap''))
    (thenE (py_assert (opt_isinstance (arg_tls_connection_options a) ''TlsConnectionOptions''))
    (thenE (py_assert (opt_isinstance (arg_socket_options a) ''SocketOptions''))
    (thenE (py_assert (opt_isinstance (arg_proxy_options a) ''HttpProxyOptions''))
    (thenE (py_assert (\<not> arg_manual_window_management a \<or> arg_initial_window_size a \<noteq> None))
     (try_except
       (let so = (if truthy (arg_socket_options a) then arg_socket_options a
                  else PObj ''SocketOptions'' 0)
        in bindE (if truthy (arg_bootstrap a) then ret (arg_bootstrap a) else (\<lambda>s. (D, s))) (\<lambda>bs.
           thenE (native N ''http_client_connection_new''
             [bs, PStr (arg_host_name a), PInt (arg_port a), so, arg_tls_connection_options a,
              arg_proxy_options a,
              pv (\<lambda>ss. PList (map pv_setting ss)) (arg_initial_settings a),
              arg_on_remote_settings_changed a, PObj ''_HttpClientConnectionCore'' 0,
              PBool (arg_manual_window_management a), pv PInt (arg_initial_window_size a),
              pv PInt (arg_read_buffer_capacity a), PBool (arg_conn_manual_window_management a),
              pv PInt (arg_conn_window_size_threshold a),
              pv PInt (arg_stream_window_size_threshold a)])
           (ret ())))
       fail_connect)))))"

text \<open>What the four public \<open>new\<close> methods pass on (the two asynchronous ones await the
  future afterwards).\<close>

definition HttpClientConnection_new_args ::
  "string \<Rightarrow> int \<Rightarrow> pyval \<Rightarrow> pyval \<Rightarrow> pyval \<Rightarrow> pyval \<Rightarrow> bool \<Rightarrow> int option \<Rightarrow> int option \<Rightarrow> conn_args" where
  "HttpClientConnection_new_args host port bs so tls proxy mwm iws rbc =
     (generic_args host port)\<lparr>arg_bootstrap := bs, arg_socket_options := so,
        arg_tls_connection_options := tls, arg_proxy_options := proxy,
        arg_manual_window_management := mwm, arg_initial_window_size := iws,
        arg_read_buffer_capacity := rbc\<rparr>"

definition Http2ClientConnection_new_args ::
  "string \<Rightarrow> int \<Rightarrow> pyval \<Rightarrow> pyval \<Rightarrow> pyval \<Rightarrow> pyval \<Rightarrow> Http2Setting list option \<Rightarrow> pyval \<Rightarrow> bool \<Rightarrow>
   int option \<Rightarrow> bool \<Rightarrow> int option \<Rightarrow> int option \<Rightarrow> conn_args" where
  "Http2ClientConnection_new_args host port bs so tls proxy sets cb mwm iws cmwm cwt swt =
     (generic_args host port)\<lparr>arg_bootstrap := bs, arg_socket_options := so,
        arg_tls_connection_options := tls, arg_proxy_options := proxy,
        arg_expected_version := Some Http2, arg_initial_settings := sets,
        arg_on_remote_settings_changed := cb,
        arg_manual_window_management := mwm, arg_initial_window_size := iws,
        arg_conn_manual_window_management := cmwm, arg_conn_window_size_threshold := cwt,
        arg_stream_window_size_threshold := swt\<rparr>"

definition chosen_class :: "bool \<Rightarrow> int \<Rightarrow> conn_class" where
  "chosen_class aio version =
     (if aio then (if version = HttpVersion_value Http2 then AIOHttp2ClientConnectionC
                   else AIOHttpClientConnectionC)
      else (if version = HttpVersion_value Http2 then Http2ClientConnectionC
            else HttpClientConnectionC))"

text \<open>An expected version counts as given only if it is truthy: \<open>HttpVersion.Unknown\<close> is 0.\<close>

definition unexpected_version :: "HttpVersion option \<Rightarrow> int \<Rightarrow> bool" where
  "unexpected_version ex v =
     (case ex of None \<Rightarrow> False
      | Some e \<Rightarrow> HttpVersion_value e \<noteq> 0 \<and> HttpVersion_value e \<noteq> v)"

definition on_connection_setup ::
  "crt_errors \<Rightarrow> pyval \<Rightarrow> int \<Rightarrow> int \<Rightarrow> (conn_core, unit) py" where
  "on_connection_setup E binding error_code http_version = (\<lambda>s.
     if \<not> has_connect_future s then (Inr (), s)
     else if error_code \<noteq> 0 then fail_connect (from_code E error_code) s
     else if unexpected_version (expected_version s) http_version
       then fail_connect (from_code E 2060) s
     else (case enum_call HttpVersion_members HttpVersion_value http_version of
        Inl e \<Rightarrow> (Inl e, s)
      | Inr ver \<Rightarrow>
          (let conn = \<lparr>conn_class = chosen_class (asyncio_connection s) http_version,
                       conn_host_name = core_host_name s, conn_port = core_port s,
                       conn_binding = binding, conn_version = ver\<rparr>
           in thenE (updE (\<lambda>s. s\<lparr>shutdown_future := Some Pending\<rparr>))
             (thenE (resolve connect_future (\<lambda>f. connect_future_update (\<lambda>_. f)) (Inr conn))
                    (updE (\<lambda>s. s\<lparr>has_connect_future := False\<rparr>))) s)))"

definition on_shutdown :: "crt_errors \<Rightarrow> int \<Rightarrow> (conn_core, unit) py" where
  "on_shutdown E error_code = (\<lambda>s.
     case shutdown_future s of
       None \<Rightarrow> (Inr (), s)
     | Some f \<Rightarrow>
         (case fut_complete (if error_code \<noteq> 0 then Inl (from_code E error_code) else Inr ()) f of
            Inl e \<Rightarrow> (Inl e, s)
          | Inr f' \<Rightarrow> (Inr (), s\<lparr>shutdown_future := Some f'\<rparr>)))"

text \<open>The settings of a remote SETTINGS frame, converted one by one; the first bad one raises.\<close>

fun convert_settings :: "(int \<times> int) list \<Rightarrow> pyexc + Http2Setting list" where
  "convert_settings [] = Inr []"
| "convert_settings ((i, v) # rest) =
     (case enum_call Http2SettingID_members Http2SettingID_value i of
        Inl e \<Rightarrow> Inl e
      | Inr sid \<Rightarrow>
          (case Http2Setting_init sid v of
             Inl e \<Rightarrow> Inl e
           | Inr st \<Rightarrow>
               (case convert_settings rest of Inl e \<Rightarrow> Inl e | Inr sts \<Rightarrow> Inr (st # sts))))"

definition on_remote_settings_changed ::
  "user_env \<Rightarrow> (int \<times> int) list \<Rightarrow> (conn_core, unit) py" where
  "on_remote_settings_changed U native_settings = (\<lambda>s.
     if truthy (on_remote_settings_changed_cb s) then
       (case convert_settings native_settings of
          Inl e \<Rightarrow> (Inl e, s)
        | Inr sts \<Rightarrow> callback U ''on_remote_settings_changed'' [PList (map pv_setting sts)] s)
     else (Inr (), s))"

definition conn_close :: "native_env \<Rightarrow> pyval \<Rightarrow> ('a world_scheme, unit) py" where
  "conn_close N binding = thenE (native N ''http_connection_close'' [binding]) (ret ())"

definition conn_is_open :: "native_env \<Rightarrow> pyval \<Rightarrow> ('a world_scheme, pyval) py" where
  "conn_is_open N binding = native N ''http_connection_is_open'' [binding]"

definition h2_conn_close :: "native_env \<Rightarrow> pyval \<Rightarrow> unit fut \<Rightarrow> ('a world_scheme, unit fut) py" where
  "h2_conn_close N binding shutdown = thenE (native N ''http_connection_close'' [binding]) (ret shutdown)"

definition h2_conn_update_window :: "native_env \<Rightarrow> pyval \<Rightarrow> int \<Rightarrow> ('a world_scheme, unit) py" where
  "h2_conn_update_window N binding inc =
     thenE (native N ''http2_connection_update_window'' [binding, PInt inc]) (ret ())"

section \<open>Streams\<close>

text \<open>
  The fields of \<open>HttpClientStreamBase\<close>; \<open>request_held\<close> says whether \<open>_request\<close>
  still refers to the request. The completion future carries the status code, which is
  \<open>None\<close> if the stream completes before a response.
\<close>

record http_stream = world +
  completion_future :: "int option fut"
  on_body_cb :: pyval
  on_response_cb :: pyval
  response_status_code :: "int option"
  request_held :: bool
  stream_version :: HttpVersion

text \<open>\<open>_init_common\<close>: the native stream is created last.\<close>

definition stream_init_common ::
  "native_env \<Rightarrow> http_connection \<Rightarrow> pyval \<Rightarrow> pyval \<Rightarrow> pyval \<Rightarrow> bool \<Rightarrow> ('a http_stream_scheme, pyval) py" where
  "stream_init_common N conn request on_response on_body http2_manual_write =
     thenE (py_assert (isinstance request ''HttpRequest''))
    (thenE (py_assert (callable on_response \<or> on_response = PNone))
    (thenE (py_assert (callable on_body \<or> on_body = PNone))
    (thenE (updE (\<lambda>s. s\<lparr>completion_future := Pending, on_body_cb := on_body,
              on_response_cb := on_response, response_status_code := None, request_held := True,
              stream_version := conn_version conn\<rparr>))
    (native N ''http_client_stream_new''
       [PObj ''stream'' 0, PObj ''connection'' 0, request, PBool http2_manual_write]))))"

definition stream_on_body :: "user_env \<Rightarrow> bytes \<Rightarrow> ('a http_stream_scheme, unit) py" where
  "stream_on_body U chunk = (\<lambda>s.
     if truthy (on_body_cb s) then callback U ''on_body'' [PBytes chunk] s else (Inr (), s))"

definition pv_headers :: "(string \<times> string) list \<Rightarrow> pyval" where
  "pv_headers hs = PList (map (\<lambda>(n, v). PTuple [PStr n, PStr v]) hs)"

definition stream_on_response ::
  "user_env \<Rightarrow> int \<Rightarrow> (string \<times> string) list \<Rightarrow> ('a http_stream_scheme, unit) py" where
  "stream_on_response U status_code name_value_pairs =
     thenE (updE (\<lambda>s. s\<lparr>response_status_code := Some status_code\<rparr>))
     (\<lambda>s. if truthy (on_response_cb s)
          then callback U ''on_response'' [PInt status_code, pv_headers name_value_pairs] s
          else (Inr (), s))"

definition completion_outcome :: "crt_errors \<Rightarrow> int \<Rightarrow> 'v \<Rightarrow> pyexc + 'v" where
  "completion_outcome E error_code v = (if error_code = 0 then Inr v else Inl (from_code E error_code))"

definition resolve_completion :: "crt_errors \<Rightarrow> int \<Rightarrow> ('a http_stream_scheme, unit) py" where
  "resolve_completion E error_code = (\<lambda>s.
     resolve completion_future (\<lambda>f. completion_future_update (\<lambda>_. f))
       (completion_outcome E error_code (response_status_code s)) s)"

definition stream_on_complete :: "crt_errors \<Rightarrow> int \<Rightarrow> ('a http_stream_scheme, unit) py" where
  "stream_on_complete E error_code =
     thenE (updE (\<lambda>s. s\<lparr>request_held := False\<rparr>)) (resolve_completion E error_code)"

definition stream_activate :: "native_env \<Rightarrow> ('a http_stream_scheme, unit) py" where
  "stream_activate N = thenE (native N ''http_client_stream_activate'' [PObj ''stream'' 0]) (ret ())"

definition stream_update_window :: "native_env \<Rightarrow> int \<Rightarrow> ('a http_stream_scheme, unit) py" where
  "stream_update_window N inc =
     thenE (native N ''http_stream_update_window'' [PObj ''stream'' 0, PInt inc]) (ret ())"

text \<open>\<open>Http2ClientStream\<close> adds the future of the remote END_STREAM.\<close>

record h2_stream = http_stream +
  remote_end_stream_future :: "unit fut"

definition h2_stream_init :: "HttpVersion \<Rightarrow> pyval \<Rightarrow> pyval \<Rightarrow> h2_stream" where
  "h2_stream_init ver on_response on_body = \<lparr>trace = [], completion_future = Pending,
     on_body_cb = on_body, on_response_cb = on_response, response_status_code = None,
     request_held = True, stream_version = ver, remote_end_stream_future = Pending\<rparr>"

text \<open>The two \<open>request\<close> methods: the constructors of the streams, the new stream being the
  state.\<close>

abbreviation HttpClientStream_init ::
  "native_env \<Rightarrow> http_connection \<Rightarrow> pyval \<Rightarrow> pyval \<Rightarrow> pyval \<Rightarrow> (http_stream, pyval) py" where
  "HttpClientStream_init N conn request on_response on_body \<equiv>
     stream_init_common N conn request on_response on_body False"

abbreviation Http2ClientStream_init ::
  "native_env \<Rightarrow> http_connection \<Rightarrow> pyval \<Rightarrow> pyval \<Rightarrow> pyval \<Rightarrow> bool \<Rightarrow> (h2_stream, pyval) py" where
  "Http2ClientStream_init N conn request on_response on_body manual_write \<equiv>
     thenE (updE (\<lambda>s. s\<lparr>remote_end_stream_future := Pending\<rparr>))
       (stream_init_common N conn request on_response on_body manual_write)"

definition HttpClientConnection_request ::
  "native_env \<Rightarrow> http_connection \<Rightarrow> pyval \<Rightarrow> pyval \<Rightarrow> pyval \<Rightarrow> (http_stream, pyval) py" where
  "HttpClientConnection_request N conn request on_response on_body =
     HttpClientStream_init N conn request on_response on_body"

definition Http2ClientConnection_request ::
  "native_env \<Rightarrow> http_connection \<Rightarrow> pyval \<Rightarrow> pyval \<Rightarrow> pyval \<Rightarrow> bool \<Rightarrow> (h2_stream, pyval) py" where
  "Http2ClientConnection_request N conn request on_response on_body manual_write =
     Http2ClientStream_init N conn request on_response on_body manual_write"

lemma h2_request_starts:
  assumes "Http2ClientConnection_request N conn request on_response on_body mw s = (Inr b, s')"
  shows "s' = (h2_stream_init (conn_version conn) on_response on_body)\<lparr>trace := trace s'\<rparr>"
  using assms
  by (auto simp: Http2ClientConnection_request_def stream_init_common_def h2_stream_init_def py_monad
      split: if_splits)

abbreviation resolve_remote_end :: "pyexc + unit \<Rightarrow> (h2_stream, unit) py" where
  "resolve_remote_end \<equiv>
     resolve remote_end_stream_future (\<lambda>f. remote_end_stream_future_update (\<lambda>_. f))"

definition h2_on_remote_end_stream :: "(h2_stream, unit) py" where
  "h2_on_remote_end_stream = (\<lambda>s.
     if \<not> fut_done (remote_end_stream_future s) then resolve_remote_end (Inr ()) s else (Inr (), s))"

definition no_end_stream_error :: pyexc where
  "no_end_stream_error = RuntimeError ''Stream completed without receiving remote END_STREAM''"

definition h2_on_complete :: "crt_errors \<Rightarrow> int \<Rightarrow> (h2_stream, unit) py" where
  "h2_on_complete E error_code =
     thenE (updE (\<lambda>s. s\<lparr>request_held := False\<rparr>))
    (thenE (\<lambda>s. if \<not> fut_done (remote_end_stream_future s)
                then resolve_remote_end (Inl no_end_stream_error) s else (Inr (), s))
       (resolve_completion E error_code))"

text \<open>\<open>write_data\<close>: the completion callback of one write, on the future it returned.\<close>

definition on_write_complete :: "crt_errors \<Rightarrow> int \<Rightarrow> unit fut \<Rightarrow> pyexc + unit fut" where
  "on_write_complete E error_code f =
     (if fut_cancelled f then Inr f
      else if error_code \<noteq> 0 then set_exception (from_code E error_code) f
      else set_result () f)"

definition h2_write_data ::
  "native_env \<Rightarrow> nat \<Rightarrow> stream_arg \<Rightarrow> bool \<Rightarrow> ('a world_scheme, unit fut) py" where
  "h2_write_data N n data_stream end_stream =
     bindE (InputStream_wrap N n data_stream True) (\<lambda>body.
     thenE (native N ''http2_client_stream_write_data''
       [PObj ''stream'' 0,
        (case body of Wrapped k _ \<Rightarrow> PObj ''InputStream'' k | _ \<Rightarrow> PNone),
        PBool end_stream, PFun 0])
     (ret Pending))"

section \<open>Headers and messages\<close>

text \<open>The generator of \<open>HttpHeaders.get_values\<close>, from index \<open>i\<close> on, \<open>n\<close> headers left.\<close>

fun get_values_from :: "(nat \<Rightarrow> string \<times> string) \<Rightarrow> string \<Rightarrow> nat \<Rightarrow> nat \<Rightarrow> string list" where
  "get_values_from get_index name i 0 = []"
| "get_values_from get_index name i (Suc n) =
     (case get_index i of (name_i, value_i) \<Rightarrow>
        if lower name_i = name then value_i # get_values_from get_index name (Suc i) n
        else get_values_from get_index name (Suc i) n)"

definition get_values :: "nat \<Rightarrow> (nat \<Rightarrow> string \<times> string) \<Rightarrow> string \<Rightarrow> string list" where
  "get_values count get_index name = get_values_from get_index (lower name) 0 count"

definition headers_iter :: "nat \<Rightarrow> (nat \<Rightarrow> string \<times> string) \<Rightarrow> (string \<times> string) list" where
  "headers_iter count get_index = map get_index [0..<count]"

definition HttpHeaders_init ::
  "native_env \<Rightarrow> (string \<times> string) list option \<Rightarrow> ('a world_scheme, pyval) py" where
  "HttpHeaders_init N pairs =
     bindE (native N ''http_headers_new'' []) (\<lambda>b.
       case pairs of
         Some (p # ps) \<Rightarrow> thenE (native N ''http_headers_add_pairs'' [b, pv_headers (p # ps)]) (ret b)
       | _ \<Rightarrow> ret b)"

definition headers_call2 ::
  "string \<Rightarrow> native_env \<Rightarrow> pyval \<Rightarrow> pyval \<Rightarrow> pyval \<Rightarrow> ('a world_scheme, pyval) py" where
  "headers_call2 f N b name val =
     thenE (py_assert (isinstance name ''str''))
    (thenE (py_assert (isinstance val ''str'')) (native N f [b, name, val]))"

definition headers_add :: "native_env \<Rightarrow> pyval \<Rightarrow> pyval \<Rightarrow> pyval \<Rightarrow> ('a world_scheme, pyval) py" where
  "headers_add = headers_call2 ''http_headers_add''"

definition headers_set :: "native_env \<Rightarrow> pyval \<Rightarrow> pyval \<Rightarrow> pyval \<Rightarrow> ('a world_scheme, pyval) py" where
  "headers_set = headers_call2 ''http_headers_set''"

definition headers_remove_value :: "native_env \<Rightarrow> pyval \<Rightarrow> pyval \<Rightarrow> pyval \<Rightarrow> ('a world_scheme, pyval) py" where
  "headers_remove_value = headers_call2 ''http_headers_remove_value''"

definition headers_get :: "native_env \<Rightarrow> pyval \<Rightarrow> pyval \<Rightarrow> pyval \<Rightarrow> ('a world_scheme, pyval) py" where
  "headers_get N b name dflt =
     thenE (py_assert (isinstance name ''str'')) (native N ''http_headers_get'' [b, name, dflt])"

definition headers_remove :: "native_env \<Rightarrow> pyval \<Rightarrow> pyval \<Rightarrow> ('a world_scheme, pyval) py" where
  "headers_remove N b name =
     thenE (py_assert (isinstance name ''str'')) (native N ''http_headers_remove'' [b, name])"

definition headers_clear :: "native_env \<Rightarrow> pyval \<Rightarrow> ('a world_scheme, pyval) py" where
  "headers_clear N b = native N ''http_headers_clear'' [b]"

text \<open>\<open>HttpRequest.__init__\<close>; \<open>hb\<close> is the headers object passed, if any, and \<open>body\<close>
  the body stream, if any.\<close>

definition set_body_stream :: "native_env \<Rightarrow> nat \<Rightarrow> pyval \<Rightarrow> stream_arg \<Rightarrow> ('a world_scheme, stream_arg) py" where
  "set_body_stream N n b body =
     bindE (InputStream_wrap N n body False) (\<lambda>w.
     thenE (native N ''http_message_set_body_stream''
       [b, (case w of Wrapped k _ \<Rightarrow> PObj ''InputStream'' k | _ \<Rightarrow> PNone)]) (ret w))"

abbreviation HttpMessageBase_init :: "native_env \<Rightarrow> nat \<Rightarrow> pyval \<Rightarrow> stream_arg \<Rightarrow> ('a world_scheme, unit) py" where
  "HttpMessageBase_init N n b body \<equiv>
     (case body of NoStream \<Rightarrow> ret () | _ \<Rightarrow> thenE (set_body_stream N n b body) (ret ()))"

definition HttpRequest_init ::
  "native_env \<Rightarrow> nat \<Rightarrow> string \<Rightarrow> string \<Rightarrow> pyval option \<Rightarrow> stream_arg \<Rightarrow> ('a world_scheme, pyval) py" where
  "HttpRequest_init N n method path hb body =
     bindE (case hb of None \<Rightarrow> HttpHeaders_init N None | Some h \<Rightarrow> ret h) (\<lambda>h.
     bindE (native N ''http_message_new_request'' [h]) (\<lambda>b.
     thenE (HttpMessageBase_init N n b body)
    (thenE (native N ''http_message_set_request_method'' [b, PStr method])
    (thenE (native N ''http_message_set_request_path'' [b, PStr path])
     (ret b)))))"

text \<open>\<open>HttpRequest._from_bindings\<close>: a request around objects native code made.\<close>

record http_request =
  request_binding :: pyval
  request_headers :: pyval

definition HttpRequest_from_bindings :: "pyval \<Rightarrow> pyval \<Rightarrow> http_request" where
  "HttpRequest_from_bindings b hb = \<lparr>request_binding = b, request_headers = hb\<rparr>"

definition request_get_method :: "native_env \<Rightarrow> http_request \<Rightarrow> ('a world_scheme, pyval) py" where
  "request_get_method N r = native N ''http_message_get_request_method'' [request_binding r]"

definition request_set_method :: "native_env \<Rightarrow> http_request \<Rightarrow> string \<Rightarrow> ('a world_scheme, unit) py" where
  "request_set_method N r method =
     thenE (native N ''http_message_set_request_method'' [request_binding r, PStr method]) (ret ())"

definition request_get_path :: "native_env \<Rightarrow> http_request \<Rightarrow> ('a world_scheme, pyval) py" where
  "request_get_path N r = native N ''http_message_get_request_path'' [request_binding r]"

definition request_set_path :: "native_env \<Rightarrow> http_request \<Rightarrow> string \<Rightarrow> ('a world_scheme, unit) py" where
  "request_set_path N r path =
     thenE (native N ''http_message_set_request_path'' [request_binding r, PStr path]) (ret ())"

section \<open>Settings\<close>

lemma setting_init_iff:
  "Http2Setting_init i v = Inr st \<longleftrightarrow>
     fst (VALID_RANGES i) \<le> v \<and> v \<le> snd (VALID_RANGES i) \<and> st = \<lparr>setting_id = i, setting_value = v\<rparr>"
  by (auto simp: Http2Setting_init_def validate_setting_value_def split: prod.splits)

lemma ranges_u32: "0 \<le> fst (VALID_RANGES i) \<and> snd (VALID_RANGES i) < 2 ^ 32"
  by (cases i) simp_all

definition setting_ok :: "int \<times> int \<Rightarrow> bool" where
  "setting_ok p = (\<exists>i. Http2SettingID_value i = fst p \<and>
     fst (VALID_RANGES i) \<le> snd p \<and> snd p \<le> snd (VALID_RANGES i))"

lemma setting_okI:
  "Http2Setting_init j v = Inr st \<Longrightarrow> setting_ok (Http2SettingID_value j, v)"
  by (auto simp: setting_ok_def setting_init_iff)

lemma convert_settings_Inr:
  "convert_settings ps = Inr sts \<Longrightarrow>
   map (\<lambda>st. (Http2SettingID_value (setting_id st), setting_value st)) sts = ps \<and> list_all setting_ok ps"
proof (induction ps arbitrary: sts rule: convert_settings.induct)
  case 1
  then show ?case by simp
next
  case (2 i v rest)
  from "2.prems" obtain j st sts' where
    c: "enum_call Http2SettingID_members Http2SettingID_value i = Inr j"
    and st: "Http2Setting_init j v = Inr st"
    and r: "convert_settings rest = Inr sts'" and sts: "sts = st # sts'"
    by (auto split: sum.splits)
  have "Http2SettingID_value j = i" using c by (rule Http2SettingID_enum.call_Inr)
  moreover have "map (\<lambda>st. (Http2SettingID_value (setting_id st), setting_value st)) sts' = rest \<and>
    list_all setting_ok rest" using c st r by (rule "2.IH")
  ultimately show ?case using st sts setting_okI [OF st] by (auto simp: setting_init_iff)
qed

lemma convert_settings_total: "list_all setting_ok ps \<Longrightarrow> \<exists>sts. convert_settings ps = Inr sts"
proof (induction ps rule: convert_settings.induct)
  case 1
  then show ?case by simp
next
  case (2 i v rest)
  then obtain j where j: "Http2SettingID_value j = i" "fst (VALID_RANGES j) \<le> v"
    "v \<le> snd (VALID_RANGES j)" by (auto simp: setting_ok_def)
  then have c: "enum_call Http2SettingID_members Http2SettingID_value i = Inr j"
    using Http2SettingID_enum.call_val by blast
  have st: "Http2Setting_init j v = Inr \<lparr>setting_id = j, setting_value = v\<rparr>"
    using j by (simp add: setting_init_iff)
  from 2 c st obtain sts where "convert_settings rest = Inr sts" by auto
  with c st show ?case by simp
qed

text \<open>
  A remote SETTINGS frame reaches the user's callback exactly if every identifier is known and
  every value is in its setting's range; the converted list then has the same identifiers and
  values in the same order, and every value fits the 32-bit field of the protocol.
\<close>

lemma convert_settings_exact:
  "(\<exists>sts. convert_settings ps = Inr sts \<and>
      map (\<lambda>st. (Http2SettingID_value (setting_id st), setting_value st)) sts = ps \<and>
      list_all (\<lambda>p. 0 \<le> snd p \<and> snd p < 2 ^ 32) ps) = list_all setting_ok ps"
proof -
  have "0 \<le> snd p \<and> snd p < 2 ^ 32" if "setting_ok p" for p
  proof -
    from that obtain i where "fst (VALID_RANGES i) \<le> snd p" "snd p \<le> snd (VALID_RANGES i)"
      by (auto simp: setting_ok_def)
    with ranges_u32 [of i] show ?thesis by linarith
  qed
  then show ?thesis
    using convert_settings_Inr convert_settings_total by (metis (mono_tags, lifting) list.pred_mono_strong)
qed

section \<open>Establishing a connection\<close>

datatype conn_event = Setup pyval int int | Shutdown int | CancelConnect

fun conn_exec :: "crt_errors \<Rightarrow> conn_event \<Rightarrow> conn_core \<Rightarrow> conn_core" where
  "conn_exec E (Setup b err ver) s = snd (on_connection_setup E b err ver s)"
| "conn_exec E (Shutdown err) s = snd (on_shutdown E err s)"
| "conn_exec E CancelConnect s = s\<lparr>connect_future := snd (fut_cancel (connect_future s))\<rparr>"

definition conn_step :: "crt_errors \<Rightarrow> conn_core \<Rightarrow> conn_event \<Rightarrow> conn_core \<Rightarrow> bool" where
  "conn_step E s e s' = (s' = conn_exec E e s)"

text \<open>What a delivered connection looks like, given what was asked for.\<close>

definition conn_matches :: "conn_args \<Rightarrow> http_connection \<Rightarrow> bool" where
  "conn_matches a c =
     (conn_host_name c = arg_host_name a \<and> conn_port c = arg_port a \<and>
      conn_class c = chosen_class (arg_asyncio_connection a) (HttpVersion_value (conn_version c)) \<and>
      \<not> unexpected_version (arg_expected_version a) (HttpVersion_value (conn_version c)))"

definition conn_good :: "conn_args \<Rightarrow> conn_core \<Rightarrow> bool" where
  "conn_good a s =
     (core_host_name s = arg_host_name a \<and> core_port s = arg_port a \<and>
      expected_version s = arg_expected_version a \<and> asyncio_connection s = arg_asyncio_connection a \<and>
      (\<forall>c. connect_future s = Finished (Inr c) \<longrightarrow> conn_matches a c \<and> shutdown_future s \<noteq> None) \<and>
      (\<not> has_connect_future s \<longrightarrow> (\<exists>c. connect_future s = Finished (Inr c))))"

lemma setup_good:
  "conn_good a s \<Longrightarrow> conn_good a (snd (on_connection_setup E b err ver s))"
  by (auto simp: on_connection_setup_def conn_good_def conn_matches_def resolve_def py_monad
      fut_complete_def Let_def HttpVersion_enum.call_Inr split: sum.splits)

lemma shutdown_good: "conn_good a s \<Longrightarrow> conn_good a (snd (on_shutdown E err s))"
  by (auto simp: on_shutdown_def conn_good_def split: option.splits sum.splits)

interpretation conn_sys: invariant_system "\<lambda>s. s = conn_core_init a" "conn_step E" "conn_good a" for a E
proof unfold_locales
  show "conn_good a s" if "s = conn_core_init a" for s
    using that by (simp add: conn_good_def conn_core_init_def)
  show "conn_good a s'" if "conn_good a s" "conn_step E s e s'" for s e s'
  proof (cases e)
    case CancelConnect
    with that show ?thesis
      by (cases "connect_future s") (auto simp: conn_step_def conn_good_def)
  qed (use that in \<open>auto simp: conn_step_def setup_good shutdown_good\<close>)
qed

text \<open>
  (C18) Whatever setup, shutdown and cancellation events occur, in any order and number, a
  connection delivered through the connect future is for the requested host and port, speaks the
  version that was asked for if one was, is of the HTTP/2 class exactly if it speaks HTTP/2, and
  has a shutdown future.
\<close>

theorem conn_delivered_matches:
  assumes "run_steps (conn_step E) (conn_core_init a) es s"
    and "connect_future s = Finished (Inr c)"
  shows "conn_host_name c = arg_host_name a \<and> conn_port c = arg_port a \<and>
    (\<forall>v. arg_expected_version a = Some v \<and> v \<noteq> HttpVersion.Unknown \<longrightarrow> conn_version c = v) \<and>
    (conn_class c \<in> {Http2ClientConnectionC, AIOHttp2ClientConnectionC} \<longleftrightarrow> conn_version c = Http2) \<and>
    shutdown_future s \<noteq> None"
proof -
  have "conn_good a s" using conn_sys.reachable_good [OF refl assms(1)] .
  then have m: "conn_matches a c" "shutdown_future s \<noteq> None"
    using assms(2) by (auto simp: conn_good_def)
  have "conn_version c = v" if "arg_expected_version a = Some v" "v \<noteq> HttpVersion.Unknown" for v
    using m that by (cases v; cases "conn_version c") (auto simp: conn_matches_def unexpected_version_def)
  moreover have "conn_class c \<in> {Http2ClientConnectionC, AIOHttp2ClientConnectionC} \<longleftrightarrow>
    conn_version c = Http2"
    using m by (cases "conn_version c") (auto simp: conn_matches_def chosen_class_def)
  ultimately show ?thesis using m by (auto simp: conn_matches_def)
qed

theorem conn_delivered_matches_witness:
  "\<exists>s c. run_steps (conn_step crt_errors_ex) (conn_core_init (generic_args ''h'' 443))
           [Setup PNone 0 3, Shutdown 0] s \<and>
         connect_future s = Finished (Inr c) \<and> conn_host_name c = ''h''"
proof -
  let ?a = "generic_args ''h'' 443"
  let ?s = "conn_exec crt_errors_ex (Shutdown 0) (conn_exec crt_errors_ex (Setup PNone 0 3) (conn_core_init ?a))"
  let ?c = "\<lparr>conn_class = Http2ClientConnectionC, conn_host_name = ''h'', conn_port = 443,
     conn_binding = PNone, conn_version = Http2\<rparr>"
  have r: "run_steps (conn_step crt_errors_ex) (conn_core_init ?a) [Setup PNone 0 3, Shutdown 0] ?s"
    by (simp add: run_steps_Cons conn_step_def)
  have f: "connect_future ?s = Finished (Inr ?c)"
    by (simp add: on_connection_setup_def on_shutdown_def conn_core_init_def generic_args_def
        unexpected_version_def enum_call_def HttpVersion_members_def chosen_class_def resolve_def
        py_monad Let_def)
  from conn_delivered_matches [OF r f] have "conn_host_name ?c = arg_host_name ?a" by simp
  with r f show ?thesis by (metis http_connection.select_convs(2))
qed

text \<open>
  Once its argument assertions hold, opening a connection never raises: a failure to obtain
  the default bootstrap or in the native call is delivered through the returned future.
\<close>

lemma generic_new_total:
  assumes "opt_isinstance (arg_bootstrap a) ''ClientBootstrap''"
    and "opt_isinstance (arg_tls_connection_options a) ''TlsConnectionOptions''"
    and "opt_isinstance (arg_socket_options a) ''SocketOptions''"
    and "opt_isinstance (arg_proxy_options a) ''HttpProxyOptions''"
    and "arg_manual_window_management a \<Longrightarrow> arg_initial_window_size a \<noteq> None"
  shows "fst (generic_new N D a (conn_core_init a)) = Inr () \<and>
    (\<forall>e. D = Inl e \<and> arg_bootstrap a = PNone \<longrightarrow>
       connect_future (snd (generic_new N D a (conn_core_init a))) = Finished (Inl e)) \<and>
    (\<forall>e b. D = Inr b \<and> (\<forall>args. N ''http_client_connection_new'' args = Inl e) \<longrightarrow>
       connect_future (snd (generic_new N D a (conn_core_init a))) = Finished (Inl e))"
  using assms
  by (auto simp: generic_new_def py_monad resolve_def conn_core_init_def Let_def split: sum.splits)

section \<open>HTTP/2 streams\<close>

datatype stream_event =
    Response int "(string \<times> string) list"
  | Body bytes
  | RemoteEnd
  | Complete int

fun h2_exec :: "crt_errors \<Rightarrow> user_env \<Rightarrow> stream_event \<Rightarrow> h2_stream \<Rightarrow> h2_stream" where
  "h2_exec E U (Response st hs) s = snd (stream_on_response U st hs s)"
| "h2_exec E U (Body c) s = snd (stream_on_body U c s)"
| "h2_exec E U RemoteEnd s = snd (h2_on_remote_end_stream s)"
| "h2_exec E U (Complete err) s = snd (h2_on_complete E err s)"

fun h2_run :: "crt_errors \<Rightarrow> user_env \<Rightarrow> stream_event list \<Rightarrow> h2_stream \<Rightarrow> h2_stream" where
  "h2_run E U [] s = s"
| "h2_run E U (e # es) s = h2_run E U es (h2_exec E U e s)"

fun is_complete :: "stream_event \<Rightarrow> bool" where
  "is_complete (Complete _) = True"
| "is_complete _ = False"

text \<open>The status of the last response of a history, given the status before it.\<close>

fun last_status :: "int option \<Rightarrow> stream_event list \<Rightarrow> int option" where
  "last_status st [] = st"
| "last_status st (Response c hs # es) = last_status (Some c) es"
| "last_status st (_ # es) = last_status st es"

lemma callback_frame:
  fixes s :: h2_stream
  shows "completion_future (snd (callback U f args s)) = completion_future s"
    "remote_end_stream_future (snd (callback U f args s)) = remote_end_stream_future s"
    "response_status_code (snd (callback U f args s)) = response_status_code s"
  by (simp_all add: py_monad split: option.splits)

lemma h2_exec_open:
  "\<not> is_complete e \<Longrightarrow>
   completion_future (h2_exec E U e s) = completion_future s \<and>
   response_status_code (h2_exec E U e s) = last_status (response_status_code s) [e] \<and>
   remote_end_stream_future (h2_exec E U e s) =
     (if e = RemoteEnd \<and> \<not> fut_done (remote_end_stream_future s) then Finished (Inr ())
      else remote_end_stream_future s)"
  by (cases e)
    (auto simp: stream_on_response_def stream_on_body_def h2_on_remote_end_stream_def resolve_def
      thenE_def bindE_def updE_def callback_frame)

lemma last_status_Cons: "last_status st (e # es) = last_status (last_status st [e]) es"
  by (cases e) simp_all

lemma h2_run_open:
  "list_all (\<lambda>e. \<not> is_complete e) es \<Longrightarrow>
   completion_future (h2_run E U es s) = completion_future s \<and>
   response_status_code (h2_run E U es s) = last_status (response_status_code s) es \<and>
   (fut_done (remote_end_stream_future s) \<longrightarrow>
      remote_end_stream_future (h2_run E U es s) = remote_end_stream_future s) \<and>
   (\<not> fut_done (remote_end_stream_future s) \<longrightarrow>
      remote_end_stream_future (h2_run E U es s) =
        (if RemoteEnd \<in> set es then Finished (Inr ()) else remote_end_stream_future s))"
proof (induction es arbitrary: s)
  case Nil
  then show ?case by simp
next
  case (Cons e es)
  then have e: "\<not> is_complete e" and es: "list_all (\<lambda>e. \<not> is_complete e) es" by simp_all
  show ?case
    using Cons.IH [OF es, of "h2_exec E U e s"] h2_exec_open [OF e, of E U s]
    by (auto simp: last_status_Cons [of _ e es])
qed

lemma h2_complete_open:
  "\<not> fut_done (completion_future s) \<Longrightarrow>
   completion_future (h2_exec E U (Complete err) s) =
     Finished (completion_outcome E err (response_status_code s)) \<and>
   remote_end_stream_future (h2_exec E U (Complete err) s) =
     (if fut_done (remote_end_stream_future s) then remote_end_stream_future s
      else Finished (Inl no_end_stream_error)) \<and>
   \<not> request_held (h2_exec E U (Complete err) s)"
  by (simp add: h2_on_complete_def resolve_completion_def resolve_def py_monad)

lemma h2_run_append: "h2_run E U (es @ fs) s = h2_run E U fs (h2_run E U es s)"
  by (induction es arbitrary: s) simp_all

text \<open>
  (C19) For every history of an HTTP/2 stream that ends with its completion, whatever the user's
  callbacks do: the completion future holds the status of the last response, or the error; the
  END_STREAM future is resolved too, normally if END_STREAM was seen and with an error otherwise;
  and the request is released. Nobody is left waiting.
\<close>

theorem h2_stream_completes:
  assumes "list_all (\<lambda>e. \<not> is_complete e) es"
    and "s = h2_run E U (es @ [Complete err]) (h2_stream_init ver cb1 cb2)"
  shows "completion_future s = Finished (if err = 0 then Inr (last_status None es) else Inl (from_code E err)) \<and>
    remote_end_stream_future s =
      Finished (if RemoteEnd \<in> set es then Inr () else Inl no_end_stream_error) \<and>
    \<not> request_held s"
proof -
  let ?s = "h2_run E U es (h2_stream_init ver cb1 cb2)"
  have o: "completion_future ?s = Pending" "response_status_code ?s = last_status None es"
    "remote_end_stream_future ?s = (if RemoteEnd \<in> set es then Finished (Inr ()) else Pending)"
    using h2_run_open [OF assms(1), of E U "h2_stream_init ver cb1 cb2"]
    by (simp_all add: h2_stream_init_def)
  have "s = h2_exec E U (Complete err) ?s" using assms(2) by (simp add: h2_run_append)
  then show ?thesis using h2_complete_open [of ?s E U err] o
    by (auto simp: completion_outcome_def)
qed

theorem h2_stream_completes_witness:
  "completion_future (h2_run crt_errors_ex (\<lambda>_ _. Some (UserExc 1)) [Response 200 [], RemoteEnd, Complete 0]
     (h2_stream_init Http2 (PFun 1) PNone)) = Finished (Inr (Some 200))"
  using h2_stream_completes [of "[Response 200 [], RemoteEnd]" _ crt_errors_ex "\<lambda>_ _. Some (UserExc 1)" 0
      Http2 "PFun 1" PNone, OF _ refl]
  by simp

section \<open>Headers\<close>

lemma get_values_from_eq:
  "get_values_from get_index name i n =
     map snd (filter (\<lambda>p. lower (fst p) = name) (map get_index [i..<i + n]))"
proof (induction n arbitrary: i)
  case 0
  then show ?case by simp
next
  case (Suc n)
  have "[i..<i + Suc n] = i # [Suc i..<Suc i + n]" by (simp add: upt_rec)
  then show ?case by (simp add: Suc split: prod.splits)
qed

text \<open>
  \<open>get_values\<close> yields, in order, the values of exactly those headers whose names agree
  with the given one up to case; in particular the case of the argument does not matter.
\<close>

lemma get_values_spec:
  "get_values count get_index name =
     map snd (filter (\<lambda>p. lower (fst p) = lower name) (headers_iter count get_index)) \<and>
   get_values count get_index (lower name) = get_values count get_index name"
  by (simp add: get_values_def headers_iter_def get_values_from_eq)

end
