(* ===== verification/Aio_Http.thy ===== *)
theory Aio_Http
  imports Http
begin

text \<open>
  \<open>awscrt/aio/http.py\<close>: connections and streams for \<open>asyncio\<close>. The response body of a
  stream passes from the native event-loop thread to the coroutines that await it through two
  deques under one lock. The model follows the code's critical sections: each \<open>with
  self._deque_lock\<close> block is one atomic step, and the \<open>set_result\<close> calls made outside
  the lock are steps of their own, so that the calls of the two threads interleave as they may at
  run time.
\<close>

section \<open>Connections\<close>

definition AIOHttpClientConnectionUnified_new_args ::
  "string \<Rightarrow> int \<Rightarrow> pyval \<Rightarrow> pyval \<Rightarrow> pyval \<Rightarrow> pyval \<Rightarrow> bool \<Rightarrow> int option \<Rightarrow> conn_args" where
  "AIOHttpClientConnectionUnified_new_args host port bs so tls proxy mwm iws =
     (generic_args host port)\<lparr>arg_bootstrap := bs, arg_socket_options := so,
        arg_tls_connection_options := tls, arg_proxy_options := proxy,
        arg_asyncio_connection := True, arg_manual_window_management := mwm,
        arg_initial_window_size := iws\<rparr>"

definition AIOHttpClientConnection_new_args ::
  "string \<Rightarrow> int \<Rightarrow> pyval \<Rightarrow> pyval \<Rightarrow> pyval \<Rightarrow> pyval \<Rightarrow> bool \<Rightarrow> int option \<Rightarrow> int option \<Rightarrow> conn_args" where
  "AIOHttpClientConnection_new_args host port bs so tls proxy mwm iws rbc =
     (generic_args host port)\<lparr>arg_bootstrap := bs, arg_socket_options := so,
        arg_tls_connection_options := tls, arg_proxy_options := proxy,
        arg_expected_version := Some Http1_1, arg_asyncio_connection := True,
        arg_manual_window_management := mwm, arg_initial_window_size := iws,
        arg_read_buffer_capacity := rbc\<rparr>"

definition AIOHttp2ClientConnection_new_args ::
  "string \<Rightarrow> int \<Rightarrow> pyval \<Rightarrow> pyval \<Rightarrow> pyval \<Rightarrow> pyval \<Rightarrow> Http2Setting list option \<Rightarrow> pyval \<Rightarrow> bool \<Rightarrow>
   int option \<Rightarrow> bool \<Rightarrow> int option \<Rightarrow> int option \<Rightarrow> conn_args" where
  "AIOHttp2ClientConnection_new_args host port bs so tls proxy sets cb mwm iws cmwm cwt swt =
     (generic_args host port)\<lparr>arg_bootstrap := bs, arg_socket_options := so,
        arg_tls_connection_options := tls, arg_proxy_options := proxy,
        arg_expected_version := Some Http2, arg_initial_settings := sets,
        arg_on_remote_settings_changed := cb, arg_asyncio_connection := True,
        arg_manual_window_management := mwm, arg_initial_window_size := iws,
        arg_conn_manual_window_management := cmwm, arg_conn_window_size_threshold := cwt,
        arg_stream_window_size_threshold := swt\<rparr>"

section \<open>The stream\<close>

text \<open>
  Each call of \<open>get_next_response_chunk\<close> gets the next number. \<open>gets\<close> holds the calls
  so far: \<open>Some v\<close> for one that returned \<open>v\<close> at once, \<open>None\<close> for one that
  waits for its future; \<open>futs k\<close> is the future of call \<open>k\<close>, and \<open>chunk_futures\<close>
  the deque of the waiting ones. \<open>received_log\<close> records the chunks the native layer delivered.
\<close>

record aio_stream = world +
  aio_status_code :: "int option"
  response_status_future :: "int fut"
  response_headers_future :: "(string \<times> string) list fut"
  chunk_futures :: "nat list"
  received_chunks :: "bytes list"
  aio_completion_future :: "int option fut"
  remote_completion_future :: "unit fut"
  futs :: "nat \<Rightarrow> bytes fut"
  gets :: "bytes option list"
  received_log :: "bytes list"

definition aio_init :: aio_stream where
  "aio_init = \<lparr>trace = [], aio_status_code = None, response_status_future = Pending,
     response_headers_future = Pending, chunk_futures = [], received_chunks = [],
     aio_completion_future = Pending, remote_completion_future = Pending,
     futs = (\<lambda>_. Pending), gets = [], received_log = []\<rparr>"

text \<open>The argument \<open>loop\<close>: absent, an event loop, or something else.\<close>

datatype loop_arg = NoLoop | ALoop | NotALoop

text \<open>\<open>__init__\<close>: the native stream is created first, and activated last; the writer task is
  recorded as an event. HTTP/2 manual writes are used exactly for a body generator on HTTP/2.\<close>

definition AIOHttpClientStreamUnified_init ::
  "native_env \<Rightarrow> http_connection \<Rightarrow> pyval \<Rightarrow> bool \<Rightarrow> loop_arg \<Rightarrow> (aio_stream, unit) py" where
  "AIOHttpClientStreamUnified_init N conn request has_generator loop =
     thenE (py_assert (isinstance request ''HttpRequest''))
    (thenE (native N ''http_client_stream_new''
       [PObj ''stream'' 0, PObj ''connection'' 0, request,
        PBool (has_generator \<and> conn_version conn = Http2)])
    (thenE (if loop = NotALoop
            then raise (TypeError ''loop must be an instance of asyncio.AbstractEventLoop'')
            else ret ())
    (thenE (updE (\<lambda>s. s\<lparr>chunk_futures := [], received_chunks := [], aio_completion_future := Pending,
              remote_completion_future := Pending, response_status_future := Pending,
              response_headers_future := Pending, aio_status_code := None\<rparr>))
    (thenE (if has_generator then emit (Callback ''create_task'' []) else ret ())
    (thenE (native N ''http_client_stream_activate'' [PObj ''stream'' 0]) (ret ()))))))"

text \<open>
  The methods of the connections. \<open>close\<close> awaits the future of the shutdown. A request on an
  HTTP/1.1 connection leaves the body generator aside; each makes a stream of a class that differs
  from the unified one in its name only, but for one thing: the unified class itself declares its
  attributes (\<open>__slots__\<close>) without \<open>_remote_completion_future\<close>, so that assigning it raises
  there, while the classes derived from it declare nothing and accept it.
\<close>

definition aio_close :: "native_env \<Rightarrow> pyval \<Rightarrow> unit fut \<Rightarrow> ('a world_scheme, unit fut) py" where
  "aio_close N binding shutdown =
     thenE (native N ''http_connection_close'' [binding]) (ret shutdown)"

definition aio_update_window :: "native_env \<Rightarrow> pyval \<Rightarrow> int \<Rightarrow> ('a world_scheme, unit) py" where
  "aio_update_window N binding increment_size =
     thenE (native N ''http2_connection_update_window'' [binding, PInt increment_size]) (ret ())"

abbreviation AIOHttpClientStream_init ::
  "native_env \<Rightarrow> http_connection \<Rightarrow> pyval \<Rightarrow> loop_arg \<Rightarrow> (aio_stream, unit) py" where
  "AIOHttpClientStream_init N conn request loop \<equiv> AIOHttpClientStreamUnified_init N conn request False loop"

abbreviation AIOHttp2ClientStream_init ::
  "native_env \<Rightarrow> http_connection \<Rightarrow> pyval \<Rightarrow> bool \<Rightarrow> loop_arg \<Rightarrow> (aio_stream, unit) py" where
  "AIOHttp2ClientStream_init N conn request has_generator loop \<equiv>
     AIOHttpClientStreamUnified_init N conn request has_generator loop"

definition AIOHttpClientConnection_request ::
  "native_env \<Rightarrow> http_connection \<Rightarrow> pyval \<Rightarrow> bool \<Rightarrow> loop_arg \<Rightarrow> (aio_stream, unit) py" where
  "AIOHttpClientConnection_request N conn request has_generator loop =
     AIOHttpClientStream_init N conn request loop"

definition AIOHttp2ClientConnection_request ::
  "native_env \<Rightarrow> http_connection \<Rightarrow> pyval \<Rightarrow> bool \<Rightarrow> loop_arg \<Rightarrow> (aio_stream, unit) py" where
  "AIOHttp2ClientConnection_request N conn request has_generator loop =
     AIOHttp2ClientStream_init N conn request has_generator loop"

definition AIOHttpClientConnectionUnified_request ::
  "native_env \<Rightarrow> http_connection \<Rightarrow> pyval \<Rightarrow> bool \<Rightarrow> loop_arg \<Rightarrow> (aio_stream, unit) py" where
  "AIOHttpClientConnectionUnified_request N conn request has_generator loop =
     thenE (py_assert (isinstance request ''HttpRequest''))
    (thenE (native N ''http_client_stream_new''
       [PObj ''stream'' 0, PObj ''connection'' 0, request,
        PBool (has_generator \<and> conn_version conn = Http2)])
    (thenE (if loop = NotALoop
            then raise (TypeError ''loop must be an instance of asyncio.AbstractEventLoop'')
            else ret ())
    (thenE (updE (\<lambda>s. s\<lparr>chunk_futures := [], received_chunks := [], aio_completion_future := Pending\<rparr>))
           (raise (AttributeError ''_remote_completion_future'')))))"

text \<open>
  A new stream starts with nothing received and nothing answered, after its native stream has been
  made and then activated; the flag for manual writes is set exactly for a body generator.
\<close>

lemma aio_request_starts:
  assumes "AIOHttp2ClientConnection_request N conn request gen loop aio_init = (Inr (), s)"
    and "conn_version conn = Http2"
  shows "s = aio_init\<lparr>trace := [Native ''http_client_stream_new''
      [PObj ''stream'' 0, PObj ''connection'' 0, request, PBool gen]] @
      (if gen then [Callback ''create_task'' []] else []) @
      [Native ''http_client_stream_activate'' [PObj ''stream'' 0]]\<rparr>"
  using assms
  by (auto simp: AIOHttp2ClientConnection_request_def AIOHttpClientStreamUnified_init_def aio_init_def py_monad
      split: if_splits sum.splits)

lemma unified_request_raises: "fst (AIOHttpClientConnectionUnified_request N conn request gen loop s) \<noteq> Inr ()"
  by (auto simp: AIOHttpClientConnectionUnified_request_def py_monad split: if_splits sum.splits)

definition aio_on_response ::
  "int \<Rightarrow> (string \<times> string) list \<Rightarrow> (aio_stream, unit) py" where
  "aio_on_response status_code name_value_pairs =
     thenE (updE (\<lambda>s. s\<lparr>aio_status_code := Some status_code\<rparr>))
    (thenE (resolve response_status_future (\<lambda>f. response_status_future_update (\<lambda>_. f)) (Inr status_code))
       (resolve response_headers_future (\<lambda>f. response_headers_future_update (\<lambda>_. f))
          (Inr name_value_pairs)))"

text \<open>\<open>future.set_result(v)\<close> on the future of call \<open>k\<close>.\<close>

definition set_chunk :: "nat \<Rightarrow> bytes \<Rightarrow> (aio_stream, unit) py" where
  "set_chunk k v = resolve (\<lambda>s. futs s k) (\<lambda>f s. s\<lparr>futs := (futs s)(k := f)\<rparr>) (Inr v)"

text \<open>The locked block of \<open>_on_body\<close>: the waiting call to serve, if there is one.\<close>

definition on_body_locked :: "bytes \<Rightarrow> aio_stream \<Rightarrow> nat option \<times> aio_stream" where
  "on_body_locked chunk s =
     (case chunk_futures s of
        k # ks \<Rightarrow> (Some k, s\<lparr>chunk_futures := ks, received_log := received_log s @ [chunk]\<rparr>)
      | [] \<Rightarrow> (None, s\<lparr>received_chunks := received_chunks s @ [chunk],
                     received_log := received_log s @ [chunk]\<rparr>))"

definition aio_on_body :: "bytes \<Rightarrow> (aio_stream, unit) py" where
  "aio_on_body chunk =
     bindE (\<lambda>s. case on_body_locked chunk s of (r, s') \<Rightarrow> (Inr r, s')) (\<lambda>r.
       case r of None \<Rightarrow> ret () | Some k \<Rightarrow> set_chunk k chunk)"

text \<open>The locked block of \<open>_resolve_pending_chunk_futures\<close>, and its loop.\<close>

definition take_pending :: "aio_stream \<Rightarrow> nat list \<times> aio_stream" where
  "take_pending s = (chunk_futures s, s\<lparr>chunk_futures := []\<rparr>)"

fun set_all_empty :: "nat list \<Rightarrow> (aio_stream, unit) py" where
  "set_all_empty [] = ret ()"
| "set_all_empty (k # ks) = thenE (set_chunk k []) (set_all_empty ks)"

definition resolve_pending_chunk_futures :: "(aio_stream, unit) py" where
  "resolve_pending_chunk_futures =
     bindE (\<lambda>s. case take_pending s of (ks, s') \<Rightarrow> (Inr ks, s')) set_all_empty"

abbreviation resolve_aio_completion :: "crt_errors \<Rightarrow> int \<Rightarrow> (aio_stream, unit) py" where
  "resolve_aio_completion E err \<equiv> (\<lambda>s.
     resolve aio_completion_future (\<lambda>f. aio_completion_future_update (\<lambda>_. f))
       (completion_outcome E err (aio_status_code s)) s)"

abbreviation resolve_remote_completion :: "(aio_stream, unit) py" where
  "resolve_remote_completion \<equiv>
     resolve remote_completion_future (\<lambda>f. remote_completion_future_update (\<lambda>_. f)) (Inr ())"

definition aio_on_complete :: "crt_errors \<Rightarrow> int \<Rightarrow> (aio_stream, unit) py" where
  "aio_on_complete E error_code =
     thenE (resolve_aio_completion E error_code) resolve_pending_chunk_futures"

definition aio_on_h2_remote_end_stream :: "(aio_stream, unit) py" where
  "aio_on_h2_remote_end_stream = thenE resolve_remote_completion resolve_pending_chunk_futures"

definition aio_closed :: "aio_stream \<Rightarrow> bool" where
  "aio_closed s = (fut_done (aio_completion_future s) \<or> fut_done (remote_completion_future s))"

text \<open>The locked block of \<open>get_next_response_chunk\<close>: a value, or the future to await.\<close>

definition get_next_response_chunk :: "aio_stream \<Rightarrow> aio_stream" where
  "get_next_response_chunk s =
     (case received_chunks s of
        c # cs \<Rightarrow> s\<lparr>received_chunks := cs, gets := gets s @ [Some c]\<rparr>
      | [] \<Rightarrow>
          if aio_closed s then s\<lparr>gets := gets s @ [Some []]\<rparr>
          else s\<lparr>futs := (futs s)(length (gets s) := Pending),
                 chunk_futures := chunk_futures s @ [length (gets s)],
                 gets := gets s @ [None]\<rparr>)"

text \<open>The futures that the other coroutines await.\<close>

definition get_response_status_code :: "aio_stream \<Rightarrow> int fut" where
  "get_response_status_code s = response_status_future s"

definition get_response_headers :: "aio_stream \<Rightarrow> (string \<times> string) list fut" where
  "get_response_headers s = response_headers_future s"

definition wait_for_completion :: "aio_stream \<Rightarrow> int option fut" where
  "wait_for_completion s = aio_completion_future s"

text \<open>What call \<open>k\<close> has obtained so far.\<close>

definition got :: "aio_stream \<Rightarrow> nat \<Rightarrow> bytes option" where
  "got s k =
     (if k < length (gets s) then
        (case gets s ! k of
           Some v \<Rightarrow> Some v
         | None \<Rightarrow> (case futs s k of Finished (Inr v) \<Rightarrow> Some v | _ \<Rightarrow> None))
      else None)"

section \<open>Sending a request body\<close>

text \<open>
  \<open>AIOHttp2ClientStream._set_request_body_generator\<close>: the chunks the generator yields, the
  exception it ends with, if any, and for each write, by its number, the exception it fails with,
  if any. The result is the sequence of writes \<open>(body, end_stream)\<close> and the outcome.
\<close>

fun write_chunks ::
  "(nat \<Rightarrow> pyexc option) \<Rightarrow> nat \<Rightarrow> bytes list \<Rightarrow> pyexc option \<Rightarrow> (bytes option \<times> bool) list \<times> pyexc option" where
  "write_chunks W i [] gen_exc = ([], gen_exc)"
| "write_chunks W i (c # cs) gen_exc =
     (case W i of
        Some e \<Rightarrow> ([(Some c, False)], Some e)
      | None \<Rightarrow> (case write_chunks W (Suc i) cs gen_exc of (ws, r) \<Rightarrow> ((Some c, False) # ws, r)))"

definition set_request_body_generator ::
  "(nat \<Rightarrow> pyexc option) \<Rightarrow> bytes list \<Rightarrow> pyexc option \<Rightarrow> (bytes option \<times> bool) list \<times> pyexc option" where
  "set_request_body_generator W chunks gen_exc =
     (case write_chunks W 0 chunks gen_exc of
        (ws, r) \<Rightarrow>
          (ws @ [(None, True)],
           (case W (length ws) of Some e \<Rightarrow> Some e | None \<Rightarrow> r)))"

definition aio_write_data ::
  "native_env \<Rightarrow> nat \<Rightarrow> stream_arg \<Rightarrow> bool \<Rightarrow> ('a world_scheme, unit fut) py" where
  "aio_write_data N n body end_stream = h2_write_data N n body end_stream"

lemma write_chunks_prefix:
  "\<exists>n. fst (write_chunks W i chunks ge) = map (\<lambda>c. (Some c, False)) (take n chunks)"
proof (induction W i chunks ge rule: write_chunks.induct)
  case (1 W i ge)
  show ?case by simp
next
  case (2 W i c cs ge)
  show ?case
  proof (cases "W i")
    case (Some e)
    then show ?thesis by (intro exI [of _ 1]) simp
  next
    case None
    with 2 obtain n where
      "fst (write_chunks W (Suc i) cs ge) = map (\<lambda>c. (Some c, False)) (take n cs)" by blast
    then show ?thesis using None
      by (intro exI [of _ "Suc n"]) (auto split: prod.splits)
  qed
qed

lemma write_chunks_all:
  "(\<And>i. W i = None) \<Longrightarrow> write_chunks W i chunks ge = (map (\<lambda>c. (Some c, False)) chunks, ge)"
  by (induction chunks arbitrary: i) simp_all

text \<open>
  (C35) However the body generator and the writes behave, exactly one write ends the stream: it is
  the last one and carries no data. The writes before it carry a prefix of the generator's
  chunks, in order, and all of them if every write succeeds.
\<close>

theorem request_body_ends_once:
  "\<exists>ws r. set_request_body_generator W chunks ge = (ws @ [(None, True)], r) \<and>
     (\<exists>n. ws = map (\<lambda>c. (Some c, False)) (take n chunks)) \<and>
     ((\<forall>i. W i = None) \<longrightarrow> ws = map (\<lambda>c. (Some c, False)) chunks \<and> r = ge)"
proof -
  obtain ws r where w: "write_chunks W 0 chunks ge = (ws, r)" by fastforce
  with write_chunks_prefix [of W 0 chunks ge]
  have "\<exists>n. ws = map (\<lambda>c. (Some c, False)) (take n chunks)" by simp
  moreover have "ws = map (\<lambda>c. (Some c, False)) chunks \<and> r = ge" if "\<forall>i. W i = None"
    using write_chunks_all [of W 0 chunks ge] that w by simp
  ultimately show ?thesis using w
    by (auto simp: set_request_body_generator_def split: option.splits)
qed

theorem request_body_ends_once_witness:
  "set_request_body_generator (\<lambda>_. None) [[1], [2]] None =
     ([(Some [1], False), (Some [2], False), (None, True)], None)"
  using request_body_ends_once [of "\<lambda>_. None" "[[1], [2]]" None] by auto

section \<open>Two threads\<close>

text \<open>
  Where the native thread is between two of its steps: idle, about to hand a chunk to a waiting
  call, about to take the waiting calls, or about to resolve those it took.
\<close>

datatype native_pc = Idle | DeliverTo nat bytes | NeedResolve | Resolving "nat list"

datatype aio_event = BodyLock bytes | BodySet | CompleteSet int | RemoteEndSet | ResolveLock | ResolveSet
  | Get | ResponseEv int "(string \<times> string) list"

text \<open>
  The native layer calls one callback at a time, delivers no body after the end of the stream, and
  ends the stream at most once in each of the two ways. Coroutines may ask for a chunk at any
  point. The steps of the native thread are the pieces of \<open>_on_body\<close>,
  \<open>_on_complete\<close> and \<open>_on_h2_remote_end_stream\<close> between lock operations.
\<close>

inductive aio_step ::
  "crt_errors \<Rightarrow> aio_stream \<times> native_pc \<Rightarrow> aio_event \<Rightarrow> aio_stream \<times> native_pc \<Rightarrow> bool" for E where
  body_queue: "\<not> aio_closed s \<Longrightarrow> on_body_locked c s = (None, s') \<Longrightarrow>
     aio_step E (s, Idle) (BodyLock c) (s', Idle)"
| body_pop: "\<not> aio_closed s \<Longrightarrow> on_body_locked c s = (Some k, s') \<Longrightarrow>
     aio_step E (s, Idle) (BodyLock c) (s', DeliverTo k c)"
| body_set: "set_chunk k c s = (r, s') \<Longrightarrow> aio_step E (s, DeliverTo k c) BodySet (s', Idle)"
| complete: "resolve_aio_completion E err s = (Inr (), s') \<Longrightarrow>
     aio_step E (s, Idle) (CompleteSet err) (s', NeedResolve)"
| remote_end: "resolve_remote_completion s = (Inr (), s') \<Longrightarrow>
     aio_step E (s, Idle) RemoteEndSet (s', NeedResolve)"
| take: "take_pending s = (ks, s') \<Longrightarrow> aio_step E (s, NeedResolve) ResolveLock (s', Resolving ks)"
| resolve_one: "set_chunk k [] s = (Inr (), s') \<Longrightarrow>
     aio_step E (s, Resolving (k # ks)) ResolveSet (s', Resolving ks)"
| resolve_raise: "set_chunk k [] s = (Inl e, s') \<Longrightarrow>
     aio_step E (s, Resolving (k # ks)) ResolveSet (s', Idle)"
| resolve_end: "aio_step E (s, Resolving []) ResolveSet (s, Idle)"
| get: "aio_step E (s, pc) Get (get_next_response_chunk s, pc)"
| response: "aio_on_response st hs s = (Inr (), s') \<Longrightarrow>
     aio_step E (s, Idle) (ResponseEv st hs) (s', Idle)"

inductive_cases aio_stepE: "aio_step E sp e sp'"

fun pc_calls :: "native_pc \<Rightarrow> nat list" where
  "pc_calls (Resolving ks) = ks"
| "pc_calls _ = []"

definition aio_answered :: "aio_stream \<Rightarrow> native_pc \<Rightarrow> nat \<Rightarrow> bool" where
  "aio_answered s pc k =
     (case gets s ! k of
        Some v \<Rightarrow> v = received_log s ! k
      | None \<Rightarrow> futs s k = Finished (Inr (received_log s ! k)) \<or>
                pc = DeliverTo k (received_log s ! k) \<and> futs s k = Pending)"

definition aio_tail :: "aio_stream \<Rightarrow> native_pc \<Rightarrow> nat \<Rightarrow> bool" where
  "aio_tail s pc k =
     (case gets s ! k of
        Some v \<Rightarrow> v = [] \<and> aio_closed s
      | None \<Rightarrow> (k \<in> set (chunk_futures s) \<or> k \<in> set (pc_calls pc)) \<and> futs s k = Pending \<or>
                aio_closed s \<and> futs s k = Finished (Inr []))"

fun pc_ok :: "aio_stream \<Rightarrow> native_pc \<Rightarrow> bool" where
  "pc_ok s Idle = (aio_closed s \<longrightarrow> chunk_futures s = [])"
| "pc_ok s (DeliverTo k c) =
     (k < length (received_log s) \<and> k < length (gets s) \<and> c = received_log s ! k \<and>
      gets s ! k = None \<and> futs s k = Pending \<and> (aio_closed s \<longrightarrow> chunk_futures s = []))"
| "pc_ok s NeedResolve = aio_closed s"
| "pc_ok s (Resolving ks) =
     (aio_closed s \<and> chunk_futures s = [] \<and> distinct ks \<and>
      set ks \<subseteq> {length (received_log s)..<length (gets s)})"

definition aio_inv :: "aio_stream \<times> native_pc \<Rightarrow> bool" where
  "aio_inv sp = (case sp of (s, pc) \<Rightarrow>
     received_chunks s = drop (length (gets s)) (received_log s) \<and>
     (\<forall>k < length (gets s). k < length (received_log s) \<longrightarrow> aio_answered s pc k) \<and>
     (\<forall>k < length (gets s). length (received_log s) \<le> k \<longrightarrow> aio_tail s pc k) \<and>
     (\<not> aio_closed s \<longrightarrow> chunk_futures s = [length (received_log s)..<length (gets s)]) \<and>
     distinct (chunk_futures s) \<and>
     (\<forall>k \<in> set (chunk_futures s) \<union> set (pc_calls pc). futs s k = Pending) \<and>
     set (chunk_futures s) \<subseteq> {length (received_log s)..<length (gets s)} \<and>
     pc_ok s pc)"

lemmas aio_unf = aio_inv_def aio_answered_def aio_tail_def

lemma inv_init: "aio_inv (aio_init, Idle)"
  by (simp add: aio_unf aio_init_def aio_closed_def)

lemma on_body_None:
  "on_body_locked c s = (None, s') \<longleftrightarrow>
   chunk_futures s = [] \<and> s' = s\<lparr>received_chunks := received_chunks s @ [c], received_log := received_log s @ [c]\<rparr>"
  by (auto simp: on_body_locked_def split: list.splits)

lemma on_body_Some:
  "on_body_locked c s = (Some k, s') \<longleftrightarrow>
   (\<exists>ks. chunk_futures s = k # ks \<and> s' = s\<lparr>chunk_futures := ks, received_log := received_log s @ [c]\<rparr>)"
  by (auto simp: on_body_locked_def split: list.splits)

lemma aio_closed_frame [simp]:
  "aio_closed (s\<lparr>received_chunks := a\<rparr>) = aio_closed s"
  "aio_closed (s\<lparr>received_log := b\<rparr>) = aio_closed s"
  "aio_closed (s\<lparr>chunk_futures := c\<rparr>) = aio_closed s"
  "aio_closed (s\<lparr>futs := d\<rparr>) = aio_closed s"
  "aio_closed (s\<lparr>gets := e\<rparr>) = aio_closed s"
  "aio_closed (s\<lparr>aio_status_code := f\<rparr>) = aio_closed s"
  "aio_closed (s\<lparr>response_status_future := g\<rparr>) = aio_closed s"
  "aio_closed (s\<lparr>response_headers_future := h\<rparr>) = aio_closed s"
  by (simp_all add: aio_closed_def)

lemma inv_body_queue:
  assumes "aio_inv (s, Idle)" "\<not> aio_closed s" "chunk_futures s = []"
  shows "aio_inv (s\<lparr>received_chunks := received_chunks s @ [c], received_log := received_log s @ [c]\<rparr>, Idle)"
proof -
  have "[length (received_log s)..<length (gets s)] = []"
    using assms by (simp add: aio_inv_def)
  then have "length (gets s) \<le> length (received_log s)" by auto
  with assms show ?thesis
    by (auto simp: aio_unf nth_append less_Suc_eq split: option.splits)
qed

lemma inv_body_pop:
  assumes "aio_inv (s, Idle)" "\<not> aio_closed s" "chunk_futures s = k # ks"
  shows "aio_inv (s\<lparr>chunk_futures := ks, received_log := received_log s @ [c]\<rparr>, DeliverTo k c)"
proof -
  have cf: "k # ks = [length (received_log s)..<length (gets s)]"
    using assms by (simp add: aio_inv_def)
  have k: "k = length (received_log s)" "k < length (gets s)"
    "ks = [Suc (length (received_log s))..<length (gets s)]"
    using sym [OF cf] by (auto simp: upt_eq_Cons_conv)
  have t: "gets s ! k = None" "futs s k = Pending"
    using assms k by (auto simp: aio_unf split: option.splits)
  show ?thesis
    using assms k t by (auto simp: aio_unf nth_append less_Suc_eq split: option.splits)
qed

lemma set_chunk_pending:
  "futs s k = Pending \<Longrightarrow> set_chunk k v s = (Inr (), s\<lparr>futs := (futs s)(k := Finished (Inr v))\<rparr>)"
  by (simp add: set_chunk_def resolve_def)

lemma inv_body_set:
  assumes "aio_inv (s, DeliverTo k c)"
  shows "aio_inv (s\<lparr>futs := (futs s)(k := Finished (Inr c))\<rparr>, Idle)"
  using assms by (auto simp: aio_unf split: option.splits)

lemma inv_close:
  assumes "aio_inv (s, Idle)" "aio_closed s'"
    "received_chunks s' = received_chunks s" "received_log s' = received_log s"
    "gets s' = gets s" "futs s' = futs s" "chunk_futures s' = chunk_futures s"
  shows "aio_inv (s', NeedResolve)"
  using assms by (auto simp: aio_unf split: option.splits)

lemma inv_take:
  assumes "aio_inv (s, NeedResolve)"
  shows "aio_inv (s\<lparr>chunk_futures := []\<rparr>, Resolving (chunk_futures s))"
  using assms by (auto simp: aio_unf split: option.splits)

lemma inv_resolve_one:
  assumes "aio_inv (s, Resolving (k # ks))"
  shows "aio_inv (s\<lparr>futs := (futs s)(k := Finished (Inr []))\<rparr>, Resolving ks)"
  using assms by (auto simp: aio_unf split: option.splits)

lemma resolving_pending:
  "aio_inv (s, Resolving (k # ks)) \<Longrightarrow> futs s k = Pending"
  by (simp add: aio_inv_def)

lemma inv_get_queued:
  assumes "aio_inv (s, pc)" "received_chunks s = c # cs"
  shows "aio_inv (s\<lparr>received_chunks := cs, gets := gets s @ [Some c]\<rparr>, pc)"
proof -
  let ?g = "length (gets s)"
  have d: "drop ?g (received_log s) = c # cs" using assms by (simp add: aio_inv_def)
  then have g: "?g < length (received_log s)" by (metis drop_all leI list.discI)
  have c: "c = received_log s ! ?g" "cs = drop (Suc ?g) (received_log s)"
    using d g by (metis Cons_nth_drop_Suc list.inject)+
  show ?thesis using assms g c
    by (cases pc) (auto simp: aio_unf nth_append less_Suc_eq split: option.splits)
qed

lemma inv_get_closed:
  assumes "aio_inv (s, pc)" "received_chunks s = []" "aio_closed s"
  shows "aio_inv (s\<lparr>gets := gets s @ [Some []]\<rparr>, pc)"
  using assms by (cases pc) (auto simp: aio_unf nth_append less_Suc_eq split: option.splits)

lemma inv_get_wait:
  assumes "aio_inv (s, pc)" "received_chunks s = []" "\<not> aio_closed s"
  shows "aio_inv (s\<lparr>futs := (futs s)(length (gets s) := Pending),
     chunk_futures := chunk_futures s @ [length (gets s)], gets := gets s @ [None]\<rparr>, pc)"
  using assms by (cases pc) (auto simp: aio_unf nth_append less_Suc_eq split: option.splits)

lemma inv_get: "aio_inv (s, pc) \<Longrightarrow> aio_inv (get_next_response_chunk s, pc)"
  unfolding get_next_response_chunk_def
  by (cases "received_chunks s") (simp_all add: inv_get_queued inv_get_closed inv_get_wait)

lemma complete_frame:
  "resolve_aio_completion E err s = (Inr (), s') \<Longrightarrow>
   s' = s\<lparr>aio_completion_future := Finished (completion_outcome E err (aio_status_code s))\<rparr>"
  "resolve_remote_completion s = (Inr (), s') \<Longrightarrow>
   s' = s\<lparr>remote_completion_future := Finished (Inr ())\<rparr>"
  by (auto simp: resolve_def fut_complete_def split: if_splits)

lemma response_frame:
  "aio_on_response st hs s = (Inr (), s') \<Longrightarrow>
   s' = s\<lparr>aio_status_code := Some st, response_status_future := Finished (Inr st),
          response_headers_future := Finished (Inr hs)\<rparr>"
  by (auto simp: aio_on_response_def resolve_def fut_complete_def py_monad split: if_splits sum.splits)

lemma aio_inv_frame:
  assumes "received_chunks s' = received_chunks s" "received_log s' = received_log s"
    "gets s' = gets s" "futs s' = futs s" "chunk_futures s' = chunk_futures s"
    "aio_closed s' = aio_closed s"
  shows "aio_inv (s', pc) = aio_inv (s, pc)"
proof -
  have "aio_answered s' pc k = aio_answered s pc k" "aio_tail s' pc k = aio_tail s pc k" for k
    using assms by (simp_all add: aio_answered_def aio_tail_def split: option.split)
  moreover have "pc_ok s' pc = pc_ok s pc" using assms by (cases pc) simp_all
  ultimately show ?thesis using assms by (simp add: aio_inv_def)
qed

lemma inv_response:
  "aio_inv (s, pc) \<Longrightarrow> aio_inv (s\<lparr>aio_status_code := a, response_status_future := b,
          response_headers_future := c\<rparr>, pc)"
  by (subst aio_inv_frame [of _ s]) simp_all

lemma aio_step_inv: "aio_step E sp e sp' \<Longrightarrow> aio_inv sp \<Longrightarrow> aio_inv sp'"
proof (induction rule: aio_step.induct)
  case (body_queue s c s')
  then show ?case by (auto simp: on_body_None intro: inv_body_queue)
next
  case (body_pop s c k s')
  then show ?case by (auto simp: on_body_Some intro: inv_body_pop)
next
  case (body_set k c s r s')
  then have "futs s k = Pending" by (simp add: aio_inv_def)
  with body_set show ?case by (auto simp: set_chunk_pending intro: inv_body_set)
next
  case (complete err s s')
  from complete_frame(1) [OF complete(1)] show ?case
    by (intro inv_close [OF complete(2)]) (simp_all add: aio_closed_def)
next
  case (remote_end s s')
  from complete_frame(2) [OF remote_end(1)] show ?case
    by (intro inv_close [OF remote_end(2)]) (simp_all add: aio_closed_def)
next
  case (take s ks s')
  then show ?case by (auto simp: take_pending_def intro: inv_take)
next
  case (resolve_one k s s' ks)
  then show ?case by (auto simp: set_chunk_pending resolving_pending intro: inv_resolve_one)
next
  case (resolve_raise k s e s' ks)
  then show ?case by (simp add: set_chunk_pending resolving_pending)
next
  case (resolve_end s)
  then show ?case by (auto simp: aio_unf split: option.splits)
next
  case (get s pc)
  then show ?case by (simp add: inv_get)
next
  case (response st hs s s')
  then show ?case using response_frame inv_response by blast
qed

interpretation aio_sys: invariant_system "\<lambda>sp. sp = (aio_init, Idle)" "aio_step E" aio_inv for E
  by unfold_locales (auto simp: inv_init intro: aio_step_inv)

lemma inv_got:
  assumes "aio_inv (s, pc)" "got s k = Some v"
  shows "v = (if k < length (received_log s) then received_log s ! k else []) \<and>
         (length (received_log s) \<le> k \<longrightarrow> aio_closed s)"
proof -
  have k: "k < length (gets s)" using assms(2) by (simp add: got_def split: if_splits)
  show ?thesis
  proof (cases "k < length (received_log s)")
    case True
    with assms k have "aio_answered s pc k" by (simp add: aio_inv_def)
    with True k assms(2) show ?thesis
      by (auto simp: aio_answered_def got_def split: option.splits fut.splits sum.splits)
  next
    case False
    with assms k have "aio_tail s pc k" by (simp add: aio_inv_def)
    with False k assms(2) show ?thesis
      by (auto simp: aio_tail_def got_def split: option.splits fut.splits sum.splits)
  qed
qed

lemma inv_waiting:
  assumes "aio_inv (s, Idle)" "k < length (gets s)" "got s k = None"
  shows "length (received_log s) \<le> k \<and> \<not> aio_closed s \<and> received_chunks s = []"
proof -
  have n: "length (received_log s) \<le> k"
  proof (rule ccontr)
    assume "\<not> length (received_log s) \<le> k"
    with assms have "aio_answered s Idle k" by (simp add: aio_inv_def)
    with assms show False by (auto simp: aio_answered_def got_def split: option.splits)
  qed
  with assms have "aio_tail s Idle k" by (simp add: aio_inv_def)
  moreover have "aio_closed s \<Longrightarrow> chunk_futures s = []" using assms(1) by (simp add: aio_inv_def)
  moreover have "received_chunks s = []" using assms n by (simp add: aio_inv_def)
  ultimately show ?thesis using assms n
    by (auto simp: aio_tail_def got_def split: option.splits)
qed

lemma drain_resolving:
  "aio_inv (s, Resolving ks) \<Longrightarrow>
   \<exists>s'. run_steps (aio_step E) (s, Resolving ks) (replicate (Suc (length ks)) ResolveSet) (s', Idle) \<and>
        gets s' = gets s"
proof (induction ks arbitrary: s)
  case Nil
  show ?case by (auto simp: run_steps_Cons intro: aio_step.resolve_end)
next
  case (Cons k ks)
  let ?s = "s\<lparr>futs := (futs s)(k := Finished (Inr []))\<rparr>"
  have st: "aio_step E (s, Resolving (k # ks)) ResolveSet (?s, Resolving ks)"
    using Cons.prems by (intro aio_step.resolve_one) (simp add: set_chunk_pending resolving_pending)
  obtain s' where "run_steps (aio_step E) (?s, Resolving ks) (replicate (Suc (length ks)) ResolveSet) (s', Idle)"
    "gets s' = gets ?s"
    using Cons.IH [OF inv_resolve_one [OF Cons.prems]] by blast
  with run_Cons [of "aio_step E", OF st] show ?case by auto
qed

lemma drain:
  assumes "aio_inv (s, pc)"
  shows "\<exists>es s'. set es \<subseteq> {BodySet, ResolveLock, ResolveSet} \<and>
     run_steps (aio_step E) (s, pc) es (s', Idle) \<and> gets s' = gets s"
proof (cases pc)
  case Idle
  then show ?thesis by (intro exI [of _ "[]"]) (auto intro: run_Nil)
next
  case (DeliverTo k c)
  then have "futs s k = Pending" using assms by (simp add: aio_inv_def)
  then have "aio_step E (s, pc) BodySet (s\<lparr>futs := (futs s)(k := Finished (Inr c))\<rparr>, Idle)"
    unfolding DeliverTo by (intro aio_step.body_set) (rule set_chunk_pending)
  then show ?thesis
    by (intro exI [of _ "[BodySet]"]) (auto simp: run_steps_Cons)
next
  case (Resolving ks)
  from drain_resolving [OF assms [unfolded Resolving]] obtain s' where
    "run_steps (aio_step E) (s, pc) (replicate (Suc (length ks)) ResolveSet) (s', Idle)" "gets s' = gets s"
    unfolding Resolving by blast
  then show ?thesis by (intro exI [of _ "replicate (Suc (length ks)) ResolveSet"]) auto
next
  case NeedResolve
  let ?s = "s\<lparr>chunk_futures := []\<rparr>" and ?ks = "chunk_futures s"
  have st: "aio_step E (s, pc) ResolveLock (?s, Resolving ?ks)"
    unfolding NeedResolve by (intro aio_step.take) (simp add: take_pending_def)
  have "aio_inv (?s, Resolving ?ks)" using assms NeedResolve by (simp add: inv_take)
  from drain_resolving [OF this] obtain s' where
    r: "run_steps (aio_step E) (?s, Resolving ?ks) (replicate (Suc (length ?ks)) ResolveSet) (s', Idle)"
    and "gets s' = gets ?s" by blast
  moreover from st r have
    "run_steps (aio_step E) (s, pc) (ResolveLock # replicate (Suc (length ?ks)) ResolveSet) (s', Idle)"
    by (rule run_Cons)
  ultimately show ?thesis
    by (intro exI [of _ "ResolveLock # replicate (Suc (length ?ks)) ResolveSet"] exI [of _ s']) auto
qed

lemma step_closed: "aio_step E sp e sp' \<Longrightarrow> aio_closed (fst sp) \<Longrightarrow> aio_closed (fst sp')"
proof (induction rule: aio_step.induct)
  case (complete err s s')
  from complete_frame(1) [OF complete(1)] show ?case by (simp add: aio_closed_def)
next
  case (remote_end s s')
  from complete_frame(2) [OF remote_end(1)] show ?case by (simp add: aio_closed_def)
next
  case (response st hs s s')
  then show ?case using response_frame [OF response(1)] by simp
qed (auto simp: on_body_None on_body_Some set_chunk_def resolve_def take_pending_def
    get_next_response_chunk_def split: sum.splits list.splits)

interpretation aio_close: monotone_system "\<lambda>sp. sp = (aio_init, Idle)" "aio_step E" aio_inv
    "\<lambda>sp. aio_closed (fst sp)" for E
  by unfold_locales (rule step_closed)


definition aio_ex :: aio_stream where
  "aio_ex = snd (aio_on_body [7] (get_next_response_chunk aio_init))"

lemma aio_ex_run:
  "run_steps (aio_step E) (aio_init, Idle) [Get, BodyLock [7], BodySet] (aio_ex, Idle)"
proof -
  let ?g = "get_next_response_chunk aio_init"
  let ?b = "snd (on_body_locked [7] ?g)"
  have "aio_step E (aio_init, Idle) Get (?g, Idle)" by (rule aio_step.get)
  moreover have "aio_step E (?g, Idle) (BodyLock [7]) (?b, DeliverTo 0 [7])"
    by (rule aio_step.body_pop)
      (simp_all add: get_next_response_chunk_def aio_init_def aio_closed_def on_body_locked_def)
  moreover have "aio_step E (?b, DeliverTo 0 [7]) BodySet (aio_ex, Idle)"
    by (rule aio_step.body_set [of _ _ _ "Inr ()"])
      (simp add: aio_ex_def aio_on_body_def get_next_response_chunk_def aio_init_def aio_closed_def
        on_body_locked_def set_chunk_def resolve_def bindE_def)
  ultimately show ?thesis by (blast intro: run_Cons run_Nil)
qed

lemma aio_ex_got: "got aio_ex 0 = Some [7]" "received_log aio_ex = [[7]]"
  by (simp_all add: aio_ex_def aio_on_body_def get_next_response_chunk_def aio_init_def aio_closed_def
      on_body_locked_def set_chunk_def resolve_def bindE_def got_def)







section \<open>Cancellation\<close>

text \<open>
  A coroutine that awaits a chunk and is cancelled leaves its cancelled future at the head of
  the deque. The next chunk of the body is then lost: \<open>_on_body\<close> raises
  \<open>InvalidStateError\<close>, and the chunk is neither queued nor given to anyone.
\<close>

lemma cancelled_get_loses_chunk:
  assumes "chunk_futures s = k # ks" and "futs s k = Cancelled"
  shows "fst (aio_on_body c s) = Inl InvalidStateError \<and>
    received_chunks (snd (aio_on_body c s)) = received_chunks s \<and>
    futs (snd (aio_on_body c s)) = futs s"
  using assms by (simp add: aio_on_body_def on_body_locked_def set_chunk_def resolve_def bindE_def)

text \<open>
  The same leftover future stops the end-of-stream loop: when the stream completes, the calls
  queued behind it are removed from the deque but never resolved, so they wait for ever.
\<close>

lemma cancelled_get_blocks_others:
  assumes "chunk_futures s = k # ks" and "futs s k = Cancelled"
    and "\<not> fut_done (aio_completion_future s)" and "j \<in> set ks" and "futs s j = Pending"
  shows "chunk_futures (snd (aio_on_complete E err s)) = [] \<and>
    futs (snd (aio_on_complete E err s)) j = Pending"
  using assms
  by (simp add: aio_on_complete_def resolve_pending_chunk_futures_def take_pending_def set_chunk_def
      resolve_def py_monad)

text \<open>
  Cancelling \<open>wait_for_completion\<close> cancels the completion future itself, after which
  \<open>get_next_response_chunk\<close> reports the end of the body although the stream is still
  open: it takes a cancelled future for a completed stream.
\<close>

lemma cancelled_wait_truncates_body:
  assumes "received_chunks s = []" and "aio_completion_future s = Pending"
  shows "gets (get_next_response_chunk
     (s\<lparr>aio_completion_future := snd (fut_cancel (aio_completion_future s))\<rparr>)) = gets s @ [Some []]"
  using assms by (simp add: get_next_response_chunk_def aio_closed_def)

end
