(* ===== verification/Eventstream.thy ===== *)
theory Eventstream
  imports Int_Enum Py_Strings
begin

text \<open>
  \<open>awscrt/eventstream/__init__.py\<close>: the typed headers of event-stream messages, their
  constructors with the range checks, the type-checked accessors and the conversion from and to
  the tuples the native layer deals with. Shown: a constructor succeeds exactly for the integers
  that survive the fixed-width field of the wire format, the accessor gives back what the
  constructor was given and every other accessor raises, and the conversion to tuples is inverted
  by the conversion from tuples.
\<close>

datatype HeaderType =
    BOOL_TRUE
  | BOOL_FALSE
  | BYTE
  | INT16
  | INT32
  | INT64
  | BYTE_BUF
  | STRING
  | TIMESTAMP
  | UUID

primrec HeaderType_value :: "HeaderType \<Rightarrow> int" where
  "HeaderType_value HeaderType.BOOL_TRUE = 0"
| "HeaderType_value HeaderType.BOOL_FALSE = 1"
| "HeaderType_value HeaderType.BYTE = 2"
| "HeaderType_value HeaderType.INT16 = 3"
| "HeaderType_value HeaderType.INT32 = 4"
| "HeaderType_value HeaderType.INT64 = 5"
| "HeaderType_value HeaderType.BYTE_BUF = 6"
| "HeaderType_value HeaderType.STRING = 7"
| "HeaderType_value HeaderType.TIMESTAMP = 8"
| "HeaderType_value HeaderType.UUID = 9"

definition HeaderType_members :: "HeaderType list" where
  [enum_defs]: "HeaderType_members =
    [HeaderType.BOOL_TRUE, HeaderType.BOOL_FALSE, HeaderType.BYTE, HeaderType.INT16,
     HeaderType.INT32, HeaderType.INT64, HeaderType.BYTE_BUF, HeaderType.STRING,
     HeaderType.TIMESTAMP, HeaderType.UUID]"

interpretation HeaderType_enum: int_enum HeaderType_members HeaderType_value
  by (unfold_locales, rule enum_univI, case_tac x, simp_all add: enum_defs)

section \<open>UUIDs\<close>

text \<open>
  \<open>uuid.UUID\<close> holds a 128-bit integer; \<open>bytes\<close> are its 16 bytes, most significant
  first, and the constructor from bytes reads them in the same order.
\<close>

type_synonym uuid = "128 word"

definition UUID_bytes :: "uuid \<Rightarrow> bytes" where
  "UUID_bytes u = map (\<lambda>i. ucast (drop_bit (8 * (15 - i)) u)) [0..<16]"

definition UUID_of_bytes :: "bytes \<Rightarrow> pyexc + uuid" where
  "UUID_of_bytes b =
     (if length b \<noteq> 16 then Inl (ValueError ''bytes is not a 16-char string'')
      else Inr (word_rcat b))"

section \<open>Headers\<close>

text \<open>The values a header may hold; the type of the value is not enforced by the class.\<close>

datatype hvalue =
    HBool bool
  | HInt int
  | HBytes bytes
  | HStr string
  | HUuid uuid

record Header =
  h_name :: string
  h_value :: hvalue
  h_type :: HeaderType

definition BYTE_MIN :: int where "BYTE_MIN = - (2 ^ 7)"
definition BYTE_MAX :: int where "BYTE_MAX = 2 ^ 7 - 1"
definition INT16_MIN :: int where "INT16_MIN = - (2 ^ 15)"
definition INT16_MAX :: int where "INT16_MAX = 2 ^ 15 - 1"
definition INT32_MIN :: int where "INT32_MIN = - (2 ^ 31)"
definition INT32_MAX :: int where "INT32_MAX = 2 ^ 31 - 1"
definition INT64_MIN :: int where "INT64_MIN = - (2 ^ 63)"
definition INT64_MAX :: int where "INT64_MAX = 2 ^ 63 - 1"

lemmas int_limits = BYTE_MIN_def BYTE_MAX_def INT16_MIN_def INT16_MAX_def INT32_MIN_def
  INT32_MAX_def INT64_MIN_def INT64_MAX_def

definition from_bool :: "string \<Rightarrow> bool \<Rightarrow> Header" where
  "from_bool name v =
     (if v then \<lparr>h_name = name, h_value = HBool True, h_type = HeaderType.BOOL_TRUE\<rparr>
      else \<lparr>h_name = name, h_value = HBool False, h_type = HeaderType.BOOL_FALSE\<rparr>)"

definition from_byte :: "string \<Rightarrow> int \<Rightarrow> pyexc + Header" where
  "from_byte name v =
     (if v < BYTE_MIN \<or> v > BYTE_MAX
      then Inl (ValueError (''Value '' @ str_int v @ '' cannot fit in signed 8-bit byte''))
      else Inr \<lparr>h_name = name, h_value = HInt v, h_type = HeaderType.BYTE\<rparr>)"

definition from_int16 :: "string \<Rightarrow> int \<Rightarrow> pyexc + Header" where
  "from_int16 name v =
     (if v < INT16_MIN \<or> v > INT16_MAX
      then Inl (ValueError (''Value '' @ str_int v @ '' cannot fit in signed 16-bit int''))
      else Inr \<lparr>h_name = name, h_value = HInt v, h_type = HeaderType.INT16\<rparr>)"

definition from_int32 :: "string \<Rightarrow> int \<Rightarrow> pyexc + Header" where
  "from_int32 name v =
     (if v < INT32_MIN \<or> v > INT32_MAX
      then Inl (ValueError (''Value '' @ str_int v @ '' cannot fit in signed 32-bit int''))
      else Inr \<lparr>h_name = name, h_value = HInt v, h_type = HeaderType.INT32\<rparr>)"

definition from_int64 :: "string \<Rightarrow> int \<Rightarrow> pyexc + Header" where
  "from_int64 name v =
     (if v < INT64_MIN \<or> v > INT64_MAX
      then Inl (ValueError (''Value '' @ str_int v @ '' cannot fit in signed 64-bit int''))
      else Inr \<lparr>h_name = name, h_value = HInt v, h_type = HeaderType.INT64\<rparr>)"

definition from_byte_buf :: "string \<Rightarrow> bytes \<Rightarrow> Header" where
  "from_byte_buf name v = \<lparr>h_name = name, h_value = HBytes v, h_type = HeaderType.BYTE_BUF\<rparr>"

definition from_string :: "string \<Rightarrow> string \<Rightarrow> Header" where
  "from_string name v = \<lparr>h_name = name, h_value = HStr v, h_type = HeaderType.STRING\<rparr>"

definition from_timestamp :: "string \<Rightarrow> int \<Rightarrow> pyexc + Header" where
  "from_timestamp name v =
     (if v < INT64_MIN \<or> v > INT64_MAX
      then Inl (ValueError (''Value '' @ str_int v @ '' exceeds timestamp limits''))
      else Inr \<lparr>h_name = name, h_value = HInt v, h_type = HeaderType.TIMESTAMP\<rparr>)"

fun hvalue_class :: "hvalue \<Rightarrow> string" where
  "hvalue_class (HBool _) = ''bool''"
| "hvalue_class (HInt _) = ''int''"
| "hvalue_class (HBytes _) = ''bytes''"
| "hvalue_class (HStr _) = ''str''"
| "hvalue_class (HUuid _) = ''uuid.UUID''"

definition quote_char :: char where
  "quote_char = CHR 0x27"

fun from_uuid :: "string \<Rightarrow> hvalue \<Rightarrow> pyexc + Header" where
  "from_uuid name (HUuid u) = Inr \<lparr>h_name = name, h_value = HUuid u, h_type = HeaderType.UUID\<rparr>"
| "from_uuid name v =
     Inl (TypeError (''Value must be UUID, not <class '' @ [quote_char] @ hvalue_class v @ [quote_char] @ ''>''))"

text \<open>The tuples exchanged with native code: name, value, and the number of the type.\<close>

type_synonym header_tuple = "string \<times> hvalue \<times> int"

text \<open>\<open>UUID(bytes=v)\<close> asks for the length of \<open>v\<close> first, then insists on \<open>bytes\<close>;
  the length of a \<open>str\<close> is its number of code points.\<close>

definition str_len :: "string \<Rightarrow> nat" where
  "str_len s = length (filter (\<lambda>c. \<not> cont_byte (of_char c)) s)"

fun UUID_new :: "hvalue \<Rightarrow> pyexc + uuid" where
  "UUID_new (HBytes b) = UUID_of_bytes b"
| "UUID_new (HStr s) =
     (if str_len s \<noteq> 16 then Inl (ValueError ''bytes is not a 16-char string'') else Inl AssertionError)"
| "UUID_new v = Inl (TypeError (''object of type has no len()''))"

definition from_binding_tuple :: "header_tuple \<Rightarrow> pyexc + Header" where
  "from_binding_tuple t = (case t of (name, v, ty) \<Rightarrow>
     (case enum_call HeaderType_members HeaderType_value ty of
        Inl e \<Rightarrow> Inl e
      | Inr header_type \<Rightarrow>
          if header_type = HeaderType.UUID
          then (case UUID_new v of
                  Inl e \<Rightarrow> Inl e
                | Inr u \<Rightarrow> Inr \<lparr>h_name = name, h_value = HUuid u, h_type = header_type\<rparr>)
          else Inr \<lparr>h_name = name, h_value = v, h_type = header_type\<rparr>))"

fun value_bytes :: "hvalue \<Rightarrow> pyexc + bytes" where
  "value_bytes (HUuid u) = Inr (UUID_bytes u)"
| "value_bytes _ = Inl (AttributeError ''bytes'')"

definition as_binding_tuple :: "Header \<Rightarrow> pyexc + header_tuple" where
  "as_binding_tuple h =
     (if h_type h = HeaderType.UUID
      then (case value_bytes (h_value h) of
              Inl e \<Rightarrow> Inl e
            | Inr b \<Rightarrow> Inr (h_name h, HBytes b, HeaderType_value (h_type h)))
      else Inr (h_name h, h_value h, HeaderType_value (h_type h)))"

text \<open>\<open>_value_as\<close> and the accessors built on it. The text of the error names the two types
  (as \<open>str()\<close> of an \<open>IntEnum\<close> member does before Python 3.11).\<close>

fun HeaderType_str :: "HeaderType \<Rightarrow> string" where
  "HeaderType_str HeaderType.BOOL_TRUE = ''HeaderType.BOOL_TRUE''"
| "HeaderType_str HeaderType.BOOL_FALSE = ''HeaderType.BOOL_FALSE''"
| "HeaderType_str HeaderType.BYTE = ''HeaderType.BYTE''"
| "HeaderType_str HeaderType.INT16 = ''HeaderType.INT16''"
| "HeaderType_str HeaderType.INT32 = ''HeaderType.INT32''"
| "HeaderType_str HeaderType.INT64 = ''HeaderType.INT64''"
| "HeaderType_str HeaderType.BYTE_BUF = ''HeaderType.BYTE_BUF''"
| "HeaderType_str HeaderType.STRING = ''HeaderType.STRING''"
| "HeaderType_str HeaderType.TIMESTAMP = ''HeaderType.TIMESTAMP''"
| "HeaderType_str HeaderType.UUID = ''HeaderType.UUID''"

definition value_as :: "HeaderType \<Rightarrow> Header \<Rightarrow> pyexc + hvalue" where
  "value_as ty h =
     (if h_type h \<noteq> ty
      then Inl (TypeError (''Header type is '' @ HeaderType_str (h_type h) @ '', not '' @ HeaderType_str ty))
      else Inr (h_value h))"

definition value_as_bool :: "Header \<Rightarrow> pyexc + bool" where
  "value_as_bool h =
     (if h_type h = HeaderType.BOOL_TRUE then Inr True
      else if h_type h = HeaderType.BOOL_FALSE then Inr False
      else Inl (TypeError (''Header type is '' @ HeaderType_str (h_type h) @ '', not '' @
             HeaderType_str HeaderType.BOOL_TRUE @ '' or '' @ HeaderType_str HeaderType.BOOL_FALSE)))"

definition value_as_byte :: "Header \<Rightarrow> pyexc + hvalue" where
  "value_as_byte = value_as HeaderType.BYTE"

definition value_as_int16 :: "Header \<Rightarrow> pyexc + hvalue" where
  "value_as_int16 = value_as HeaderType.INT16"

definition value_as_int32 :: "Header \<Rightarrow> pyexc + hvalue" where
  "value_as_int32 = value_as HeaderType.INT32"

definition value_as_int64 :: "Header \<Rightarrow> pyexc + hvalue" where
  "value_as_int64 = value_as HeaderType.INT64"

definition value_as_byte_buf :: "Header \<Rightarrow> pyexc + hvalue" where
  "value_as_byte_buf = value_as HeaderType.BYTE_BUF"

definition value_as_string :: "Header \<Rightarrow> pyexc + hvalue" where
  "value_as_string = value_as HeaderType.STRING"

definition value_as_timestamp :: "Header \<Rightarrow> pyexc + hvalue" where
  "value_as_timestamp = value_as HeaderType.TIMESTAMP"

definition value_as_uuid :: "Header \<Rightarrow> pyexc + hvalue" where
  "value_as_uuid = value_as HeaderType.UUID"

lemmas value_as_defs = value_as_byte_def value_as_int16_def value_as_int32_def value_as_int64_def
  value_as_byte_buf_def value_as_string_def value_as_timestamp_def value_as_uuid_def

section \<open>Well-formed headers\<close>

lemma bit_rcat_bytes:
  "bit (word_rcat (bs :: bytes) :: 'b :: len word) n \<longleftrightarrow>
     n < LENGTH('b) \<and> n div 8 < length bs \<and> bit (rev bs ! (n div 8)) (n mod 8)"
  by (simp add: word_rcat_def bit_word_of_int_iff bit_horner_sum_uint_exp_iff [where 'a = 8, simplified])

lemma length_UUID_bytes [simp]: "length (UUID_bytes u) = 16"
  by (simp add: UUID_bytes_def)

lemma UUID_bytes_nth: "i < 16 \<Longrightarrow> UUID_bytes u ! i = ucast (drop_bit (8 * (15 - i)) u)"
  by (simp add: UUID_bytes_def)

lemma rcat_UUID_bytes: "word_rcat (UUID_bytes u) = u"
proof (rule bit_word_eqI)
  fix n assume n: "n < LENGTH(128)"
  then have d: "n div 8 < 16" by simp
  then have "rev (UUID_bytes u) ! (n div 8) = ucast (drop_bit (8 * (n div 8)) u)"
    by (simp add: rev_nth UUID_bytes_nth)
  with n d show "bit (word_rcat (UUID_bytes u) :: 128 word) n = bit u n"
    by (simp add: bit_rcat_bytes bit_simps mult.commute)
qed

lemma UUID_bytes_rcat: "length b = 16 \<Longrightarrow> UUID_bytes (word_rcat b) = b"
proof (rule nth_equalityI)
  fix i assume b: "length b = 16" and "i < length (UUID_bytes (word_rcat b))"
  then have i: "i < 16" by simp
  have "bit (UUID_bytes (word_rcat b) ! i) n = bit (b ! i) n" if "n < 8" for n
  proof -
    have q: "(8 * (15 - i) + n) div 8 = 15 - i" "(8 * (15 - i) + n) mod 8 = n" using that by simp_all
    have "8 * (15 - i) + n < 128" using that i by linarith
    with that i b q show ?thesis
      by (simp add: UUID_bytes_nth bit_rcat_bytes bit_simps rev_nth)
  qed
  then show "UUID_bytes (word_rcat b) ! i = b ! i" by (intro bit_word_eqI) simp
qed simp

interpretation uuid_codec: codec UUID_bytes "\<lambda>b. case UUID_of_bytes b of Inl _ \<Rightarrow> None | Inr u \<Rightarrow> Some u"
  by unfold_locales (auto simp: UUID_of_bytes_def rcat_UUID_bytes UUID_bytes_rcat split: if_splits)

fun type_ok :: "HeaderType \<Rightarrow> hvalue \<Rightarrow> bool" where
  "type_ok HeaderType.BOOL_TRUE (HBool b) = b"
| "type_ok HeaderType.BOOL_FALSE (HBool b) = (\<not> b)"
| "type_ok HeaderType.BYTE (HInt v) = (BYTE_MIN \<le> v \<and> v \<le> BYTE_MAX)"
| "type_ok HeaderType.INT16 (HInt v) = (INT16_MIN \<le> v \<and> v \<le> INT16_MAX)"
| "type_ok HeaderType.INT32 (HInt v) = (INT32_MIN \<le> v \<and> v \<le> INT32_MAX)"
| "type_ok HeaderType.INT64 (HInt v) = (INT64_MIN \<le> v \<and> v \<le> INT64_MAX)"
| "type_ok HeaderType.BYTE_BUF (HBytes _) = True"
| "type_ok HeaderType.STRING (HStr _) = True"
| "type_ok HeaderType.TIMESTAMP (HInt v) = (INT64_MIN \<le> v \<and> v \<le> INT64_MAX)"
| "type_ok HeaderType.UUID (HUuid _) = True"
| "type_ok _ _ = False"

definition header_wf :: "Header \<Rightarrow> bool" where
  "header_wf h = type_ok (h_type h) (h_value h)"

lemma sint_roundtrip:
  "sint (word_of_int v :: 'a :: len word) = v \<longleftrightarrow> - (2 ^ (LENGTH('a) - 1)) \<le> v \<and> v < 2 ^ (LENGTH('a) - 1)"
  by (transfer, simp add: signed_take_bit_int_eq_self_iff)

lemmas from_defs = from_byte_def from_int16_def from_int32_def from_int64_def from_timestamp_def

lemma value_as_type: "(\<exists>v. value_as ty h = Inr v) \<longleftrightarrow> ty = h_type h"
  by (auto simp: value_as_def)

lemma from_int_ok:
  "from_byte n v = Inr h \<Longrightarrow> header_wf h \<and> value_as_byte h = Inr (HInt v)"
  "from_int16 n v = Inr h \<Longrightarrow> header_wf h \<and> value_as_int16 h = Inr (HInt v)"
  "from_int32 n v = Inr h \<Longrightarrow> header_wf h \<and> value_as_int32 h = Inr (HInt v)"
  "from_int64 n v = Inr h \<Longrightarrow> header_wf h \<and> value_as_int64 h = Inr (HInt v)"
  "from_timestamp n v = Inr h \<Longrightarrow> header_wf h \<and> value_as_timestamp h = Inr (HInt v)"
  by (auto simp: from_defs header_wf_def value_as_defs value_as_def split: if_splits)

lemma from_other_ok:
  "header_wf (from_bool n b) \<and> value_as_bool (from_bool n b) = Inr b"
  "header_wf (from_byte_buf n bs) \<and> value_as_byte_buf (from_byte_buf n bs) = Inr (HBytes bs)"
  "header_wf (from_string n s) \<and> value_as_string (from_string n s) = Inr (HStr s)"
  "from_uuid n x = Inr h \<Longrightarrow> header_wf h \<and> value_as_uuid h = Inr x"
  by (simp_all add: from_bool_def from_byte_buf_def from_string_def header_wf_def value_as_defs
      value_as_def value_as_bool_def) (cases x; auto)

lemma tuple_wf: "header_wf h \<Longrightarrow> \<exists>t. as_binding_tuple h = Inr t \<and> from_binding_tuple t = Inr h"
proof -
  assume wf: "header_wf h"
  obtain n v ty where h: "h = \<lparr>h_name = n, h_value = v, h_type = ty\<rparr>" by (cases h) auto
  show ?thesis
  proof (cases "ty = HeaderType.UUID")
    case True
    with wf h obtain u where "v = HUuid u" by (cases v) (auto simp: header_wf_def)
    with h True show ?thesis
      by (simp add: as_binding_tuple_def from_binding_tuple_def HeaderType_enum.call_val
          UUID_of_bytes_def rcat_UUID_bytes del: HeaderType_value.simps)
  next
    case False
    with h show ?thesis
      by (simp add: as_binding_tuple_def from_binding_tuple_def HeaderType_enum.call_val)
  qed
qed

lemma tuple_back: "from_binding_tuple t = Inr h \<Longrightarrow> as_binding_tuple h = Inr t"
proof -
  assume f: "from_binding_tuple t = Inr h"
  obtain n v i where t: "t = (n, v, i)" by (cases t)
  with f obtain ty where ty: "enum_call HeaderType_members HeaderType_value i = Inr ty"
    by (auto simp: from_binding_tuple_def split: sum.splits)
  then have i: "HeaderType_value ty = i" by (rule HeaderType_enum.call_Inr)
  show ?thesis
  proof (cases "ty = HeaderType.UUID")
    case True
    with f t ty obtain u where u: "UUID_new v = Inr u" and h: "h = \<lparr>h_name = n, h_value = HUuid u, h_type = ty\<rparr>"
      by (auto simp: from_binding_tuple_def split: sum.splits)
    from u have "v = HBytes (UUID_bytes u)"
      by (cases v) (auto simp: UUID_of_bytes_def UUID_bytes_rcat split: if_splits)
    with h t i True show ?thesis by (simp add: as_binding_tuple_def)
  next
    case False
    with f t ty i show ?thesis by (auto simp: from_binding_tuple_def as_binding_tuple_def)
  qed
qed

text \<open>
  The constructors accept an integer exactly if it survives the fixed-width two's-complement
  field that the type of the header has on the wire: 8, 16, 32 and 64 bits; any other integer is
  refused with \<open>ValueError\<close>.
\<close>

lemma int_headers_fit_wire:
  "((\<exists>h. from_byte n v = Inr h) \<longleftrightarrow> sint (word_of_int v :: 8 word) = v) \<and>
   ((\<exists>h. from_int16 n v = Inr h) \<longleftrightarrow> sint (word_of_int v :: 16 word) = v) \<and>
   ((\<exists>h. from_int32 n v = Inr h) \<longleftrightarrow> sint (word_of_int v :: 32 word) = v) \<and>
   ((\<exists>h. from_int64 n v = Inr h) \<longleftrightarrow> sint (word_of_int v :: 64 word) = v) \<and>
   ((\<exists>h. from_timestamp n v = Inr h) \<longleftrightarrow> sint (word_of_int v :: 64 word) = v)"
  unfolding sint_roundtrip by (auto simp: from_defs int_limits)



text \<open>
  (C21) The tuples exchanged with native code lose nothing: every well-formed header has a tuple
  and is read back from it, and every header read from a tuple is written back as that tuple.
\<close>

theorem binding_tuple_roundtrip:
  "(header_wf h \<longrightarrow> (\<exists>t. as_binding_tuple h = Inr t \<and> from_binding_tuple t = Inr h)) \<and>
   (from_binding_tuple t = Inr h \<longrightarrow> as_binding_tuple h = Inr t)"
  using tuple_wf tuple_back by blast

theorem binding_tuple_roundtrip_witness:
  "\<exists>t. as_binding_tuple (from_bool ''b'' True) = Inr t \<and> from_binding_tuple t = Inr (from_bool ''b'' True)"
proof -
  have "header_wf (from_bool ''b'' True)" by (simp add: header_wf_def from_bool_def)
  with binding_tuple_roundtrip [of "from_bool ''b'' True"] show ?thesis by blast
qed


end
