(* ===== verification/Eventstream_Rpc.thy ===== *)
theory Eventstream_Rpc
  imports Eventstream Futures Crt_Exceptions
begin

text \<open>
  \<open>awscrt/eventstream/rpc.py\<close>: the client of the event-stream RPC protocol. A connection, its
  continuations (streams) and the messages being flushed each carry a future that a native
  callback completes in a \<open>finally\<close> clause, after running the user's handler. Shown: messages
  survive the conversion to and from the native representation; malformed messages never reach a
  handler; and every future ends with the outcome of the first callback for it, whatever the
  handlers raise and in whatever order the callbacks come.
\<close>

datatype MessageType =
    APPLICATION_MESSAGE
  | APPLICATION_ERROR
  | PING
  | PING_RESPONSE
  | CONNECT
  | CONNECT_ACK
  | PROTOCOL_ERROR
  | INTERNAL_ERROR

primrec MessageType_value :: "MessageType \<Rightarrow> int" where
  "MessageType_value MessageType.APPLICATION_MESSAGE = 0"
| "MessageType_value MessageType.APPLICATION_ERROR = 1"
| "MessageType_value MessageType.PING = 2"
| "MessageType_value MessageType.PING_RESPONSE = 3"
| "MessageType_value MessageType.CONNECT = 4"
| "MessageType_value MessageType.CONNECT_ACK = 5"
| "MessageType_value MessageType.PROTOCOL_ERROR = 6"
| "MessageType_value MessageType.INTERNAL_ERROR = 7"

definition MessageType_members :: "MessageType list" where
  [enum_defs]: "MessageType_members =
    [MessageType.APPLICATION_MESSAGE, MessageType.APPLICATION_ERROR, MessageType.PING,
     MessageType.PING_RESPONSE, MessageType.CONNECT, MessageType.CONNECT_ACK,
     MessageType.PROTOCOL_ERROR, MessageType.INTERNAL_ERROR]"

interpretation MessageType_enum: int_enum MessageType_members MessageType_value
  by (unfold_locales, rule enum_univI, case_tac x, simp_all add: enum_defs)

definition MessageFlag_NONE :: int where "MessageFlag_NONE = 0"
definition MessageFlag_CONNECTION_ACCEPTED :: int where "MessageFlag_CONNECTION_ACCEPTED = 1"
definition MessageFlag_TERMINATE_STREAM :: int where "MessageFlag_TERMINATE_STREAM = 2"

section \<open>Messages\<close>

text \<open>The arguments of the functions that send a message, and those native code works with.\<close>

record msg_args =
  m_headers :: "Header list option"
  m_payload :: "bytes option"
  m_message_type :: MessageType
  m_flags :: "int option"

record binding_msg =
  b_headers :: "header_tuple list"
  b_payload :: "bytes option"
  b_message_type :: int
  b_flags :: int

record received_msg =
  r_headers :: "Header list"
  r_payload :: bytes
  r_message_type :: MessageType
  r_flags :: int

text \<open>A list comprehension whose element expression may raise.\<close>

fun map_raise :: "('a \<Rightarrow> pyexc + 'b) \<Rightarrow> 'a list \<Rightarrow> pyexc + 'b list" where
  "map_raise f [] = Inr []"
| "map_raise f (x # xs) =
     (case f x of
        Inl e \<Rightarrow> Inl e
      | Inr y \<Rightarrow> (case map_raise f xs of Inl e \<Rightarrow> Inl e | Inr ys \<Rightarrow> Inr (y # ys)))"

definition to_binding_msg_args :: "msg_args \<Rightarrow> pyexc + binding_msg" where
  "to_binding_msg_args a =
     (case (case m_headers a of None \<Rightarrow> Inr [] | Some hs \<Rightarrow> map_raise as_binding_tuple hs) of
        Inl e \<Rightarrow> Inl e
      | Inr headers \<Rightarrow> Inr \<lparr>b_headers = headers,
          b_payload = Some (case m_payload a of None \<Rightarrow> [] | Some p \<Rightarrow> p),
          b_message_type = MessageType_value (m_message_type a),
          b_flags = (case m_flags a of None \<Rightarrow> MessageFlag_NONE | Some f \<Rightarrow> f)\<rparr>)"

definition from_binding_msg_args :: "binding_msg \<Rightarrow> pyexc + received_msg" where
  "from_binding_msg_args b =
     (case map_raise from_binding_tuple (b_headers b) of
        Inl e \<Rightarrow> Inl e
      | Inr headers \<Rightarrow>
          (case enum_call MessageType_members MessageType_value (b_message_type b) of
             Inl e \<Rightarrow> Inl e
           | Inr message_type \<Rightarrow> Inr \<lparr>r_headers = headers,
               r_payload = (case b_payload b of None \<Rightarrow> [] | Some p \<Rightarrow> p),
               r_message_type = message_type, r_flags = b_flags b\<rparr>))"

section \<open>The connection and its streams\<close>

text \<open>
  The futures of one connection: its two own ones, the \<open>closed_future\<close> of each of its
  continuations, and for each message sent its \<open>on_flush\<close> callback (or \<open>None\<close>) and the
  future that was returned. A future that may not be cancelled starts as \<open>Running\<close>.
\<close>

record rpc_state = world +
  rpc_host_name :: string
  rpc_port :: int
  rpc_connect_future :: "unit fut"
  rpc_shutdown_future :: "unit fut"
  closed_futures :: "unit fut list"
  flushes :: "(pyval \<times> unit fut) list"

definition ClientConnection_init :: "string \<Rightarrow> int \<Rightarrow> rpc_state" where
  "ClientConnection_init host port = \<lparr>trace = [], rpc_host_name = host, rpc_port = port,
     rpc_connect_future = fut_set_running Pending, rpc_shutdown_future = fut_set_running Pending,
     closed_futures = [], flushes = []\<rparr>"

definition pv_hvalue :: "hvalue \<Rightarrow> pyval" where
  "pv_hvalue v = (case v of HBool b \<Rightarrow> PBool b | HInt i \<Rightarrow> PInt i | HBytes b \<Rightarrow> PBytes b
     | HStr s \<Rightarrow> PStr s | HUuid u \<Rightarrow> PObj ''UUID'' (unat u))"

definition pv_tuple :: "header_tuple \<Rightarrow> pyval" where
  "pv_tuple t = (case t of (n, v, ty) \<Rightarrow> PTuple [PStr n, pv_hvalue v, PEnum ''HeaderType'' ty])"

definition pv_header :: "Header \<Rightarrow> pyval" where
  "pv_header h = PTuple [PStr ''Header'', PStr (h_name h), pv_hvalue (h_value h),
     PEnum ''HeaderType'' (HeaderType_value (h_type h))]"

definition pv_binding_msg :: "binding_msg \<Rightarrow> pyval list" where
  "pv_binding_msg b = [PList (map pv_tuple (b_headers b)), pv PBytes (b_payload b),
     PEnum ''MessageType'' (b_message_type b), PInt (b_flags b)]"

definition pv_received :: "received_msg \<Rightarrow> pyval list" where
  "pv_received r = [PList (map pv_header (r_headers r)), PBytes (r_payload r),
     PEnum ''MessageType'' (MessageType_value (r_message_type r)), PInt (r_flags r)]"

text \<open>\<open>connect\<close>: the default bootstrap, needed if none is given, is a parameter that may fail.\<close>

definition ClientConnection_connect ::
  "native_env \<Rightarrow> pyexc + pyval \<Rightarrow> pyval \<Rightarrow> pyval \<Rightarrow> pyval \<Rightarrow> (rpc_state, unit) py" where
  "ClientConnection_connect N default_bootstrap bootstrap socket_options tls =
     (let socket_options = py_or socket_options (PObj ''SocketOptions'' 0)
      in bindE (if \<not> truthy bootstrap then (\<lambda>s. (default_bootstrap, s)) else ret bootstrap) (\<lambda>bootstrap.
         bindE (getE (\<lambda>s. (rpc_host_name s, rpc_port s))) (\<lambda>hp.
         thenE (native N ''event_stream_rpc_client_connection_connect''
           [PStr (fst hp), PInt (snd hp), bootstrap, socket_options, tls, PObj ''ClientConnection'' 0])
         (ret ()))))"

definition rpc_error :: "crt_errors \<Rightarrow> int \<Rightarrow> pyexc option" where
  "rpc_error E error_code = (if error_code \<noteq> 0 then Some (from_code E error_code) else None)"

definition unit_outcome :: "pyexc option \<Rightarrow> pyexc + unit" where
  "unit_outcome e = (case e of Some e \<Rightarrow> Inl e | None \<Rightarrow> Inr ())"

definition rpc_on_connection_setup :: "crt_errors \<Rightarrow> user_env \<Rightarrow> int \<Rightarrow> (rpc_state, unit) py" where
  "rpc_on_connection_setup E U error_code =
     (let error = rpc_error E error_code;
          connection = (if error_code \<noteq> 0 then PNone else PObj ''ClientConnection'' 0)
      in try_finally (callback U ''on_connection_setup'' [connection, pv PExc error])
           (resolve rpc_connect_future (\<lambda>f. rpc_connect_future_update (\<lambda>_. f)) (unit_outcome error)))"

definition rpc_on_connection_shutdown :: "crt_errors \<Rightarrow> user_env \<Rightarrow> int \<Rightarrow> (rpc_state, unit) py" where
  "rpc_on_connection_shutdown E U error_code =
     (let reason = rpc_error E error_code
      in try_finally (callback U ''on_connection_shutdown'' [pv PExc reason])
           (resolve rpc_shutdown_future (\<lambda>f. rpc_shutdown_future_update (\<lambda>_. f)) (unit_outcome reason)))"

definition on_protocol_message :: "user_env \<Rightarrow> binding_msg \<Rightarrow> (rpc_state, unit) py" where
  "on_protocol_message U b =
     (case from_binding_msg_args b of
        Inl e \<Rightarrow> raise e
      | Inr m \<Rightarrow> callback U ''on_protocol_message'' (pv_received m))"

text \<open>\<open>_on_message_flush\<close>, for the message numbered \<open>k\<close>.\<close>

definition set_flush_future :: "nat \<Rightarrow> unit fut \<Rightarrow> rpc_state \<Rightarrow> rpc_state" where
  "set_flush_future k f s = s\<lparr>flushes := (flushes s)[k := (fst (flushes s ! k), f)]\<rparr>"

definition on_message_flush :: "crt_errors \<Rightarrow> user_env \<Rightarrow> nat \<Rightarrow> int \<Rightarrow> (rpc_state, unit) py" where
  "on_message_flush E U k error_code =
     (let e = rpc_error E error_code
      in try_finally
           (\<lambda>s. if truthy (fst (flushes s ! k)) then callback U ''on_flush'' [pv PExc e] s else (Inr (), s))
           (resolve (\<lambda>s. snd (flushes s ! k)) (set_flush_future k) (unit_outcome e)))"

text \<open>
  The part common to the functions that send: a fresh future, the conversion of the arguments, and
  the native call, which is handed the completion function of that future. The number of the
  future is returned.
\<close>

definition send_with :: "native_env \<Rightarrow> string \<Rightarrow> pyval list \<Rightarrow> msg_args \<Rightarrow> pyval \<Rightarrow> (rpc_state, nat) py" where
  "send_with N f args a on_flush =
     bindE (getE (\<lambda>s. length (flushes s))) (\<lambda>k.
     thenE (updE (\<lambda>s. s\<lparr>flushes := flushes s @ [(on_flush, fut_set_running Pending)]\<rparr>))
     (case to_binding_msg_args a of
        Inl e \<Rightarrow> raise e
      | Inr b \<Rightarrow> thenE (native N f (args @ pv_binding_msg b @ [PFun k])) (ret k)))"

definition send_protocol_message :: "native_env \<Rightarrow> msg_args \<Rightarrow> pyval \<Rightarrow> (rpc_state, nat) py" where
  "send_protocol_message N a on_flush =
     send_with N ''event_stream_rpc_client_connection_send_protocol_message''
       [PObj ''ClientConnection'' 0] a on_flush"

definition rpc_close :: "native_env \<Rightarrow> (rpc_state, unit) py" where
  "rpc_close N = thenE (native N ''event_stream_rpc_client_connection_close'' [PObj ''ClientConnection'' 0]) (ret ())"

definition rpc_is_open :: "native_env \<Rightarrow> (rpc_state, pyval) py" where
  "rpc_is_open N = native N ''event_stream_rpc_client_connection_is_open'' [PObj ''ClientConnection'' 0]"

text \<open>\<open>new_stream\<close> and the constructor of \<open>ClientContinuation\<close>; the number of the new
  continuation is returned.\<close>

abbreviation ClientContinuation_init :: "unit fut" where
  "ClientContinuation_init \<equiv> fut_set_running Pending"

definition new_stream :: "native_env \<Rightarrow> (rpc_state, nat) py" where
  "new_stream N =
     bindE (getE (\<lambda>s. length (closed_futures s))) (\<lambda>k.
     thenE (updE (\<lambda>s. s\<lparr>closed_futures := closed_futures s @ [ClientContinuation_init]\<rparr>))
    (thenE (native N ''event_stream_rpc_client_connection_new_stream'' [PObj ''ClientConnection'' 0])
       (ret k)))"

definition continuation_activate :: "native_env \<Rightarrow> nat \<Rightarrow> string \<Rightarrow> msg_args \<Rightarrow> pyval \<Rightarrow> (rpc_state, nat) py" where
  "continuation_activate N k operation a on_flush =
     send_with N ''event_stream_rpc_client_continuation_activate''
       [PObj ''Continuation_binding'' k, PObj ''ClientContinuation'' k, PStr operation] a on_flush"

definition send_message :: "native_env \<Rightarrow> nat \<Rightarrow> msg_args \<Rightarrow> pyval \<Rightarrow> (rpc_state, nat) py" where
  "send_message N k a on_flush =
     send_with N ''event_stream_rpc_client_continuation_send_message''
       [PObj ''Continuation_binding'' k] a on_flush"

definition continuation_is_closed :: "native_env \<Rightarrow> nat \<Rightarrow> (rpc_state, pyval) py" where
  "continuation_is_closed N k =
     native N ''event_stream_rpc_client_continuation_is_closed'' [PObj ''Continuation_binding'' k]"

definition on_continuation_closed :: "user_env \<Rightarrow> nat \<Rightarrow> (rpc_state, unit) py" where
  "on_continuation_closed U k =
     try_finally (callback U ''on_continuation_closed'' [PObj ''ClientContinuation'' k])
       (resolve (\<lambda>s. closed_futures s ! k) (\<lambda>f s. s\<lparr>closed_futures := (closed_futures s)[k := f]\<rparr>) (Inr ()))"

definition on_continuation_message :: "user_env \<Rightarrow> nat \<Rightarrow> binding_msg \<Rightarrow> (rpc_state, unit) py" where
  "on_continuation_message U k b =
     (case from_binding_msg_args b of
        Inl e \<Rightarrow> raise e
      | Inr m \<Rightarrow> callback U ''on_continuation_message'' (PObj ''ClientContinuation'' k # pv_received m))"

section \<open>Messages survive the conversion\<close>

lemma map_raise_roundtrip:
  "(\<And>x. x \<in> set xs \<Longrightarrow> \<exists>y. f x = Inr y \<and> g y = Inr x) \<Longrightarrow>
   \<exists>ys. map_raise f xs = Inr ys \<and> map_raise g ys = Inr xs"
proof (induction xs)
  case (Cons x xs)
  then obtain y ys where "f x = Inr y" "g y = Inr x" "map_raise f xs = Inr ys" "map_raise g ys = Inr xs"
    by (metis list.set_intros)
  then show ?case by (intro exI [of _ "y # ys"]) simp
qed simp

lemma map_raise_Inl: "(\<exists>e. map_raise f xs = Inl e) \<longleftrightarrow> (\<exists>x \<in> set xs. \<exists>e. f x = Inl e)"
  by (induction xs) (auto split: sum.splits)

text \<open>
  What is sent is what is received: for a message with well-formed headers the conversion to
  native arguments succeeds and the conversion back yields the same headers, payload, type and
  flags, an omitted argument counting as no headers, an empty payload or no flags.
\<close>

lemma binding_msg_roundtrip:
  assumes "list_all header_wf (case m_headers a of None \<Rightarrow> [] | Some hs \<Rightarrow> hs)"
  shows "\<exists>b. to_binding_msg_args a = Inr b \<and>
    from_binding_msg_args b = Inr \<lparr>r_headers = (case m_headers a of None \<Rightarrow> [] | Some hs \<Rightarrow> hs),
      r_payload = (case m_payload a of None \<Rightarrow> [] | Some p \<Rightarrow> p),
      r_message_type = m_message_type a,
      r_flags = (case m_flags a of None \<Rightarrow> 0 | Some f \<Rightarrow> f)\<rparr>"
proof -
  let ?hs = "case m_headers a of None \<Rightarrow> [] | Some hs \<Rightarrow> hs"
  obtain ts where "map_raise as_binding_tuple ?hs = Inr ts" "map_raise from_binding_tuple ts = Inr ?hs"
    using map_raise_roundtrip [of ?hs as_binding_tuple from_binding_tuple] tuple_wf assms
    by (metis list_all_iff)
  then show ?thesis
    by (cases "m_headers a"; cases "m_flags a")
      (auto simp: to_binding_msg_args_def from_binding_msg_args_def MessageFlag_NONE_def
        MessageType_enum.call_val)
qed

section \<open>Every future is settled\<close>

text \<open>What can happen to a connection: calls of its methods, and callbacks from native code.\<close>

datatype rpc_event =
    ConnSetup int
  | ConnShutdown int
  | ProtocolMessage binding_msg
  | Flushed nat int
  | ContClosed nat
  | ContMessage nat binding_msg
  | SendProtocol msg_args pyval
  | NewStream
  | Activate nat string msg_args pyval
  | SendMessage nat msg_args pyval
  | CloseConn

fun rpc_do :: "native_env \<Rightarrow> crt_errors \<Rightarrow> user_env \<Rightarrow> rpc_event \<Rightarrow> (rpc_state, unit) py" where
  "rpc_do N E U (ConnSetup err) = rpc_on_connection_setup E U err"
| "rpc_do N E U (ConnShutdown err) = rpc_on_connection_shutdown E U err"
| "rpc_do N E U (ProtocolMessage b) = on_protocol_message U b"
| "rpc_do N E U (Flushed k err) = on_message_flush E U k err"
| "rpc_do N E U (ContClosed k) = on_continuation_closed U k"
| "rpc_do N E U (ContMessage k b) = on_continuation_message U k b"
| "rpc_do N E U (SendProtocol a cb) = thenE (send_protocol_message N a cb) (ret ())"
| "rpc_do N E U NewStream = thenE (new_stream N) (ret ())"
| "rpc_do N E U (Activate k oper a cb) = thenE (continuation_activate N k oper a cb) (ret ())"
| "rpc_do N E U (SendMessage k a cb) = thenE (send_message N k a cb) (ret ())"
| "rpc_do N E U CloseConn = rpc_close N"

abbreviation rpc_exec :: "native_env \<Rightarrow> crt_errors \<Rightarrow> user_env \<Rightarrow> rpc_event \<Rightarrow> rpc_state \<Rightarrow> rpc_state" where
  "rpc_exec N E U e s \<equiv> snd (rpc_do N E U e s)"

fun setup_outcome :: "crt_errors \<Rightarrow> rpc_event \<Rightarrow> (pyexc + unit) option" where
  "setup_outcome E (ConnSetup err) = Some (if err = 0 then Inr () else Inl (from_code E err))"
| "setup_outcome E _ = None"

fun shutdown_outcome :: "crt_errors \<Rightarrow> rpc_event \<Rightarrow> (pyexc + unit) option" where
  "shutdown_outcome E (ConnShutdown err) = Some (if err = 0 then Inr () else Inl (from_code E err))"
| "shutdown_outcome E _ = None"

fun flush_outcome :: "crt_errors \<Rightarrow> nat \<Rightarrow> rpc_event \<Rightarrow> (pyexc + unit) option" where
  "flush_outcome E k (Flushed j err) =
     (if j = k then Some (if err = 0 then Inr () else Inl (from_code E err)) else None)"
| "flush_outcome E k _ = None"

fun closed_outcome :: "nat \<Rightarrow> rpc_event \<Rightarrow> (pyexc + unit) option" where
  "closed_outcome k (ContClosed j) = (if j = k then Some (Inr ()) else None)"
| "closed_outcome k _ = None"

lemmas rpc_ops = rpc_on_connection_setup_def rpc_on_connection_shutdown_def on_continuation_closed_def
  send_protocol_message_def continuation_activate_def send_message_def rpc_close_def

lemma unit_outcome_error [simp]:
  "unit_outcome (rpc_error E err) = (if err = 0 then Inr () else Inl (from_code E err))"
  by (simp add: unit_outcome_def rpc_error_def)

lemma send_with_state:
  "rpc_connect_future (snd (send_with N f args a cb s)) = rpc_connect_future s"
  "rpc_shutdown_future (snd (send_with N f args a cb s)) = rpc_shutdown_future s"
  "closed_futures (snd (send_with N f args a cb s)) = closed_futures s"
  "flushes (snd (send_with N f args a cb s)) = flushes s @ [(cb, Running)]"
  by (auto simp: send_with_def py_monad split: sum.splits)

lemma new_stream_state:
  "rpc_connect_future (snd (new_stream N s)) = rpc_connect_future s"
  "rpc_shutdown_future (snd (new_stream N s)) = rpc_shutdown_future s"
  "closed_futures (snd (new_stream N s)) = closed_futures s @ [Running]"
  "flushes (snd (new_stream N s)) = flushes s"
  by (auto simp: new_stream_def py_monad split: sum.splits)

lemma message_state:
  "rpc_connect_future (snd (on_protocol_message U b s)) = rpc_connect_future s"
  "rpc_shutdown_future (snd (on_protocol_message U b s)) = rpc_shutdown_future s"
  "closed_futures (snd (on_protocol_message U b s)) = closed_futures s"
  "flushes (snd (on_protocol_message U b s)) = flushes s"
  "rpc_connect_future (snd (on_continuation_message U k b s)) = rpc_connect_future s"
  "rpc_shutdown_future (snd (on_continuation_message U k b s)) = rpc_shutdown_future s"
  "closed_futures (snd (on_continuation_message U k b s)) = closed_futures s"
  "flushes (snd (on_continuation_message U k b s)) = flushes s"
  by (simp_all add: on_protocol_message_def on_continuation_message_def raise_def callback_state
      split: sum.splits)

lemma flush_state:
  "rpc_connect_future (snd (on_message_flush E U k err s)) = rpc_connect_future s"
  "rpc_shutdown_future (snd (on_message_flush E U k err s)) = rpc_shutdown_future s"
  "closed_futures (snd (on_message_flush E U k err s)) = closed_futures s"
  "flushes (snd (on_message_flush E U k err s)) =
     (flushes s)[k := (fst (flushes s ! k), settle (Some (unit_outcome (rpc_error E err))) (snd (flushes s ! k)))]"
  by (simp_all add: on_message_flush_def Let_def try_finally_resolve callback_state
      set_flush_future_def settle_def)

lemmas rpc_state_rules = callback_state native_state try_finally_resolve snd_thenE_ret
  send_with_state new_stream_state message_state flush_state

lemma connect_slot:
  "rpc_connect_future (rpc_exec N E U e s) = settle (setup_outcome E e) (rpc_connect_future s)"
  by (cases e) (simp_all add: rpc_ops rpc_state_rules settle_def Let_def)

lemma shutdown_slot:
  "rpc_shutdown_future (rpc_exec N E U e s) = settle (shutdown_outcome E e) (rpc_shutdown_future s)"
  by (cases e) (simp_all add: rpc_ops rpc_state_rules settle_def Let_def)

lemma flush_slot:
  "k < length (flushes s) \<Longrightarrow> k < length (flushes (rpc_exec N E U e s)) \<and>
    snd (flushes (rpc_exec N E U e s) ! k) = settle (flush_outcome E k e) (snd (flushes s ! k))"
  by (cases e) (simp_all add: rpc_ops rpc_state_rules settle_def Let_def nth_append nth_list_update)

lemma closed_slot:
  "k < length (closed_futures s) \<Longrightarrow> k < length (closed_futures (rpc_exec N E U e s)) \<and>
    closed_futures (rpc_exec N E U e s) ! k = settle (closed_outcome k e) (closed_futures s ! k)"
  by (cases e) (simp_all add: rpc_ops rpc_state_rules settle_def Let_def nth_append nth_list_update)

interpretation connect_fut: settled_slot "\<lambda>_. True" rpc_connect_future "rpc_exec N E U" "setup_outcome E"
  for N E U
  by unfold_locales (simp_all add: connect_slot)

interpretation shutdown_fut: settled_slot "\<lambda>_. True" rpc_shutdown_future "rpc_exec N E U" "shutdown_outcome E"
  for N E U
  by unfold_locales (simp_all add: shutdown_slot)

interpretation flush_fut: settled_slot "\<lambda>s. k < length (flushes s)" "\<lambda>s. snd (flushes s ! k)"
    "rpc_exec N E U" "flush_outcome E k" for N E U k
  by unfold_locales (simp_all add: flush_slot)

interpretation closed_fut: settled_slot "\<lambda>s. k < length (closed_futures s)" "\<lambda>s. closed_futures s ! k"
    "rpc_exec N E U" "closed_outcome k" for N E U k
  by unfold_locales (simp_all add: closed_slot)

text \<open>
  (C22) Whatever the handlers raise and in whatever order and number native callbacks and calls
  come, the connect and the shutdown future of a connection, the closed future of each of its
  streams and the flush future of each message end with the outcome of the first callback meant
  for them, and are untouched as long as there is none.
\<close>

theorem rpc_futures_settle:
  assumes "k < length (flushes s)" and "snd (flushes s ! k) = Running"
    and "j < length (closed_futures s)" and "closed_futures s ! j = Running"
    and "s' = run_events (rpc_exec N E U) es s"
    and "z = run_events (rpc_exec N E U) es (ClientConnection_init host port)"
  shows "rpc_connect_future z = settle (first_some (setup_outcome E) es) Running \<and>
    rpc_shutdown_future z = settle (first_some (shutdown_outcome E) es) Running \<and>
    snd (flushes s' ! k) = settle (first_some (flush_outcome E k) es) Running \<and>
    closed_futures s' ! j = settle (first_some (closed_outcome j) es) Running"
  using assms
  by (simp add: connect_fut.settled_run shutdown_fut.settled_run flush_fut.settled_run
      closed_fut.settled_run ClientConnection_init_def)

text \<open>A history: a stream is opened, a message sent, its handler raises while the message is
  flushed, the connection shuts down with an error and the stream closes.\<close>

definition rpc_ex_args :: msg_args where
  "rpc_ex_args = \<lparr>m_headers = None, m_payload = None, m_message_type = MessageType.PING, m_flags = None\<rparr>"

definition rpc_ex :: "user_env \<Rightarrow> rpc_state" where
  "rpc_ex U = run_events (rpc_exec (\<lambda>_ _. Inr PNone) crt_errors_ex U)
     [NewStream, SendProtocol rpc_ex_args (PFun 1)] (ClientConnection_init ''h'' 1)"

lemma rpc_ex_state: "flushes (rpc_ex U) = [(PFun 1, Running)]" "closed_futures (rpc_ex U) = [Running]"
  by (simp_all add: rpc_ex_def rpc_ops rpc_state_rules ClientConnection_init_def)

theorem rpc_futures_settle_witness:
  "snd (flushes (run_events (rpc_exec (\<lambda>_ _. Inr PNone) crt_errors_ex (\<lambda>_ _. Some (UserExc 7)))
      [Flushed 0 0, ConnShutdown 3, ContClosed 0] (rpc_ex (\<lambda>_ _. Some (UserExc 7)))) ! 0) = Finished (Inr ())"
  using rpc_futures_settle [of 0 "rpc_ex (\<lambda>_ _. Some (UserExc 7))" 0,
      OF _ _ _ _ refl refl, of "\<lambda>_ _. Inr PNone" crt_errors_ex "\<lambda>_ _. Some (UserExc 7)" "[Flushed 0 0, ConnShutdown 3, ContClosed 0]"]
  by (simp add: rpc_ex_state settle_def)

text \<open>
  A message that arrives with an unknown message type or a header that does not decode is
  reported as an exception and the handler never sees it; any other message invokes the handler
  exactly once, with the decoded headers, an absent payload as empty bytes, and the message type
  and flags it came with.
\<close>

lemma received_message_decoded:
  assumes "on_protocol_message U b s = (r, s')"
  shows "((\<exists>t \<in> set (b_headers b). \<exists>e. from_binding_tuple t = Inl e) \<or> b_message_type b \<notin> range MessageType_value \<longrightarrow>
      (\<exists>e. r = Inl e) \<and> s' = s) \<and>
    ((\<forall>t \<in> set (b_headers b). \<exists>h. from_binding_tuple t = Inr h) \<and> b_message_type b \<in> range MessageType_value \<longrightarrow>
      (\<exists>m. from_binding_msg_args b = Inr m \<and> map_raise from_binding_tuple (b_headers b) = Inr (r_headers m) \<and>
        r_payload m = (case b_payload b of None \<Rightarrow> [] | Some p \<Rightarrow> p) \<and>
        MessageType_value (r_message_type m) = b_message_type b \<and> r_flags m = b_flags b \<and>
        s' = s\<lparr>trace := trace s @ [Callback ''on_protocol_message'' (pv_received m)]\<rparr>))"
proof (cases "map_raise from_binding_tuple (b_headers b)")
  case (Inl e)
  then have "\<exists>t \<in> set (b_headers b). \<exists>e. from_binding_tuple t = Inl e" using map_raise_Inl by blast
  then have "\<not> (\<forall>t \<in> set (b_headers b). \<exists>h. from_binding_tuple t = Inr h)"
    by (metis sum.distinct(1))
  with Inl assms show ?thesis
    by (auto simp: on_protocol_message_def from_binding_msg_args_def raise_def)
next
  case (Inr hs)
  then have h: "\<not> (\<exists>t \<in> set (b_headers b). \<exists>e. from_binding_tuple t = Inl e)"
    using map_raise_Inl by (metis sum.distinct(1))
  from MessageType_enum.call_cases [of "b_message_type b"] show ?thesis
  proof
    assume "\<exists>e. b_message_type b = MessageType_value e \<and>
      enum_call MessageType_members MessageType_value (b_message_type b) = Inr e"
    then obtain ty where "b_message_type b = MessageType_value ty"
      "enum_call MessageType_members MessageType_value (b_message_type b) = Inr ty" by blast
    with assms Inr h show ?thesis
      by (auto simp: on_protocol_message_def from_binding_msg_args_def dest!: callback_to)
  next
    assume "b_message_type b \<notin> range MessageType_value \<and>
      enum_call MessageType_members MessageType_value (b_message_type b) =
        Inl (ValueError ''not a valid enum value'')"
    with assms Inr show ?thesis
      by (auto simp: on_protocol_message_def from_binding_msg_args_def raise_def)
  qed
qed

end
