(* ===== verification/Websocket.thy ===== *)
theory Websocket
  imports Http
begin

text \<open>
  \<open>awscrt/websocket.py\<close>: the WebSocket client. Native callbacks go through
  \<open>_WebSocketCore\<close>, which tracks the frame being received, builds the data passed to the
  user's callbacks and keeps exceptions of those callbacks from reaching native code. Shown: no
  user exception escapes and its consequence for the connection (kept open, or closed) is exactly
  the documented one; the frames the peer sends are reported in order and completely; and the
  checks on the read window.
\<close>

datatype Opcode =
    CONTINUATION
  | TEXT
  | BINARY
  | CLOSE
  | PING
  | PONG

primrec Opcode_value :: "Opcode \<Rightarrow> int" where
  "Opcode_value Opcode.CONTINUATION = 0"
| "Opcode_value Opcode.TEXT = 1"
| "Opcode_value Opcode.BINARY = 2"
| "Opcode_value Opcode.CLOSE = 8"
| "Opcode_value Opcode.PING = 9"
| "Opcode_value Opcode.PONG = 10"

definition Opcode_members :: "Opcode list" where
  [enum_defs]: "Opcode_members =
    [Opcode.CONTINUATION, Opcode.TEXT, Opcode.BINARY, Opcode.CLOSE, Opcode.PING, Opcode.PONG]"

interpretation Opcode_enum: int_enum Opcode_members Opcode_value
  by (unfold_locales, rule enum_univI, case_tac x, simp_all add: enum_defs)

definition Opcode_is_data_frame :: "Opcode \<Rightarrow> bool" where
  "Opcode_is_data_frame c = (c \<in> {Opcode.TEXT, Opcode.BINARY, Opcode.CONTINUATION})"

definition MAX_PAYLOAD_LENGTH :: int where
  "MAX_PAYLOAD_LENGTH = 0x7FFFFFFFFFFFFFFF"

section \<open>Data of the callbacks\<close>

record WebSocket =
  ws_binding :: pyval

record OnConnectionSetupData =
  setup_exception :: "pyexc option"
  setup_websocket :: "WebSocket option"
  handshake_response_status :: "int option"
  handshake_response_headers :: "(string \<times> string) list option"
  handshake_response_body :: "bytes option"

record IncomingFrame =
  frame_opcode :: Opcode
  frame_payload_length :: int
  frame_fin :: bool

definition frame_is_data_frame :: "IncomingFrame \<Rightarrow> bool" where
  "frame_is_data_frame f = Opcode_is_data_frame (frame_opcode f)"

definition pv_frame :: "IncomingFrame \<Rightarrow> pyval" where
  "pv_frame f = PTuple [PEnum ''Opcode'' (Opcode_value (frame_opcode f)),
     PInt (frame_payload_length f), PBool (frame_fin f)]"

definition pv_setup :: "OnConnectionSetupData \<Rightarrow> pyval" where
  "pv_setup d = PTuple [pv PExc (setup_exception d), pv ws_binding (setup_websocket d),
     pv PInt (handshake_response_status d),
     pv (\<lambda>hs. PList (map (\<lambda>(n, v). PTuple [PStr n, PStr v]) hs)) (handshake_response_headers d),
     pv PBytes (handshake_response_body d)]"

definition ws_error :: "crt_errors \<Rightarrow> int \<Rightarrow> pyexc option" where
  "ws_error E error_code = (if error_code \<noteq> 0 then Some (from_code E error_code) else None)"

section \<open>The WebSocket\<close>

definition websocket_close :: "native_env \<Rightarrow> WebSocket \<Rightarrow> ('a world_scheme, unit) py" where
  "websocket_close N w = thenE (native N ''websocket_close'' [ws_binding w]) (ret ())"

text \<open>
  The recurring \<open>try: cb(...) except BaseException: print(...); sys.excepthook(...)\<close> with what
  follows it. The traceback written by the hook is not modelled, only the first line.
\<close>

definition contained :: "('a world_scheme, unit) py \<Rightarrow> string \<Rightarrow> ('a world_scheme, 'b) py \<Rightarrow>
    ('a world_scheme, 'b) py \<Rightarrow> ('a world_scheme, 'b) py" where
  "contained cb message on_raise otherwise = (\<lambda>s.
     case cb s of
       (Inr _, s') \<Rightarrow> otherwise s'
     | (Inl _, s') \<Rightarrow> thenE (emit (Print message)) on_raise s')"

definition maybe_callback :: "pyval \<Rightarrow> user_env \<Rightarrow> string \<Rightarrow> pyval list \<Rightarrow> ('a world_scheme, unit) py" where
  "maybe_callback cb U f args = (if cb \<noteq> PNone then callback U f args else ret ())"

definition send_frame_on_complete ::
  "native_env \<Rightarrow> crt_errors \<Rightarrow> user_env \<Rightarrow> WebSocket \<Rightarrow> pyval \<Rightarrow> int \<Rightarrow> ('a world_scheme, unit) py" where
  "send_frame_on_complete N E U w on_complete error_code =
     contained (maybe_callback on_complete U ''on_complete'' [pv PExc (ws_error E error_code)])
       ''Exception in WebSocket.send_frame on_complete callback''
       (websocket_close N w) (ret ())"

definition send_frame ::
  "native_env \<Rightarrow> WebSocket \<Rightarrow> int \<Rightarrow> pyval \<Rightarrow> bool \<Rightarrow> ('a world_scheme, unit) py" where
  "send_frame N w opcode payload fin =
     (case enum_call Opcode_members Opcode_value opcode of
        Inl e \<Rightarrow> raise e
      | Inr c \<Rightarrow> thenE (native N ''websocket_send_frame''
          [ws_binding w, PEnum ''Opcode'' (Opcode_value c), payload, PBool fin, PFun 0]) (ret ()))"

definition increment_read_window :: "native_env \<Rightarrow> WebSocket \<Rightarrow> int \<Rightarrow> ('a world_scheme, unit) py" where
  "increment_read_window N w sz =
     (if sz < 0 then raise (ValueError ''Increment size cannot be negative'')
      else thenE (native N ''websocket_increment_read_window'' [ws_binding w, PInt sz]) (ret ()))"

section \<open>The core\<close>

text \<open>
  \<open>_WebSocketCore\<close>: the user's callbacks, \<open>None\<close> if not given, and
  \<open>_current_incoming_frame\<close>, an attribute that exists only while a frame is being received.
\<close>

record ws_core = world +
  on_connection_setup_cb :: pyval
  on_connection_shutdown_cb :: pyval
  on_incoming_frame_begin_cb :: pyval
  on_incoming_frame_payload_cb :: pyval
  on_incoming_frame_complete_cb :: pyval
  current_incoming_frame :: "IncomingFrame option"

definition WebSocketCore_init :: "pyval \<Rightarrow> pyval \<Rightarrow> pyval \<Rightarrow> pyval \<Rightarrow> pyval \<Rightarrow> ws_core" where
  "WebSocketCore_init setup shutdown on_begin on_payload on_complete = \<lparr>trace = [],
     on_connection_setup_cb = setup, on_connection_shutdown_cb = shutdown,
     on_incoming_frame_begin_cb = on_begin, on_incoming_frame_payload_cb = on_payload,
     on_incoming_frame_complete_cb = on_complete, current_incoming_frame = None\<rparr>"

definition setup_data :: "crt_errors \<Rightarrow> int \<Rightarrow> pyval \<Rightarrow> int option \<Rightarrow> (string \<times> string) list option \<Rightarrow>
    bytes option \<Rightarrow> OnConnectionSetupData" where
  "setup_data E error_code binding status headers body = \<lparr>
     setup_exception = ws_error E error_code,
     setup_websocket = (if error_code \<noteq> 0 then None else Some \<lparr>ws_binding = binding\<rparr>),
     handshake_response_status = status, handshake_response_headers = headers,
     handshake_response_body = body\<rparr>"

definition ws_on_connection_setup :: "native_env \<Rightarrow> user_env \<Rightarrow> OnConnectionSetupData \<Rightarrow> (ws_core, unit) py" where
  "ws_on_connection_setup N U cbdata =
     contained (callback U ''on_connection_setup'' [pv_setup cbdata])
       ''Exception in WebSocket on_connection_setup callback''
       (case setup_websocket cbdata of None \<Rightarrow> ret () | Some w \<Rightarrow> websocket_close N w)
       (ret ())"

definition ws_on_connection_shutdown :: "crt_errors \<Rightarrow> user_env \<Rightarrow> int \<Rightarrow> (ws_core, unit) py" where
  "ws_on_connection_shutdown E U error_code =
     contained
       (\<lambda>s. maybe_callback (on_connection_shutdown_cb s) U ''on_connection_shutdown''
              [pv PExc (ws_error E error_code)] s)
       ''Exception in WebSocket on_connection_shutdown callback'' (ret ()) (ret ())"

definition on_incoming_frame_begin :: "user_env \<Rightarrow> int \<Rightarrow> int \<Rightarrow> bool \<Rightarrow> (ws_core, bool) py" where
  "on_incoming_frame_begin U opcode_int payload_length fin =
     (case enum_call Opcode_members Opcode_value opcode_int of
        Inl e \<Rightarrow> raise e
      | Inr c \<Rightarrow>
          (let frame = \<lparr>frame_opcode = c, frame_payload_length = payload_length, frame_fin = fin\<rparr>
           in thenE (updE (\<lambda>s. s\<lparr>current_incoming_frame := Some frame\<rparr>))
                (contained
                   (\<lambda>s. maybe_callback (on_incoming_frame_begin_cb s) U ''on_incoming_frame_begin'' [pv_frame frame] s)
                   ''Exception in WebSocket on_incoming_frame_begin callback'' (ret False) (ret True))))"

definition current_frame :: "(ws_core, IncomingFrame) py" where
  "current_frame = (\<lambda>s. case current_incoming_frame s of
     None \<Rightarrow> (Inl (AttributeError ''_current_incoming_frame''), s) | Some f \<Rightarrow> (Inr f, s))"

definition on_incoming_frame_payload :: "user_env \<Rightarrow> bytes \<Rightarrow> (ws_core, bool) py" where
  "on_incoming_frame_payload U chunk =
     bindE current_frame (\<lambda>frame.
       contained
         (\<lambda>s. maybe_callback (on_incoming_frame_payload_cb s) U ''on_incoming_frame_payload''
                [pv_frame frame, PBytes chunk] s)
         ''Exception in WebSocket on_incoming_frame_payload callback'' (ret False) (ret True))"

definition on_incoming_frame_complete :: "crt_errors \<Rightarrow> user_env \<Rightarrow> int \<Rightarrow> (ws_core, bool) py" where
  "on_incoming_frame_complete E U error_code =
     bindE current_frame (\<lambda>frame.
     thenE (updE (\<lambda>s. s\<lparr>current_incoming_frame := None\<rparr>))
       (contained
         (\<lambda>s. maybe_callback (on_incoming_frame_complete_cb s) U ''on_incoming_frame_complete''
                [pv_frame frame, pv PExc (ws_error E error_code)] s)
         ''Exception in WebSocket on_incoming_frame_complete callback'' (ret False) (ret True)))"

section \<open>Connecting\<close>

record ws_connect_args =
  ws_host :: string
  ws_port :: "int option"
  ws_handshake_request :: pyval
  ws_bootstrap :: pyval
  ws_socket_options :: pyval
  ws_tls_connection_options :: pyval
  ws_proxy_options :: pyval
  ws_manage_read_window :: bool
  ws_initial_read_window :: "int option"

definition websocket_connect ::
  "native_env \<Rightarrow> pyexc + pyval \<Rightarrow> ws_connect_args \<Rightarrow> ('a world_scheme, unit) py" where
  "websocket_connect N default_bootstrap a =
     bindE (if ws_manage_read_window a
            then (case ws_initial_read_window a of
                    None \<Rightarrow> raise (ValueError ([CHR 0x27] @ ''initial_read_window'' @ [CHR 0x27] @
                      '' must be set if '' @ [CHR 0x27] @ ''manage_read_window'' @ [CHR 0x27] @ '' is enabled''))
                  | Some w \<Rightarrow> ret w)
            else ret 0) (\<lambda>initial_read_window.
     if initial_read_window < 0
     then raise (ValueError ([CHR 0x27] @ ''initial_read_window'' @ [CHR 0x27] @ '' cannot be negative''))
     else
       (let port = (case ws_port a of None \<Rightarrow> 0 | Some p \<Rightarrow> p)
        in bindE (if ws_bootstrap a = PNone then (\<lambda>s. (default_bootstrap, s)) else ret (ws_bootstrap a)) (\<lambda>bootstrap.
           let socket_options = (if ws_socket_options a = PNone then PObj ''SocketOptions'' 0 else ws_socket_options a)
           in thenE (native N ''websocket_client_connect''
                [PStr (ws_host a), PInt port, ws_handshake_request a, bootstrap, socket_options,
                 ws_tls_connection_options a, ws_proxy_options a, PBool (ws_manage_read_window a),
                 PInt initial_read_window, PObj ''_WebSocketCore'' 0]) (ret ()))))"

text \<open>Native code returns the pair of a request and its headers.\<close>

definition create_handshake_request ::
  "native_env \<Rightarrow> string \<Rightarrow> string \<Rightarrow> ('a world_scheme, http_request) py" where
  "create_handshake_request N host path =
     bindE (native N ''websocket_create_handshake_request'' [PStr host, PStr path]) (\<lambda>r.
     case r of
       PTuple [b, hb] \<Rightarrow> ret (HttpRequest_from_bindings b hb)
     | _ \<Rightarrow> raise (ValueError ''not enough values to unpack''))"

section \<open>Exceptions of user callbacks\<close>

definition ws_raises :: "pyval \<Rightarrow> user_env \<Rightarrow> string \<Rightarrow> pyval list \<Rightarrow> bool" where
  "ws_raises cb U f args = (cb \<noteq> PNone \<and> U f args \<noteq> None)"

lemma contained_callback:
  "contained (\<lambda>s. maybe_callback (cb s) U f args s) m a b s =
     (if cb s = PNone then b s
      else let s' = s\<lparr>trace := trace s @ [Callback f args]\<rparr>
        in if U f args = None then b s' else thenE (emit (Print m)) a s')"
  by (auto simp: contained_def maybe_callback_def py_monad Let_def split: option.splits)

lemma contained_callback_always:
  "contained (callback U f args) m a b s =
     (let s' = s\<lparr>trace := trace s @ [Callback f args]\<rparr>
      in if U f args = None then b s' else thenE (emit (Print m)) a s')"
  by (auto simp: contained_def py_monad Let_def split: option.splits)

lemma setup_result:
  "ws_on_connection_setup N U d s =
     (let s' = s\<lparr>trace := trace s @ [Callback ''on_connection_setup'' [pv_setup d]]\<rparr>
      in if U ''on_connection_setup'' [pv_setup d] = None then (Inr (), s')
         else thenE (emit (Print ''Exception in WebSocket on_connection_setup callback''))
           (case setup_websocket d of None \<Rightarrow> ret () | Some w \<Rightarrow> websocket_close N w) s')"
  by (simp only: ws_on_connection_setup_def contained_callback_always ret_def)

text \<open>
  (C24) No exception of a user callback escapes into native code. If the setup callback of an
  established connection raises, the WebSocket is closed; a raising shutdown callback has no
  further consequence; and a frame callback reports to native code that the connection should be
  kept exactly if the user's callback did not raise.
\<close>

theorem ws_exceptions_contained:
  assumes "\<And>args. \<exists>v. N ''websocket_close'' args = Inr v"
    and "current_incoming_frame s = Some f"
  shows "fst (ws_on_connection_setup N U d s) = Inr () \<and>
    (Native ''websocket_close'' [b] \<in> set (drop (length (trace s)) (trace (snd (ws_on_connection_setup N U d s)))) \<longleftrightarrow>
       U ''on_connection_setup'' [pv_setup d] \<noteq> None \<and> setup_websocket d = Some \<lparr>ws_binding = b\<rparr>) \<and>
    fst (ws_on_connection_shutdown E U err s) = Inr () \<and>
    fst (on_incoming_frame_begin U (Opcode_value c) len fin s) =
      Inr (\<not> ws_raises (on_incoming_frame_begin_cb s) U ''on_incoming_frame_begin''
        [pv_frame \<lparr>frame_opcode = c, frame_payload_length = len, frame_fin = fin\<rparr>]) \<and>
    fst (on_incoming_frame_payload U chunk s) =
      Inr (\<not> ws_raises (on_incoming_frame_payload_cb s) U ''on_incoming_frame_payload'' [pv_frame f, PBytes chunk]) \<and>
    fst (on_incoming_frame_complete E U err s) =
      Inr (\<not> ws_raises (on_incoming_frame_complete_cb s) U ''on_incoming_frame_complete''
        [pv_frame f, pv PExc (ws_error E err)])"
proof (intro conjI)
  show "fst (ws_on_connection_setup N U d s) = Inr ()"
  proof (cases "setup_websocket d")
    case (Some w)
    moreover obtain v where "N ''websocket_close'' [ws_binding w] = Inr v" using assms(1) by blast
    ultimately show ?thesis
      by (simp add: setup_result websocket_close_def py_monad Let_def)
  qed (simp add: setup_result py_monad Let_def)
  show "Native ''websocket_close'' [b] \<in> set (drop (length (trace s)) (trace (snd (ws_on_connection_setup N U d s)))) \<longleftrightarrow>
       U ''on_connection_setup'' [pv_setup d] \<noteq> None \<and> setup_websocket d = Some \<lparr>ws_binding = b\<rparr>"
  proof (cases "setup_websocket d")
    case (Some w)
    moreover obtain v where "N ''websocket_close'' [ws_binding w] = Inr v" using assms(1) by blast
    ultimately show ?thesis
      by (auto simp: setup_result websocket_close_def py_monad Let_def)
  qed (simp add: setup_result py_monad Let_def)
qed (use assms(2) in \<open>simp_all add: ws_on_connection_shutdown_def on_incoming_frame_begin_def
    on_incoming_frame_payload_def on_incoming_frame_complete_def Opcode_enum.call_val contained_callback
    ws_raises_def current_frame_def py_monad Let_def\<close>)

section \<open>Frames\<close>

text \<open>A frame as native code reports it: its header, its payload in chunks, and how it ended.\<close>

record ws_frame =
  wf_frame :: IncomingFrame
  wf_chunks :: "bytes list"
  wf_error :: int

datatype ws_event = FrameBegin int int bool | FramePayload bytes | FrameComplete int

definition frame_events :: "ws_frame \<Rightarrow> ws_event list" where
  "frame_events f =
     FrameBegin (Opcode_value (frame_opcode (wf_frame f))) (frame_payload_length (wf_frame f))
       (frame_fin (wf_frame f)) # map FramePayload (wf_chunks f) @ [FrameComplete (wf_error f)]"

fun ws_exec :: "crt_errors \<Rightarrow> user_env \<Rightarrow> ws_event \<Rightarrow> ws_core \<Rightarrow> ws_core" where
  "ws_exec E U (FrameBegin c len fin) s = snd (on_incoming_frame_begin U c len fin s)"
| "ws_exec E U (FramePayload chunk) s = snd (on_incoming_frame_payload U chunk s)"
| "ws_exec E U (FrameComplete err) s = snd (on_incoming_frame_complete E U err s)"

definition callbacks :: "ev list \<Rightarrow> ev list" where
  "callbacks = filter (\<lambda>e. case e of Callback _ _ \<Rightarrow> True | _ \<Rightarrow> False)"

text \<open>What the user should see of a frame.\<close>

definition frame_report :: "crt_errors \<Rightarrow> ws_frame \<Rightarrow> ev list" where
  "frame_report E f =
     Callback ''on_incoming_frame_begin'' [pv_frame (wf_frame f)] #
     map (\<lambda>c. Callback ''on_incoming_frame_payload'' [pv_frame (wf_frame f), PBytes c]) (wf_chunks f) @
     [Callback ''on_incoming_frame_complete'' [pv_frame (wf_frame f), pv PExc (ws_error E (wf_error f))]]"

definition ws_all_cbs :: "ws_core \<Rightarrow> bool" where
  "ws_all_cbs s = (on_incoming_frame_begin_cb s \<noteq> PNone \<and> on_incoming_frame_payload_cb s \<noteq> PNone \<and>
     on_incoming_frame_complete_cb s \<noteq> PNone)"

lemma callbacks_append [simp]: "callbacks (xs @ ys) = callbacks xs @ callbacks ys"
  by (simp add: callbacks_def)

lemma exec_begin:
  assumes "ws_all_cbs s" and "s' = ws_exec E U (FrameBegin (Opcode_value c) len fin) s"
    and "f = \<lparr>frame_opcode = c, frame_payload_length = len, frame_fin = fin\<rparr>"
  shows "ws_all_cbs s' \<and> current_incoming_frame s' = Some f \<and>
    callbacks (trace s') = callbacks (trace s) @ [Callback ''on_incoming_frame_begin'' [pv_frame f]]"
  using assms by (auto simp: ws_all_cbs_def on_incoming_frame_begin_def Opcode_enum.call_val contained_callback
      py_monad Let_def callbacks_def)

lemma exec_payload:
  assumes "ws_all_cbs s" and "current_incoming_frame s = Some f" and "s' = ws_exec E U (FramePayload c) s"
  shows "ws_all_cbs s' \<and> current_incoming_frame s' = Some f \<and>
    callbacks (trace s') = callbacks (trace s) @ [Callback ''on_incoming_frame_payload'' [pv_frame f, PBytes c]]"
  using assms by (auto simp: ws_all_cbs_def on_incoming_frame_payload_def current_frame_def contained_callback
      py_monad Let_def callbacks_def)

lemma exec_complete:
  assumes "ws_all_cbs s" and "current_incoming_frame s = Some f" and "s' = ws_exec E U (FrameComplete err) s"
  shows "ws_all_cbs s' \<and> current_incoming_frame s' = None \<and>
    callbacks (trace s') = callbacks (trace s) @
      [Callback ''on_incoming_frame_complete'' [pv_frame f, pv PExc (ws_error E err)]]"
  using assms by (auto simp: ws_all_cbs_def on_incoming_frame_complete_def current_frame_def contained_callback
      py_monad Let_def callbacks_def)

lemma exec_payloads:
  assumes "ws_all_cbs s" and "current_incoming_frame s = Some f"
    and "s' = run_events (ws_exec E U) (map FramePayload cs) s"
  shows "ws_all_cbs s' \<and> current_incoming_frame s' = Some f \<and>
    callbacks (trace s') = callbacks (trace s) @
      map (\<lambda>c. Callback ''on_incoming_frame_payload'' [pv_frame f, PBytes c]) cs"
  using assms
proof (induction cs arbitrary: s)
  case (Cons c cs)
  from exec_payload [OF Cons.prems(1,2) refl, of E U c] Cons.IH [of "ws_exec E U (FramePayload c) s"] Cons.prems(3)
  show ?case by simp
qed simp

lemma exec_frame:
  assumes "ws_all_cbs s" and "s' = run_events (ws_exec E U) (frame_events f) s"
  shows "ws_all_cbs s' \<and> current_incoming_frame s' = None \<and>
    callbacks (trace s') = callbacks (trace s) @ frame_report E f"
proof -
  let ?h = "wf_frame f"
  let ?b = "ws_exec E U (FrameBegin (Opcode_value (frame_opcode ?h)) (frame_payload_length ?h) (frame_fin ?h)) s"
  let ?p = "run_events (ws_exec E U) (map FramePayload (wf_chunks f)) ?b"
  have b: "ws_all_cbs ?b \<and> current_incoming_frame ?b = Some ?h \<and>
     callbacks (trace ?b) = callbacks (trace s) @ [Callback ''on_incoming_frame_begin'' [pv_frame ?h]]"
    by (rule exec_begin [OF assms(1) refl]) simp
  then have p: "ws_all_cbs ?p \<and> current_incoming_frame ?p = Some ?h \<and>
    callbacks (trace ?p) = callbacks (trace ?b) @
      map (\<lambda>c. Callback ''on_incoming_frame_payload'' [pv_frame ?h, PBytes c]) (wf_chunks f)"
    by (intro exec_payloads) auto
  have "s' = ws_exec E U (FrameComplete (wf_error f)) ?p"
    using assms(2) by (simp add: frame_events_def run_events_append)
  from exec_complete [OF _ _ this, of ?h] b p show ?thesis by (simp add: frame_report_def)
qed

text \<open>
  (C23) For any sequence of frames the peer sends, whatever the user's callbacks raise, each frame is
  reported by one begin, its payload chunks in order and one completion, all of them carrying that
  frame's own header, and no frame is left open at the end.
\<close>

theorem ws_frames_in_order:
  assumes "ws_all_cbs s" and "current_incoming_frame s = None"
    and "s' = run_events (ws_exec E U) (concat (map frame_events fs)) s"
  shows "callbacks (trace s') = callbacks (trace s) @ concat (map (frame_report E) fs) \<and>
    current_incoming_frame s' = None"
  using assms
proof (induction fs arbitrary: s)
  case (Cons f fs)
  let ?s = "run_events (ws_exec E U) (frame_events f) s"
  from exec_frame [OF Cons.prems(1), of ?s E U f]
  have s: "ws_all_cbs ?s" "current_incoming_frame ?s = None"
    "callbacks (trace ?s) = callbacks (trace s) @ frame_report E f" by simp_all
  from Cons.prems(3) have "s' = run_events (ws_exec E U) (concat (map frame_events fs)) ?s"
    by (simp add: run_events_append)
  from Cons.IH [OF s(1,2) this] s(3) show ?case by simp
qed simp

definition ws_ex_core :: ws_core where
  "ws_ex_core = WebSocketCore_init (PFun 1) PNone (PFun 2) (PFun 3) (PFun 4)"

definition ws_ex_frame :: ws_frame where
  "ws_ex_frame = \<lparr>wf_frame = \<lparr>frame_opcode = Opcode.TEXT, frame_payload_length = 2, frame_fin = True\<rparr>,
     wf_chunks = [[1], [2]], wf_error = 0\<rparr>"

theorem ws_frames_in_order_witness:
  "length (callbacks (trace (run_events (ws_exec crt_errors_ex (\<lambda>_ _. Some (UserExc 1)))
     (concat (map frame_events [ws_ex_frame, ws_ex_frame])) ws_ex_core))) = 8"
  using ws_frames_in_order [OF _ _ refl, of ws_ex_core crt_errors_ex "\<lambda>_ _. Some (UserExc 1)" "[ws_ex_frame, ws_ex_frame]"]
  by (simp add: ws_ex_core_def WebSocketCore_init_def ws_all_cbs_def frame_report_def ws_ex_frame_def callbacks_def)

theorem ws_exceptions_contained_witness:
  "fst (on_incoming_frame_payload (\<lambda>_ _. Some (UserExc 1)) [1]
     (ws_ex_core\<lparr>current_incoming_frame := Some (wf_frame ws_ex_frame)\<rparr>)) = Inr False"
  using ws_exceptions_contained [of "\<lambda>_ _. Inr PNone" "ws_ex_core\<lparr>current_incoming_frame := Some (wf_frame ws_ex_frame)\<rparr>"
      "wf_frame ws_ex_frame" "\<lambda>_ _. Some (UserExc 1)" _ _ _ _ Opcode.TEXT 0 True "[1]"]
  by (simp add: ws_raises_def ws_ex_core_def WebSocketCore_init_def)

text \<open>
  Opening a WebSocket is refused exactly if flow control is requested without a non-negative
  initial window; without flow control the window given is ignored. When the request is made, the
  window native code is told is the requested one, or 0 without flow control.
\<close>

lemma ws_connect_window:
  assumes "\<And>f args. \<exists>v. N f args = Inr v" and "D = Inr (PObj ''ClientBootstrap'' 0)"
  shows "(fst (websocket_connect N D a s) = Inr ()) =
      (ws_manage_read_window a \<longrightarrow> (\<exists>w \<ge> 0. ws_initial_read_window a = Some w)) \<and>
    (fst (websocket_connect N D a s) = Inr () \<longrightarrow>
      (\<exists>args. trace (snd (websocket_connect N D a s)) = trace s @ [Native ''websocket_client_connect'' args] \<and>
        args ! 8 = PInt (if ws_manage_read_window a then the (ws_initial_read_window a) else 0))) \<and>
    (fst (websocket_connect N D a s) \<noteq> Inr () \<longrightarrow> snd (websocket_connect N D a s) = s)"
proof -
  obtain nv where N: "N = (\<lambda>f args. Inr (nv f args))" using assms(1) by metis
  consider "\<not> ws_manage_read_window a"
    | "ws_manage_read_window a" "ws_initial_read_window a = None"
    | w where "ws_manage_read_window a" "ws_initial_read_window a = Some w" "w < 0"
    | w where "ws_manage_read_window a" "ws_initial_read_window a = Some w" "\<not> w < 0"
    by fastforce
  then show ?thesis
    by cases (simp_all add: websocket_connect_def N assms(2) py_monad Let_def)
qed

end
