(* ===== verification/Mqtt5_Enums.thy ===== *)
theory Mqtt5_Enums
  imports Int_Enum
begin

text \<open>
  The enumerations of \<open>awscrt/mqtt5.py\<close>, in the order of the file, and the functions that
  convert the integers the native layer delivers. The class \<open>QoS\<close> of that file goes by the
  name \<open>Mqtt5QoS\<close> that the package itself imports it under in \<open>awscrt/mqtt.py\<close>.
\<close>

datatype Mqtt5QoS =
    AT_MOST_ONCE
  | AT_LEAST_ONCE
  | EXACTLY_ONCE

primrec Mqtt5QoS_value :: "Mqtt5QoS \<Rightarrow> int" where
  "Mqtt5QoS_value Mqtt5QoS.AT_MOST_ONCE = 0"
| "Mqtt5QoS_value Mqtt5QoS.AT_LEAST_ONCE = 1"
| "Mqtt5QoS_value Mqtt5QoS.EXACTLY_ONCE = 2"

definition Mqtt5QoS_members :: "Mqtt5QoS list" where
  [enum_defs]: "Mqtt5QoS_members =
    [Mqtt5QoS.AT_MOST_ONCE, Mqtt5QoS.AT_LEAST_ONCE, Mqtt5QoS.EXACTLY_ONCE]"

interpretation Mqtt5QoS_enum: int_enum Mqtt5QoS_members Mqtt5QoS_value
  by (unfold_locales, rule enum_univI, case_tac x, simp_all add: enum_defs)

datatype ConnectReasonCode =
    SUCCESS
  | UNSPECIFIED_ERROR
  | MALFORMED_PACKET
  | PROTOCOL_ERROR
  | IMPLEMENTATION_SPECIFIC_ERROR
  | UNSUPPORTED_PROTOCOL_VERSION
  | CLIENT_IDENTIFIER_NOT_VALID
  | BAD_USERNAME_OR_PASSWORD
  | NOT_AUTHORIZED
  | SERVER_UNAVAILABLE
  | SERVER_BUSY
  | BANNED
  | BAD_AUTHENTICATION_METHOD
  | TOPIC_NAME_INVALID
  | PACKET_TOO_LARGE
  | QUOTA_EXCEEDED
  | PAYLOAD_FORMAT_INVALID
  | RETAIN_NOT_SUPPORTED
  | QOS_NOT_SUPPORTED
  | USE_ANOTHER_SERVER
  | SERVER_MOVED
  | CONNECTION_RATE_EXCEEDED

primrec ConnectReasonCode_value :: "ConnectReasonCode \<Rightarrow> int" where
  "ConnectReasonCode_value ConnectReasonCode.SUCCESS = 0"
| "ConnectReasonCode_value ConnectReasonCode.UNSPECIFIED_ERROR = 128"
| "ConnectReasonCode_value ConnectReasonCode.MALFORMED_PACKET = 129"
| "ConnectReasonCode_value ConnectReasonCode.PROTOCOL_ERROR = 130"
| "ConnectReasonCode_value ConnectReasonCode.IMPLEMENTATION_SPECIFIC_ERROR = 131"
| "ConnectReasonCode_value ConnectReasonCode.UNSUPPORTED_PROTOCOL_VERSION = 132"
| "ConnectReasonCode_value ConnectReasonCode.CLIENT_IDENTIFIER_NOT_VALID = 133"
| "ConnectReasonCode_value ConnectReasonCode.BAD_USERNAME_OR_PASSWORD = 134"
| "ConnectReasonCode_value ConnectReasonCode.NOT_AUTHORIZED = 135"
| "ConnectReasonCode_value ConnectReasonCode.SERVER_UNAVAILABLE = 136"
| "ConnectReasonCode_value ConnectReasonCode.SERVER_BUSY = 137"
| "ConnectReasonCode_value ConnectReasonCode.BANNED = 138"
| "ConnectReasonCode_value ConnectReasonCode.BAD_AUTHENTICATION_METHOD = 140"
| "ConnectReasonCode_value ConnectReasonCode.TOPIC_NAME_INVALID = 144"
| "ConnectReasonCode_value ConnectReasonCode.PACKET_TOO_LARGE = 149"
| "ConnectReasonCode_value ConnectReasonCode.QUOTA_EXCEEDED = 151"
| "ConnectReasonCode_value ConnectReasonCode.PAYLOAD_FORMAT_INVALID = 153"
| "ConnectReasonCode_value ConnectReasonCode.RETAIN_NOT_SUPPORTED = 154"
| "ConnectReasonCode_value ConnectReasonCode.QOS_NOT_SUPPORTED = 155"
| "ConnectReasonCode_value ConnectReasonCode.USE_ANOTHER_SERVER = 156"
| "ConnectReasonCode_value ConnectReasonCode.SERVER_MOVED = 157"
| "ConnectReasonCode_value ConnectReasonCode.CONNECTION_RATE_EXCEEDED = 159"

definition ConnectReasonCode_members :: "ConnectReasonCode list" where
  [enum_defs]: "ConnectReasonCode_members =
    [ConnectReasonCode.SUCCESS, ConnectReasonCode.UNSPECIFIED_ERROR,
     ConnectReasonCode.MALFORMED_PACKET, ConnectReasonCode.PROTOCOL_ERROR,
     ConnectReasonCode.IMPLEMENTATION_SPECIFIC_ERROR,
     ConnectReasonCode.UNSUPPORTED_PROTOCOL_VERSION,
     ConnectReasonCode.CLIENT_IDENTIFIER_NOT_VALID,
     ConnectReasonCode.BAD_USERNAME_OR_PASSWORD, ConnectReasonCode.NOT_AUTHORIZED,
     ConnectReasonCode.SERVER_UNAVAILABLE, ConnectReasonCode.SERVER_BUSY,
     ConnectReasonCode.BANNED, ConnectReasonCode.BAD_AUTHENTICATION_METHOD,
     ConnectReasonCode.TOPIC_NAME_INVALID, ConnectReasonCode.PACKET_TOO_LARGE,
     ConnectReasonCode.QUOTA_EXCEEDED, ConnectReasonCode.PAYLOAD_FORMAT_INVALID,
     ConnectReasonCode.RETAIN_NOT_SUPPORTED, ConnectReasonCode.QOS_NOT_SUPPORTED,
     ConnectReasonCode.USE_ANOTHER_SERVER, ConnectReasonCode.SERVER_MOVED,
     ConnectReasonCode.CONNECTION_RATE_EXCEEDED]"

interpretation ConnectReasonCode_enum: int_enum ConnectReasonCode_members ConnectReasonCode_value
  by (unfold_locales, rule enum_univI, case_tac x, simp_all add: enum_defs)

datatype DisconnectReasonCode =
    NORMAL_DISCONNECTION
  | DISCONNECT_WITH_WILL_MESSAGE
  | UNSPECIFIED_ERROR
  | MALFORMED_PACKET
  | PROTOCOL_ERROR
  | IMPLEMENTATION_SPECIFIC_ERROR
  | NOT_AUTHORIZED
  | SERVER_BUSY
  | SERVER_SHUTTING_DOWN
  | KEEP_ALIVE_TIMEOUT
  | SESSION_TAKEN_OVER
  | TOPIC_FILTER_INVALID
  | TOPIC_NAME_INVALID
  | RECEIVE_MAXIMUM_EXCEEDED
  | TOPIC_ALIAS_INVALID
  | PACKET_TOO_LARGE
  | MESSAGE_RATE_TOO_HIGH
  | QUOTA_EXCEEDED
  | ADMINISTRATIVE_ACTION
  | PAYLOAD_FORMAT_INVALID
  | RETAIN_NOT_SUPPORTED
  | QOS_NOT_SUPPORTED
  | USE_ANOTHER_SERVER
  | SERVER_MOVED
  | SHARED_SUBSCRIPTIONS_NOT_SUPPORTED
  | CONNECTION_RATE_EXCEEDED
  | MAXIMUM_CONNECT_TIME
  | SUBSCRIPTION_IDENTIFIERS_NOT_SUPPORTED
  | WILDCARD_SUBSCRIPTIONS_NOT_SUPPORTED

primrec DisconnectReasonCode_value :: "DisconnectReasonCode \<Rightarrow> int" where
  "DisconnectReasonCode_value DisconnectReasonCode.NORMAL_DISCONNECTION = 0"
| "DisconnectReasonCode_value DisconnectReasonCode.DISCONNECT_WITH_WILL_MESSAGE = 4"
| "DisconnectReasonCode_value DisconnectReasonCode.UNSPECIFIED_ERROR = 128"
| "DisconnectReasonCode_value DisconnectReasonCode.MALFORMED_PACKET = 129"
| "DisconnectReasonCode_value DisconnectReasonCode.PROTOCOL_ERROR = 130"
| "DisconnectReasonCode_value DisconnectReasonCode.IMPLEMENTATION_SPECIFIC_ERROR = 131"
| "DisconnectReasonCode_value DisconnectReasonCode.NOT_AUTHORIZED = 135"
| "DisconnectReasonCode_value DisconnectReasonCode.SERVER_BUSY = 137"
| "DisconnectReasonCode_value DisconnectReasonCode.SERVER_SHUTTING_DOWN = 139"
| "DisconnectReasonCode_value DisconnectReasonCode.KEEP_ALIVE_TIMEOUT = 141"
| "DisconnectReasonCode_value DisconnectReasonCode.SESSION_TAKEN_OVER = 142"
| "DisconnectReasonCode_value DisconnectReasonCode.TOPIC_FILTER_INVALID = 143"
| "DisconnectReasonCode_value DisconnectReasonCode.TOPIC_NAME_INVALID = 144"
| "DisconnectReasonCode_value DisconnectReasonCode.RECEIVE_MAXIMUM_EXCEEDED = 147"
| "DisconnectReasonCode_value DisconnectReasonCode.TOPIC_ALIAS_INVALID = 148"
| "DisconnectReasonCode_value DisconnectReasonCode.PACKET_TOO_LARGE = 149"
| "DisconnectReasonCode_value DisconnectReasonCode.MESSAGE_RATE_TOO_HIGH = 150"
| "DisconnectReasonCode_value DisconnectReasonCode.QUOTA_EXCEEDED = 151"
| "DisconnectReasonCode_value DisconnectReasonCode.ADMINISTRATIVE_ACTION = 152"
| "DisconnectReasonCode_value DisconnectReasonCode.PAYLOAD_FORMAT_INVALID = 153"
| "DisconnectReasonCode_value DisconnectReasonCode.RETAIN_NOT_SUPPORTED = 154"
| "DisconnectReasonCode_value DisconnectReasonCode.QOS_NOT_SUPPORTED = 155"
| "DisconnectReasonCode_value DisconnectReasonCode.USE_ANOTHER_SERVER = 156"
| "DisconnectReasonCode_value DisconnectReasonCode.SERVER_MOVED = 157"
| "DisconnectReasonCode_value DisconnectReasonCode.SHARED_SUBSCRIPTIONS_NOT_SUPPORTED = 158"
| "DisconnectReasonCode_value DisconnectReasonCode.CONNECTION_RATE_EXCEEDED = 159"
| "DisconnectReasonCode_value DisconnectReasonCode.MAXIMUM_CONNECT_TIME = 160"
| "DisconnectReasonCode_value DisconnectReasonCode.SUBSCRIPTION_IDENTIFIERS_NOT_SUPPORTED = 161"
| "DisconnectReasonCode_value DisconnectReasonCode.WILDCARD_SUBSCRIPTIONS_NOT_SUPPORTED = 162"

definition DisconnectReasonCode_members :: "DisconnectReasonCode list" where
  [enum_defs]: "DisconnectReasonCode_members =
    [DisconnectReasonCode.NORMAL_DISCONNECTION,
     DisconnectReasonCode.DISCONNECT_WITH_WILL_MESSAGE,
     DisconnectReasonCode.UNSPECIFIED_ERROR, DisconnectReasonCode.MALFORMED_PACKET,
     DisconnectReasonCode.PROTOCOL_ERROR, DisconnectReasonCode.IMPLEMENTATION_SPECIFIC_ERROR,
     DisconnectReasonCode.NOT_AUTHORIZED, DisconnectReasonCode.SERVER_BUSY,
     DisconnectReasonCode.SERVER_SHUTTING_DOWN, DisconnectReasonCode.KEEP_ALIVE_TIMEOUT,
     DisconnectReasonCode.SESSION_TAKEN_OVER, DisconnectReasonCode.TOPIC_FILTER_INVALID,
     DisconnectReasonCode.TOPIC_NAME_INVALID, DisconnectReasonCode.RECEIVE_MAXIMUM_EXCEEDED,
     DisconnectReasonCode.TOPIC_ALIAS_INVALID, DisconnectReasonCode.PACKET_TOO_LARGE,
     DisconnectReasonCode.MESSAGE_RATE_TOO_HIGH, DisconnectReasonCode.QUOTA_EXCEEDED,
     DisconnectReasonCode.ADMINISTRATIVE_ACTION, DisconnectReasonCode.PAYLOAD_FORMAT_INVALID,
     DisconnectReasonCode.RETAIN_NOT_SUPPORTED, DisconnectReasonCode.QOS_NOT_SUPPORTED,
     DisconnectReasonCode.USE_ANOTHER_SERVER, DisconnectReasonCode.SERVER_MOVED,
     DisconnectReasonCode.SHARED_SUBSCRIPTIONS_NOT_SUPPORTED,
     DisconnectReasonCode.CONNECTION_RATE_EXCEEDED,
     DisconnectReasonCode.MAXIMUM_CONNECT_TIME,
     DisconnectReasonCode.SUBSCRIPTION_IDENTIFIERS_NOT_SUPPORTED,
     DisconnectReasonCode.WILDCARD_SUBSCRIPTIONS_NOT_SUPPORTED]"

interpretation DisconnectReasonCode_enum: int_enum DisconnectReasonCode_members DisconnectReasonCode_value
  by (unfold_locales, rule enum_univI, case_tac x, simp_all add: enum_defs)

datatype PubackReasonCode =
    SUCCESS
  | NO_MATCHING_SUBSCRIBERS
  | UNSPECIFIED_ERROR
  | IMPLEMENTATION_SPECIFIC_ERROR
  | NOT_AUTHORIZED
  | TOPIC_NAME_INVALID
  | PACKET_IDENTIFIER_IN_USE
  | QUOTA_EXCEEDED
  | PAYLOAD_FORMAT_INVALID

primrec PubackReasonCode_value :: "PubackReasonCode \<Rightarrow> int" where
  "PubackReasonCode_value PubackReasonCode.SUCCESS = 0"
| "PubackReasonCode_value PubackReasonCode.NO_MATCHING_SUBSCRIBERS = 16"
| "PubackReasonCode_value PubackReasonCode.UNSPECIFIED_ERROR = 128"
| "PubackReasonCode_value PubackReasonCode.IMPLEMENTATION_SPECIFIC_ERROR = 131"
| "PubackReasonCode_value PubackReasonCode.NOT_AUTHORIZED = 135"
| "PubackReasonCode_value PubackReasonCode.TOPIC_NAME_INVALID = 144"
| "PubackReasonCode_value PubackReasonCode.PACKET_IDENTIFIER_IN_USE = 145"
| "PubackReasonCode_value PubackReasonCode.QUOTA_EXCEEDED = 151"
| "PubackReasonCode_value PubackReasonCode.PAYLOAD_FORMAT_INVALID = 153"

definition PubackReasonCode_members :: "PubackReasonCode list" where
  [enum_defs]: "PubackReasonCode_members =
    [PubackReasonCode.SUCCESS, PubackReasonCode.NO_MATCHING_SUBSCRIBERS,
     PubackReasonCode.UNSPECIFIED_ERROR, PubackReasonCode.IMPLEMENTATION_SPECIFIC_ERROR,
     PubackReasonCode.NOT_AUTHORIZED, PubackReasonCode.TOPIC_NAME_INVALID,
     PubackReasonCode.PACKET_IDENTIFIER_IN_USE, PubackReasonCode.QUOTA_EXCEEDED,
     PubackReasonCode.PAYLOAD_FORMAT_INVALID]"

interpretation PubackReasonCode_enum: int_enum PubackReasonCode_members PubackReasonCode_value
  by (unfold_locales, rule enum_univI, case_tac x, simp_all add: enum_defs)

datatype SubackReasonCode =
    GRANTED_QOS_0
  | GRANTED_QOS_1
  | GRANTED_QOS_2
  | UNSPECIFIED_ERROR
  | IMPLEMENTATION_SPECIFIC_ERROR
  | NOT_AUTHORIZED
  | TOPIC_FILTER_INVALID
  | PACKET_IDENTIFIER_IN_USE
  | QUOTA_EXCEEDED
  | SHARED_SUBSCRIPTIONS_NOT_SUPPORTED
  | SUBSCRIPTION_IDENTIFIERS_NOT_SUPPORTED
  | WILDCARD_SUBSCRIPTIONS_NOT_SUPPORTED

primrec SubackReasonCode_value :: "SubackReasonCode \<Rightarrow> int" where
  "SubackReasonCode_value SubackReasonCode.GRANTED_QOS_0 = 0"
| "SubackReasonCode_value SubackReasonCode.GRANTED_QOS_1 = 1"
| "SubackReasonCode_value SubackReasonCode.GRANTED_QOS_2 = 2"
| "SubackReasonCode_value SubackReasonCode.UNSPECIFIED_ERROR = 128"
| "SubackReasonCode_value SubackReasonCode.IMPLEMENTATION_SPECIFIC_ERROR = 131"
| "SubackReasonCode_value SubackReasonCode.NOT_AUTHORIZED = 135"
| "SubackReasonCode_value SubackReasonCode.TOPIC_FILTER_INVALID = 143"
| "SubackReasonCode_value SubackReasonCode.PACKET_IDENTIFIER_IN_USE = 145"
| "SubackReasonCode_value SubackReasonCode.QUOTA_EXCEEDED = 151"
| "SubackReasonCode_value SubackReasonCode.SHARED_SUBSCRIPTIONS_NOT_SUPPORTED = 158"
| "SubackReasonCode_value SubackReasonCode.SUBSCRIPTION_IDENTIFIERS_NOT_SUPPORTED = 161"
| "SubackReasonCode_value SubackReasonCode.WILDCARD_SUBSCRIPTIONS_NOT_SUPPORTED = 162"

definition SubackReasonCode_members :: "SubackReasonCode list" where
  [enum_defs]: "SubackReasonCode_members =
    [SubackReasonCode.GRANTED_QOS_0, SubackReasonCode.GRANTED_QOS_1,
     SubackReasonCode.GRANTED_QOS_2, SubackReasonCode.UNSPECIFIED_ERROR,
     SubackReasonCode.IMPLEMENTATION_SPECIFIC_ERROR, SubackReasonCode.NOT_AUTHORIZED,
     SubackReasonCode.TOPIC_FILTER_INVALID, SubackReasonCode.PACKET_IDENTIFIER_IN_USE,
     SubackReasonCode.QUOTA_EXCEEDED, SubackReasonCode.SHARED_SUBSCRIPTIONS_NOT_SUPPORTED,
     SubackReasonCode.SUBSCRIPTION_IDENTIFIERS_NOT_SUPPORTED,
     SubackReasonCode.WILDCARD_SUBSCRIPTIONS_NOT_SUPPORTED]"

interpretation SubackReasonCode_enum: int_enum SubackReasonCode_members SubackReasonCode_value
  by (unfold_locales, rule enum_univI, case_tac x, simp_all add: enum_defs)

datatype UnsubackReasonCode =
    SUCCESS
  | NO_SUBSCRIPTION_EXISTED
  | UNSPECIFIED_ERROR
  | IMPLEMENTATION_SPECIFIC_ERROR
  | NOT_AUTHORIZED
  | TOPIC_FILTER_INVALID
  | PACKET_IDENTIFIER_IN_USE

primrec UnsubackReasonCode_value :: "UnsubackReasonCode \<Rightarrow> int" where
  "UnsubackReasonCode_value UnsubackReasonCode.SUCCESS = 0"
| "UnsubackReasonCode_value UnsubackReasonCode.NO_SUBSCRIPTION_EXISTED = 17"
| "UnsubackReasonCode_value UnsubackReasonCode.UNSPECIFIED_ERROR = 128"
| "UnsubackReasonCode_value UnsubackReasonCode.IMPLEMENTATION_SPECIFIC_ERROR = 131"
| "UnsubackReasonCode_value UnsubackReasonCode.NOT_AUTHORIZED = 135"
| "UnsubackReasonCode_value UnsubackReasonCode.TOPIC_FILTER_INVALID = 143"
| "UnsubackReasonCode_value UnsubackReasonCode.PACKET_IDENTIFIER_IN_USE = 145"

definition UnsubackReasonCode_members :: "UnsubackReasonCode list" where
  [enum_defs]: "UnsubackReasonCode_members =
    [UnsubackReasonCode.SUCCESS, UnsubackReasonCode.NO_SUBSCRIPTION_EXISTED,
     UnsubackReasonCode.UNSPECIFIED_ERROR, UnsubackReasonCode.IMPLEMENTATION_SPECIFIC_ERROR,
     UnsubackReasonCode.NOT_AUTHORIZED, UnsubackReasonCode.TOPIC_FILTER_INVALID,
     UnsubackReasonCode.PACKET_IDENTIFIER_IN_USE]"

interpretation UnsubackReasonCode_enum: int_enum UnsubackReasonCode_members UnsubackReasonCode_value
  by (unfold_locales, rule enum_univI, case_tac x, simp_all add: enum_defs)

datatype ClientSessionBehaviorType =
    DEFAULT
  | CLEAN
  | REJOIN_POST_SUCCESS
  | REJOIN_ALWAYS

primrec ClientSessionBehaviorType_value :: "ClientSessionBehaviorType \<Rightarrow> int" where
  "ClientSessionBehaviorType_value ClientSessionBehaviorType.DEFAULT = 0"
| "ClientSessionBehaviorType_value ClientSessionBehaviorType.CLEAN = 1"
| "ClientSessionBehaviorType_value ClientSessionBehaviorType.REJOIN_POST_SUCCESS = 2"
| "ClientSessionBehaviorType_value ClientSessionBehaviorType.REJOIN_ALWAYS = 3"

definition ClientSessionBehaviorType_members :: "ClientSessionBehaviorType list" where
  [enum_defs]: "ClientSessionBehaviorType_members =
    [ClientSessionBehaviorType.DEFAULT, ClientSessionBehaviorType.CLEAN,
     ClientSessionBehaviorType.REJOIN_POST_SUCCESS, ClientSessionBehaviorType.REJOIN_ALWAYS]"

interpretation ClientSessionBehaviorType_enum: int_enum ClientSessionBehaviorType_members ClientSessionBehaviorType_value
  by (unfold_locales, rule enum_univI, case_tac x, simp_all add: enum_defs)

datatype PayloadFormatIndicator =
    AWS_MQTT5_PFI_BYTES
  | AWS_MQTT5_PFI_UTF8

primrec PayloadFormatIndicator_value :: "PayloadFormatIndicator \<Rightarrow> int" where
  "PayloadFormatIndicator_value PayloadFormatIndicator.AWS_MQTT5_PFI_BYTES = 0"
| "PayloadFormatIndicator_value PayloadFormatIndicator.AWS_MQTT5_PFI_UTF8 = 1"

definition PayloadFormatIndicator_members :: "PayloadFormatIndicator list" where
  [enum_defs]: "PayloadFormatIndicator_members =
    [PayloadFormatIndicator.AWS_MQTT5_PFI_BYTES, PayloadFormatIndicator.AWS_MQTT5_PFI_UTF8]"

interpretation PayloadFormatIndicator_enum: int_enum PayloadFormatIndicator_members PayloadFormatIndicator_value
  by (unfold_locales, rule enum_univI, case_tac x, simp_all add: enum_defs)

datatype RetainHandlingType =
    SEND_ON_SUBSCRIBE
  | SEND_ON_SUBSCRIBE_IF_NEW
  | DONT_SEND

primrec RetainHandlingType_value :: "RetainHandlingType \<Rightarrow> int" where
  "RetainHandlingType_value RetainHandlingType.SEND_ON_SUBSCRIBE = 0"
| "RetainHandlingType_value RetainHandlingType.SEND_ON_SUBSCRIBE_IF_NEW = 1"
| "RetainHandlingType_value RetainHandlingType.DONT_SEND = 2"

definition RetainHandlingType_members :: "RetainHandlingType list" where
  [enum_defs]: "RetainHandlingType_members =
    [RetainHandlingType.SEND_ON_SUBSCRIBE, RetainHandlingType.SEND_ON_SUBSCRIBE_IF_NEW,
     RetainHandlingType.DONT_SEND]"

interpretation RetainHandlingType_enum: int_enum RetainHandlingType_members RetainHandlingType_value
  by (unfold_locales, rule enum_univI, case_tac x, simp_all add: enum_defs)

datatype RetainAndHandlingType =
    SEND_ON_SUBSCRIBE
  | SEND_ON_SUBSCRIBE_IF_NEW
  | DONT_SEND

primrec RetainAndHandlingType_value :: "RetainAndHandlingType \<Rightarrow> int" where
  "RetainAndHandlingType_value RetainAndHandlingType.SEND_ON_SUBSCRIBE = 0"
| "RetainAndHandlingType_value RetainAndHandlingType.SEND_ON_SUBSCRIBE_IF_NEW = 1"
| "RetainAndHandlingType_value RetainAndHandlingType.DONT_SEND = 2"

definition RetainAndHandlingType_members :: "RetainAndHandlingType list" where
  [enum_defs]: "RetainAndHandlingType_members =
    [RetainAndHandlingType.SEND_ON_SUBSCRIBE, RetainAndHandlingType.SEND_ON_SUBSCRIBE_IF_NEW,
     RetainAndHandlingType.DONT_SEND]"

interpretation RetainAndHandlingType_enum: int_enum RetainAndHandlingType_members RetainAndHandlingType_value
  by (unfold_locales, rule enum_univI, case_tac x, simp_all add: enum_defs)

datatype ExtendedValidationAndFlowControlOptions =
    NONE
  | AWS_IOT_CORE_DEFAULTS

primrec ExtendedValidationAndFlowControlOptions_value :: "ExtendedValidationAndFlowControlOptions \<Rightarrow> int" where
  "ExtendedValidationAndFlowControlOptions_value ExtendedValidationAndFlowControlOptions.NONE = 0"
| "ExtendedValidationAndFlowControlOptions_value ExtendedValidationAndFlowControlOptions.AWS_IOT_CORE_DEFAULTS = 1"

definition ExtendedValidationAndFlowControlOptions_members :: "ExtendedValidationAndFlowControlOptions list" where
  [enum_defs]: "ExtendedValidationAndFlowControlOptions_members =
    [ExtendedValidationAndFlowControlOptions.NONE,
     ExtendedValidationAndFlowControlOptions.AWS_IOT_CORE_DEFAULTS]"

interpretation ExtendedValidationAndFlowControlOptions_enum: int_enum ExtendedValidationAndFlowControlOptions_members ExtendedValidationAndFlowControlOptions_value
  by (unfold_locales, rule enum_univI, case_tac x, simp_all add: enum_defs)

datatype ClientOperationQueueBehaviorType =
    DEFAULT
  | FAIL_NON_QOS1_PUBLISH_ON_DISCONNECT
  | FAIL_QOS0_PUBLISH_ON_DISCONNECT
  | FAIL_ALL_ON_DISCONNECT

primrec ClientOperationQueueBehaviorType_value :: "ClientOperationQueueBehaviorType \<Rightarrow> int" where
  "ClientOperationQueueBehaviorType_value ClientOperationQueueBehaviorType.DEFAULT = 0"
| "ClientOperationQueueBehaviorType_value ClientOperationQueueBehaviorType.FAIL_NON_QOS1_PUBLISH_ON_DISCONNECT = 1"
| "ClientOperationQueueBehaviorType_value ClientOperationQueueBehaviorType.FAIL_QOS0_PUBLISH_ON_DISCONNECT = 2"
| "ClientOperationQueueBehaviorType_value ClientOperationQueueBehaviorType.FAIL_ALL_ON_DISCONNECT = 3"

definition ClientOperationQueueBehaviorType_members :: "ClientOperationQueueBehaviorType list" where
  [enum_defs]: "ClientOperationQueueBehaviorType_members =
    [ClientOperationQueueBehaviorType.DEFAULT,
     ClientOperationQueueBehaviorType.FAIL_NON_QOS1_PUBLISH_ON_DISCONNECT,
     ClientOperationQueueBehaviorType.FAIL_QOS0_PUBLISH_ON_DISCONNECT,
     ClientOperationQueueBehaviorType.FAIL_ALL_ON_DISCONNECT]"

interpretation ClientOperationQueueBehaviorType_enum: int_enum ClientOperationQueueBehaviorType_members ClientOperationQueueBehaviorType_value
  by (unfold_locales, rule enum_univI, case_tac x, simp_all add: enum_defs)

datatype ExponentialBackoffJitterMode =
    DEFAULT
  | NONE
  | FULL
  | DECORRELATED

primrec ExponentialBackoffJitterMode_value :: "ExponentialBackoffJitterMode \<Rightarrow> int" where
  "ExponentialBackoffJitterMode_value ExponentialBackoffJitterMode.DEFAULT = 0"
| "ExponentialBackoffJitterMode_value ExponentialBackoffJitterMode.NONE = 1"
| "ExponentialBackoffJitterMode_value ExponentialBackoffJitterMode.FULL = 2"
| "ExponentialBackoffJitterMode_value ExponentialBackoffJitterMode.DECORRELATED = 3"

definition ExponentialBackoffJitterMode_members :: "ExponentialBackoffJitterMode list" where
  [enum_defs]: "ExponentialBackoffJitterMode_members =
    [ExponentialBackoffJitterMode.DEFAULT, ExponentialBackoffJitterMode.NONE,
     ExponentialBackoffJitterMode.FULL, ExponentialBackoffJitterMode.DECORRELATED]"

interpretation ExponentialBackoffJitterMode_enum: int_enum ExponentialBackoffJitterMode_members ExponentialBackoffJitterMode_value
  by (unfold_locales, rule enum_univI, case_tac x, simp_all add: enum_defs)

datatype OutboundTopicAliasBehaviorType =
    DEFAULT
  | MANUAL
  | LRU
  | DISABLED

primrec OutboundTopicAliasBehaviorType_value :: "OutboundTopicAliasBehaviorType \<Rightarrow> int" where
  "OutboundTopicAliasBehaviorType_value OutboundTopicAliasBehaviorType.DEFAULT = 0"
| "OutboundTopicAliasBehaviorType_value OutboundTopicAliasBehaviorType.MANUAL = 1"
| "OutboundTopicAliasBehaviorType_value OutboundTopicAliasBehaviorType.LRU = 2"
| "OutboundTopicAliasBehaviorType_value OutboundTopicAliasBehaviorType.DISABLED = 3"

definition OutboundTopicAliasBehaviorType_members :: "OutboundTopicAliasBehaviorType list" where
  [enum_defs]: "OutboundTopicAliasBehaviorType_members =
    [OutboundTopicAliasBehaviorType.DEFAULT, OutboundTopicAliasBehaviorType.MANUAL,
     OutboundTopicAliasBehaviorType.LRU, OutboundTopicAliasBehaviorType.DISABLED]"

interpretation OutboundTopicAliasBehaviorType_enum: int_enum OutboundTopicAliasBehaviorType_members OutboundTopicAliasBehaviorType_value
  by (unfold_locales, rule enum_univI, case_tac x, simp_all add: enum_defs)

datatype InboundTopicAliasBehaviorType =
    DEFAULT
  | ENABLED
  | DISABLED

primrec InboundTopicAliasBehaviorType_value :: "InboundTopicAliasBehaviorType \<Rightarrow> int" where
  "InboundTopicAliasBehaviorType_value InboundTopicAliasBehaviorType.DEFAULT = 0"
| "InboundTopicAliasBehaviorType_value InboundTopicAliasBehaviorType.ENABLED = 1"
| "InboundTopicAliasBehaviorType_value InboundTopicAliasBehaviorType.DISABLED = 2"

definition InboundTopicAliasBehaviorType_members :: "InboundTopicAliasBehaviorType list" where
  [enum_defs]: "InboundTopicAliasBehaviorType_members =
    [InboundTopicAliasBehaviorType.DEFAULT, InboundTopicAliasBehaviorType.ENABLED,
     InboundTopicAliasBehaviorType.DISABLED]"

interpretation InboundTopicAliasBehaviorType_enum: int_enum InboundTopicAliasBehaviorType_members InboundTopicAliasBehaviorType_value
  by (unfold_locales, rule enum_univI, case_tac x, simp_all add: enum_defs)

section \<open>Conversions from native integers\<close>

definition try_qos :: "int \<Rightarrow> Mqtt5QoS option" where
  "try_qos = enum_try Mqtt5QoS_members Mqtt5QoS_value"

definition try_connect_reason_code :: "int \<Rightarrow> ConnectReasonCode option" where
  "try_connect_reason_code = enum_try ConnectReasonCode_members ConnectReasonCode_value"

definition try_disconnect_reason_code :: "int \<Rightarrow> DisconnectReasonCode option" where
  "try_disconnect_reason_code = enum_try DisconnectReasonCode_members DisconnectReasonCode_value"

definition try_puback_reason_code :: "int \<Rightarrow> PubackReasonCode option" where
  "try_puback_reason_code = enum_try PubackReasonCode_members PubackReasonCode_value"

text \<open>The class \<open>ManualPubackResult\<close> does not exist: looking its name up raises, and the
  exception is caught.\<close>

definition try_manual_puback_result :: "int \<Rightarrow> pyval" where
  "try_manual_puback_result v =
     (case (Inl (BuiltinExc ''NameError'') :: pyexc + pyval) of Inl _ \<Rightarrow> PNone | Inr r \<Rightarrow> r)"

definition try_suback_reason_code :: "int \<Rightarrow> SubackReasonCode option" where
  "try_suback_reason_code = enum_try SubackReasonCode_members SubackReasonCode_value"

definition try_unsuback_reason_code :: "int \<Rightarrow> UnsubackReasonCode option" where
  "try_unsuback_reason_code = enum_try UnsubackReasonCode_members UnsubackReasonCode_value"

definition try_payload_format_indicator :: "int \<Rightarrow> PayloadFormatIndicator option" where
  "try_payload_format_indicator = enum_try PayloadFormatIndicator_members PayloadFormatIndicator_value"

text \<open>\<open>IntEnum\<close> members compare by value.\<close>

instantiation ClientSessionBehaviorType :: linorder
begin

definition less_eq_ClientSessionBehaviorType :: "ClientSessionBehaviorType \<Rightarrow> ClientSessionBehaviorType \<Rightarrow> bool" where
  "a \<le> b \<longleftrightarrow> ClientSessionBehaviorType_value a \<le> ClientSessionBehaviorType_value b"

definition less_ClientSessionBehaviorType :: "ClientSessionBehaviorType \<Rightarrow> ClientSessionBehaviorType \<Rightarrow> bool" where
  "a < b \<longleftrightarrow> ClientSessionBehaviorType_value a < ClientSessionBehaviorType_value b"

instance
proof
  fix a b :: ClientSessionBehaviorType
  show "a \<le> b \<Longrightarrow> b \<le> a \<Longrightarrow> a = b"
    unfolding less_eq_ClientSessionBehaviorType_def
    by (rule ClientSessionBehaviorType_enum.val_inj) simp
qed (auto simp: less_eq_ClientSessionBehaviorType_def less_ClientSessionBehaviorType_def)

end

text \<open>
  Every conversion of a native integer is total, returns the member with exactly that value
  when there is one and \<open>None\<close> otherwise, so that an unknown code of a broker never raises.
\<close>

lemma reason_codes_decode:
  "(\<forall>v c. try_connect_reason_code v = Some c \<longleftrightarrow> v = ConnectReasonCode_value c) \<and>
   (\<forall>v c. try_disconnect_reason_code v = Some c \<longleftrightarrow> v = DisconnectReasonCode_value c) \<and>
   (\<forall>v c. try_puback_reason_code v = Some c \<longleftrightarrow> v = PubackReasonCode_value c) \<and>
   (\<forall>v c. try_suback_reason_code v = Some c \<longleftrightarrow> v = SubackReasonCode_value c) \<and>
   (\<forall>v c. try_unsuback_reason_code v = Some c \<longleftrightarrow> v = UnsubackReasonCode_value c) \<and>
   (\<forall>v c. try_payload_format_indicator v = Some c \<longleftrightarrow> v = PayloadFormatIndicator_value c) \<and>
   (\<forall>v c. try_qos v = Some c \<longleftrightarrow> v = Mqtt5QoS_value c)"
  by (simp add: try_connect_reason_code_def try_disconnect_reason_code_def try_puback_reason_code_def
      try_suback_reason_code_def try_unsuback_reason_code_def try_payload_format_indicator_def try_qos_def
      ConnectReasonCode_enum.dec_eq_Some_iff DisconnectReasonCode_enum.dec_eq_Some_iff
      PubackReasonCode_enum.dec_eq_Some_iff SubackReasonCode_enum.dec_eq_Some_iff
      UnsubackReasonCode_enum.dec_eq_Some_iff PayloadFormatIndicator_enum.dec_eq_Some_iff
      Mqtt5QoS_enum.dec_eq_Some_iff)

end
