(* ===== verification/Py_Dict.thy ===== *)
theory Py_Dict
  imports Py_Prelude
begin

text \<open>
  Python's \<open>dict\<close>: assignment to a present key keeps its position, to a new key appends it,
  and iteration follows insertion order. The locale \<open>ordered_map\<close> is the interface the
  components use; it is interpreted on association lists with distinct keys.
\<close>

type_synonym ('k, 'v) pydict = "('k \<times> 'v) list"

fun dict_put :: "'k \<Rightarrow> 'v \<Rightarrow> ('k, 'v) pydict \<Rightarrow> ('k, 'v) pydict" where
  "dict_put k v [] = [(k, v)]"
| "dict_put k v ((k', v') # d) = (if k' = k then (k', v) # d else (k', v') # dict_put k v d)"

definition dict_get :: "('k, 'v) pydict \<Rightarrow> 'k \<Rightarrow> 'v option" where
  "dict_get d k = map_of d k"

definition dict_ok :: "('k, 'v) pydict \<Rightarrow> bool" where
  "dict_ok d = distinct (map fst d)"

text \<open>A loop of assignments \<open>d[k] = v\<close>.\<close>

definition dict_puts :: "('k \<times> 'v) list \<Rightarrow> ('k, 'v) pydict \<Rightarrow> ('k, 'v) pydict" where
  "dict_puts kvs d = fold (\<lambda>(k, v). dict_put k v) kvs d"

section \<open>The interface\<close>

locale ordered_map =
  fixes emp :: 'd
    and put :: "'k \<Rightarrow> 'v \<Rightarrow> 'd \<Rightarrow> 'd"
    and get :: "'d \<Rightarrow> 'k \<Rightarrow> 'v option"
    and items :: "'d \<Rightarrow> ('k \<times> 'v) list"
    and ok :: "'d \<Rightarrow> bool"
  assumes ok_emp: "ok emp"
    and items_emp: "items emp = []"
    and ok_put: "ok d \<Longrightarrow> ok (put k v d)"
    and get_put: "ok d \<Longrightarrow> get (put k v d) = (get d)(k \<mapsto> v)"
    and get_items: "ok d \<Longrightarrow> get d = map_of (items d)"
    and items_put_new: "ok d \<Longrightarrow> get d k = None \<Longrightarrow> items (put k v d) = items d @ [(k, v)]"
    and keys_put_old: "ok d \<Longrightarrow> get d k \<noteq> None \<Longrightarrow> map fst (items (put k v d)) = map fst (items d)"
begin

abbreviation puts :: "('k \<times> 'v) list \<Rightarrow> 'd \<Rightarrow> 'd" where
  "puts kvs d \<equiv> fold (\<lambda>(k, v). put k v) kvs d"

lemma ok_puts: "ok d \<Longrightarrow> ok (puts kvs d)"
  by (induction kvs arbitrary: d) (auto simp: ok_put)

lemma get_puts: "ok d \<Longrightarrow> get (puts kvs d) = get d ++ map_of (rev kvs)"
proof (induction kvs arbitrary: d)
  case Nil
  then show ?case by simp
next
  case (Cons kv kvs)
  obtain k v where kv: "kv = (k, v)" by fastforce
  have "get (puts kvs (put k v d)) = (get d)(k \<mapsto> v) ++ map_of (rev kvs)"
    using Cons.IH [of "put k v d"] Cons.prems by (simp only: ok_put get_put)
  then show ?case by (auto simp: kv fun_eq_iff map_add_def split: option.splits)
qed

text \<open>Assigning keys that are all new appends them in order.\<close>

lemma items_puts_fresh:
  "ok d \<Longrightarrow> distinct (map fst kvs) \<Longrightarrow> (\<And>k. k \<in> fst ` set kvs \<Longrightarrow> get d k = None) \<Longrightarrow>
   items (puts kvs d) = items d @ kvs"
proof (induction kvs arbitrary: d)
  case Nil
  then show ?case by simp
next
  case (Cons kv kvs)
  obtain k v where kv: "kv = (k, v)" by fastforce
  with Cons.prems have new: "get d k = None" by simp
  have "items (puts kvs (put k v d)) = items (put k v d) @ kvs"
    using Cons.prems by (intro Cons.IH) (auto simp: kv ok_put get_put)
  with new Cons.prems show ?case by (simp add: kv items_put_new)
qed

lemma items_puts_empty: "distinct (map fst kvs) \<Longrightarrow> items (puts kvs emp) = kvs"
  using items_puts_fresh [of emp kvs] ok_emp get_items [OF ok_emp] by (simp add: items_emp)

text \<open>Keys keep the position of their first assignment.\<close>

lemma keys_put:
  "ok d \<Longrightarrow> map fst (items (put k v d)) =
     (if k \<in> fst ` set (items d) then map fst (items d) else map fst (items d) @ [k])"
  using items_put_new [of d k v] keys_put_old [of d k v] get_items [of d]
  by (auto simp: map_of_eq_None_iff)

lemma keys_puts_prefix: "ok d \<Longrightarrow> \<exists>ks. map fst (items (puts kvs d)) = map fst (items d) @ ks"
proof (induction kvs arbitrary: d)
  case Nil
  then show ?case by simp
next
  case (Cons kv kvs)
  obtain k v where kv: "kv = (k, v)" by fastforce
  obtain ks where "map fst (items (puts kvs (put k v d))) = map fst (items (put k v d)) @ ks"
    using Cons by (meson ok_put)
  with Cons.prems show ?case by (auto simp: kv keys_put)
qed

lemma set_keys_puts:
  "ok d \<Longrightarrow> fst ` set (items (puts kvs d)) = fst ` set (items d) \<union> fst ` set kvs"
proof -
  assume d: "ok d"
  have "dom (get (puts kvs d)) = dom (get d) \<union> dom (map_of (rev kvs))"
    using get_puts [OF d] by auto
  then show ?thesis
    by (simp add: get_items [OF d] get_items [OF ok_puts [OF d]] dom_map_of_conv_image_fst)
qed

end

lemma fst_dict_put:
  "map fst (dict_put k v d) = (if k \<in> fst ` set d then map fst d else map fst d @ [k])"
  by (induction d) (auto simp: rev_image_eqI)

lemma map_of_dict_put: "map_of (dict_put k v d) = (map_of d)(k \<mapsto> v)"
  by (induction d) auto

lemma dict_put_new: "k \<notin> fst ` set d \<Longrightarrow> dict_put k v d = d @ [(k, v)]"
  by (induction d) auto

interpretation py_dict: ordered_map "[]" dict_put dict_get "\<lambda>d. d" dict_ok
proof unfold_locales
  fix d :: "('a, 'b) pydict" and k :: 'a and v :: 'b
  show "dict_ok (dict_put k v d)" if "dict_ok d"
    using that by (auto simp: dict_ok_def fst_dict_put)
  show "dict_get (dict_put k v d) = (dict_get d)(k \<mapsto> v)" if "dict_ok d"
    by (simp add: dict_get_def fun_eq_iff map_of_dict_put)
  show "dict_put k v d = d @ [(k, v)]" if "dict_ok d" "dict_get d k = None"
    using that by (simp add: dict_get_def map_of_eq_None_iff dict_put_new)
  show "map fst (dict_put k v d) = map fst d" if "dict_ok d" "dict_get d k \<noteq> None"
    using that by (auto simp: dict_get_def map_of_eq_None_iff fst_dict_put)
qed (simp_all add: dict_ok_def dict_get_def fun_eq_iff)

lemmas dict_puts_facts =
  py_dict.ok_puts [folded dict_puts_def]
  py_dict.get_puts [folded dict_puts_def]
  py_dict.items_puts_empty [folded dict_puts_def]
  py_dict.keys_puts_prefix [folded dict_puts_def]
  py_dict.set_keys_puts [folded dict_puts_def]

end
