(* ===== verification/Iot_Metrics.thy ===== *)
theory Iot_Metrics
  imports Io Http Mqtt5_Enums Py_Dict
begin

text \<open>
  \<open>awscrt/aws_iot_metrics.py\<close>: the usage metrics that an MQTT client embeds in the user name of
  its CONNECT packet. The encoded values of the features, the merging of the feature list of this
  package with one supplied by the device SDK, and the assembly of the metadata. The platform name
  \<open>sys.platform\<close> and the version of the package are parameters. The list for MQTT5 clients,
  which depends on the client options, is in \<open>Mqtt5_Packets\<close>. Shown: the merged list parses
  back to the dictionary with the user's values taking precedence, and the final metadata obey the
  rules stated in the documentation of \<open>_create_metrics\<close>.
\<close>

record IoTMetricsMetadata =
  metadata_key :: string
  metadata_value :: string

record AWSIoTMetrics =
  library_name :: string
  metadata_entries :: "IoTMetricsMetadata list option"

definition AWSIoTMetrics_default_library :: string where
  "AWSIoTMetrics_default_library = ''IoTDeviceSDK/Python''"

definition IOT_SDK_METRICS_FEATURE_VERSION :: int where
  "IOT_SDK_METRICS_FEATURE_VERSION = 1"

datatype MetricsFeatureId =
    RETRY_JITTER_MODE
  | SESSION_BEHAVIOR
  | OFFLINE_QUEUE_BEHAVIOR
  | OUTBOUND_TOPIC_ALIAS_BEHAVIOR
  | INBOUND_TOPIC_ALIAS_BEHAVIOR
  | PROTOCOL_VERSION
  | SOCKET_IMPLEMENTATION
  | HTTP_PROXY_TYPE
  | CERTIFICATE_SOURCE
  | TLS_CIPHER_PREFERENCE
  | MINIMUM_TLS_VERSION

fun feature_id :: "MetricsFeatureId \<Rightarrow> string" where
  "feature_id RETRY_JITTER_MODE = ''A''"
| "feature_id SESSION_BEHAVIOR = ''B''"
| "feature_id OFFLINE_QUEUE_BEHAVIOR = ''C''"
| "feature_id OUTBOUND_TOPIC_ALIAS_BEHAVIOR = ''D''"
| "feature_id INBOUND_TOPIC_ALIAS_BEHAVIOR = ''E''"
| "feature_id PROTOCOL_VERSION = ''F''"
| "feature_id SOCKET_IMPLEMENTATION = ''G''"
| "feature_id HTTP_PROXY_TYPE = ''H''"
| "feature_id CERTIFICATE_SOURCE = ''I''"
| "feature_id TLS_CIPHER_PREFERENCE = ''J''"
| "feature_id MINIMUM_TLS_VERSION = ''K''"

section \<open>Feature values\<close>

fun certificate_source_metrics_value :: "CertificateSource option \<Rightarrow> string option" where
  "certificate_source_metrics_value (Some CERTIFICATE_FILES) = Some ''A''"
| "certificate_source_metrics_value (Some PKCS11) = Some ''B''"
| "certificate_source_metrics_value (Some WINDOWS_CERT_STORE) = Some ''C''"
| "certificate_source_metrics_value (Some PKCS12_FILE) = Some ''E''"
| "certificate_source_metrics_value None = None"

definition protocol_version_metrics_value :: "string \<Rightarrow> string option" where
  "protocol_version_metrics_value protocol =
     (if protocol = ''MQTT311'' then Some ''3'' else if protocol = ''MQTT5'' then Some ''5'' else None)"

definition socket_implementation_metrics_value :: "string \<Rightarrow> string" where
  "socket_implementation_metrics_value platform = (if platform = ''win32'' then ''B'' else ''A'')"

definition http_proxy_type_metrics_value :: "HttpProxyOptions \<Rightarrow> string" where
  "http_proxy_type_metrics_value proxy_options =
     (if proxy_tls_connection_options proxy_options \<noteq> PNone then ''B'' else ''A'')"

fun retry_jitter_metrics_value :: "ExponentialBackoffJitterMode \<Rightarrow> string option" where
  "retry_jitter_metrics_value ExponentialBackoffJitterMode.NONE = Some ''A''"
| "retry_jitter_metrics_value ExponentialBackoffJitterMode.FULL = Some ''B''"
| "retry_jitter_metrics_value ExponentialBackoffJitterMode.DECORRELATED = Some ''C''"
| "retry_jitter_metrics_value ExponentialBackoffJitterMode.DEFAULT = None"

fun client_session_behavior_metrics_value :: "ClientSessionBehaviorType \<Rightarrow> string option" where
  "client_session_behavior_metrics_value ClientSessionBehaviorType.CLEAN = Some ''A''"
| "client_session_behavior_metrics_value ClientSessionBehaviorType.REJOIN_POST_SUCCESS = Some ''B''"
| "client_session_behavior_metrics_value ClientSessionBehaviorType.REJOIN_ALWAYS = Some ''C''"
| "client_session_behavior_metrics_value ClientSessionBehaviorType.DEFAULT = None"

fun client_operation_queue_behavior_metrics_value :: "ClientOperationQueueBehaviorType \<Rightarrow> string option" where
  "client_operation_queue_behavior_metrics_value
     ClientOperationQueueBehaviorType.FAIL_NON_QOS1_PUBLISH_ON_DISCONNECT = Some ''A''"
| "client_operation_queue_behavior_metrics_value
     ClientOperationQueueBehaviorType.FAIL_QOS0_PUBLISH_ON_DISCONNECT = Some ''B''"
| "client_operation_queue_behavior_metrics_value
     ClientOperationQueueBehaviorType.FAIL_ALL_ON_DISCONNECT = Some ''C''"
| "client_operation_queue_behavior_metrics_value ClientOperationQueueBehaviorType.DEFAULT = None"

fun outbound_topic_alias_behavior_metrics_value :: "OutboundTopicAliasBehaviorType \<Rightarrow> string option" where
  "outbound_topic_alias_behavior_metrics_value OutboundTopicAliasBehaviorType.MANUAL = Some ''A''"
| "outbound_topic_alias_behavior_metrics_value OutboundTopicAliasBehaviorType.LRU = Some ''B''"
| "outbound_topic_alias_behavior_metrics_value OutboundTopicAliasBehaviorType.DISABLED = Some ''C''"
| "outbound_topic_alias_behavior_metrics_value OutboundTopicAliasBehaviorType.DEFAULT = None"

fun inbound_topic_alias_behavior_metrics_value :: "InboundTopicAliasBehaviorType \<Rightarrow> string option" where
  "inbound_topic_alias_behavior_metrics_value InboundTopicAliasBehaviorType.ENABLED = Some ''A''"
| "inbound_topic_alias_behavior_metrics_value InboundTopicAliasBehaviorType.DISABLED = Some ''B''"
| "inbound_topic_alias_behavior_metrics_value InboundTopicAliasBehaviorType.DEFAULT = None"

fun minimum_tls_version_metrics_value :: "TlsVersion \<Rightarrow> string option" where
  "minimum_tls_version_metrics_value TlsVersion.SSLv3 = Some ''A''"
| "minimum_tls_version_metrics_value TlsVersion.TLSv1 = Some ''B''"
| "minimum_tls_version_metrics_value TlsVersion.TLSv1_1 = Some ''C''"
| "minimum_tls_version_metrics_value TlsVersion.TLSv1_2 = Some ''D''"
| "minimum_tls_version_metrics_value TlsVersion.TLSv1_3 = Some ''E''"
| "minimum_tls_version_metrics_value TlsVersion.DEFAULT = None"

fun tls_cipher_preference_metrics_value :: "TlsCipherPref \<Rightarrow> string option" where
  "tls_cipher_preference_metrics_value TlsCipherPref.PQ_TLSv1_0_2021_05 = Some ''F''"
| "tls_cipher_preference_metrics_value TlsCipherPref.PQ_DEFAULT = Some ''H''"
| "tls_cipher_preference_metrics_value TlsCipherPref.TLSv1_2_2025_07 = Some ''I''"
| "tls_cipher_preference_metrics_value TlsCipherPref.DEFAULT = None"

section \<open>Feature lists\<close>

definition slash :: char where "slash = CHR ''/''"
definition comma :: char where "comma = CHR '',''"

text \<open>\<open>f"{id}/{val}"\<close>, and the pattern \<open>if val: features.append(...)\<close>.\<close>

definition feature :: "MetricsFeatureId \<Rightarrow> string \<Rightarrow> string" where
  "feature fid v = feature_id fid @ slash # v"

definition feature_opt :: "MetricsFeatureId \<Rightarrow> string option \<Rightarrow> string list" where
  "feature_opt fid v = (case v of None \<Rightarrow> [] | Some v \<Rightarrow> if v = [] then [] else [feature fid v])"

text \<open>Features H, I, J and K, which both protocol versions have.\<close>

definition proxy_feature :: "HttpProxyOptions option \<Rightarrow> string list" where
  "proxy_feature proxy_options =
     (case proxy_options of None \<Rightarrow> []
      | Some p \<Rightarrow> [feature HTTP_PROXY_TYPE (http_proxy_type_metrics_value p)])"

definition tls_features :: "ClientTlsContext option \<Rightarrow> string list" where
  "tls_features tls_ctx =
     (case tls_ctx of None \<Rightarrow> []
      | Some c \<Rightarrow>
          feature_opt CERTIFICATE_SOURCE (certificate_source_metrics_value (ctx_certificate_source c)) @
          feature_opt TLS_CIPHER_PREFERENCE (tls_cipher_preference_metrics_value (ctx_cipher_pref c)) @
          feature_opt MINIMUM_TLS_VERSION (minimum_tls_version_metrics_value (ctx_min_tls_ver c)))"

definition get_encoded_feature_list_mqtt3 ::
  "string \<Rightarrow> HttpProxyOptions option \<Rightarrow> ClientTlsContext option \<Rightarrow> string" where
  "get_encoded_feature_list_mqtt3 platform proxy_options tls_ctx =
     join_with comma
       ([feature PROTOCOL_VERSION (the (protocol_version_metrics_value ''MQTT311'')),
         feature SOCKET_IMPLEMENTATION (socket_implementation_metrics_value platform)] @
        proxy_feature proxy_options @ tls_features tls_ctx)"

text \<open>The pairs a feature list is read as: parts without a slash are skipped.\<close>

definition parse_features :: "string \<Rightarrow> (string \<times> string) list" where
  "parse_features s = map (split_first slash) (filter (\<lambda>p. slash \<in> set p) (split_on comma s))"

definition show_features :: "(string \<times> string) list \<Rightarrow> string" where
  "show_features kvs = join_with comma (map (\<lambda>(k, v). k @ slash # v) kvs)"

definition merge_feature_lists :: "string \<Rightarrow> string \<Rightarrow> string" where
  "merge_feature_lists crt_features user_features =
     show_features (dict_puts (parse_features user_features) (dict_puts (parse_features crt_features) []))"

section \<open>The final metrics\<close>

text \<open>The loop over the user's entries: the metrics version and feature list found so far, and
  the metadata.\<close>

fun scan_entries :: "IoTMetricsMetadata list \<Rightarrow> string option \<times> string \<times> (string, string) pydict \<Rightarrow>
    string option \<times> string \<times> (string, string) pydict" where
  "scan_entries [] st = st"
| "scan_entries (e # es) (version, feat, metadata) =
     scan_entries es
       (if metadata_key e = ''IoTSDKMetricsVersion'' then (Some (metadata_value e), feat, metadata)
        else if metadata_key e = ''IoTSDKFeature'' then (version, metadata_value e, metadata)
        else if metadata_key e \<noteq> ''CRTVersion''
        then (version, feat, dict_put (metadata_key e) (metadata_value e) metadata)
        else (version, feat, metadata))"

definition create_metrics :: "string \<Rightarrow> AWSIoTMetrics option \<Rightarrow> string \<Rightarrow> AWSIoTMetrics" where
  "create_metrics crt_version user_metrics crt_feature_list =
     (let library = (case user_metrics of None \<Rightarrow> AWSIoTMetrics_default_library | Some m \<Rightarrow> library_name m);
          entries = (case user_metrics of None \<Rightarrow> [] | Some m \<Rightarrow>
            (case metadata_entries m of None \<Rightarrow> [] | Some es \<Rightarrow> es));
          (version, user_feature, metadata) =
            scan_entries entries (None, [], dict_put ''CRTVersion'' crt_version []);
          matches = (case version of None \<Rightarrow> False
            | Some v \<Rightarrow> isdigit v \<and> int_of_digits v = IOT_SDK_METRICS_FEATURE_VERSION);
          metadata = dict_put ''IoTSDKFeature''
            (if matches then merge_feature_lists crt_feature_list user_feature
             else merge_feature_lists crt_feature_list []) metadata;
          metadata = dict_put ''IoTSDKMetricsVersion'' (str_int IOT_SDK_METRICS_FEATURE_VERSION) metadata
      in \<lparr>library_name = library,
          metadata_entries = Some (map (\<lambda>(k, v). \<lparr>metadata_key = k, metadata_value = v\<rparr>) metadata)\<rparr>)"

definition create_metrics_mqtt3 ::
  "string \<Rightarrow> string \<Rightarrow> AWSIoTMetrics option \<Rightarrow> HttpProxyOptions option \<Rightarrow> ClientTlsContext option \<Rightarrow>
    AWSIoTMetrics" where
  "create_metrics_mqtt3 platform crt_version user_metrics proxy_options tls_ctx =
     create_metrics crt_version user_metrics (get_encoded_feature_list_mqtt3 platform proxy_options tls_ctx)"

section \<open>Feature lists parse back\<close>

definition pair_ok :: "string \<times> string \<Rightarrow> bool" where
  "pair_ok p = (slash \<notin> set (fst p) \<and> comma \<notin> set (fst p) \<and> comma \<notin> set (snd p))"

lemma comma_slash [simp]: "comma \<noteq> slash" "slash \<noteq> comma"
  by (simp_all add: comma_def slash_def)

lemma parse_show:
  assumes "list_all pair_ok kvs"
  shows "parse_features (show_features kvs) = kvs"
proof (cases "kvs = []")
  case True
  then show ?thesis by (simp add: show_features_def parse_features_def)
next
  case False
  let ?ps = "map (\<lambda>(k, v). k @ slash # v) kvs"
  have "list_all (\<lambda>p. comma \<notin> set p) ?ps"
    using assms by (auto simp: list_all_iff pair_ok_def)
  with False have "split_on comma (show_features kvs) = ?ps"
    unfolding show_features_def by (intro split_on_join) simp_all
  moreover have "filter (\<lambda>p. slash \<in> set p) ?ps = ?ps" by (auto simp: filter_id_conv)
  moreover have "map (split_first slash) ?ps = kvs"
    using assms by (induction kvs) (auto simp: split_first_append pair_ok_def)
  ultimately show ?thesis by (simp only: parse_features_def)
qed

lemma parse_ok: "list_all pair_ok (parse_features s)"
proof -
  have "pair_ok (split_first slash p)" if "p \<in> set (split_on comma s)" "slash \<in> set p" for p
  proof -
    obtain k v where kv: "split_first slash p = (k, v)" by fastforce
    from split_first_join [OF that(2) kv] split_on_parts [OF that(1)] split_first_key [OF kv]
    show ?thesis by (auto simp: kv pair_ok_def)
  qed
  then show ?thesis by (auto simp: list_all_iff parse_features_def)
qed

lemma dict_puts_pair_ok:
  "list_all pair_ok kvs \<Longrightarrow> list_all pair_ok d \<Longrightarrow> list_all pair_ok (dict_puts kvs d)"
proof -
  have put: "list_all pair_ok d \<Longrightarrow> pair_ok (k, v) \<Longrightarrow> list_all pair_ok (dict_put k v d)" for k v d
    by (induction d) (auto simp: pair_ok_def)
  show "list_all pair_ok kvs \<Longrightarrow> list_all pair_ok d \<Longrightarrow> list_all pair_ok (dict_puts kvs d)"
    by (induction kvs arbitrary: d) (auto simp: dict_puts_def put)
qed

lemma parse_merge:
  "parse_features (merge_feature_lists c u) =
     dict_puts (parse_features u) (dict_puts (parse_features c) [])"
  unfolding merge_feature_lists_def by (intro parse_show dict_puts_pair_ok parse_ok) simp

text \<open>
  (C12) The merged feature list, read back, has each feature identifier once; its value is the last
  one the user's list gives, or else the last one of this package's list; the identifiers of this
  package's list come first, in their order. Merging again with the same user list changes
  nothing.
\<close>

theorem merge_feature_lists_spec:
  "distinct (map fst (parse_features (merge_feature_lists c u))) \<and>
   map_of (parse_features (merge_feature_lists c u)) =
     map_of (rev (parse_features c)) ++ map_of (rev (parse_features u)) \<and>
   (\<exists>ks. map fst (parse_features (merge_feature_lists c u)) =
      map fst (parse_features (merge_feature_lists c [])) @ ks) \<and>
   map_of (parse_features (merge_feature_lists (merge_feature_lists c u) u)) =
     map_of (parse_features (merge_feature_lists c u))"
proof -
  have ok: "dict_ok (dict_puts (parse_features c) [])" for c
    by (intro dict_puts_facts(1)) (simp add: dict_ok_def)
  have get: "map_of (parse_features (merge_feature_lists c u)) =
     map_of (rev (parse_features c)) ++ map_of (rev (parse_features u))" for c u
    using dict_puts_facts(2) [OF ok, of "parse_features u" c] dict_puts_facts(2) [of "[]" "parse_features c"]
    by (simp add: parse_merge dict_get_def [abs_def] dict_ok_def)
  have d: "distinct (map fst (parse_features (merge_feature_lists c u)))" for c u
    using dict_puts_facts(1) [OF ok, of "parse_features u" c] by (simp add: parse_merge dict_ok_def)
  have "parse_features [] = []" by (simp add: parse_features_def)
  then have "\<exists>ks. map fst (parse_features (merge_feature_lists c u)) =
      map fst (parse_features (merge_feature_lists c [])) @ ks"
    using dict_puts_facts(4) [OF ok, of "parse_features u" c] by (simp add: parse_merge dict_puts_def)
  moreover have "map_of (rev m) = map_of m" if "distinct (map fst m)" for m :: "(string \<times> string) list"
    using that by (subst map_of_inject_set) (simp_all add: rev_map [symmetric])
  ultimately show ?thesis using get d by (simp add: get map_add_def fun_eq_iff split: option.splits)
qed

section \<open>The metadata\<close>

definition entry_pairs :: "IoTMetricsMetadata list \<Rightarrow> (string \<times> string) list" where
  "entry_pairs = map (\<lambda>e. (metadata_key e, metadata_value e))"

definition reserved :: "string list" where
  "reserved = [''CRTVersion'', ''IoTSDKMetricsVersion'', ''IoTSDKFeature'']"

definition last_value :: "IoTMetricsMetadata list \<Rightarrow> string \<Rightarrow> string option" where
  "last_value es k = map_of (rev (entry_pairs es)) k"

lemma last_value_simps [simp]:
  "last_value [] k = None"
  "last_value (e # es) k = (case last_value es k of None \<Rightarrow> if metadata_key e = k then Some (metadata_value e) else None
     | Some v \<Rightarrow> Some v)"
  by (auto simp: last_value_def entry_pairs_def map_add_def split: option.splits)

lemma scan_entries_eq:
  "scan_entries es (v, f, d) =
     (case last_value es ''IoTSDKMetricsVersion'' of None \<Rightarrow> v | Some x \<Rightarrow> Some x,
      case last_value es ''IoTSDKFeature'' of None \<Rightarrow> f | Some x \<Rightarrow> x,
      dict_puts (filter (\<lambda>p. fst p \<notin> set reserved) (entry_pairs es)) d)"
proof (induction es arbitrary: v f d)
  case (Cons e es)
  show ?case
    by (auto simp: Cons.IH reserved_def entry_pairs_def dict_puts_def split: option.splits)
qed (simp add: dict_puts_def entry_pairs_def)

lemma map_of_filter_keys:
  "map_of (filter (\<lambda>p. Q (fst p)) xs) k = (if Q k then map_of xs k else None)"
  by (induction xs) auto

definition metrics_map :: "AWSIoTMetrics \<Rightarrow> string \<Rightarrow> string option" where
  "metrics_map m = map_of (case metadata_entries m of None \<Rightarrow> [] | Some es \<Rightarrow> entry_pairs es)"

text \<open>
  The final metadata have each key once. The version of this package and the version of the
  metrics format cannot be overridden; the feature list is the merged one if the user's metrics
  version equals the current one, and this package's own otherwise; every other entry of the user
  is passed through, the last one given for a key.
\<close>

lemma create_metrics_rules:
  assumes "m = create_metrics ver (Some \<lparr>library_name = lib, metadata_entries = Some es\<rparr>) crt"
  shows "library_name m = lib \<and>
    (\<exists>out. metadata_entries m = Some out \<and> distinct (map metadata_key out)) \<and>
    metrics_map m ''CRTVersion'' = Some ver \<and>
    metrics_map m ''IoTSDKMetricsVersion'' = Some ''1'' \<and>
    metrics_map m ''IoTSDKFeature'' = Some (merge_feature_lists crt
      (if \<exists>v. last_value es ''IoTSDKMetricsVersion'' = Some v \<and> isdigit v \<and> int_of_digits v = 1
       then (case last_value es ''IoTSDKFeature'' of None \<Rightarrow> [] | Some f \<Rightarrow> f) else [])) \<and>
    (\<forall>k. k \<notin> set reserved \<longrightarrow> metrics_map m k = last_value es k)"
proof -
  let ?ps = "filter (\<lambda>p. fst p \<notin> set reserved) (entry_pairs es)"
  let ?d = "dict_puts ?ps (dict_put ''CRTVersion'' ver [])"
  let ?feat = "merge_feature_lists crt
      (if \<exists>v. last_value es ''IoTSDKMetricsVersion'' = Some v \<and> isdigit v \<and> int_of_digits v = 1
       then (case last_value es ''IoTSDKFeature'' of None \<Rightarrow> [] | Some f \<Rightarrow> f) else [])"
  let ?out = "dict_put ''IoTSDKMetricsVersion'' ''1'' (dict_put ''IoTSDKFeature'' ?feat ?d)"
  have one: "str_int 1 = ''1''"
    by (simp add: str_int_def str_nat.simps char_of_def bit_0)
  have ok0: "dict_ok (dict_put ''CRTVersion'' ver [])" by (simp add: dict_ok_def)
  then have ok: "dict_ok ?out" by (simp add: dict_puts_facts(1) py_dict.ok_put)
  have d: "map_of ?d = [''CRTVersion'' \<mapsto> ver] ++ map_of (rev ?ps)"
    using dict_puts_facts(2) [OF ok0, of ?ps] by (simp add: dict_get_def [abs_def] fun_upd_def)
  have rps: "map_of (rev ?ps) k = (if k \<in> set reserved then None else last_value es k)" for k
    using map_of_filter_keys [of "\<lambda>k. k \<notin> set reserved" "rev (entry_pairs es)" k]
    by (simp add: rev_filter last_value_def)
  have m: "metadata_entries m = Some (map (\<lambda>(k, v). \<lparr>metadata_key = k, metadata_value = v\<rparr>) ?out)"
    "library_name m = lib"
    using assms by (auto simp: create_metrics_def Let_def scan_entries_eq one IOT_SDK_METRICS_FEATURE_VERSION_def
        split: option.splits)
  have mm: "metrics_map m = map_of ?out"
    by (simp add: metrics_map_def m(1) entry_pairs_def comp_def case_prod_unfold)
  have keys: "distinct (map metadata_key (map (\<lambda>(k, v). \<lparr>metadata_key = k, metadata_value = v\<rparr>) ?out))"
    using ok by (simp add: dict_ok_def comp_def case_prod_unfold)
  have "metrics_map m k = last_value es k" if "k \<notin> set reserved" for k
  proof -
    have "k \<noteq> ''CRTVersion''" "k \<noteq> ''IoTSDKMetricsVersion''" "k \<noteq> ''IoTSDKFeature''"
      using that by (auto simp: reserved_def)
    with that show ?thesis
      unfolding mm map_of_dict_put d by (simp add: rps map_add_def split: option.splits)
  qed
  moreover have "metrics_map m ''CRTVersion'' = Some ver"
    unfolding mm map_of_dict_put d using rps [of "''CRTVersion''"] by (simp add: map_add_def reserved_def)
  moreover have "metrics_map m ''IoTSDKMetricsVersion'' = Some ''1''" "metrics_map m ''IoTSDKFeature'' = Some ?feat"
    unfolding mm map_of_dict_put by simp_all
  ultimately show ?thesis using m keys by blast
qed

end
