(* ===== verification/Mqtt5_Packets.thy ===== *)
theory Mqtt5_Packets
  imports Iot_Metrics
begin

text \<open>
  The data classes of \<open>awscrt/mqtt5.py\<close>: packets, negotiated settings, the data passed to
  lifecycle callbacks and the client options, with their defaults; and the MQTT5 part of
  \<open>awscrt/aws_iot_metrics.py\<close>, which reads the client options. A field that may be
  \<open>None\<close> is an option. Shown: the encoded feature list of an MQTT5 client parses back to
  features with strictly increasing identifiers, and always names protocol and socket.
\<close>

section \<open>Packets\<close>

record UserProperty =
  up_name :: string
  up_value :: string

definition init_user_properties :: "(string \<times> string) list option \<Rightarrow> UserProperty list option" where
  "init_user_properties tuples =
     (case tuples of None \<Rightarrow> None
      | Some ts \<Rightarrow> Some (map (\<lambda>(n, v). \<lparr>up_name = n, up_value = v\<rparr>) ts))"

record TopicAliasingOptions =
  outbound_behavior :: "OutboundTopicAliasBehaviorType option"
  outbound_cache_max_size :: "int option"
  inbound_behavior :: "InboundTopicAliasBehaviorType option"
  inbound_cache_max_size :: "int option"

record NegotiatedSettings =
  ns_maximum_qos :: "Mqtt5QoS option"
  ns_session_expiry_interval_sec :: int
  ns_receive_maximum_from_server :: int
  ns_maximum_packet_size_to_server :: int
  ns_topic_alias_maximum_to_server :: int
  ns_topic_alias_maximum_to_client :: int
  ns_server_keep_alive_sec :: int
  ns_retain_available :: bool
  ns_wildcard_subscriptions_available :: bool
  ns_subscription_identifiers_available :: bool
  ns_shared_subscriptions_available :: bool
  ns_rejoined_session :: bool
  ns_client_id :: string

record ConnackPacket =
  ca_session_present :: "bool option"
  ca_reason_code :: "ConnectReasonCode option"
  ca_session_expiry_interval_sec :: "int option"
  ca_receive_maximum :: "int option"
  ca_maximum_qos :: "Mqtt5QoS option"
  ca_retain_available :: "bool option"
  ca_maximum_packet_size :: "int option"
  ca_assigned_client_identifier :: "string option"
  ca_topic_alias_maximum :: "int option"
  ca_reason_string :: "string option"
  ca_user_properties :: "UserProperty list option"
  ca_wildcard_subscriptions_available :: "bool option"
  ca_subscription_identifiers_available :: "bool option"
  ca_shared_subscription_available :: "bool option"
  ca_server_keep_alive_sec :: "int option"
  ca_response_information :: "string option"
  ca_server_reference :: "string option"

record DisconnectPacket =
  dc_reason_code :: "DisconnectReasonCode option"
  dc_session_expiry_interval_sec :: "int option"
  dc_reason_string :: "string option"
  dc_user_properties :: "UserProperty list option"
  dc_server_reference :: "string option"

definition DisconnectPacket_init :: DisconnectPacket where
  "DisconnectPacket_init = \<lparr>dc_reason_code = Some DisconnectReasonCode.NORMAL_DISCONNECTION,
     dc_session_expiry_interval_sec = None, dc_reason_string = None, dc_user_properties = None,
     dc_server_reference = None\<rparr>"

record Subscription =
  sub_topic_filter :: string
  sub_qos :: Mqtt5QoS
  sub_no_local :: bool
  sub_retain_as_published :: bool
  sub_retain_handling_type :: RetainHandlingType

definition Subscription_init :: "string \<Rightarrow> Subscription" where
  "Subscription_init topic_filter = \<lparr>sub_topic_filter = topic_filter,
     sub_qos = Mqtt5QoS.AT_MOST_ONCE, sub_no_local = False, sub_retain_as_published = False,
     sub_retain_handling_type = RetainHandlingType.SEND_ON_SUBSCRIBE\<rparr>"

record SubscribePacket =
  sp_subscriptions :: "Subscription list"
  sp_subscription_identifier :: "int option"
  sp_user_properties :: "UserProperty list option"

record SubackPacket =
  sa_reason_string :: "string option"
  sa_user_properties :: "UserProperty list option"
  sa_reason_codes :: "SubackReasonCode option list option"

record UnsubscribePacket =
  us_topic_filters :: "string list"
  us_user_properties :: "UserProperty list option"

record UnsubackPacket =
  ua_reason_string :: "string option"
  ua_user_properties :: "UserProperty list option"
  ua_reason_codes :: "UnsubackReasonCode option list option"

text \<open>Payload and correlation data may be \<open>str\<close> or \<open>bytes\<close>.\<close>

record PublishPacket =
  pb_payload :: pyval
  pb_qos :: "Mqtt5QoS option"
  pb_retain :: bool
  pb_topic :: string
  pb_payload_format_indicator :: "PayloadFormatIndicator option"
  pb_message_expiry_interval_sec :: "int option"
  pb_topic_alias :: "int option"
  pb_response_topic :: "string option"
  pb_correlation_data_bytes :: pyval
  pb_correlation_data :: pyval
  pb_subscription_identifiers :: "int list option"
  pb_content_type :: "string option"
  pb_user_properties :: "UserProperty list option"

definition PublishPacket_init :: PublishPacket where
  "PublishPacket_init = \<lparr>pb_payload = PStr [], pb_qos = Some Mqtt5QoS.AT_MOST_ONCE, pb_retain = False,
     pb_topic = [], pb_payload_format_indicator = None, pb_message_expiry_interval_sec = None,
     pb_topic_alias = None, pb_response_topic = None, pb_correlation_data_bytes = PNone,
     pb_correlation_data = PNone, pb_subscription_identifiers = None, pb_content_type = None,
     pb_user_properties = None\<rparr>"

record PubackPacket =
  pa_reason_code :: "PubackReasonCode option"
  pa_reason_string :: "string option"
  pa_user_properties :: "UserProperty list option"

definition PubackPacket_init :: PubackPacket where
  "PubackPacket_init = \<lparr>pa_reason_code = None, pa_reason_string = None, pa_user_properties = None\<rparr>"

record ConnectPacket =
  cp_keep_alive_interval_sec :: "int option"
  cp_client_id :: "string option"
  cp_username :: "string option"
  cp_password :: "string option"
  cp_session_expiry_interval_sec :: "int option"
  cp_request_response_information :: "bool option"
  cp_request_problem_information :: "bool option"
  cp_receive_maximum :: "int option"
  cp_maximum_packet_size :: "int option"
  cp_will_delay_interval_sec :: "int option"
  cp_will :: "PublishPacket option"
  cp_user_properties :: "UserProperty list option"

definition ConnectPacket_init :: ConnectPacket where
  "ConnectPacket_init = \<lparr>cp_keep_alive_interval_sec = None, cp_client_id = None, cp_username = None,
     cp_password = None, cp_session_expiry_interval_sec = None, cp_request_response_information = None,
     cp_request_problem_information = None, cp_receive_maximum = None, cp_maximum_packet_size = None,
     cp_will_delay_interval_sec = None, cp_will = None, cp_user_properties = None\<rparr>"

section \<open>Data of callbacks and operations\<close>

record OperationStatisticsData =
  incomplete_operation_count :: int
  incomplete_operation_size :: int
  unacked_operation_count :: int
  unacked_operation_size :: int

text \<open>The counters native code returns, as both clients unpack them.\<close>

definition stats_of :: "pyval \<Rightarrow> pyexc + OperationStatisticsData" where
  "stats_of result =
     (case result of
        PTuple (PInt a # PInt b # PInt c # PInt d # _) \<Rightarrow>
          Inr \<lparr>incomplete_operation_count = a, incomplete_operation_size = b,
               unacked_operation_count = c, unacked_operation_size = d\<rparr>
      | _ \<Rightarrow> Inl (BuiltinExc ''IndexError''))"

record LifecycleConnectSuccessData =
  ls_connack_packet :: ConnackPacket
  ls_negotiated_settings :: NegotiatedSettings

record LifecycleConnectFailureData =
  lf_connack_packet :: "ConnackPacket option"
  lf_exception :: pyexc

record LifecycleDisconnectData =
  ld_disconnect_packet :: "DisconnectPacket option"
  ld_exception :: pyexc

record PublishCompletionData =
  pc_puback :: "PubackPacket option"

section \<open>Client options\<close>

record ClientOptions =
  co_host_name :: string
  co_port :: "int option"
  co_bootstrap :: pyval
  co_socket_options :: pyval
  co_tls_ctx :: "ClientTlsContext option"
  co_http_proxy_options :: "HttpProxyOptions option"
  co_websocket_handshake_transform :: pyval
  co_connect_options :: "ConnectPacket option"
  co_session_behavior :: "ClientSessionBehaviorType option"
  co_extended_validation_and_flow_control_options :: "ExtendedValidationAndFlowControlOptions option"
  co_offline_queue_behavior :: "ClientOperationQueueBehaviorType option"
  co_retry_jitter_mode :: "ExponentialBackoffJitterMode option"
  co_min_reconnect_delay_ms :: "int option"
  co_max_reconnect_delay_ms :: "int option"
  co_min_connected_time_to_reset_reconnect_delay_ms :: "int option"
  co_ping_timeout_ms :: "int option"
  co_connack_timeout_ms :: "int option"
  co_ack_timeout_sec :: "int option"
  co_topic_aliasing_options :: "TopicAliasingOptions option"
  co_on_publish_callback_fn :: pyval
  co_on_lifecycle_event_stopped_fn :: pyval
  co_on_lifecycle_event_attempting_connect_fn :: pyval
  co_on_lifecycle_event_connection_success_fn :: pyval
  co_on_lifecycle_event_connection_failure_fn :: pyval
  co_on_lifecycle_event_disconnection_fn :: pyval
  co_disable_metrics :: bool
  co_metrics :: "AWSIoTMetrics option"

definition ClientOptions_init :: "string \<Rightarrow> ClientOptions" where
  "ClientOptions_init host_name = \<lparr>co_host_name = host_name, co_port = None, co_bootstrap = PNone,
     co_socket_options = PNone, co_tls_ctx = None, co_http_proxy_options = None,
     co_websocket_handshake_transform = PNone, co_connect_options = None, co_session_behavior = None,
     co_extended_validation_and_flow_control_options = None, co_offline_queue_behavior = None,
     co_retry_jitter_mode = None, co_min_reconnect_delay_ms = None, co_max_reconnect_delay_ms = None,
     co_min_connected_time_to_reset_reconnect_delay_ms = None, co_ping_timeout_ms = None,
     co_connack_timeout_ms = None, co_ack_timeout_sec = None, co_topic_aliasing_options = None,
     co_on_publish_callback_fn = PNone, co_on_lifecycle_event_stopped_fn = PNone,
     co_on_lifecycle_event_attempting_connect_fn = PNone,
     co_on_lifecycle_event_connection_success_fn = PNone,
     co_on_lifecycle_event_connection_failure_fn = PNone,
     co_on_lifecycle_event_disconnection_fn = PNone, co_disable_metrics = False, co_metrics = None\<rparr>"

section \<open>Metrics of an MQTT5 client\<close>

definition mqtt5_features :: "string \<Rightarrow> ClientOptions \<Rightarrow> string list" where
  "mqtt5_features platform o' =
     feature_opt RETRY_JITTER_MODE (Option.bind (co_retry_jitter_mode o') retry_jitter_metrics_value) @
     feature_opt SESSION_BEHAVIOR (Option.bind (co_session_behavior o') client_session_behavior_metrics_value) @
     feature_opt OFFLINE_QUEUE_BEHAVIOR
       (Option.bind (co_offline_queue_behavior o') client_operation_queue_behavior_metrics_value) @
     feature_opt OUTBOUND_TOPIC_ALIAS_BEHAVIOR
       (Option.bind (Option.bind (co_topic_aliasing_options o') outbound_behavior)
          outbound_topic_alias_behavior_metrics_value) @
     feature_opt INBOUND_TOPIC_ALIAS_BEHAVIOR
       (Option.bind (Option.bind (co_topic_aliasing_options o') inbound_behavior)
          inbound_topic_alias_behavior_metrics_value) @
     [feature PROTOCOL_VERSION (the (protocol_version_metrics_value ''MQTT5'')),
      feature SOCKET_IMPLEMENTATION (socket_implementation_metrics_value platform)] @
     proxy_feature (co_http_proxy_options o') @ tls_features (co_tls_ctx o')"

definition get_encoded_feature_list :: "string \<Rightarrow> ClientOptions \<Rightarrow> string" where
  "get_encoded_feature_list platform client_options = join_with comma (mqtt5_features platform client_options)"

definition create_metrics_mqtt5 :: "string \<Rightarrow> string \<Rightarrow> ClientOptions \<Rightarrow> AWSIoTMetrics" where
  "create_metrics_mqtt5 platform crt_version client_options =
     create_metrics crt_version (co_metrics client_options)
       (get_encoded_feature_list platform client_options)"

section \<open>The encoded list\<close>

text \<open>Which setting determines which feature, in the order of the identifiers.\<close>

definition feature_table :: "string \<Rightarrow> ClientOptions \<Rightarrow> (MetricsFeatureId \<times> string option) list" where
  "feature_table platform o' =
     [(RETRY_JITTER_MODE, Option.bind (co_retry_jitter_mode o') retry_jitter_metrics_value),
      (SESSION_BEHAVIOR, Option.bind (co_session_behavior o') client_session_behavior_metrics_value),
      (OFFLINE_QUEUE_BEHAVIOR,
         Option.bind (co_offline_queue_behavior o') client_operation_queue_behavior_metrics_value),
      (OUTBOUND_TOPIC_ALIAS_BEHAVIOR,
         Option.bind (Option.bind (co_topic_aliasing_options o') outbound_behavior)
           outbound_topic_alias_behavior_metrics_value),
      (INBOUND_TOPIC_ALIAS_BEHAVIOR,
         Option.bind (Option.bind (co_topic_aliasing_options o') inbound_behavior)
           inbound_topic_alias_behavior_metrics_value),
      (PROTOCOL_VERSION, Some ''5''),
      (SOCKET_IMPLEMENTATION, Some (if platform = ''win32'' then ''B'' else ''A'')),
      (HTTP_PROXY_TYPE, map_option http_proxy_type_metrics_value (co_http_proxy_options o')),
      (CERTIFICATE_SOURCE, Option.bind (co_tls_ctx o') (\<lambda>c. certificate_source_metrics_value (ctx_certificate_source c))),
      (TLS_CIPHER_PREFERENCE, Option.bind (co_tls_ctx o') (\<lambda>c. tls_cipher_preference_metrics_value (ctx_cipher_pref c))),
      (MINIMUM_TLS_VERSION, Option.bind (co_tls_ctx o') (\<lambda>c. minimum_tls_version_metrics_value (ctx_min_tls_ver c)))]"

definition present_features :: "(MetricsFeatureId \<times> string option) list \<Rightarrow> (string \<times> string) list" where
  "present_features tab = map (\<lambda>(f, v). (feature_id f, the v)) (filter (\<lambda>(f, v). v \<noteq> None) tab)"

text \<open>Every encoded value is a single letter or digit.\<close>

definition short_value :: "string \<Rightarrow> bool" where
  "short_value v = (\<exists>c. v = [c] \<and> c \<noteq> comma \<and> c \<noteq> slash)"

lemma short_values:
  "retry_jitter_metrics_value a = Some v \<Longrightarrow> short_value v"
  "client_session_behavior_metrics_value b = Some v \<Longrightarrow> short_value v"
  "client_operation_queue_behavior_metrics_value c = Some v \<Longrightarrow> short_value v"
  "outbound_topic_alias_behavior_metrics_value d = Some v \<Longrightarrow> short_value v"
  "inbound_topic_alias_behavior_metrics_value e = Some v \<Longrightarrow> short_value v"
  "certificate_source_metrics_value f = Some v \<Longrightarrow> short_value v"
  "tls_cipher_preference_metrics_value g = Some v \<Longrightarrow> short_value v"
  "minimum_tls_version_metrics_value h = Some v \<Longrightarrow> short_value v"
  "short_value (http_proxy_type_metrics_value p)"
  "short_value ''5''" "short_value ''A''" "short_value ''B''"
  subgoal by (cases a) (auto simp: short_value_def comma_def slash_def)
  subgoal by (cases b) (auto simp: short_value_def comma_def slash_def)
  subgoal by (cases c) (auto simp: short_value_def comma_def slash_def)
  subgoal by (cases d) (auto simp: short_value_def comma_def slash_def)
  subgoal by (cases e) (auto simp: short_value_def comma_def slash_def)
  subgoal by (cases f rule: certificate_source_metrics_value.cases) (auto simp: short_value_def comma_def slash_def)
  subgoal by (cases g) (auto simp: short_value_def comma_def slash_def)
  subgoal by (cases h) (auto simp: short_value_def comma_def slash_def)
  by (auto simp: http_proxy_type_metrics_value_def short_value_def comma_def slash_def)

lemma table_short: "(f, Some v) \<in> set (feature_table platform o') \<Longrightarrow> short_value v"
  unfolding feature_table_def
  by (auto simp: bind_eq_Some_conv short_values dest!: sym [of "Some v"])

lemma feature_opt_present:
  "(\<And>v. x = Some v \<Longrightarrow> short_value v) \<Longrightarrow>
   feature_opt f x = map (\<lambda>(k, v). k @ slash # v) (present_features [(f, x)])"
  by (cases x) (auto simp: feature_opt_def present_features_def feature_def short_value_def)

lemma present_Cons:
  "present_features (p # q # ps) = present_features [p] @ present_features (q # ps)"
  by (simp add: present_features_def)

lemma features_present:
  "mqtt5_features platform o' = map (\<lambda>(k, v). k @ slash # v) (present_features (feature_table platform o'))"
proof -
  have f: "feature_opt f (Option.bind x g) = map (\<lambda>(k, v). k @ slash # v) (present_features [(f, Option.bind x g)])"
    if "\<And>y v. g y = Some v \<Longrightarrow> short_value v" for f x and g :: "'x \<Rightarrow> string option"
    using that by (intro feature_opt_present) (auto simp: bind_eq_Some_conv)
  have p: "[feature PROTOCOL_VERSION (the (protocol_version_metrics_value ''MQTT5'')),
      feature SOCKET_IMPLEMENTATION (socket_implementation_metrics_value platform)] =
      map (\<lambda>(k, v). k @ slash # v) (present_features [(PROTOCOL_VERSION, Some ''5'')] @
        present_features [(SOCKET_IMPLEMENTATION, Some (if platform = ''win32'' then ''B'' else ''A''))])"
    by (simp add: present_features_def feature_def protocol_version_metrics_value_def socket_implementation_metrics_value_def)
  have x: "proxy_feature y = map (\<lambda>(k, v). k @ slash # v)
      (present_features [(HTTP_PROXY_TYPE, map_option http_proxy_type_metrics_value y)])" for y
    by (cases y) (simp_all add: proxy_feature_def present_features_def feature_def)
  have t: "tls_features c = map (\<lambda>(k, v). k @ slash # v)
     (present_features [(CERTIFICATE_SOURCE, Option.bind c (\<lambda>c. certificate_source_metrics_value (ctx_certificate_source c)))] @
      present_features [(TLS_CIPHER_PREFERENCE, Option.bind c (\<lambda>c. tls_cipher_preference_metrics_value (ctx_cipher_pref c)))] @
      present_features [(MINIMUM_TLS_VERSION, Option.bind c (\<lambda>c. minimum_tls_version_metrics_value (ctx_min_tls_ver c)))])" for c
    by (cases c) (simp_all add: tls_features_def feature_opt_present short_values, simp_all add: present_features_def)
  show ?thesis
    unfolding mqtt5_features_def feature_table_def p x t
    by (simp only: present_Cons map_append append.assoc f [OF short_values(1)] f [OF short_values(2)]
        f [OF short_values(3)] f [OF short_values(4)] f [OF short_values(5)])
qed

definition id_rank :: "string \<Rightarrow> nat" where
  "id_rank s = of_char (hd s)"

lemma sorted_present:
  "sorted_wrt (\<lambda>a b. id_rank (feature_id (fst a)) < id_rank (feature_id (fst b))) tab \<Longrightarrow>
   sorted_wrt (\<lambda>a b. id_rank (fst a) < id_rank (fst b)) (present_features tab)"
  by (auto simp: present_features_def sorted_wrt_map case_prod_unfold intro: sorted_wrt_filter)

lemma ranked_distinct:
  "sorted_wrt (\<lambda>a b. id_rank (fst a) < id_rank (fst b)) ps \<Longrightarrow> distinct (map fst ps)"
  by (induction ps) (auto dest: less_imp_neq)

lemma feature_id_ok: "slash \<notin> set (feature_id f)" "comma \<notin> set (feature_id f)"
  by (cases f; simp add: slash_def comma_def)+

lemma present_pair_ok: "list_all pair_ok (present_features (feature_table platform o'))"
  using table_short [of _ _ platform o']
  by (fastforce simp: list_all_iff present_features_def pair_ok_def feature_id_ok short_value_def)

text \<open>
  (C13) Read back, the feature list of an MQTT5 client names exactly the features whose setting has
  an encoding, with strictly increasing identifiers, so none twice; the protocol version 5 and the
  socket implementation are always among them.
\<close>

theorem encoded_features_spec:
  "parse_features (get_encoded_feature_list platform o') = present_features (feature_table platform o') \<and>
   sorted_wrt (\<lambda>a b. id_rank (fst a) < id_rank (fst b)) (parse_features (get_encoded_feature_list platform o')) \<and>
   map_of (parse_features (get_encoded_feature_list platform o')) ''F'' = Some ''5'' \<and>
   map_of (parse_features (get_encoded_feature_list platform o')) ''G'' =
     Some (if platform = ''win32'' then ''B'' else ''A'')"
proof -
  let ?ps = "present_features (feature_table platform o')"
  have p: "parse_features (get_encoded_feature_list platform o') = ?ps"
    using parse_show [OF present_pair_ok, of platform o']
    by (simp add: get_encoded_feature_list_def features_present show_features_def)
  have s: "sorted_wrt (\<lambda>a b. id_rank (fst a) < id_rank (fst b)) ?ps"
    by (rule sorted_present) (simp add: feature_table_def id_rank_def)
  then have "distinct (map fst ?ps)"
    by (rule ranked_distinct)
  moreover have "(''F'', ''5'') \<in> set ?ps" "(''G'', if platform = ''win32'' then ''B'' else ''A'') \<in> set ?ps"
    by (simp_all add: present_features_def feature_table_def)
  ultimately show ?thesis using p s by (simp add: map_of_eq_Some_iff)
qed


end
