(* ===== verification/Ws_Handshake.thy ===== *)
theory Ws_Handshake
  imports Futures Crt_Exceptions
begin

text \<open>
  The part of the WebSocket handshake that \<open>awscrt/mqtt.py\<close> and \<open>awscrt/mqtt5.py\<close> have
  in common: the classes \<open>WebsocketHandshakeTransformArgs\<close> and the way the user's transform is
  run. Shown: native code is told the outcome exactly once.
\<close>

text \<open>
  The transform the user supplies: it returns, raises, or calls \<open>set_done\<close> on its argument,
  with an exception or without, and continues on the result. \<open>set_done\<close> may also be called
  later, from another thread.
\<close>

datatype hs_prog =
    HsReturn
  | HsRaise pyexc
  | HsSetDone "pyexc option" "pyexc + unit \<Rightarrow> hs_prog"

record hs_state = world +
  hs_future :: "unit fut"

definition hs_error_code :: "pyexc option \<Rightarrow> int" where
  "hs_error_code e = (case e of Some e \<Rightarrow> if is_AwsCrtError e then exc_code e else 0 | None \<Rightarrow> 0)"

text \<open>
  \<open>set_done\<close>. Completing the future runs its done-callback, which tells native code; an
  exception raised in there is logged and dropped by the future.
\<close>

definition set_done :: "string \<Rightarrow> pyexc option \<Rightarrow> (hs_state, unit) py" where
  "set_done f e =
     thenE (resolve hs_future (\<lambda>f. hs_future_update (\<lambda>_. f)) (case e of None \<Rightarrow> Inr () | Some e \<Rightarrow> Inl e))
       (emit (Native f [pv PExc e, PObj ''native_userdata'' 0, PInt (hs_error_code e)]))"

primrec run_hs :: "string \<Rightarrow> hs_prog \<Rightarrow> (hs_state, unit) py" where
  "run_hs f HsReturn = ret ()"
| "run_hs f (HsRaise e) = raise e"
| "run_hs f (HsSetDone e k) =
     (\<lambda>s. case set_done f e s of (r, s') \<Rightarrow> run_hs f (k r) s')"

text \<open>The \<open>try/except\<close> around the call of the user's transform.\<close>

definition run_transform :: "string \<Rightarrow> hs_prog \<Rightarrow> (hs_state, unit) py" where
  "run_transform f prog =
     try_except (run_hs f prog)
       (\<lambda>e s. if \<not> fut_done (hs_future s) then set_done f (Some e) s else (Inr (), s))"

definition completes :: "string \<Rightarrow> 'a world_scheme \<Rightarrow> nat" where
  "completes f s = length (filter (\<lambda>e. \<exists>args. e = Native f args) (trace s))"

text \<open>Native code has been told exactly if the future is done.\<close>

definition hs_inv :: "string \<Rightarrow> nat \<Rightarrow> hs_state \<Rightarrow> bool" where
  "hs_inv f n s = (completes f s = n + (if fut_done (hs_future s) then 1 else 0) \<and>
     (fut_done (hs_future s) \<or> hs_future s = Pending))"

lemma set_done_inv:
  "hs_inv f n s \<Longrightarrow> set_done f e s = (r, s') \<Longrightarrow> hs_inv f n s' \<and> fut_done (hs_future s')"
  by (auto simp: hs_inv_def set_done_def resolve_def py_monad completes_def split: if_splits)

lemma run_hs_inv: "hs_inv f n s \<Longrightarrow> run_hs f prog s = (r, s') \<Longrightarrow> hs_inv f n s' \<and> (fut_done (hs_future s) \<longrightarrow> fut_done (hs_future s'))"
proof (induction prog arbitrary: s)
  case (HsSetDone e k)
  obtain r1 s1 where d: "set_done f e s = (r1, s1)" by fastforce
  from set_done_inv [OF HsSetDone.prems(1) d] HsSetDone.IH [of "k r1" s1] HsSetDone.prems(2) d show ?case
    by simp
qed (auto simp: py_monad)

lemma run_transform_once:
  assumes "hs_inv f n s" and "run_transform f prog s = (r, s')"
  shows "r = Inr () \<and> hs_inv f n s' \<and>
    (\<forall>e s1. run_hs f prog s = (Inl e, s1) \<longrightarrow> completes f s' = Suc n)"
proof -
  obtain r1 s1 where run: "run_hs f prog s = (r1, s1)" by fastforce
  from run_hs_inv [OF assms(1) run] have i1: "hs_inv f n s1" by simp
  have s': "r = Inr () \<and> hs_inv f n s' \<and> (\<forall>e. r1 = Inl e \<longrightarrow> fut_done (hs_future s'))"
  proof (cases r1)
    case (Inl e)
    show ?thesis
    proof (cases "fut_done (hs_future s1)")
      case False
      then have "fst (set_done f (Some e) s1) = Inr ()"
        using i1 by (auto simp: hs_inv_def set_done_def resolve_def py_monad)
      moreover from assms(2) run Inl False have "(r, s') = set_done f (Some e) s1"
        by (simp add: run_transform_def py_monad)
      ultimately show ?thesis using set_done_inv [OF i1, of "Some e"] by (metis fst_conv)
    qed (use assms(2) run Inl i1 in \<open>simp add: run_transform_def py_monad\<close>)
  qed (use assms(2) run i1 in \<open>auto simp: run_transform_def py_monad\<close>)
  with run show ?thesis by (auto simp: hs_inv_def)
qed

end
