(* ===== verification/Mqtt5_Client.thy ===== *)
theory Mqtt5_Client
  imports Mqtt5_Packets Ws_Handshake
begin

text \<open>
  \<open>awscrt/mqtt5.py\<close>: the MQTT5 client. \<open>_ClientCore\<close> receives the native callbacks:
  received publishes, with manual control of the acknowledgement, lifecycle events and the
  WebSocket handshake transform; \<open>Client\<close> issues the operations, each of which returns a
  future that a native completion callback resolves. The C function that delivers a publish and
  decides about the automatic acknowledgement (\<open>source/mqtt5_client.c\<close>) is modelled too,
  since the acknowledgement protocol spans both sides.

  User callbacks that call back into the objects they are given are programs: values of a datatype
  that lists the calls they make and how they continue on each result. Shown: exactly one of the
  client and the user acknowledges a publish if the callback returns; what happens if it raises;
  native code is told the outcome of the handshake transform exactly once; the futures of the
  operations end with the outcome of their acknowledgement.
\<close>

section \<open>The core\<close>

text \<open>\<open>takes_one cb\<close>: \<open>inspect.signature(cb)\<close> exists and accepts one positional argument.\<close>

definition check_callback :: "(pyval \<Rightarrow> bool) \<Rightarrow> pyval \<Rightarrow> pyexc + pyval" where
  "check_callback takes_one cb =
     (if cb \<noteq> PNone
      then (if takes_one cb then Inr cb else Inl (TypeError ''Callable should take one argument''))
      else Inr PNone)"

record client_core =
  ws_handshake_transform_cb :: pyval
  on_publish_cb :: pyval
  on_lifecycle_stopped_cb :: pyval
  on_lifecycle_attempting_connect_cb :: pyval
  on_lifecycle_connection_success_cb :: pyval
  on_lifecycle_connection_failure_cb :: pyval
  on_lifecycle_disconnection_cb :: pyval
  core_disable_metrics :: bool

fun check_callbacks :: "(pyval \<Rightarrow> bool) \<Rightarrow> pyval list \<Rightarrow> pyexc + pyval list" where
  "check_callbacks T [] = Inr []"
| "check_callbacks T (cb # cbs) =
     (case check_callback T cb of
        Inl e \<Rightarrow> Inl e
      | Inr c \<Rightarrow> (case check_callbacks T cbs of Inl e \<Rightarrow> Inl e | Inr cs \<Rightarrow> Inr (c # cs)))"

definition ClientCore_init :: "(pyval \<Rightarrow> bool) \<Rightarrow> ClientOptions \<Rightarrow> pyexc + client_core" where
  "ClientCore_init T o' =
     (case check_callbacks T [co_websocket_handshake_transform o', co_on_publish_callback_fn o',
             co_on_lifecycle_event_stopped_fn o', co_on_lifecycle_event_attempting_connect_fn o',
             co_on_lifecycle_event_connection_success_fn o',
             co_on_lifecycle_event_connection_failure_fn o', co_on_lifecycle_event_disconnection_fn o'] of
        Inl e \<Rightarrow> Inl e
      | Inr cs \<Rightarrow> Inr \<lparr>ws_handshake_transform_cb = cs ! 0, on_publish_cb = cs ! 1,
          on_lifecycle_stopped_cb = cs ! 2, on_lifecycle_attempting_connect_cb = cs ! 3,
          on_lifecycle_connection_success_cb = cs ! 4, on_lifecycle_connection_failure_cb = cs ! 5,
          on_lifecycle_disconnection_cb = cs ! 6, core_disable_metrics = co_disable_metrics o'\<rparr>)"

section \<open>Received publishes\<close>

text \<open>The arguments of \<open>_on_publish\<close>; an optional number comes with a flag that says
  whether it is there.\<close>

record publish_args =
  in_payload :: bytes
  in_qos :: int
  in_retain :: bool
  in_topic :: string
  in_payload_format_indicator :: "bool \<times> int"
  in_message_expiry_interval_sec :: "bool \<times> int"
  in_topic_alias :: "bool \<times> int"
  in_response_topic :: "string option"
  in_correlation_data :: "bytes option"
  in_subscription_identifiers :: "int list option"
  in_content_type :: "string option"
  in_user_properties :: "(string \<times> string) list option"
  in_puback_control_id :: int

definition exists_arg :: "bool \<times> 'a \<Rightarrow> 'a option" where
  "exists_arg p = (if fst p then Some (snd p) else None)"

text \<open>The packet presented to the user; the deprecated \<open>correlation_data\<close> is filled only if
  the bytes are valid UTF-8.\<close>

definition received_packet :: "publish_args \<Rightarrow> PublishPacket" where
  "received_packet a = PublishPacket_init\<lparr>
     pb_topic := in_topic a,
     pb_payload := PBytes (in_payload a),
     pb_qos := try_qos (in_qos a),
     pb_retain := in_retain a,
     pb_payload_format_indicator :=
       Option.bind (exists_arg (in_payload_format_indicator a)) try_payload_format_indicator,
     pb_message_expiry_interval_sec := exists_arg (in_message_expiry_interval_sec a),
     pb_topic_alias := exists_arg (in_topic_alias a),
     pb_response_topic := in_response_topic a,
     pb_correlation_data_bytes := pv PBytes (in_correlation_data a),
     pb_correlation_data := pv PStr (Option.bind (in_correlation_data a) decode_utf8),
     pb_subscription_identifiers := in_subscription_identifiers a,
     pb_content_type := in_content_type a,
     pb_user_properties := init_user_properties (in_user_properties a)\<rparr>"

text \<open>
  A user callback: it may return, raise, or call \<open>acquire_publish_acknowledgement_control\<close> and
  continue with what that call returned (the identifier inside the handle) or raised.
\<close>

datatype pub_prog =
    PubReturn
  | PubRaise pyexc
  | PubAcquire "pyexc + int \<Rightarrow> pub_prog"

text \<open>The variables the closure shares with \<open>_on_publish\<close>, and the handles issued so far.\<close>

record pub_state =
  puback_taken :: bool
  callback_active :: bool
  handles :: "int list"

definition pub_state_init :: pub_state where
  "pub_state_init = \<lparr>puback_taken = False, callback_active = True, handles = []\<rparr>"

text \<open>For QoS 0 the attribute is \<open>None\<close>, and calling it is a \<open>TypeError\<close>.\<close>

definition acquire_publish_acknowledgement_control ::
  "int \<Rightarrow> pub_state \<Rightarrow> (pyexc + int) \<times> pub_state" where
  "acquire_publish_acknowledgement_control cid st =
     (if cid = 0 then (Inl (TypeError ''NoneType object is not callable''), st)
      else if puback_taken st
      then (Inl (RuntimeError ''acquire_publish_acknowledgement_control() may only be called once per received PUBLISH.''), st)
      else if \<not> callback_active st
      then (Inl (RuntimeError ''acquire_publish_acknowledgement_control() must be called within the on_publish_callback_fn callback.''), st)
      else (Inr cid, st\<lparr>puback_taken := True, handles := handles st @ [cid]\<rparr>))"

primrec run_pub :: "int \<Rightarrow> pub_prog \<Rightarrow> pub_state \<Rightarrow> (pyexc + unit) \<times> pub_state" where
  "run_pub cid PubReturn st = (Inr (), st)"
| "run_pub cid (PubRaise e) st = (Inl e, st)"
| "run_pub cid (PubAcquire k) st =
     (case acquire_publish_acknowledgement_control cid st of (r, st') \<Rightarrow> run_pub cid (k r) st')"

definition on_publish ::
  "(PublishPacket \<Rightarrow> pub_prog) option \<Rightarrow> publish_args \<Rightarrow> (pyexc + bool) \<times> pub_state" where
  "on_publish cb a =
     (case cb of
        None \<Rightarrow> (Inr False, pub_state_init)
      | Some prog \<Rightarrow>
          (case run_pub (in_puback_control_id a) (prog (received_packet a)) pub_state_init of
             (Inl e, st) \<Rightarrow> (Inl e, st)
           | (Inr _, st) \<Rightarrow> (Inr (puback_taken st), st\<lparr>callback_active := False\<rparr>)))"

text \<open>
  The C side: control of the acknowledgement of a QoS 1 publish is taken before Python is called
  (\<open>acquired\<close> is the identifier the native client hands out), and the acknowledgement is sent
  right away if \<open>_on_publish\<close> raises or returns a false value. The result lists the
  identifiers acknowledged automatically.
\<close>

definition on_publish_received ::
  "(PublishPacket \<Rightarrow> pub_prog) option \<Rightarrow> int \<Rightarrow> publish_args \<Rightarrow> int list \<times> pub_state" where
  "on_publish_received cb acquired a =
     (let cid = (if in_qos a = 1 then acquired else 0);
          (r, st) = on_publish cb (a\<lparr>in_puback_control_id := cid\<rparr>)
      in (case r of
            Inl _ \<Rightarrow> if cid \<noteq> 0 then [cid] else []
          | Inr taken \<Rightarrow> if cid \<noteq> 0 \<and> \<not> taken then [cid] else [], st))"

section \<open>WebSocket handshake\<close>

text \<open>
  \<open>bindings\<close> is the outcome of \<open>HttpRequest._from_bindings\<close>. If it raises, the local
  \<open>transform_args\<close> that the handler uses has not been assigned.
\<close>

definition ws_handshake_transform :: "pyexc option \<Rightarrow> hs_prog option \<Rightarrow> (hs_state, unit) py" where
  "ws_handshake_transform bindings cb =
     (case cb of
        None \<Rightarrow> emit (Native ''mqtt5_ws_handshake_transform_complete'' [PNone, PObj ''native_userdata'' 0, PInt 0])
      | Some prog \<Rightarrow>
          thenE (updE (\<lambda>s. s\<lparr>hs_future := Pending\<rparr>))
            (case bindings of
               Some e \<Rightarrow> (\<lambda>s. if \<not> fut_done (hs_future s)
                              then (Inl (UnboundLocalError ''transform_args''), s) else (Inr (), s))
             | None \<Rightarrow> run_transform ''mqtt5_ws_handshake_transform_complete'' prog))"

section \<open>Lifecycle events\<close>

record connack_args =
  k_session_present :: bool
  k_reason_code :: int
  k_session_expiry_interval_sec :: "bool \<times> int"
  k_receive_maximum :: "bool \<times> int"
  k_maximum_qos :: "bool \<times> int"
  k_retain_available :: "bool \<times> bool"
  k_maximum_packet_size :: "bool \<times> int"
  k_assigned_client_identifier :: "string option"
  k_reason_string :: "string option"
  k_user_properties :: "(string \<times> string) list option"
  k_wildcard_subscriptions_available :: "bool \<times> bool"
  k_subscription_identifiers_available :: "bool \<times> bool"
  k_shared_subscriptions_available :: "bool \<times> bool"
  k_server_keep_alive :: "bool \<times> int"
  k_response_information :: "string option"
  k_server_reference :: "string option"

text \<open>The CONNACK as both lifecycle handlers fill it; a topic alias maximum is passed only for a
  successful connection.\<close>

definition connack_packet :: "connack_args \<Rightarrow> bool \<times> int \<Rightarrow> ConnackPacket" where
  "connack_packet a topic_alias_maximum = \<lparr>
     ca_session_present = Some (k_session_present a),
     ca_reason_code = try_connect_reason_code (k_reason_code a),
     ca_session_expiry_interval_sec = exists_arg (k_session_expiry_interval_sec a),
     ca_receive_maximum = exists_arg (k_receive_maximum a),
     ca_maximum_qos = Option.bind (exists_arg (k_maximum_qos a)) try_qos,
     ca_retain_available = exists_arg (k_retain_available a),
     ca_maximum_packet_size = exists_arg (k_maximum_packet_size a),
     ca_assigned_client_identifier = k_assigned_client_identifier a,
     ca_topic_alias_maximum = exists_arg topic_alias_maximum,
     ca_reason_string = k_reason_string a,
     ca_user_properties = init_user_properties (k_user_properties a),
     ca_wildcard_subscriptions_available = exists_arg (k_wildcard_subscriptions_available a),
     ca_subscription_identifiers_available = exists_arg (k_subscription_identifiers_available a),
     ca_shared_subscription_available = exists_arg (k_shared_subscriptions_available a),
     ca_server_keep_alive_sec = exists_arg (k_server_keep_alive a),
     ca_response_information = k_response_information a,
     ca_server_reference = k_server_reference a\<rparr>"

record settings_args =
  n_maximum_qos :: int
  n_session_expiry_interval_sec :: int
  n_receive_maximum_from_server :: int
  n_maximum_packet_size_to_server :: int
  n_topic_alias_maximum_to_server :: int
  n_topic_alias_maximum_to_client :: int
  n_server_keep_alive :: int
  n_retain_available :: bool
  n_wildcard_subscriptions_available :: bool
  n_subscription_identifiers_available :: bool
  n_shared_subscriptions_available :: bool
  n_rejoined_session :: bool
  n_client_id :: string

definition negotiated_settings :: "settings_args \<Rightarrow> NegotiatedSettings" where
  "negotiated_settings n = \<lparr>
     ns_maximum_qos = try_qos (n_maximum_qos n),
     ns_session_expiry_interval_sec = n_session_expiry_interval_sec n,
     ns_receive_maximum_from_server = n_receive_maximum_from_server n,
     ns_maximum_packet_size_to_server = n_maximum_packet_size_to_server n,
     ns_topic_alias_maximum_to_server = n_topic_alias_maximum_to_server n,
     ns_topic_alias_maximum_to_client = n_topic_alias_maximum_to_client n,
     ns_server_keep_alive_sec = n_server_keep_alive n,
     ns_retain_available = n_retain_available n,
     ns_wildcard_subscriptions_available = n_wildcard_subscriptions_available n,
     ns_subscription_identifiers_available = n_subscription_identifiers_available n,
     ns_shared_subscriptions_available = n_shared_subscriptions_available n,
     ns_rejoined_session = n_rejoined_session n,
     ns_client_id = n_client_id n\<rparr>"

text \<open>
  The handlers. The result is the data with which the user's callback is invoked, once, or
  \<open>None\<close> if it is not invoked. \<open>_on_lifecycle_stopped\<close> and
  \<open>_on_lifecycle_attempting_connect\<close> pass empty data and test the truth of the callback,
  which is the same since a callable object is true.
\<close>

definition on_lifecycle_stopped :: "client_core \<Rightarrow> unit option" where
  "on_lifecycle_stopped c = (if truthy (on_lifecycle_stopped_cb c) then Some () else None)"

definition on_lifecycle_attempting_connect :: "client_core \<Rightarrow> unit option" where
  "on_lifecycle_attempting_connect c =
     (if truthy (on_lifecycle_attempting_connect_cb c) then Some () else None)"

definition on_lifecycle_connection_success ::
  "client_core \<Rightarrow> connack_args \<Rightarrow> bool \<times> int \<Rightarrow> settings_args \<Rightarrow> LifecycleConnectSuccessData option" where
  "on_lifecycle_connection_success c a topic_alias_maximum n =
     (if on_lifecycle_connection_success_cb c = PNone then None
      else Some \<lparr>ls_connack_packet = connack_packet a topic_alias_maximum,
                 ls_negotiated_settings = negotiated_settings n\<rparr>)"

definition on_lifecycle_connection_failure ::
  "crt_errors \<Rightarrow> client_core \<Rightarrow> int \<Rightarrow> bool \<Rightarrow> connack_args \<Rightarrow> LifecycleConnectFailureData option" where
  "on_lifecycle_connection_failure E c error_code connack_packet_exists a =
     (if on_lifecycle_connection_failure_cb c = PNone then None
      else Some \<lparr>lf_connack_packet = (if connack_packet_exists then Some (connack_packet a (False, 0)) else None),
                 lf_exception = from_code E error_code\<rparr>)"

record disconnect_args =
  x_reason_code :: int
  x_session_expiry_interval_sec :: "bool \<times> int"
  x_reason_string :: "string option"
  x_user_properties :: "(string \<times> string) list option"
  x_server_reference :: "string option"

definition on_lifecycle_disconnection ::
  "crt_errors \<Rightarrow> client_core \<Rightarrow> int \<Rightarrow> bool \<Rightarrow> disconnect_args \<Rightarrow> LifecycleDisconnectData option" where
  "on_lifecycle_disconnection E c error_code disconnect_packet_exists x =
     (if on_lifecycle_disconnection_cb c = PNone then None
      else Some \<lparr>ld_disconnect_packet =
          (if disconnect_packet_exists
           then Some (DisconnectPacket_init\<lparr>
             dc_reason_code := try_disconnect_reason_code (x_reason_code x),
             dc_session_expiry_interval_sec := exists_arg (x_session_expiry_interval_sec x),
             dc_reason_string := x_reason_string x,
             dc_user_properties := init_user_properties (x_user_properties x),
             dc_server_reference := x_server_reference x\<rparr>)
           else None),
        ld_exception = from_code E error_code\<rparr>)"

section \<open>The client\<close>

text \<open>\<open>_Mqtt5to3AdapterOptions\<close>, with the defaults its constructor fills in.\<close>

record Mqtt5to3AdapterOptions =
  ad_host_name :: string
  ad_port :: "int option"
  ad_client_id :: string
  ad_socket_options :: pyval
  ad_min_reconnect_delay_ms :: int
  ad_max_reconnect_delay_ms :: int
  ad_ping_timeout_ms :: int
  ad_keep_alive_secs :: int
  ad_ack_timeout_secs :: int
  ad_clean_session :: bool
  ad_disable_metrics :: bool

definition or_default :: "'a \<Rightarrow> 'a option \<Rightarrow> 'a" where
  "or_default d x = (case x of None \<Rightarrow> d | Some v \<Rightarrow> v)"

text \<open>\<open>session_behavior < REJOIN_ALWAYS if session_behavior else True\<close>: \<open>DEFAULT\<close>, being
  0, is false.\<close>

definition adapter_clean_session :: "ClientSessionBehaviorType option \<Rightarrow> bool" where
  "adapter_clean_session b =
     (case b of None \<Rightarrow> True
      | Some b \<Rightarrow> if ClientSessionBehaviorType_value b \<noteq> 0
                  then b < ClientSessionBehaviorType.REJOIN_ALWAYS else True)"

definition adapter_options_of :: "ClientOptions \<Rightarrow> ConnectPacket \<Rightarrow> pyval \<Rightarrow> Mqtt5to3AdapterOptions" where
  "adapter_options_of o' connect_options socket_options = \<lparr>
     ad_host_name = co_host_name o', ad_port = co_port o',
     ad_client_id = or_default [] (cp_client_id connect_options),
     ad_socket_options = socket_options,
     ad_min_reconnect_delay_ms = or_default 5 (co_min_reconnect_delay_ms o'),
     ad_max_reconnect_delay_ms = or_default 60 (co_max_reconnect_delay_ms o'),
     ad_ping_timeout_ms = or_default 3000 (co_ping_timeout_ms o'),
     ad_keep_alive_secs = or_default 1200 (cp_keep_alive_interval_sec connect_options),
     ad_ack_timeout_secs = or_default 0 (co_ack_timeout_sec o'),
     ad_clean_session = adapter_clean_session (co_session_behavior o'),
     ad_disable_metrics = co_disable_metrics o'\<rparr>"

definition pv_user_properties :: "UserProperty list option \<Rightarrow> pyval" where
  "pv_user_properties = pv (\<lambda>us. PList (map (\<lambda>u. PTuple [PStr (up_name u), PStr (up_value u)]) us))"

definition pv_metrics :: "AWSIoTMetrics option \<Rightarrow> pyval" where
  "pv_metrics = pv (\<lambda>m. PTuple [PStr (library_name m),
     pv (\<lambda>es. PList (map (\<lambda>e. PTuple [PStr (metadata_key e), PStr (metadata_value e)]) es)) (metadata_entries m)])"

definition pv_topic_aliasing :: "TopicAliasingOptions option \<Rightarrow> pyval" where
  "pv_topic_aliasing = pv (\<lambda>t. PTuple
     [pv (\<lambda>b. PEnum ''OutboundTopicAliasBehaviorType'' (OutboundTopicAliasBehaviorType_value b)) (outbound_behavior t),
      pv PInt (outbound_cache_max_size t),
      pv (\<lambda>b. PEnum ''InboundTopicAliasBehaviorType'' (InboundTopicAliasBehaviorType_value b)) (inbound_behavior t),
      pv PInt (inbound_cache_max_size t)])"

definition pv_qos :: "Mqtt5QoS option \<Rightarrow> pyval" where
  "pv_qos = pv (\<lambda>q. PEnum ''mqtt5.QoS'' (Mqtt5QoS_value q))"

definition pv_pfi :: "PayloadFormatIndicator option \<Rightarrow> pyval" where
  "pv_pfi = pv (\<lambda>i. PEnum ''PayloadFormatIndicator'' (PayloadFormatIndicator_value i))"

text \<open>The arguments taken from a packet to be published, here and for the will.\<close>

definition publish_native_args :: "PublishPacket \<Rightarrow> pyval list" where
  "publish_native_args p =
     [pv_qos (pb_qos p), pb_payload p, PBool (pb_retain p), PStr (pb_topic p),
      pv_pfi (pb_payload_format_indicator p), pv PInt (pb_message_expiry_interval_sec p),
      pv PInt (pb_topic_alias p), pv PStr (pb_response_topic p),
      py_or (pb_correlation_data_bytes p) (pb_correlation_data p), pv PStr (pb_content_type p),
      pv_user_properties (pb_user_properties p)]"

definition connect_native_args :: "ConnectPacket \<Rightarrow> pyval list" where
  "connect_native_args c =
     [pv PStr (cp_client_id c), pv PInt (cp_keep_alive_interval_sec c), pv PStr (cp_username c),
      pv PStr (cp_password c), pv PInt (cp_session_expiry_interval_sec c),
      pv PBool (cp_request_response_information c), pv PBool (cp_request_problem_information c),
      pv PInt (cp_receive_maximum c), pv PInt (cp_maximum_packet_size c),
      pv PInt (cp_will_delay_interval_sec c), pv_user_properties (cp_user_properties c)]"

definition behavior_native_args :: "ClientOptions \<Rightarrow> pyval list" where
  "behavior_native_args o' =
     [pv (\<lambda>b. PEnum ''ClientSessionBehaviorType'' (ClientSessionBehaviorType_value b)) (co_session_behavior o'),
      pv (\<lambda>b. PEnum ''ExtendedValidationAndFlowControlOptions'' (ExtendedValidationAndFlowControlOptions_value b))
        (co_extended_validation_and_flow_control_options o'),
      pv (\<lambda>b. PEnum ''ClientOperationQueueBehaviorType'' (ClientOperationQueueBehaviorType_value b))
        (co_offline_queue_behavior o'),
      pv (\<lambda>b. PEnum ''ExponentialBackoffJitterMode'' (ExponentialBackoffJitterMode_value b)) (co_retry_jitter_mode o'),
      pv PInt (co_min_reconnect_delay_ms o'), pv PInt (co_max_reconnect_delay_ms o'),
      pv PInt (co_min_connected_time_to_reset_reconnect_delay_ms o'), pv PInt (co_ping_timeout_ms o'),
      pv PInt (co_connack_timeout_ms o'), pv PInt (co_ack_timeout_sec o'),
      pv_topic_aliasing (co_topic_aliasing_options o')]"

text \<open>
  The client: its core, what the adapter to MQTT 3.1.1 needs, and the futures of the publish,
  subscribe and unsubscribe operations issued so far.
\<close>

record mqtt5_client = world +
  c_core :: client_core
  c_metrics :: "AWSIoTMetrics option"
  c_adapter_options :: Mqtt5to3AdapterOptions
  publish_futures :: "PublishCompletionData fut list"
  subscribe_futures :: "SubackPacket fut list"
  unsubscribe_futures :: "UnsubackPacket fut list"

definition Client_init ::
  "native_env \<Rightarrow> (pyval \<Rightarrow> bool) \<Rightarrow> string \<Rightarrow> string \<Rightarrow> pyexc + pyval \<Rightarrow> ClientOptions \<Rightarrow> pyexc + mqtt5_client" where
  "Client_init N T platform crt_version default_bootstrap o' =
     (case ClientCore_init T o' of
        Inl e \<Rightarrow> Inl e
      | Inr core \<Rightarrow>
          (case (if \<not> truthy (co_bootstrap o') then default_bootstrap else Inr (co_bootstrap o')) of
             Inl e \<Rightarrow> Inl e
           | Inr bootstrap \<Rightarrow>
               (let connect_options = or_default ConnectPacket_init (co_connect_options o');
                    socket_options = py_or (co_socket_options o') (PObj ''SocketOptions'' 0);
                    metrics = (if co_disable_metrics o' then None
                               else Some (create_metrics_mqtt5 platform crt_version o'));
                    is_will_none = (cp_will connect_options = None);
                    will = or_default PublishPacket_init (cp_will connect_options);
                    websocket_is_none = (co_websocket_handshake_transform o' = PNone);
                    args = [PObj ''Client'' 0, PStr (co_host_name o'), pv PInt (co_port o'), bootstrap, socket_options,
                            pv ctx_binding (co_tls_ctx o'),
                            (if co_http_proxy_options o' = None then PNone else PObj ''HttpProxyOptions'' 0)] @
                           connect_native_args connect_options @ [PBool is_will_none] @
                           publish_native_args will @ behavior_native_args o' @
                           [PBool websocket_is_none, PBool (\<not> co_disable_metrics o'), pv_metrics metrics,
                            PObj ''_ClientCore'' 0]
                in (case N ''mqtt5_client_new'' args of
                      Inl e \<Rightarrow> Inl e
                    | Inr _ \<Rightarrow> Inr \<lparr>trace = [Native ''mqtt5_client_new'' args], c_core = core, c_metrics = metrics,
                        c_adapter_options = adapter_options_of o' connect_options socket_options,
                        publish_futures = [], subscribe_futures = [], unsubscribe_futures = []\<rparr>))))"

definition client_start :: "native_env \<Rightarrow> (mqtt5_client, unit) py" where
  "client_start N = thenE (native N ''mqtt5_client_start'' [PObj ''Client'' 0]) (ret ())"

definition client_stop :: "native_env \<Rightarrow> DisconnectPacket option \<Rightarrow> (mqtt5_client, unit) py" where
  "client_stop N disconnect_packet =
     (let is_none = (disconnect_packet = None);
          d = or_default DisconnectPacket_init disconnect_packet
      in thenE (native N ''mqtt5_client_stop''
           [PObj ''Client'' 0, PBool is_none,
            pv (\<lambda>c. PEnum ''DisconnectReasonCode'' (DisconnectReasonCode_value c)) (dc_reason_code d),
            pv PInt (dc_session_expiry_interval_sec d), pv PStr (dc_reason_string d),
            pv_user_properties (dc_user_properties d), pv PStr (dc_server_reference d)])
         (ret ()))"

text \<open>\<open>publish\<close> returns the future; here its number.\<close>

definition client_publish :: "native_env \<Rightarrow> PublishPacket \<Rightarrow> (mqtt5_client, nat) py" where
  "client_publish N p =
     bindE (getE (\<lambda>s. length (publish_futures s))) (\<lambda>k.
     thenE (updE (\<lambda>s. s\<lparr>publish_futures := publish_futures s @ [Pending]\<rparr>))
    (thenE (native N ''mqtt5_client_publish'' (PObj ''Client'' 0 # publish_native_args p @ [PFun k]))
       (ret k)))"

definition puback_outcome ::
  "crt_errors \<Rightarrow> int \<Rightarrow> int \<Rightarrow> int \<Rightarrow> string option \<Rightarrow> (string \<times> string) list option \<Rightarrow> pyexc + PublishCompletionData" where
  "puback_outcome E error_code qos reason_code reason_string user_properties =
     (if error_code \<noteq> 0 then Inl (from_code E error_code)
      else Inr \<lparr>pc_puback = Some
        (if qos = 1
         then \<lparr>pa_reason_code = try_puback_reason_code reason_code, pa_reason_string = reason_string,
               pa_user_properties = init_user_properties user_properties\<rparr>
         else PubackPacket_init)\<rparr>)"

definition puback ::
  "crt_errors \<Rightarrow> nat \<Rightarrow> int \<Rightarrow> int \<Rightarrow> int \<Rightarrow> string option \<Rightarrow> (string \<times> string) list option \<Rightarrow> (mqtt5_client, unit) py" where
  "puback E k error_code qos reason_code reason_string user_properties =
     resolve (\<lambda>s. publish_futures s ! k) (\<lambda>f s. s\<lparr>publish_futures := (publish_futures s)[k := f]\<rparr>)
       (puback_outcome E error_code qos reason_code reason_string user_properties)"

definition pv_subscription :: "Subscription \<Rightarrow> pyval" where
  "pv_subscription x = PTuple [PStr (sub_topic_filter x), PEnum ''mqtt5.QoS'' (Mqtt5QoS_value (sub_qos x)),
     PBool (sub_no_local x), PBool (sub_retain_as_published x),
     PEnum ''RetainHandlingType'' (RetainHandlingType_value (sub_retain_handling_type x))]"

definition client_subscribe :: "native_env \<Rightarrow> SubscribePacket \<Rightarrow> (mqtt5_client, nat) py" where
  "client_subscribe N p =
     bindE (getE (\<lambda>s. length (subscribe_futures s))) (\<lambda>k.
     thenE (updE (\<lambda>s. s\<lparr>subscribe_futures := subscribe_futures s @ [Pending]\<rparr>))
    (thenE (native N ''mqtt5_client_subscribe''
       [PObj ''Client'' 0, PList (map pv_subscription (sp_subscriptions p)), pv PInt (sp_subscription_identifier p),
        pv_user_properties (sp_user_properties p), PFun k])
       (ret k)))"

definition suback_outcome ::
  "crt_errors \<Rightarrow> int \<Rightarrow> int list \<Rightarrow> string option \<Rightarrow> (string \<times> string) list option \<Rightarrow> pyexc + SubackPacket" where
  "suback_outcome E error_code reason_codes reason_string user_properties =
     (if error_code \<noteq> 0 then Inl (from_code E error_code)
      else Inr \<lparr>sa_reason_string = reason_string, sa_user_properties = init_user_properties user_properties,
                sa_reason_codes = Some (map try_suback_reason_code reason_codes)\<rparr>)"

definition suback ::
  "crt_errors \<Rightarrow> nat \<Rightarrow> int \<Rightarrow> int list \<Rightarrow> string option \<Rightarrow> (string \<times> string) list option \<Rightarrow> (mqtt5_client, unit) py" where
  "suback E k error_code reason_codes reason_string user_properties =
     resolve (\<lambda>s. subscribe_futures s ! k) (\<lambda>f s. s\<lparr>subscribe_futures := (subscribe_futures s)[k := f]\<rparr>)
       (suback_outcome E error_code reason_codes reason_string user_properties)"

definition client_unsubscribe :: "native_env \<Rightarrow> UnsubscribePacket \<Rightarrow> (mqtt5_client, nat) py" where
  "client_unsubscribe N p =
     bindE (getE (\<lambda>s. length (unsubscribe_futures s))) (\<lambda>k.
     thenE (updE (\<lambda>s. s\<lparr>unsubscribe_futures := unsubscribe_futures s @ [Pending]\<rparr>))
    (thenE (native N ''mqtt5_client_unsubscribe''
       [PObj ''Client'' 0, PList (map PStr (us_topic_filters p)), pv_user_properties (us_user_properties p), PFun k])
       (ret k)))"

definition unsuback_outcome ::
  "crt_errors \<Rightarrow> int \<Rightarrow> int list \<Rightarrow> string option \<Rightarrow> (string \<times> string) list option \<Rightarrow> pyexc + UnsubackPacket" where
  "unsuback_outcome E error_code reason_codes reason_string user_properties =
     (if error_code \<noteq> 0 then Inl (from_code E error_code)
      else Inr \<lparr>ua_reason_string = reason_string, ua_user_properties = init_user_properties user_properties,
                ua_reason_codes = Some (map try_unsuback_reason_code reason_codes)\<rparr>)"

definition unsuback ::
  "crt_errors \<Rightarrow> nat \<Rightarrow> int \<Rightarrow> int list \<Rightarrow> string option \<Rightarrow> (string \<times> string) list option \<Rightarrow> (mqtt5_client, unit) py" where
  "unsuback E k error_code reason_codes reason_string user_properties =
     resolve (\<lambda>s. unsubscribe_futures s ! k) (\<lambda>f s. s\<lparr>unsubscribe_futures := (unsubscribe_futures s)[k := f]\<rparr>)
       (unsuback_outcome E error_code reason_codes reason_string user_properties)"

definition client_get_stats :: "native_env \<Rightarrow> ('a world_scheme, OperationStatisticsData) py" where
  "client_get_stats N =
     bindE (native N ''mqtt5_client_get_stats'' [PObj ''Client'' 0]) (\<lambda>r s. (stats_of r, s))"

definition invoke_publish_acknowledgement :: "native_env \<Rightarrow> int \<Rightarrow> (mqtt5_client, unit) py" where
  "invoke_publish_acknowledgement N control_id =
     thenE (native N ''mqtt5_client_invoke_publish_acknowledgement'' [PObj ''Client'' 0, PInt control_id]) (ret ())"

section \<open>Acknowledging received publishes\<close>

text \<open>Between the control variables: a handle is out exactly if control was taken.\<close>

definition pub_inv :: "int \<Rightarrow> pub_state \<Rightarrow> bool" where
  "pub_inv cid st = (handles st = (if puback_taken st then [cid] else []) \<and> (puback_taken st \<longrightarrow> cid \<noteq> 0))"

lemma acquire_inv:
  "pub_inv cid st \<Longrightarrow> acquire_publish_acknowledgement_control cid st = (r, st') \<Longrightarrow>
   pub_inv cid st' \<and> callback_active st' = callback_active st \<and> (puback_taken st \<longrightarrow> puback_taken st')"
  by (auto simp: pub_inv_def acquire_publish_acknowledgement_control_def split: if_splits)

lemma run_pub_inv:
  "pub_inv cid st \<Longrightarrow> run_pub cid prog st = (r, st') \<Longrightarrow>
   pub_inv cid st' \<and> callback_active st' = callback_active st"
proof (induction prog arbitrary: st)
  case (PubAcquire k)
  obtain r1 st1 where a: "acquire_publish_acknowledgement_control cid st = (r1, st1)" by fastforce
  with acquire_inv [OF PubAcquire.prems(1) a] PubAcquire.prems(2) PubAcquire.IH [of "k r1" st1] show ?case
    by simp
qed auto

lemma pub_inv_init: "pub_inv cid pub_state_init"
  by (simp add: pub_inv_def pub_state_init_def)

lemma acquire_closed:
  "\<not> callback_active st \<Longrightarrow> cid \<noteq> 0 \<Longrightarrow>
   \<exists>m. acquire_publish_acknowledgement_control cid st = (Inl (RuntimeError m), st)"
  by (auto simp: acquire_publish_acknowledgement_control_def)


definition publish_ex :: publish_args where
  "publish_ex = \<lparr>in_payload = [1], in_qos = 1, in_retain = False, in_topic = ''t'',
     in_payload_format_indicator = (False, 0), in_message_expiry_interval_sec = (False, 0),
     in_topic_alias = (False, 0), in_response_topic = None, in_correlation_data = None,
     in_subscription_identifiers = None, in_content_type = None, in_user_properties = None,
     in_puback_control_id = 0\<rparr>"


text \<open>
  If the callback takes control of the acknowledgement and then raises, the client sends the
  acknowledgement although the user holds a handle for it as well; and since the end of the
  callback was never recorded, control may still be taken after it, which the documentation says
  raises.
\<close>

lemma raising_callback_double_ack:
  assumes "in_qos a = 1" and "acquired \<noteq> 0"
    and "cb = Some (\<lambda>_. if early then PubAcquire (\<lambda>_. PubRaise e) else PubRaise e)"
    and "on_publish_received cb acquired a = (auto_acks, st)"
  shows "auto_acks = [acquired] \<and> (early \<longrightarrow> handles st = [acquired]) \<and>
    (\<not> early \<longrightarrow> fst (acquire_publish_acknowledgement_control acquired st) = Inr acquired)"
  using assms
  by (cases early) (auto simp: on_publish_received_def on_publish_def
      acquire_publish_acknowledgement_control_def pub_state_init_def Let_def)

section \<open>Handshake transform\<close>

text \<open>
  (C5) Native code is told the outcome of a handshake transform exactly once: at once if there is no
  transform, otherwise when the transform first calls \<open>set_done\<close>, or raises, whichever it does
  first, however often it calls \<open>set_done\<close>. It is told nothing before that; a transform that
  returns without calling it can do so later, once.
\<close>

theorem handshake_completes_once:
  assumes "ws_handshake_transform None cb s = (r, s')"
    and "f = ''mqtt5_ws_handshake_transform_complete''"
  shows "r = Inr () \<and>
    (cb = None \<longrightarrow> completes f s' = Suc (completes f s)) \<and>
    (\<forall>prog. cb = Some prog \<longrightarrow>
      completes f s' = completes f s + (if fut_done (hs_future s') then 1 else 0) \<and>
      (\<forall>e s1. run_hs f prog (s\<lparr>hs_future := Pending\<rparr>) = (Inl e, s1) \<longrightarrow> completes f s' = Suc (completes f s)) \<and>
      completes f (snd (set_done f e' s')) = Suc (completes f s))"
proof (cases cb)
  case None
  with assms show ?thesis by (auto simp: ws_handshake_transform_def py_monad completes_def)
next
  case (Some prog)
  let ?s = "s\<lparr>hs_future := Pending\<rparr>"
  have "hs_inv f (completes f s) ?s" by (simp add: hs_inv_def completes_def)
  moreover have "run_transform f prog ?s = (r, s')"
    using assms Some by (simp add: ws_handshake_transform_def py_monad)
  ultimately have s': "r = Inr () \<and> hs_inv f (completes f s) s' \<and>
    (\<forall>e s1. run_hs f prog ?s = (Inl e, s1) \<longrightarrow> completes f s' = Suc (completes f s))"
    by (rule run_transform_once)
  obtain r2 s2 where d: "set_done f e' s' = (r2, s2)" by fastforce
  from set_done_inv [OF _ d, of "completes f s"] s' have "completes f s2 = Suc (completes f s)"
    by (simp add: hs_inv_def)
  with s' d Some show ?thesis by (auto simp: hs_inv_def)
qed

theorem handshake_completes_once_witness:
  "completes ''mqtt5_ws_handshake_transform_complete''
     (snd (ws_handshake_transform None (Some (HsSetDone None (\<lambda>_. HsSetDone None (\<lambda>_. HsRaise (UserExc 1)))))
       \<lparr>trace = [], hs_future = Pending\<rparr>)) = 1"
proof -
  let ?f = "''mqtt5_ws_handshake_transform_complete''"
  let ?p = "HsSetDone None (\<lambda>_. HsSetDone None (\<lambda>_. HsRaise (UserExc 1)))"
  let ?s = "\<lparr>trace = [], hs_future = Pending\<rparr>"
  obtain r s' where r: "ws_handshake_transform None (Some ?p) ?s = (r, s')" by fastforce
  obtain s1 where "run_hs ?f ?p (?s\<lparr>hs_future := Pending\<rparr>) = (Inl (UserExc 1), s1)"
    by (simp add: set_done_def resolve_def py_monad)
  with handshake_completes_once [OF r refl] have "completes ?f s' = Suc (completes ?f ?s)" by blast
  with r show ?thesis by (simp add: completes_def)
qed

text \<open>
  If building the request object for the transform fails, the handler fails in turn, on a
  local variable that was never assigned, and native code is not told: the handshake never
  completes.
\<close>

lemma handshake_bindings_failure:
  "fst (ws_handshake_transform (Some e) (Some prog) s) = Inl (UnboundLocalError ''transform_args'') \<and>
   completes ''mqtt5_ws_handshake_transform_complete'' (snd (ws_handshake_transform (Some e) (Some prog) s)) =
     completes ''mqtt5_ws_handshake_transform_complete'' s"
  by (simp add: ws_handshake_transform_def py_monad completes_def)

section \<open>Operations\<close>

datatype client_event =
    PublishOp PublishPacket
  | SubscribeOp SubscribePacket
  | UnsubscribeOp UnsubscribePacket
  | Puback nat int int int "string option" "(string \<times> string) list option"
  | Suback nat int "int list" "string option" "(string \<times> string) list option"
  | Unsuback nat int "int list" "string option" "(string \<times> string) list option"
  | StartOp
  | StopOp "DisconnectPacket option"
  | AckOp int

fun client_do :: "native_env \<Rightarrow> crt_errors \<Rightarrow> client_event \<Rightarrow> (mqtt5_client, unit) py" where
  "client_do N E (PublishOp p) = thenE (client_publish N p) (ret ())"
| "client_do N E (SubscribeOp p) = thenE (client_subscribe N p) (ret ())"
| "client_do N E (UnsubscribeOp p) = thenE (client_unsubscribe N p) (ret ())"
| "client_do N E (Puback k err qos code reason props) = puback E k err qos code reason props"
| "client_do N E (Suback k err codes reason props) = suback E k err codes reason props"
| "client_do N E (Unsuback k err codes reason props) = unsuback E k err codes reason props"
| "client_do N E StartOp = client_start N"
| "client_do N E (StopOp d) = client_stop N d"
| "client_do N E (AckOp cid) = invoke_publish_acknowledgement N cid"

abbreviation client_exec :: "native_env \<Rightarrow> crt_errors \<Rightarrow> client_event \<Rightarrow> mqtt5_client \<Rightarrow> mqtt5_client" where
  "client_exec N E e s \<equiv> snd (client_do N E e s)"

fun publish_trigger :: "crt_errors \<Rightarrow> nat \<Rightarrow> client_event \<Rightarrow> (pyexc + PublishCompletionData) option" where
  "publish_trigger E k (Puback j err qos code reason props) =
     (if j = k then Some (puback_outcome E err qos code reason props) else None)"
| "publish_trigger E k _ = None"

fun subscribe_trigger :: "crt_errors \<Rightarrow> nat \<Rightarrow> client_event \<Rightarrow> (pyexc + SubackPacket) option" where
  "subscribe_trigger E k (Suback j err codes reason props) =
     (if j = k then Some (suback_outcome E err codes reason props) else None)"
| "subscribe_trigger E k _ = None"

fun unsubscribe_trigger :: "crt_errors \<Rightarrow> nat \<Rightarrow> client_event \<Rightarrow> (pyexc + UnsubackPacket) option" where
  "unsubscribe_trigger E k (Unsuback j err codes reason props) =
     (if j = k then Some (unsuback_outcome E err codes reason props) else None)"
| "unsubscribe_trigger E k _ = None"

lemma client_issue_state:
  "publish_futures (snd (client_publish N p s)) = publish_futures s @ [Pending]"
  "subscribe_futures (snd (client_publish N p s)) = subscribe_futures s"
  "unsubscribe_futures (snd (client_publish N p s)) = unsubscribe_futures s"
  "publish_futures (snd (client_subscribe N q s)) = publish_futures s"
  "subscribe_futures (snd (client_subscribe N q s)) = subscribe_futures s @ [Pending]"
  "unsubscribe_futures (snd (client_subscribe N q s)) = unsubscribe_futures s"
  "publish_futures (snd (client_unsubscribe N u s)) = publish_futures s"
  "subscribe_futures (snd (client_unsubscribe N u s)) = subscribe_futures s"
  "unsubscribe_futures (snd (client_unsubscribe N u s)) = unsubscribe_futures s @ [Pending]"
  by (auto simp: client_publish_def client_subscribe_def client_unsubscribe_def py_monad split: sum.splits)

lemmas client_state_rules = client_issue_state snd_thenE_ret snd_resolve native_state
  puback_def suback_def unsuback_def client_start_def client_stop_def invoke_publish_acknowledgement_def

interpretation publish_fut: settled_slot "\<lambda>s. k < length (publish_futures s)" "\<lambda>s. publish_futures s ! k"
    "client_exec N E" "publish_trigger E k" for N E k
proof unfold_locales
  fix s :: mqtt5_client and e
  assume "k < length (publish_futures s)"
  then show "k < length (publish_futures (client_exec N E e s))"
    "publish_futures (client_exec N E e s) ! k = settle (publish_trigger E k e) (publish_futures s ! k)"
    by (cases e; simp add: client_state_rules nth_append nth_list_update settle_def Let_def)+
qed

interpretation subscribe_fut: settled_slot "\<lambda>s. k < length (subscribe_futures s)" "\<lambda>s. subscribe_futures s ! k"
    "client_exec N E" "subscribe_trigger E k" for N E k
proof unfold_locales
  fix s :: mqtt5_client and e
  assume "k < length (subscribe_futures s)"
  then show "k < length (subscribe_futures (client_exec N E e s))"
    "subscribe_futures (client_exec N E e s) ! k = settle (subscribe_trigger E k e) (subscribe_futures s ! k)"
    by (cases e; simp add: client_state_rules nth_append nth_list_update settle_def Let_def)+
qed

interpretation unsubscribe_fut: settled_slot "\<lambda>s. k < length (unsubscribe_futures s)"
    "\<lambda>s. unsubscribe_futures s ! k" "client_exec N E" "unsubscribe_trigger E k" for N E k
proof unfold_locales
  fix s :: mqtt5_client and e
  assume "k < length (unsubscribe_futures s)"
  then show "k < length (unsubscribe_futures (client_exec N E e s))"
    "unsubscribe_futures (client_exec N E e s) ! k = settle (unsubscribe_trigger E k e) (unsubscribe_futures s ! k)"
    by (cases e; simp add: client_state_rules nth_append nth_list_update settle_def Let_def)+
qed

lemma issued_pending:
  "client_publish N p s = (Inr k, s1) \<Longrightarrow> k < length (publish_futures s1) \<and> publish_futures s1 ! k = Pending"
  "client_subscribe N q s = (Inr k, s1) \<Longrightarrow> k < length (subscribe_futures s1) \<and> subscribe_futures s1 ! k = Pending"
  "client_unsubscribe N u s = (Inr k, s1) \<Longrightarrow>
     k < length (unsubscribe_futures s1) \<and> unsubscribe_futures s1 ! k = Pending"
  by (auto simp: client_publish_def client_subscribe_def client_unsubscribe_def py_monad split: sum.splits)


definition client_ex :: mqtt5_client where
  "client_ex = projr (Client_init (\<lambda>_ _. Inr PNone) (\<lambda>_. True) ''linux'' ''1.0''
     (Inr (PObj ''ClientBootstrap'' 0)) (ClientOptions_init ''h''))"

lemma client_ex_futures: "publish_futures client_ex = []" "subscribe_futures client_ex = []" "unsubscribe_futures client_ex = []"
  by (simp_all add: client_ex_def Client_init_def ClientCore_init_def check_callback_def ClientOptions_init_def Let_def)


text \<open>
  A QoS 0 publish that succeeds completes with an empty \<open>PubackPacket\<close>, where the
  documentation of \<open>PublishCompletionData\<close> promises \<open>None\<close>.
\<close>

lemma qos0_puback_not_none:
  "puback_outcome E 0 0 code reason props = Inr \<lparr>pc_puback = Some PubackPacket_init\<rparr>"
  by (simp add: puback_outcome_def)


end
