(* ===== verification/Mqtt3.thy ===== *)
theory Mqtt3
  imports Mqtt5_Client
begin

text \<open>
  \<open>awscrt/mqtt.py\<close>: the MQTT 3.1.1 client and connection, and the adapter
  \<open>Client.new_connection\<close> of \<open>awscrt/mqtt5.py\<close> that makes such a connection from an MQTT5
  client. The connection's operations return futures that native callbacks resolve; all but the
  check of a message callback's signature happens inside \<open>try\<close>, so that errors reach the user
  through the future. Shown: when a connection can be constructed, how operations deliver their
  errors, that each future ends with the outcome of its first completion, the one completion that
  leaves its future pending for ever, and for which options the adapter can work at all.
\<close>

datatype Mqtt3QoS =
    AT_MOST_ONCE
  | AT_LEAST_ONCE
  | EXACTLY_ONCE

primrec Mqtt3QoS_value :: "Mqtt3QoS \<Rightarrow> int" where
  "Mqtt3QoS_value Mqtt3QoS.AT_MOST_ONCE = 0"
| "Mqtt3QoS_value Mqtt3QoS.AT_LEAST_ONCE = 1"
| "Mqtt3QoS_value Mqtt3QoS.EXACTLY_ONCE = 2"

definition Mqtt3QoS_members :: "Mqtt3QoS list" where
  [enum_defs]: "Mqtt3QoS_members =
    [Mqtt3QoS.AT_MOST_ONCE, Mqtt3QoS.AT_LEAST_ONCE, Mqtt3QoS.EXACTLY_ONCE]"

interpretation Mqtt3QoS_enum: int_enum Mqtt3QoS_members Mqtt3QoS_value
  by (unfold_locales, rule enum_univI, case_tac x, simp_all add: enum_defs)

datatype ConnectReturnCode =
    ACCEPTED
  | UNACCEPTABLE_PROTOCOL_VERSION
  | IDENTIFIER_REJECTED
  | SERVER_UNAVAILABLE
  | BAD_USERNAME_OR_PASSWORD
  | NOT_AUTHORIZED

primrec ConnectReturnCode_value :: "ConnectReturnCode \<Rightarrow> int" where
  "ConnectReturnCode_value ConnectReturnCode.ACCEPTED = 0"
| "ConnectReturnCode_value ConnectReturnCode.UNACCEPTABLE_PROTOCOL_VERSION = 1"
| "ConnectReturnCode_value ConnectReturnCode.IDENTIFIER_REJECTED = 2"
| "ConnectReturnCode_value ConnectReturnCode.SERVER_UNAVAILABLE = 3"
| "ConnectReturnCode_value ConnectReturnCode.BAD_USERNAME_OR_PASSWORD = 4"
| "ConnectReturnCode_value ConnectReturnCode.NOT_AUTHORIZED = 5"

definition ConnectReturnCode_members :: "ConnectReturnCode list" where
  [enum_defs]: "ConnectReturnCode_members =
    [ConnectReturnCode.ACCEPTED, ConnectReturnCode.UNACCEPTABLE_PROTOCOL_VERSION,
     ConnectReturnCode.IDENTIFIER_REJECTED, ConnectReturnCode.SERVER_UNAVAILABLE,
     ConnectReturnCode.BAD_USERNAME_OR_PASSWORD, ConnectReturnCode.NOT_AUTHORIZED]"

interpretation ConnectReturnCode_enum: int_enum ConnectReturnCode_members ConnectReturnCode_value
  by (unfold_locales, rule enum_univI, case_tac x, simp_all add: enum_defs)

definition to_mqtt5 :: "Mqtt3QoS \<Rightarrow> pyexc + Mqtt5QoS" where
  "to_mqtt5 q = enum_call Mqtt5QoS_members Mqtt5QoS_value (Mqtt3QoS_value q)"

definition to_mqtt3 :: "Mqtt5QoS \<Rightarrow> pyexc + Mqtt3QoS" where
  "to_mqtt3 q = enum_call Mqtt3QoS_members Mqtt3QoS_value (Mqtt5QoS_value q)"

definition mqtt3_try_qos :: "int \<Rightarrow> Mqtt3QoS option" where
  "mqtt3_try_qos = enum_try Mqtt3QoS_members Mqtt3QoS_value"

definition Mqtt3Client_init ::
  "native_env \<Rightarrow> pyexc + pyval \<Rightarrow> pyval \<Rightarrow> pyval \<Rightarrow> ('a world_scheme, pyval) py" where
  "Mqtt3Client_init N default_bootstrap bootstrap tls_ctx =
     thenE (py_assert (isinstance bootstrap ''ClientBootstrap'' \<or> bootstrap = PNone))
    (thenE (py_assert (tls_ctx = PNone \<or> isinstance tls_ctx ''ClientTlsContext''))
    (bindE (if \<not> truthy bootstrap then (\<lambda>s. (default_bootstrap, s)) else ret bootstrap) (\<lambda>bootstrap.
     native N ''mqtt_client_new'' [bootstrap, tls_ctx])))"

record Will =
  will_topic :: string
  will_qos :: Mqtt3QoS
  will_payload :: bytes
  will_retain :: bool

definition Will_init :: "string \<Rightarrow> Mqtt3QoS \<Rightarrow> bytes \<Rightarrow> bool \<Rightarrow> Will" where
  "Will_init topic qos payload retain =
     \<lparr>will_topic = topic, will_qos = qos, will_payload = payload, will_retain = retain\<rparr>"

section \<open>Connections\<close>

text \<open>What an operation's future may hold: the dictionaries the code builds.\<close>

datatype op_result =
    RConnect bool
  | RDisconnect
  | RSubscribe int string Mqtt3QoS
  | RPacket int
  | RResubscribe "int option" "(string \<times> Mqtt3QoS option) list"

record connection = world +
  cn_client_version :: int
  cn_use_websockets :: bool
  cn_client_id :: string
  cn_host_name :: string
  cn_port :: "int option"
  cn_clean_session :: bool
  cn_reconnect_min_timeout_secs :: int
  cn_reconnect_max_timeout_secs :: int
  cn_keep_alive_secs :: int
  cn_ping_timeout_ms :: int
  cn_protocol_operation_timeout_ms :: int
  cn_will :: pyval
  cn_username :: "string option"
  cn_password :: "string option"
  cn_socket_options :: pyval
  cn_proxy_options :: "HttpProxyOptions option"
  cn_tls_ctx :: "ClientTlsContext option"
  cn_metrics :: "AWSIoTMetrics option"
  cn_on_interrupted :: pyval
  cn_on_resumed :: pyval
  cn_on_success :: pyval
  cn_on_failure :: pyval
  cn_on_closed :: pyval
  cn_handshake_transform :: pyval
  op_futures :: "op_result fut list"

text \<open>The arguments of the constructor. \<open>a_client\<close> is an object of class \<open>Client\<close> or
  \<open>Mqtt5Client\<close>; \<open>a_client_tls_ctx\<close> its \<open>tls_ctx\<close>.\<close>

record connection_args =
  a_client :: pyval
  a_client_tls_ctx :: "ClientTlsContext option"
  a_host_name :: string
  a_port :: "int option"
  a_client_id :: string
  a_clean_session :: bool
  a_on_connection_interrupted :: pyval
  a_on_connection_resumed :: pyval
  a_reconnect_min_timeout_secs :: int
  a_reconnect_max_timeout_secs :: int
  a_keep_alive_secs :: int
  a_ping_timeout_ms :: int
  a_protocol_operation_timeout_ms :: int
  a_will :: pyval
  a_username :: "string option"
  a_password :: "string option"
  a_socket_options :: pyval
  a_use_websockets :: bool
  a_websocket_proxy_options :: "HttpProxyOptions option"
  a_websocket_handshake_transform :: pyval
  a_proxy_options :: "HttpProxyOptions option"
  a_on_connection_success :: pyval
  a_on_connection_failure :: pyval
  a_on_connection_closed :: pyval
  a_disable_metrics :: bool
  a_metrics :: "AWSIoTMetrics option"

definition connection_args_init :: "pyval \<Rightarrow> string \<Rightarrow> int \<Rightarrow> string \<Rightarrow> connection_args" where
  "connection_args_init client host port client_id = \<lparr>a_client = client, a_client_tls_ctx = None,
     a_host_name = host, a_port = Some port, a_client_id = client_id, a_clean_session = True,
     a_on_connection_interrupted = PNone, a_on_connection_resumed = PNone,
     a_reconnect_min_timeout_secs = 5, a_reconnect_max_timeout_secs = 60, a_keep_alive_secs = 1200,
     a_ping_timeout_ms = 3000, a_protocol_operation_timeout_ms = 0, a_will = PNone, a_username = None,
     a_password = None, a_socket_options = PNone, a_use_websockets = False,
     a_websocket_proxy_options = None, a_websocket_handshake_transform = PNone, a_proxy_options = None,
     a_on_connection_success = PNone, a_on_connection_failure = PNone, a_on_connection_closed = PNone,
     a_disable_metrics = False, a_metrics = None\<rparr>"

definition opt_callable :: "pyval \<Rightarrow> bool" where
  "opt_callable v = (callable v \<or> v = PNone)"

definition connection_asserts :: "connection_args \<Rightarrow> bool" where
  "connection_asserts a =
     ((isinstance (a_client a) ''Client'' \<or> isinstance (a_client a) ''Mqtt5Client'') \<and>
      opt_callable (a_on_connection_interrupted a) \<and> opt_callable (a_on_connection_resumed a) \<and>
      opt_isinstance (a_will a) ''Will'' \<and> opt_isinstance (a_socket_options a) ''SocketOptions'' \<and>
      opt_callable (a_websocket_handshake_transform a) \<and> opt_callable (a_on_connection_success a) \<and>
      opt_callable (a_on_connection_failure a) \<and> opt_callable (a_on_connection_closed a))"

definition quoted :: "string \<Rightarrow> string" where
  "quoted s = [CHR 0x27] @ s @ [CHR 0x27]"

definition Connection_init ::
  "native_env \<Rightarrow> string \<Rightarrow> string \<Rightarrow> connection_args \<Rightarrow> pyexc + connection" where
  "Connection_init N platform crt_version a =
     (if \<not> connection_asserts a then Inl AssertionError
      else if a_reconnect_min_timeout_secs a > a_reconnect_max_timeout_secs a
      then Inl (ValueError (quoted ''reconnect_min_timeout_secs'' @ '' cannot exceed '' @ quoted ''reconnect_max_timeout_secs''))
      else if a_keep_alive_secs a * 1000 \<le> a_ping_timeout_ms a
      then Inl (ValueError (quoted ''keep_alive_secs'' @ '' duration must be longer than '' @ quoted ''ping_timeout_ms''))
      else if a_proxy_options a \<noteq> None \<and> a_websocket_proxy_options a \<noteq> None
      then Inl (ValueError (quoted ''websocket_proxy_options'' @ '' has been deprecated in favor of '' @
             quoted ''proxy_options'' @ ''.  Both parameters may not be set.''))
      else
        (let version = (if isinstance (a_client a) ''Mqtt5Client'' then 5 else 3);
             proxy = (case a_proxy_options a of None \<Rightarrow> a_websocket_proxy_options a | Some p \<Rightarrow> Some p);
             metrics = (if a_disable_metrics a then None
               else Some (create_metrics_mqtt3 platform crt_version (a_metrics a) proxy (a_client_tls_ctx a)));
             args = [PObj ''Connection'' 0, a_client a, PBool (a_use_websockets a), PInt version]
         in (case N ''mqtt_client_connection_new'' args of
               Inl e \<Rightarrow> Inl e
             | Inr _ \<Rightarrow> Inr \<lparr>trace = [Native ''mqtt_client_connection_new'' args],
                 cn_client_version = version, cn_use_websockets = a_use_websockets a,
                 cn_client_id = a_client_id a, cn_host_name = a_host_name a, cn_port = a_port a,
                 cn_clean_session = a_clean_session a,
                 cn_reconnect_min_timeout_secs = a_reconnect_min_timeout_secs a,
                 cn_reconnect_max_timeout_secs = a_reconnect_max_timeout_secs a,
                 cn_keep_alive_secs = a_keep_alive_secs a, cn_ping_timeout_ms = a_ping_timeout_ms a,
                 cn_protocol_operation_timeout_ms = a_protocol_operation_timeout_ms a,
                 cn_will = a_will a, cn_username = a_username a, cn_password = a_password a,
                 cn_socket_options = py_or (a_socket_options a) (PObj ''SocketOptions'' 0),
                 cn_proxy_options = proxy, cn_tls_ctx = a_client_tls_ctx a, cn_metrics = metrics,
                 cn_on_interrupted = a_on_connection_interrupted a,
                 cn_on_resumed = a_on_connection_resumed a, cn_on_success = a_on_connection_success a,
                 cn_on_failure = a_on_connection_failure a, cn_on_closed = a_on_connection_closed a,
                 cn_handshake_transform = a_websocket_handshake_transform a, op_futures = []\<rparr>)))"

section \<open>Connection events\<close>

definition on_connection_interrupted :: "crt_errors \<Rightarrow> user_env \<Rightarrow> int \<Rightarrow> (connection, unit) py" where
  "on_connection_interrupted E U error_code = (\<lambda>s.
     if truthy (cn_on_interrupted s)
     then callback U ''on_connection_interrupted'' [PObj ''Connection'' 0, PExc (from_code E error_code)] s
     else (Inr (), s))"

definition with_return_code :: "int \<Rightarrow> (ConnectReturnCode \<Rightarrow> (connection, unit) py) \<Rightarrow> (connection, unit) py" where
  "with_return_code code k =
     (case enum_call ConnectReturnCode_members ConnectReturnCode_value code of Inl e \<Rightarrow> raise e | Inr c \<Rightarrow> k c)"

definition on_connection_resumed :: "user_env \<Rightarrow> int \<Rightarrow> bool \<Rightarrow> (connection, unit) py" where
  "on_connection_resumed U return_code session_present = (\<lambda>s.
     if truthy (cn_on_resumed s)
     then with_return_code return_code (\<lambda>c. callback U ''on_connection_resumed''
       [PObj ''Connection'' 0, PEnum ''ConnectReturnCode'' (ConnectReturnCode_value c), PBool session_present]) s
     else (Inr (), s))"

definition on_connection_closed :: "user_env \<Rightarrow> (connection, unit) py" where
  "on_connection_closed U = (\<lambda>s.
     if truthy (cn_on_closed s) then callback U ''on_connection_closed'' [PObj ''Connection'' 0] s
     else (Inr (), s))"

definition on_connection_success :: "user_env \<Rightarrow> int \<Rightarrow> bool \<Rightarrow> (connection, unit) py" where
  "on_connection_success U return_code session_present = (\<lambda>s.
     if truthy (cn_on_success s)
     then with_return_code return_code (\<lambda>c. callback U ''on_connection_success''
       [PObj ''Connection'' 0, PEnum ''ConnectReturnCode'' (ConnectReturnCode_value c), PBool session_present]) s
     else (Inr (), s))"

definition on_connection_failure :: "crt_errors \<Rightarrow> user_env \<Rightarrow> int \<Rightarrow> (connection, unit) py" where
  "on_connection_failure E U error_code = (\<lambda>s.
     if truthy (cn_on_failure s)
     then callback U ''on_connection_failure'' [PObj ''Connection'' 0, PExc (from_code E error_code)] s
     else (Inr (), s))"

text \<open>Here the request object is built before the \<open>try\<close>, so that its failure is simply raised.\<close>

definition mqtt3_ws_handshake_transform :: "pyexc option \<Rightarrow> hs_prog option \<Rightarrow> (hs_state, unit) py" where
  "mqtt3_ws_handshake_transform bindings cb =
     (case cb of
        None \<Rightarrow> emit (Native ''mqtt_ws_handshake_transform_complete'' [PNone, PObj ''native_userdata'' 0, PInt 0])
      | Some prog \<Rightarrow>
          thenE (updE (\<lambda>s. s\<lparr>hs_future := Pending\<rparr>))
         (thenE (user_outcome bindings)
            (run_transform ''mqtt_ws_handshake_transform_complete'' prog)))"

section \<open>Operations\<close>

definition set_op_future :: "nat \<Rightarrow> op_result fut \<Rightarrow> connection \<Rightarrow> connection" where
  "set_op_future k f s = s\<lparr>op_futures := (op_futures s)[k := f]\<rparr>"

definition resolve_op :: "nat \<Rightarrow> pyexc + op_result \<Rightarrow> (connection, unit) py" where
  "resolve_op k = resolve (\<lambda>s. op_futures s ! k) (set_op_future k)"

text \<open>The common shape: a new future \<open>k\<close>, then \<open>try\<close> the body, which yields the packet
  identifier, and put an exception into the future. The future is returned with the identifier,
  0 if the body raised.\<close>

definition operation :: "(nat \<Rightarrow> (connection, pyval) py) \<Rightarrow> (connection, nat \<times> pyval) py" where
  "operation body =
     bindE (getE (\<lambda>s. length (op_futures s))) (\<lambda>k.
     thenE (updE (\<lambda>s. s\<lparr>op_futures := op_futures s @ [Pending]\<rparr>))
     (bindE (try_except (body k) (\<lambda>e. thenE (resolve_op k (Inl e)) (ret (PInt 0)))) (\<lambda>packet_id.
      ret (k, packet_id))))"

definition pv_proxy :: "HttpProxyOptions option \<Rightarrow> pyval" where
  "pv_proxy = pv (\<lambda>p. PTuple [PStr (proxy_host_name p), PInt (proxy_port p)])"

definition connection_connect :: "native_env \<Rightarrow> (connection, nat \<times> pyval) py" where
  "connection_connect N =
     operation (\<lambda>k s. native N ''mqtt_client_connection_connect''
       [PObj ''Connection'' 0, PStr (cn_client_id s), PStr (cn_host_name s), pv PInt (cn_port s),
        cn_socket_options s, pv ctx_binding (cn_tls_ctx s), PInt (cn_reconnect_min_timeout_secs s),
        PInt (cn_reconnect_max_timeout_secs s), PInt (cn_keep_alive_secs s), PInt (cn_ping_timeout_ms s),
        PInt (cn_protocol_operation_timeout_ms s), cn_will s, pv PStr (cn_username s),
        pv PStr (cn_password s), PBool (cn_clean_session s), PFun k, pv_proxy (cn_proxy_options s),
        pv_metrics (cn_metrics s)] s)"

definition connection_reconnect :: "native_env \<Rightarrow> (connection, nat \<times> pyval) py" where
  "connection_reconnect N =
     operation (\<lambda>k. native N ''mqtt_client_connection_reconnect'' [PObj ''Connection'' 0, PFun k])"

text \<open>The \<open>on_connect\<close> of both; an unknown return code raises before the future is touched.\<close>

definition on_connect :: "crt_errors \<Rightarrow> nat \<Rightarrow> int \<Rightarrow> int \<Rightarrow> bool \<Rightarrow> (connection, unit) py" where
  "on_connect E k error_code return_code session_present =
     (if return_code \<noteq> 0
      then with_return_code return_code (\<lambda>c. resolve_op k (Inl (ReturnCodeExc (ConnectReturnCode_value c))))
      else if error_code \<noteq> 0 then resolve_op k (Inl (from_code E error_code))
      else resolve_op k (Inr (RConnect session_present)))"

definition connection_disconnect :: "native_env \<Rightarrow> (connection, nat \<times> pyval) py" where
  "connection_disconnect N =
     operation (\<lambda>k. native N ''mqtt_client_connection_disconnect'' [PObj ''Connection'' 0, PFun k])"

definition on_disconnect :: "nat \<Rightarrow> (connection, unit) py" where
  "on_disconnect k = resolve_op k (Inr RDisconnect)"

text \<open>How \<open>inspect.signature\<close> of a message callback binds the arguments: all five, only the
  old two, neither, or not at all because the object has no signature.\<close>

datatype msg_signature = NewSig | OldSig | BadSig | NoSig

fun check_uses_old_message_callback_signature :: "msg_signature \<Rightarrow> pyexc + bool" where
  "check_uses_old_message_callback_signature NewSig = Inr False"
| "check_uses_old_message_callback_signature OldSig = Inr True"
| "check_uses_old_message_callback_signature BadSig = Inl (TypeError ''missing a required argument'')"
| "check_uses_old_message_callback_signature NoSig = Inl (TypeError ''object is not callable'')"

definition callback_wrapper ::
  "user_env \<Rightarrow> bool \<Rightarrow> string \<Rightarrow> bytes \<Rightarrow> bool \<Rightarrow> int \<Rightarrow> bool \<Rightarrow> (connection, unit) py" where
  "callback_wrapper U uses_old_signature topic payload dup qos retain =
     (if uses_old_signature then callback U ''on_message'' [PStr topic, PBytes payload]
      else (case enum_call Mqtt3QoS_members Mqtt3QoS_value qos of
              Inl e \<Rightarrow> raise e
            | Inr q \<Rightarrow> callback U ''on_message'' [PStr topic, PBytes payload, PBool dup,
                PEnum ''mqtt.QoS'' (Mqtt3QoS_value q), PBool retain]))"

text \<open>\<open>isinstance(qos, Mqtt5QoS)\<close> and the conversion, then \<open>assert isinstance(qos, QoS)\<close>;
  the integer value is returned.\<close>

fun qos_argument :: "pyval \<Rightarrow> pyexc + int" where
  "qos_argument (PEnum c v) =
     (if c = ''mqtt5.QoS''
      then (case enum_call Mqtt3QoS_members Mqtt3QoS_value v of Inl e \<Rightarrow> Inl e | Inr q \<Rightarrow> Inr (Mqtt3QoS_value q))
      else if c = ''mqtt.QoS'' then Inr v else Inl AssertionError)"
| "qos_argument _ = Inl AssertionError"

definition lift_result :: "pyexc + 'b \<Rightarrow> ('s, 'b) py" where
  [py_monad]: "lift_result r = (\<lambda>s. (r, s))"

definition connection_subscribe ::
  "native_env \<Rightarrow> string \<Rightarrow> pyval \<Rightarrow> (pyval \<times> msg_signature) option \<Rightarrow> (connection, nat \<times> pyval) py" where
  "connection_subscribe N topic qos cb =
     bindE (case cb of
              None \<Rightarrow> ret PNone
            | Some (c, sig) \<Rightarrow>
                bindE (lift_result (check_uses_old_message_callback_signature sig)) (\<lambda>old. ret (PBool old))) (\<lambda>wrapper.
     operation (\<lambda>k.
       thenE (py_assert (case cb of None \<Rightarrow> True | Some (c, sig) \<Rightarrow> callable c))
      (bindE (lift_result (qos_argument qos)) (\<lambda>q.
       native N ''mqtt_client_connection_subscribe'' [PObj ''Connection'' 0, PStr topic, PInt q, wrapper, PFun k]))))"

definition mqtt3_suback :: "crt_errors \<Rightarrow> nat \<Rightarrow> int \<Rightarrow> string \<Rightarrow> int \<Rightarrow> int \<Rightarrow> (connection, unit) py" where
  "mqtt3_suback E k packet_id topic qos error_code =
     resolve_op k
       (if error_code \<noteq> 0 then Inl (from_code E error_code)
        else (case mqtt3_try_qos qos of
                None \<Rightarrow> Inl (SubscribeError topic)
              | Some q \<Rightarrow> Inr (RSubscribe packet_id topic q)))"

definition connection_on_message :: "native_env \<Rightarrow> (pyval \<times> msg_signature) option \<Rightarrow> (connection, unit) py" where
  "connection_on_message N cb =
     thenE (py_assert (case cb of None \<Rightarrow> True | Some (c, sig) \<Rightarrow> callable c))
    (bindE (case cb of
              None \<Rightarrow> ret PNone
            | Some (c, sig) \<Rightarrow>
                bindE (lift_result (check_uses_old_message_callback_signature sig)) (\<lambda>old. ret (PBool old))) (\<lambda>wrapper.
     thenE (native N ''mqtt_client_connection_on_message'' [PObj ''Connection'' 0, wrapper]) (ret ())))"

definition connection_unsubscribe :: "native_env \<Rightarrow> string \<Rightarrow> (connection, nat \<times> pyval) py" where
  "connection_unsubscribe N topic =
     operation (\<lambda>k. native N ''mqtt_client_connection_unsubscribe'' [PObj ''Connection'' 0, PStr topic, PFun k])"

text \<open>\<open>unsuback\<close> and \<open>puback\<close> are the same function up to their names.\<close>

definition packet_ack :: "crt_errors \<Rightarrow> nat \<Rightarrow> int \<Rightarrow> int \<Rightarrow> (connection, unit) py" where
  "packet_ack E k packet_id error_code =
     resolve_op k (if error_code \<noteq> 0 then Inl (from_code E error_code) else Inr (RPacket packet_id))"

definition resubscribe_existing_topics :: "native_env \<Rightarrow> (connection, nat \<times> pyval) py" where
  "resubscribe_existing_topics N =
     operation (\<lambda>k.
       bindE (native N ''mqtt_client_connection_resubscribe_existing_topics'' [PObj ''Connection'' 0, PFun k]) (\<lambda>packet_id.
       if packet_id = PNone then thenE (resolve_op k (Inr (RResubscribe None []))) (ret packet_id)
       else ret packet_id))"

definition on_suback :: "crt_errors \<Rightarrow> nat \<Rightarrow> int \<Rightarrow> (string \<times> int) list \<Rightarrow> int \<Rightarrow> (connection, unit) py" where
  "on_suback E k packet_id topic_qos_tuples error_code =
     resolve_op k
       (if error_code \<noteq> 0 then Inl (from_code E error_code)
        else Inr (RResubscribe (Some packet_id) (map (\<lambda>(t, q). (t, mqtt3_try_qos q)) topic_qos_tuples)))"

definition connection_publish ::
  "native_env \<Rightarrow> string \<Rightarrow> pyval \<Rightarrow> pyval \<Rightarrow> bool \<Rightarrow> (connection, nat \<times> pyval) py" where
  "connection_publish N topic payload qos retain =
     operation (\<lambda>k.
       bindE (lift_result (qos_argument qos)) (\<lambda>q.
       native N ''mqtt_client_connection_publish''
         [PObj ''Connection'' 0, PStr topic, payload, PInt q, PBool retain, PFun k]))"

definition connection_get_stats :: "native_env \<Rightarrow> ('a world_scheme, OperationStatisticsData) py" where
  "connection_get_stats N =
     bindE (native N ''mqtt_client_connection_get_stats'' [PObj ''Connection'' 0]) (\<lambda>r s. (stats_of r, s))"

section \<open>The adapter from MQTT5\<close>

text \<open>The five callbacks \<open>new_connection\<close> accepts, \<open>None\<close> by default.\<close>

record adapter_callbacks =
  ac_interrupted :: pyval
  ac_resumed :: pyval
  ac_success :: pyval
  ac_failure :: pyval
  ac_closed :: pyval

definition new_connection_args ::
  "Mqtt5to3AdapterOptions \<Rightarrow> ClientTlsContext option \<Rightarrow> adapter_callbacks \<Rightarrow> connection_args" where
  "new_connection_args o' tls cbs = \<lparr>a_client = PObj ''Mqtt5Client'' 0, a_client_tls_ctx = tls,
     a_host_name = ad_host_name o', a_port = ad_port o', a_client_id = ad_client_id o',
     a_clean_session = ad_clean_session o', a_on_connection_interrupted = ac_interrupted cbs,
     a_on_connection_resumed = ac_resumed cbs, a_reconnect_min_timeout_secs = ad_min_reconnect_delay_ms o',
     a_reconnect_max_timeout_secs = ad_max_reconnect_delay_ms o', a_keep_alive_secs = ad_keep_alive_secs o',
     a_ping_timeout_ms = ad_ping_timeout_ms o',
     a_protocol_operation_timeout_ms = ad_ack_timeout_secs o' * 1000, a_will = PNone, a_username = None,
     a_password = None, a_socket_options = ad_socket_options o', a_use_websockets = False,
     a_websocket_proxy_options = None, a_websocket_handshake_transform = PNone, a_proxy_options = None,
     a_on_connection_success = ac_success cbs, a_on_connection_failure = ac_failure cbs,
     a_on_connection_closed = ac_closed cbs,
     a_disable_metrics = ad_disable_metrics o', a_metrics = None\<rparr>"

definition new_connection ::
  "native_env \<Rightarrow> string \<Rightarrow> string \<Rightarrow> mqtt5_client \<Rightarrow> ClientTlsContext option \<Rightarrow> adapter_callbacks \<Rightarrow>
    pyexc + connection" where
  "new_connection N platform crt_version c tls cbs =
     Connection_init N platform crt_version (new_connection_args (c_adapter_options c) tls cbs)"

section \<open>Construction\<close>

lemma Connection_init_Inr:
  "Connection_init N platform ver a = Inr c \<Longrightarrow>
   a_reconnect_min_timeout_secs a \<le> a_reconnect_max_timeout_secs a \<and>
   cn_reconnect_min_timeout_secs c = a_reconnect_min_timeout_secs a \<and>
   cn_reconnect_max_timeout_secs c = a_reconnect_max_timeout_secs a \<and>
   cn_keep_alive_secs c = a_keep_alive_secs a \<and> cn_ping_timeout_ms c = a_ping_timeout_ms a \<and>
   op_futures c = [] \<and> (cn_metrics c = None \<longleftrightarrow> a_disable_metrics a)"
  unfolding Connection_init_def Let_def
  by (simp split: if_splits sum.splits) force+

text \<open>
  With arguments of the right classes a connection is constructed exactly if the minimum
  reconnect time does not exceed the maximum, the keep-alive period is longer than the ping
  timeout, and not both proxy parameters are set; the values are then kept as given.
\<close>

lemma connection_constructible:
  assumes "connection_asserts a" and "\<And>args. \<exists>v. N ''mqtt_client_connection_new'' args = Inr v"
  shows "((\<exists>c. Connection_init N platform ver a = Inr c) \<longleftrightarrow>
      a_reconnect_min_timeout_secs a \<le> a_reconnect_max_timeout_secs a \<and>
      a_ping_timeout_ms a < a_keep_alive_secs a * 1000 \<and>
      \<not> (a_proxy_options a \<noteq> None \<and> a_websocket_proxy_options a \<noteq> None)) \<and>
    (\<forall>c. Connection_init N platform ver a = Inr c \<longrightarrow>
      cn_reconnect_min_timeout_secs c = a_reconnect_min_timeout_secs a \<and>
      cn_reconnect_max_timeout_secs c = a_reconnect_max_timeout_secs a \<and>
      cn_keep_alive_secs c = a_keep_alive_secs a \<and> cn_ping_timeout_ms c = a_ping_timeout_ms a \<and>
      op_futures c = [] \<and> (cn_metrics c = None \<longleftrightarrow> a_disable_metrics a))"
proof -
  obtain v where N: "N ''mqtt_client_connection_new''
     [PObj ''Connection'' 0, a_client a, PBool (a_use_websockets a),
      PInt (if isinstance (a_client a) ''Mqtt5Client'' then 5 else 3)] = Inr v"
    using assms(2) by blast
  have "(\<exists>c. Connection_init N platform ver a = Inr c) \<longleftrightarrow>
      a_reconnect_min_timeout_secs a \<le> a_reconnect_max_timeout_secs a \<and>
      a_ping_timeout_ms a < a_keep_alive_secs a * 1000 \<and>
      \<not> (a_proxy_options a \<noteq> None \<and> a_websocket_proxy_options a \<noteq> None)"
    using assms(1) N by (simp add: Connection_init_def Let_def linorder_not_le linorder_not_less)
  then show ?thesis using Connection_init_Inr [of N platform ver a] by blast
qed

definition mqtt3_ex_args :: connection_args where
  "mqtt3_ex_args = connection_args_init (PObj ''Client'' 0) ''h'' 8883 ''id''"

definition mqtt3_ex :: connection where
  "mqtt3_ex = projr (Connection_init (\<lambda>_ _. Inr PNone) ''linux'' ''1.0'' mqtt3_ex_args)"

section \<open>Operations\<close>

definition op_ok :: "(connection, 'v) py \<Rightarrow> bool" where
  "op_ok m = (\<forall>s. op_futures (snd (m s)) = op_futures s)"

lemma op_ok_native: "op_ok (native N f args)"
  by (simp add: op_ok_def native_state)

lemma op_ok_native_args: "op_ok (\<lambda>s. native N f (args s) s)"
  by (simp add: op_ok_def native_state)

lemma op_ok_bind_lift: "(\<And>q. op_ok (k q)) \<Longrightarrow> op_ok (bindE (lift_result r) k)"
  by (cases r) (simp_all add: op_ok_def py_monad)

lemma op_ok_assert: "op_ok m \<Longrightarrow> op_ok (thenE (py_assert b) m)"
  by (simp add: op_ok_def py_monad)

lemma operation_result:
  assumes "op_ok (body (length (op_futures s)))"
  defines "k \<equiv> length (op_futures s)"
  defines "s0 \<equiv> s\<lparr>op_futures := op_futures s @ [Pending]\<rparr>"
  shows "(\<exists>pid. fst (operation body s) = Inr (k, pid)) \<and>
    op_futures (snd (operation body s)) =
      op_futures s @ [case fst (body k s0) of Inl e \<Rightarrow> Finished (Inl e) | Inr _ \<Rightarrow> Pending]"
proof -
  obtain r s1 where b: "body k s0 = (r, s1)" by fastforce
  then have f: "op_futures s1 = op_futures s @ [Pending]"
  proof -
    have "op_futures (snd (body k s0)) = op_futures s0" using assms(1) by (simp add: op_ok_def k_def)
    with b show ?thesis by (simp add: s0_def)
  qed
  show ?thesis
    using b f unfolding k_def s0_def
    by (cases r) (simp_all add: operation_def resolve_op_def resolve_def set_op_future_def py_monad)
qed




section \<open>Completions\<close>

datatype conn3_event =
    OnConnect nat int int bool
  | OnDisconnect nat
  | OnSuback nat int string int int
  | OnPacketAck nat int int
  | OnResuback nat int "(string \<times> int) list" int

fun conn3_do :: "crt_errors \<Rightarrow> conn3_event \<Rightarrow> (connection, unit) py" where
  "conn3_do E (OnConnect k err code sp) = on_connect E k err code sp"
| "conn3_do E (OnDisconnect k) = on_disconnect k"
| "conn3_do E (OnSuback k pid topic qos err) = mqtt3_suback E k pid topic qos err"
| "conn3_do E (OnPacketAck k pid err) = packet_ack E k pid err"
| "conn3_do E (OnResuback k pid tqs err) = on_suback E k pid tqs err"

text \<open>The outcome an event gives its future; none for a return code the protocol does not define.\<close>

fun op_outcome :: "crt_errors \<Rightarrow> conn3_event \<Rightarrow> (pyexc + op_result) option" where
  "op_outcome E (OnConnect k err code sp) =
     (if code \<noteq> 0 then (if code \<in> range ConnectReturnCode_value then Some (Inl (ReturnCodeExc code)) else None)
      else if err \<noteq> 0 then Some (Inl (from_code E err)) else Some (Inr (RConnect sp)))"
| "op_outcome E (OnDisconnect k) = Some (Inr RDisconnect)"
| "op_outcome E (OnSuback k pid topic qos err) =
     Some (if err \<noteq> 0 then Inl (from_code E err)
           else (case mqtt3_try_qos qos of None \<Rightarrow> Inl (SubscribeError topic)
                 | Some q \<Rightarrow> Inr (RSubscribe pid topic q)))"
| "op_outcome E (OnPacketAck k pid err) =
     Some (if err \<noteq> 0 then Inl (from_code E err) else Inr (RPacket pid))"
| "op_outcome E (OnResuback k pid tqs err) =
     Some (if err \<noteq> 0 then Inl (from_code E err)
           else Inr (RResubscribe (Some pid) (map (\<lambda>(t, q). (t, mqtt3_try_qos q)) tqs)))"


fun op_target :: "conn3_event \<Rightarrow> nat" where
  "op_target (OnConnect k err code sp) = k"
| "op_target (OnDisconnect k) = k"
| "op_target (OnSuback k pid topic qos err) = k"
| "op_target (OnPacketAck k pid err) = k"
| "op_target (OnResuback k pid tqs err) = k"

abbreviation conn3_exec :: "crt_errors \<Rightarrow> conn3_event \<Rightarrow> connection \<Rightarrow> connection" where
  "conn3_exec E e s \<equiv> snd (conn3_do E e s)"

definition op_trigger :: "crt_errors \<Rightarrow> nat \<Rightarrow> conn3_event \<Rightarrow> (pyexc + op_result) option" where
  "op_trigger E k e = (if op_target e = k then op_outcome E e else None)"

lemma snd_resolve_op:
  "op_futures (snd (resolve_op k r s)) = (op_futures s)[k := settle (Some r) (op_futures s ! k)]"
  by (simp add: resolve_op_def snd_resolve set_op_future_def settle_def)

lemma conn3_exec_futures:
  "op_futures (conn3_exec E e s) =
     (op_futures s)[op_target e := settle (op_outcome E e) (op_futures s ! op_target e)]"
proof (cases e)
  case (OnConnect k err code sp)
  show ?thesis
  proof (cases "code = 0")
    case False
    from ConnectReturnCode_enum.call_cases [of code] show ?thesis
      by (auto simp: OnConnect False on_connect_def with_return_code_def snd_resolve_op raise_def settle_def)
  qed (simp add: OnConnect on_connect_def snd_resolve_op)
qed (auto simp: on_disconnect_def mqtt3_suback_def packet_ack_def on_suback_def snd_resolve_op split: option.splits)

interpretation op_fut: settled_slot "\<lambda>s. k < length (op_futures s)" "\<lambda>s. op_futures s ! k"
    "conn3_exec E" "op_trigger E k" for E k
  by unfold_locales (auto simp: conn3_exec_futures op_trigger_def nth_list_update settle_def)



text \<open>
  A connection attempt answered with a return code that the enumeration does not know leaves
  its future pending: the conversion of the code raises \<open>ValueError\<close> into native code before
  the future is completed.
\<close>

lemma unknown_return_code_hangs:
  assumes "code \<notin> range ConnectReturnCode_value"
  shows "fst (on_connect E k err code sp s) = Inl (ValueError ''not a valid enum value'') \<and>
    snd (on_connect E k err code sp s) = s"
proof -
  have "code \<noteq> 0" using assms ConnectReturnCode_value.simps(1) by (metis rangeI)
  with assms ConnectReturnCode_enum.call_cases [of code] show ?thesis
    by (auto simp: on_connect_def with_return_code_def raise_def)
qed

section \<open>The adapter\<close>

text \<open>
  An MQTT 3.1.1 connection made from an MQTT5 client uses the client's reconnect delays, which
  are milliseconds, as its reconnect times in seconds. In particular a client with a minimum delay
  of more than 60 (milliseconds) and no maximum has no connection: the constructor refuses the pair
  of the given minimum and the default maximum of 60.
\<close>

lemma adapter_delay_units:
  assumes "Client_init N T platform ver D o' = Inr cl"
  shows "(\<forall>c. new_connection N platform ver cl tls cbs = Inr c \<longrightarrow>
      cn_reconnect_min_timeout_secs c = or_default 5 (co_min_reconnect_delay_ms o') \<and>
      cn_reconnect_max_timeout_secs c = or_default 60 (co_max_reconnect_delay_ms o')) \<and>
    (\<forall>d. co_min_reconnect_delay_ms o' = Some d \<and> co_max_reconnect_delay_ms o' = None \<and> d > 60 \<longrightarrow>
      (\<forall>c. new_connection N platform ver cl tls cbs \<noteq> Inr c))"
proof -
  let ?co = "or_default ConnectPacket_init (co_connect_options o')"
  let ?so = "py_or (co_socket_options o') (PObj ''SocketOptions'' 0)"
  have ad: "c_adapter_options cl = adapter_options_of o' ?co ?so"
    using assms by (auto simp: Client_init_def Let_def split: sum.splits if_splits)
  show ?thesis
    using Connection_init_Inr [of N platform ver "new_connection_args (c_adapter_options cl) tls cbs"]
    by (fastforce simp: new_connection_def new_connection_args_def ad adapter_options_of_def or_default_def)
qed

end
