(* ===== verification/S3.thy ===== *)
theory S3
  imports Io Futures Crt_Exceptions
begin

text \<open>
  \<open>awscrt/s3.py\<close>: the S3 client and its requests. Modelled are the checks and defaults of the
  constructors, the cross-process lock as a context manager, and \<open>_S3RequestCore\<close>, which
  carries exceptions of the user's header and body callbacks over to the end of the request and
  turns error codes into exceptions there. Shown: what the request's future and the user's
  completion callback are told is the same, is told once, and is the right exception in each case;
  and the case in which the callback is skipped.
\<close>

datatype S3RequestType =
    DEFAULT
  | GET_OBJECT
  | PUT_OBJECT

primrec S3RequestType_value :: "S3RequestType \<Rightarrow> int" where
  "S3RequestType_value S3RequestType.DEFAULT = 0"
| "S3RequestType_value S3RequestType.GET_OBJECT = 1"
| "S3RequestType_value S3RequestType.PUT_OBJECT = 2"

definition S3RequestType_members :: "S3RequestType list" where
  [enum_defs]: "S3RequestType_members =
    [S3RequestType.DEFAULT, S3RequestType.GET_OBJECT, S3RequestType.PUT_OBJECT]"

interpretation S3RequestType_enum: int_enum S3RequestType_members S3RequestType_value
  by (unfold_locales, rule enum_univI, case_tac x, simp_all add: enum_defs)

datatype S3RequestTlsMode =
    ENABLED
  | DISABLED

primrec S3RequestTlsMode_value :: "S3RequestTlsMode \<Rightarrow> int" where
  "S3RequestTlsMode_value S3RequestTlsMode.ENABLED = 0"
| "S3RequestTlsMode_value S3RequestTlsMode.DISABLED = 1"

definition S3RequestTlsMode_members :: "S3RequestTlsMode list" where
  [enum_defs]: "S3RequestTlsMode_members =
    [S3RequestTlsMode.ENABLED, S3RequestTlsMode.DISABLED]"

interpretation S3RequestTlsMode_enum: int_enum S3RequestTlsMode_members S3RequestTlsMode_value
  by (unfold_locales, rule enum_univI, case_tac x, simp_all add: enum_defs)

datatype S3ChecksumAlgorithm =
    CRC32C
  | CRC32
  | SHA1
  | SHA256
  | CRC64NVME
  | SHA512
  | XXHASH64
  | XXHASH3
  | XXHASH128

primrec S3ChecksumAlgorithm_value :: "S3ChecksumAlgorithm \<Rightarrow> int" where
  "S3ChecksumAlgorithm_value S3ChecksumAlgorithm.CRC32C = 1"
| "S3ChecksumAlgorithm_value S3ChecksumAlgorithm.CRC32 = 2"
| "S3ChecksumAlgorithm_value S3ChecksumAlgorithm.SHA1 = 3"
| "S3ChecksumAlgorithm_value S3ChecksumAlgorithm.SHA256 = 4"
| "S3ChecksumAlgorithm_value S3ChecksumAlgorithm.CRC64NVME = 5"
| "S3ChecksumAlgorithm_value S3ChecksumAlgorithm.SHA512 = 6"
| "S3ChecksumAlgorithm_value S3ChecksumAlgorithm.XXHASH64 = 7"
| "S3ChecksumAlgorithm_value S3ChecksumAlgorithm.XXHASH3 = 8"
| "S3ChecksumAlgorithm_value S3ChecksumAlgorithm.XXHASH128 = 9"

definition S3ChecksumAlgorithm_members :: "S3ChecksumAlgorithm list" where
  [enum_defs]: "S3ChecksumAlgorithm_members =
    [S3ChecksumAlgorithm.CRC32C, S3ChecksumAlgorithm.CRC32, S3ChecksumAlgorithm.SHA1,
     S3ChecksumAlgorithm.SHA256, S3ChecksumAlgorithm.CRC64NVME, S3ChecksumAlgorithm.SHA512,
     S3ChecksumAlgorithm.XXHASH64, S3ChecksumAlgorithm.XXHASH3, S3ChecksumAlgorithm.XXHASH128]"

interpretation S3ChecksumAlgorithm_enum: int_enum S3ChecksumAlgorithm_members S3ChecksumAlgorithm_value
  by (unfold_locales, rule enum_univI, case_tac x, simp_all add: enum_defs)

datatype S3ChecksumLocation =
    HEADER
  | TRAILER

primrec S3ChecksumLocation_value :: "S3ChecksumLocation \<Rightarrow> int" where
  "S3ChecksumLocation_value S3ChecksumLocation.HEADER = 1"
| "S3ChecksumLocation_value S3ChecksumLocation.TRAILER = 2"

definition S3ChecksumLocation_members :: "S3ChecksumLocation list" where
  [enum_defs]: "S3ChecksumLocation_members =
    [S3ChecksumLocation.HEADER, S3ChecksumLocation.TRAILER]"

interpretation S3ChecksumLocation_enum: int_enum S3ChecksumLocation_members S3ChecksumLocation_value
  by (unfold_locales, rule enum_univI, case_tac x, simp_all add: enum_defs)

section \<open>The cross-process lock\<close>

text \<open>\<open>with lock: body\<close>; the lock is acquired on entry and released however the body ends.\<close>

definition CrossProcessLock_init :: "native_env \<Rightarrow> string \<Rightarrow> ('a world_scheme, pyval) py" where
  "CrossProcessLock_init N lock_scope_name = native N ''s3_cross_process_lock_new'' [PStr lock_scope_name]"

definition cross_process_lock_acquire :: "native_env \<Rightarrow> ('a world_scheme, unit) py" where
  "cross_process_lock_acquire N = thenE (native N ''s3_cross_process_lock_acquire'' [PObj ''CrossProcessLock'' 0]) (ret ())"

definition cross_process_lock_release :: "native_env \<Rightarrow> ('a world_scheme, unit) py" where
  "cross_process_lock_release N = thenE (native N ''s3_cross_process_lock_release'' [PObj ''CrossProcessLock'' 0]) (ret ())"

definition with_cross_process_lock :: "native_env \<Rightarrow> ('a world_scheme, 'b) py \<Rightarrow> ('a world_scheme, 'b) py" where
  "with_cross_process_lock N body =
     thenE (cross_process_lock_acquire N) (try_finally body (cross_process_lock_release N))"

section \<open>Options\<close>

record S3ChecksumConfig =
  checksum_algorithm :: "S3ChecksumAlgorithm option"
  checksum_location :: "S3ChecksumLocation option"
  validate_response :: bool

record S3FileIoOptions =
  should_stream :: bool
  disk_throughput_gbps :: rat
  direct_io :: bool

text \<open>How the optional file options reach native code: whether they are set, and their values.\<close>

definition fio_args :: "S3FileIoOptions option \<Rightarrow> pyval list" where
  "fio_args fio =
     (case fio of
        None \<Rightarrow> [PBool False, PBool False, PFloat 0, PBool False]
      | Some f \<Rightarrow> [PBool True, PBool (should_stream f), PFloat (disk_throughput_gbps f), PBool (direct_io f)])"

definition or_zero :: "pyval \<Rightarrow> pyval" where
  "or_zero v = (if v = PNone then PInt 0 else v)"

record s3_client_args =
  s3_bootstrap :: pyval
  s3_region :: pyval
  s3_tls_mode :: pyval
  s3_signing_config :: pyval
  s3_credential_provider :: pyval
  s3_tls_connection_options :: pyval
  s3_part_size :: pyval
  s3_multipart_upload_threshold :: pyval
  s3_throughput_target_gbps :: pyval
  s3_enable_s3express :: pyval
  s3_memory_limit :: pyval
  s3_network_interface_names :: pyval
  s3_fio_options :: "S3FileIoOptions option"
  s3_max_active_connections_override :: pyval

definition s3_client_asserts :: "s3_client_args \<Rightarrow> bool" where
  "s3_client_asserts a =
     (opt_isinstance (s3_bootstrap a) ''ClientBootstrap'' \<and> isinstance (s3_region a) ''str'' \<and>
      opt_isinstance (s3_signing_config a) ''AwsSigningConfig'' \<and>
      opt_isinstance (s3_credential_provider a) ''AwsCredentialsProvider'' \<and>
      opt_isinstance (s3_tls_connection_options a) ''TlsConnectionOptions'' \<and>
      opt_isinstance (s3_part_size a) ''int'' \<and>
      (isinstance (s3_throughput_target_gbps a) ''int'' \<or> opt_isinstance (s3_throughput_target_gbps a) ''float'') \<and>
      opt_isinstance (s3_enable_s3express a) ''bool'' \<and>
      opt_isinstance (s3_network_interface_names a) ''Sequence'' \<and>
      opt_isinstance (s3_max_active_connections_override a) ''int'')"

text \<open>\<open>list(x)\<close> of a sequence that is not a list; a \<open>str\<close> becomes the list of its
  characters (single bytes here, which is what the characters are for host interface names).\<close>

fun as_list :: "pyval \<Rightarrow> pyval" where
  "as_list (PTuple xs) = PList xs"
| "as_list (PStr s) = PList (map (\<lambda>c. PStr [c]) s)"
| "as_list (PBytes b) = PList (map (\<lambda>w. PInt (uint w)) b)"
| "as_list v = v"

definition S3Client_init ::
  "native_env \<Rightarrow> pyexc + pyval \<Rightarrow> s3_client_args \<Rightarrow> ('a world_scheme, pyval) py" where
  "S3Client_init N default_bootstrap a =
     thenE (py_assert (s3_client_asserts a))
    (if truthy (s3_credential_provider a) \<and> truthy (s3_signing_config a)
     then raise (ValueError ([CHR 0x27] @ ''credential_provider'' @ [CHR 0x27] @ '' has been deprecated in favor of '' @
       [CHR 0x27] @ ''signing_config'' @ [CHR 0x27] @ ''.  Both parameters may not be set.''))
     else bindE (if \<not> truthy (s3_bootstrap a) then (\<lambda>s. (default_bootstrap, s)) else ret (s3_bootstrap a)) (\<lambda>bootstrap.
       native N ''s3_client_new''
         ([bootstrap, s3_signing_config a, s3_credential_provider a, s3_tls_connection_options a, PFun 0,
           s3_region a, or_zero (s3_tls_mode a), or_zero (s3_part_size a),
           or_zero (s3_multipart_upload_threshold a), or_zero (s3_throughput_target_gbps a),
           s3_enable_s3express a, or_zero (s3_memory_limit a), as_list (s3_network_interface_names a)] @
          fio_args (s3_fio_options a) @
          [or_zero (s3_max_active_connections_override a), PObj ''_S3ClientCore'' 0])))"

section \<open>Requests\<close>

record s3_request_args =
  rq_type :: S3RequestType
  rq_request :: pyval
  rq_operation_name :: "string option"
  rq_recv_filepath :: "string option"
  rq_send_filepath :: "string option"
  rq_signing_config :: pyval
  rq_credential_provider :: pyval
  rq_checksum_config :: "S3ChecksumConfig option"
  rq_part_size :: pyval
  rq_multipart_upload_threshold :: pyval
  rq_fio_options :: "S3FileIoOptions option"
  rq_max_active_connections_override :: pyval
  rq_on_headers :: pyval
  rq_on_body :: pyval
  rq_on_done :: pyval
  rq_on_progress :: pyval
  rq_region :: string

text \<open>\<open>_S3RequestCore\<close>, with the future and the event it shares with the request.\<close>

record s3_request_core = world +
  python_callback_exception :: "pyexc option"
  on_headers_cb :: pyval
  on_body_cb :: pyval
  on_done_cb :: pyval
  on_progress_cb :: pyval
  finished_future :: "unit fut"
  shutdown_event :: bool

definition s3_request_asserts :: "s3_request_args \<Rightarrow> bool" where
  "s3_request_asserts a =
     (isinstance (rq_request a) ''HttpRequest'' \<and>
      (callable (rq_on_headers a) \<or> rq_on_headers a = PNone) \<and>
      (callable (rq_on_body a) \<or> rq_on_body a = PNone) \<and>
      (callable (rq_on_done a) \<or> rq_on_done a = PNone) \<and>
      opt_isinstance (rq_part_size a) ''int'' \<and>
      opt_isinstance (rq_multipart_upload_threshold a) ''int'' \<and>
      opt_isinstance (rq_max_active_connections_override a) ''int'')"

definition checksum_args :: "S3ChecksumConfig option \<Rightarrow> pyval list" where
  "checksum_args c =
     (case c of
        None \<Rightarrow> [PInt 0, PInt 0, PBool False]
      | Some c \<Rightarrow>
          [PInt (case checksum_algorithm c of None \<Rightarrow> 0 | Some x \<Rightarrow> S3ChecksumAlgorithm_value x),
           PInt (case checksum_location c of None \<Rightarrow> 0 | Some x \<Rightarrow> S3ChecksumLocation_value x),
           PBool (validate_response c)])"

definition S3Request_init :: "native_env \<Rightarrow> s3_request_args \<Rightarrow> pyexc + s3_request_core" where
  "S3Request_init N a =
     (if \<not> s3_request_asserts a then Inl AssertionError
      else if rq_type a = S3RequestType.DEFAULT \<and> (rq_operation_name a = None \<or> rq_operation_name a = Some [])
      then Inl (ValueError ([CHR 0x27] @ ''operation_name'' @ [CHR 0x27] @ '' must be set when using S3RequestType.DEFAULT''))
      else
        (let args = [PObj ''S3Request'' 0, PObj ''S3Client'' 0, rq_request a,
               PEnum ''S3RequestType'' (S3RequestType_value (rq_type a)), pv PStr (rq_operation_name a),
               rq_signing_config a, rq_credential_provider a, pv PStr (rq_recv_filepath a),
               pv PStr (rq_send_filepath a), PStr (rq_region a)] @
               checksum_args (rq_checksum_config a) @
               [or_zero (rq_part_size a), or_zero (rq_multipart_upload_threshold a)] @
               fio_args (rq_fio_options a) @
               [or_zero (rq_max_active_connections_override a), PObj ''_S3RequestCore'' 0]
         in (case N ''s3_client_make_meta_request'' args of
               Inl e \<Rightarrow> Inl e
             | Inr _ \<Rightarrow> Inr \<lparr>trace = [Native ''s3_client_make_meta_request'' args],
                 python_callback_exception = None, on_headers_cb = rq_on_headers a, on_body_cb = rq_on_body a,
                 on_done_cb = rq_on_done a, on_progress_cb = rq_on_progress a, finished_future = Pending,
                 shutdown_event = False\<rparr>)))"

text \<open>\<open>S3Client.make_request\<close> adds the region of the client.\<close>

definition s3_make_request :: "native_env \<Rightarrow> string \<Rightarrow> s3_request_args \<Rightarrow> pyexc + s3_request_core" where
  "s3_make_request N client_region a = S3Request_init N (a\<lparr>rq_region := client_region\<rparr>)"

definition s3_request_cancel :: "native_env \<Rightarrow> (s3_request_core, unit) py" where
  "s3_request_cancel N = thenE (native N ''s3_meta_request_cancel'' [PObj ''S3Request'' 0]) (ret ())"

text \<open>
  The callbacks while the response arrives: \<open>None\<close> without a user callback, otherwise whether
  it returned; an exception is kept for the end.
\<close>

definition callback_guarded :: "(s3_request_core, unit) py \<Rightarrow> (s3_request_core, bool option) py" where
  "callback_guarded m = (\<lambda>s. case m s of
     (Inr _, s') \<Rightarrow> (Inr (Some True), s')
   | (Inl e, s') \<Rightarrow> (Inr (Some False), s'\<lparr>python_callback_exception := Some e\<rparr>))"

definition s3_on_headers :: "user_env \<Rightarrow> int \<Rightarrow> (string \<times> string) list \<Rightarrow> (s3_request_core, bool option) py" where
  "s3_on_headers U status_code headers = (\<lambda>s.
     if truthy (on_headers_cb s)
     then callback_guarded (callback U ''on_headers''
       [PInt status_code, PList (map (\<lambda>(n, v). PTuple [PStr n, PStr v]) headers)]) s
     else (Inr None, s))"

definition s3_on_body :: "user_env \<Rightarrow> bytes \<Rightarrow> int \<Rightarrow> (s3_request_core, bool option) py" where
  "s3_on_body U chunk offset = (\<lambda>s.
     if truthy (on_body_cb s) then callback_guarded (callback U ''on_body'' [PBytes chunk, PInt offset]) s
     else (Inr None, s))"

definition s3_on_shutdown :: "(s3_request_core, unit) py" where
  "s3_on_shutdown = updE (\<lambda>s. s\<lparr>shutdown_event := True\<rparr>)"

definition s3_on_progress :: "user_env \<Rightarrow> int \<Rightarrow> (s3_request_core, unit) py" where
  "s3_on_progress U progress = (\<lambda>s.
     if truthy (on_progress_cb s) then callback U ''on_progress'' [PInt progress] s else (Inr (), s))"

text \<open>What native code reports at the end.\<close>

record finish_args =
  f_error_code :: int
  f_status_code :: int
  f_error_headers :: "(string \<times> string) list option"
  f_error_body :: "bytes option"
  f_error_operation_name :: "string option"
  f_did_validate_checksum :: bool
  f_checksum_validation_algorithm :: int

definition finish_status :: "finish_args \<Rightarrow> int option" where
  "finish_status a = (if f_status_code a = 0 then None else Some (f_status_code a))"

definition finish_error :: "crt_errors \<Rightarrow> pyexc option \<Rightarrow> finish_args \<Rightarrow> pyexc option" where
  "finish_error E cb_exc a =
     (if f_error_code a = 0 then None
      else
        (case from_code E (f_error_code a) of
           AwsCrtError code name message \<Rightarrow>
             (if name = ''AWS_ERROR_CRT_CALLBACK_EXCEPTION'' \<and> cb_exc \<noteq> None then cb_exc
              else (case (finish_status a, f_error_headers a) of
                (Some status, Some headers) \<Rightarrow>
                  Some (S3ResponseError code name message status headers (f_error_body a) (f_error_operation_name a))
              | _ \<Rightarrow> Some (AwsCrtError code name message)))
         | e \<Rightarrow> Some e))"

definition checksum_argument :: "int \<Rightarrow> pyexc + S3ChecksumAlgorithm option" where
  "checksum_argument v =
     (if v \<noteq> 0
      then (case enum_call S3ChecksumAlgorithm_members S3ChecksumAlgorithm_value v of
              Inl e \<Rightarrow> Inl e | Inr c \<Rightarrow> Inr (Some c))
      else Inr None)"

definition done_args :: "finish_args \<Rightarrow> pyexc option \<Rightarrow> S3ChecksumAlgorithm option \<Rightarrow> pyval list" where
  "done_args a error algorithm =
     [pv PExc error, pv (\<lambda>hs. PList (map (\<lambda>(n, v). PTuple [PStr n, PStr v]) hs)) (f_error_headers a),
      pv PBytes (f_error_body a), pv PStr (f_error_operation_name a), pv PInt (finish_status a),
      PBool (f_did_validate_checksum a),
      pv (\<lambda>c. PEnum ''S3ChecksumAlgorithm'' (S3ChecksumAlgorithm_value c)) algorithm]"

definition s3_on_finish :: "crt_errors \<Rightarrow> user_env \<Rightarrow> finish_args \<Rightarrow> (s3_request_core, unit) py" where
  "s3_on_finish E U a =
     bindE (getE (\<lambda>s. finish_error E (python_callback_exception s) a)) (\<lambda>error.
     thenE (resolve finished_future (\<lambda>f. finished_future_update (\<lambda>_. f))
              (case error of None \<Rightarrow> Inr () | Some e \<Rightarrow> Inl e))
     (bindE (\<lambda>s. (checksum_argument (f_checksum_validation_algorithm a), s)) (\<lambda>algorithm.
      (\<lambda>s. if truthy (on_done_cb s) then callback U ''on_done'' (done_args a error algorithm) s
           else (Inr (), s)))))"

definition get_recommended_throughput_target_gbps :: "rat \<Rightarrow> rat option" where
  "get_recommended_throughput_target_gbps max_value = (if max_value > 0 then Some max_value else None)"

definition get_ec2_instance_type :: "native_env \<Rightarrow> ('a world_scheme, pyval) py" where
  "get_ec2_instance_type N = native N ''s3_get_ec2_instance_type'' []"

definition is_optimized_for_system :: "native_env \<Rightarrow> ('a world_scheme, pyval) py" where
  "is_optimized_for_system N = native N ''s3_is_crt_s3_optimized_for_system'' []"

definition get_optimized_platforms :: "native_env \<Rightarrow> ('a world_scheme, pyval) py" where
  "get_optimized_platforms N = native N ''s3_get_optimized_platforms'' []"

section \<open>The end of a request\<close>

text \<open>
  The exception a finished request reports. There is none exactly if the error code is 0. An
  exception raised by the user's header or body callback comes back as it was, if native code says
  that a callback failed. A failure with a response, that is with a status and headers, is an
  \<open>S3ResponseError\<close> with the code, name and message of the error and the response; any other
  failure is the exception of its code.
\<close>

lemma s3_error_mapping:
  "(finish_error E cb a = None \<longleftrightarrow> f_error_code a = 0) \<and>
   (f_error_code a \<noteq> 0 \<longrightarrow>
     (\<forall>c n m. from_code E (f_error_code a) = AwsCrtError c n m \<longrightarrow>
       (\<forall>e. cb = Some e \<and> n = ''AWS_ERROR_CRT_CALLBACK_EXCEPTION'' \<longrightarrow> finish_error E cb a = Some e) \<and>
       (\<forall>hs. (cb = None \<or> n \<noteq> ''AWS_ERROR_CRT_CALLBACK_EXCEPTION'') \<and> f_error_headers a = Some hs \<and> f_status_code a \<noteq> 0 \<longrightarrow>
         finish_error E cb a = Some (S3ResponseError (f_error_code a) n m (f_status_code a) hs
           (f_error_body a) (f_error_operation_name a))) \<and>
       ((cb = None \<or> n \<noteq> ''AWS_ERROR_CRT_CALLBACK_EXCEPTION'') \<and> (f_error_headers a = None \<or> f_status_code a = 0) \<longrightarrow>
         finish_error E cb a = Some (from_code E (f_error_code a)))) \<and>
     (\<not> is_AwsCrtError (from_code E (f_error_code a)) \<longrightarrow>
       finish_error E cb a = Some (from_code E (f_error_code a))))"
proof (cases "corresponding_builtin_exception E (f_error_code a)")
  case None
  then show ?thesis
    by (cases "f_error_headers a"; cases cb) (auto simp: finish_error_def from_code_def finish_status_def)
next
  case (Some b)
  then show ?thesis by (auto simp: finish_error_def from_code_def)
qed

text \<open>The effect of finishing an open request.\<close>

definition s3_outcome :: "pyexc option \<Rightarrow> pyexc + unit" where
  "s3_outcome e = (case e of None \<Rightarrow> Inr () | Some e \<Rightarrow> Inl e)"

text \<open>
  Finishing a request whose future is open completes the future and then, if there is one,
  invokes the user's completion callback exactly once; both are told the same error, whatever the
  callback does afterwards.
\<close>

lemma s3_finish_reports_once:
  assumes "\<not> fut_done (finished_future s)"
    and "checksum_argument (f_checksum_validation_algorithm a) = Inr alg"
    and "s' = snd (s3_on_finish E U a s)"
    and "err = finish_error E (python_callback_exception s) a"
  shows "finished_future s' = Finished (s3_outcome err) \<and>
    trace s' = trace s @ (if truthy (on_done_cb s) then [Callback ''on_done'' (done_args a err alg)] else [])"
  using assms
  by (auto simp: s3_on_finish_def resolve_def py_monad s3_outcome_def split: option.splits)

definition s3_ex_core :: s3_request_core where
  "s3_ex_core = \<lparr>trace = [], python_callback_exception = None, on_headers_cb = PNone, on_body_cb = PFun 1,
     on_done_cb = PFun 2, on_progress_cb = PNone, finished_future = Pending, shutdown_event = False\<rparr>"

definition s3_ex_finish :: finish_args where
  "s3_ex_finish = \<lparr>f_error_code = 7, f_status_code = 404, f_error_headers = Some [], f_error_body = None,
     f_error_operation_name = None, f_did_validate_checksum = False, f_checksum_validation_algorithm = 0\<rparr>"

text \<open>
  An exception raised by the body callback is returned to native code as a failure and, once
  native code reports the failed callback, is what the future holds.
\<close>

lemma s3_body_exception_delivered:
  assumes "truthy (on_body_cb s)" and "U ''on_body'' [PBytes chunk, PInt offset] = Some e"
    and "\<not> fut_done (finished_future s)"
    and "f_error_code a \<noteq> 0"
    and "from_code E (f_error_code a) = AwsCrtError c ''AWS_ERROR_CRT_CALLBACK_EXCEPTION'' m"
    and "s1 = snd (s3_on_body U chunk offset s)"
  shows "fst (s3_on_body U chunk offset s) = Inr (Some False) \<and>
    finished_future (snd (s3_on_finish E U a s1)) = Finished (Inl e)"
proof -
  have s1: "python_callback_exception s1 = Some e" "finished_future s1 = finished_future s"
    "fst (s3_on_body U chunk offset s) = Inr (Some False)"
    using assms(1,2,6) by (simp_all add: s3_on_body_def callback_guarded_def py_monad)
  have "finish_error E (python_callback_exception s1) a = Some e"
    using s1(1) assms(4,5) by (simp add: finish_error_def)
  with s1 assms(3) show ?thesis
    by (auto simp: s3_on_finish_def resolve_def py_monad split: sum.splits option.splits)
qed

text \<open>
  If the user has cancelled the future of a request, or native code names a checksum algorithm
  that the enumeration does not have, the completion callback is never invoked: finishing raises
  into native code first.
\<close>

lemma s3_finish_skips_on_done:
  assumes "fut_cancelled (finished_future s) \<or>
    checksum_argument (f_checksum_validation_algorithm a) = Inl e"
  shows "(\<exists>x. fst (s3_on_finish E U a s) = Inl x) \<and> trace (snd (s3_on_finish E U a s)) = trace s"
proof (cases "fut_done (finished_future s)")
  case True
  then show ?thesis by (simp add: s3_on_finish_def resolve_def py_monad)
next
  case False
  with assms have "checksum_argument (f_checksum_validation_algorithm a) = Inl e"
    by (auto simp: fut_cancelled_def split: fut.splits)
  with False show ?thesis by (simp add: s3_on_finish_def resolve_def py_monad)
qed

text \<open>
  The cross-process lock is held exactly while the body runs: if it was acquired it is released
  once, after the body and whatever the body raises; if acquiring fails the body does not run.
\<close>

lemma cross_process_lock_released:
  assumes "N ''s3_cross_process_lock_acquire'' [PObj ''CrossProcessLock'' 0] = r"
  shows "(\<forall>e. r = Inl e \<longrightarrow> with_cross_process_lock N body s =
      (Inl e, s\<lparr>trace := trace s @ [Native ''s3_cross_process_lock_acquire'' [PObj ''CrossProcessLock'' 0]]\<rparr>)) \<and>
    (\<forall>v. r = Inr v \<longrightarrow>
      (let s1 = s\<lparr>trace := trace s @ [Native ''s3_cross_process_lock_acquire'' [PObj ''CrossProcessLock'' 0]]\<rparr>
       in snd (with_cross_process_lock N body s) =
          (let s2 = snd (body s1) in
           s2\<lparr>trace := trace s2 @ [Native ''s3_cross_process_lock_release'' [PObj ''CrossProcessLock'' 0]]\<rparr>)))"
  using assms
  by (cases r) (auto simp: with_cross_process_lock_def cross_process_lock_acquire_def
      cross_process_lock_release_def py_monad Let_def split: prod.splits sum.splits)

end
