(* ===== verification/Request_Response.thy ===== *)
theory Request_Response
  imports Int_Enum Io Futures Crt_Exceptions
begin

text \<open>
  \<open>awscrt/mqtt_request_response.py\<close>: requests and streaming operations over MQTT. The option
  classes are data classes whose annotations Python does not enforce, so their fields are arbitrary
  values and \<open>validate\<close> is where they are checked; a chain of \<open>assert\<close> statements is a
  truth value here, \<open>False\<close> standing for \<open>AssertionError\<close>. Shown: which options pass,
  that requests end with the outcome native code reports, and what the listeners of a stream are
  told.
\<close>

datatype SubscriptionStatusEventType =
    SUBSCRIPTION_ESTABLISHED
  | SUBSCRIPTION_LOST
  | SUBSCRIPTION_HALTED

primrec SubscriptionStatusEventType_value :: "SubscriptionStatusEventType \<Rightarrow> int" where
  "SubscriptionStatusEventType_value SubscriptionStatusEventType.SUBSCRIPTION_ESTABLISHED = 0"
| "SubscriptionStatusEventType_value SubscriptionStatusEventType.SUBSCRIPTION_LOST = 1"
| "SubscriptionStatusEventType_value SubscriptionStatusEventType.SUBSCRIPTION_HALTED = 2"

definition SubscriptionStatusEventType_members :: "SubscriptionStatusEventType list" where
  [enum_defs]: "SubscriptionStatusEventType_members =
    [SubscriptionStatusEventType.SUBSCRIPTION_ESTABLISHED,
     SubscriptionStatusEventType.SUBSCRIPTION_LOST,
     SubscriptionStatusEventType.SUBSCRIPTION_HALTED]"

interpretation SubscriptionStatusEventType_enum: int_enum SubscriptionStatusEventType_members SubscriptionStatusEventType_value
  by (unfold_locales, rule enum_univI, case_tac x, simp_all add: enum_defs)

section \<open>Options\<close>

record StreamingOperationOptions =
  so_subscription_topic_filter :: pyval
  so_subscription_status_listener :: pyval
  so_incoming_publish_listener :: pyval

definition StreamingOperationOptions_validate :: "StreamingOperationOptions \<Rightarrow> bool" where
  "StreamingOperationOptions_validate o' =
     (isinstance (so_subscription_topic_filter o') ''str'' \<and>
      (callable (so_subscription_status_listener o') \<or> so_subscription_status_listener o' = PNone) \<and>
      (callable (so_incoming_publish_listener o') \<or> so_incoming_publish_listener o' = PNone))"

record ResponsePath =
  rp_topic :: pyval
  rp_correlation_token_json_path :: pyval

definition ResponsePath_validate :: "ResponsePath \<Rightarrow> bool" where
  "ResponsePath_validate p =
     (isinstance (rp_topic p) ''str'' \<and> opt_isinstance (rp_correlation_token_json_path p) ''str'')"

text \<open>The values a \<open>for\<close> loop over a sequence visits.\<close>

fun items_of :: "pyval \<Rightarrow> pyval list" where
  "items_of (PList xs) = xs"
| "items_of (PTuple xs) = xs"
| "items_of (PStr s) = map (\<lambda>c. PStr [c]) s"
| "items_of (PBytes b) = map (\<lambda>w. PInt (uint w)) b"
| "items_of _ = []"

record RequestOptions =
  ro_subscription_topic_filters :: pyval
  ro_response_paths :: "ResponsePath list"
  ro_publish_topic :: pyval
  ro_payload :: pyval
  ro_correlation_token :: pyval

definition RequestOptions_validate :: "RequestOptions \<Rightarrow> bool" where
  "RequestOptions_validate o' =
     (isinstance (ro_subscription_topic_filters o') ''Sequence'' \<and>
      list_all (\<lambda>f. isinstance f ''str'') (items_of (ro_subscription_topic_filters o')) \<and>
      list_all ResponsePath_validate (ro_response_paths o') \<and>
      isinstance (ro_publish_topic o') ''str'' \<and>
      isinstance (ro_payload o') ''bytes'' \<and>
      opt_isinstance (ro_correlation_token o') ''str'')"

record RrClientOptions =
  rc_max_request_response_subscriptions :: pyval
  rc_max_streaming_subscriptions :: pyval
  rc_operation_timeout_in_seconds :: pyval

definition RrClientOptions_init :: "pyval \<Rightarrow> pyval \<Rightarrow> RrClientOptions" where
  "RrClientOptions_init a b = \<lparr>rc_max_request_response_subscriptions = a,
     rc_max_streaming_subscriptions = b, rc_operation_timeout_in_seconds = PInt 60\<rparr>"

definition RrClientOptions_validate :: "RrClientOptions \<Rightarrow> bool" where
  "RrClientOptions_validate o' =
     (isinstance (rc_max_request_response_subscriptions o') ''int'' \<and>
      isinstance (rc_max_streaming_subscriptions o') ''int'' \<and>
      isinstance (rc_operation_timeout_in_seconds o') ''int'')"

section \<open>The client\<close>

record Response =
  resp_topic :: string
  resp_payload :: "bytes option"

record rr_client = world +
  request_futures :: "Response fut list"

definition RrClient_init :: "native_env \<Rightarrow> pyval \<Rightarrow> RrClientOptions \<Rightarrow> pyexc + rr_client" where
  "RrClient_init N protocol_client o' =
     (if \<not> (isinstance protocol_client ''mqtt5.Client'' \<or> isinstance protocol_client ''mqtt.Connection'')
      then Inl AssertionError
      else if \<not> RrClientOptions_validate o' then Inl AssertionError
      else
        (let f = (if isinstance protocol_client ''mqtt5.Client''
                  then ''mqtt_request_response_client_new_from_5''
                  else ''mqtt_request_response_client_new_from_311'');
             args = [protocol_client, rc_max_request_response_subscriptions o',
               rc_max_streaming_subscriptions o', rc_operation_timeout_in_seconds o']
         in (case N f args of Inl e \<Rightarrow> Inl e
             | Inr _ \<Rightarrow> Inr \<lparr>trace = [Native f args], request_futures = []\<rparr>)))"

definition pv_response_path :: "ResponsePath \<Rightarrow> pyval" where
  "pv_response_path p = PTuple [rp_topic p, rp_correlation_token_json_path p]"

definition make_request :: "native_env \<Rightarrow> RequestOptions \<Rightarrow> (rr_client, nat) py" where
  "make_request N o' =
     thenE (py_assert (RequestOptions_validate o'))
    (bindE (getE (\<lambda>s. length (request_futures s))) (\<lambda>k.
     thenE (updE (\<lambda>s. s\<lparr>request_futures := request_futures s @ [Pending]\<rparr>))
    (thenE (native N ''mqtt_request_response_client_make_request''
       [PObj ''Client'' 0, ro_subscription_topic_filters o', PList (map pv_response_path (ro_response_paths o')),
        ro_publish_topic o', ro_payload o', ro_correlation_token o', PFun k])
       (ret k))))"

definition request_outcome :: "crt_errors \<Rightarrow> int \<Rightarrow> string \<Rightarrow> bytes option \<Rightarrow> pyexc + Response" where
  "request_outcome E error_code topic payload =
     (if error_code \<noteq> 0 then Inl (from_code E error_code)
      else Inr \<lparr>resp_topic = topic, resp_payload = payload\<rparr>)"

definition on_request_complete :: "crt_errors \<Rightarrow> nat \<Rightarrow> int \<Rightarrow> string \<Rightarrow> bytes option \<Rightarrow> (rr_client, unit) py" where
  "on_request_complete E k error_code topic payload =
     resolve (\<lambda>s. request_futures s ! k) (\<lambda>f s. s\<lparr>request_futures := (request_futures s)[k := f]\<rparr>)
       (request_outcome E error_code topic payload)"

text \<open>The closures of \<open>create_stream\<close>; the event keeps the number of the event type as it
  comes.\<close>

definition on_subscription_status_event ::
  "crt_errors \<Rightarrow> user_env \<Rightarrow> StreamingOperationOptions \<Rightarrow> int \<Rightarrow> int \<Rightarrow> (rr_client, unit) py" where
  "on_subscription_status_event E U o' event_type error_code =
     (if so_subscription_status_listener o' \<noteq> PNone
      then callback U ''subscription_status_listener''
        [PInt event_type, if error_code \<noteq> 0 then PExc (from_code E error_code) else PNone]
      else ret ())"

definition on_incoming_publish_event ::
  "user_env \<Rightarrow> StreamingOperationOptions \<Rightarrow> string \<Rightarrow> bytes option \<Rightarrow> (rr_client, unit) py" where
  "on_incoming_publish_event U o' topic payload =
     (if so_incoming_publish_listener o' \<noteq> PNone
      then callback U ''incoming_publish_listener'' [PStr topic, pv PBytes payload]
      else ret ())"

definition create_stream :: "native_env \<Rightarrow> StreamingOperationOptions \<Rightarrow> (rr_client, pyval) py" where
  "create_stream N o' =
     thenE (py_assert (StreamingOperationOptions_validate o'))
       (native N ''mqtt_request_response_client_create_stream''
         [PObj ''Client'' 0, so_subscription_topic_filter o', PFun 0, PFun 1])"

definition stream_open :: "native_env \<Rightarrow> pyval \<Rightarrow> (rr_client, unit) py" where
  "stream_open N binding = thenE (native N ''mqtt_streaming_operation_open'' [binding]) (ret ())"

section \<open>Requests end\<close>

datatype rr_event =
    MakeRequest RequestOptions
  | RequestComplete nat int string "bytes option"
  | CreateStream StreamingOperationOptions
  | OpenStream pyval
  | SubscriptionStatus StreamingOperationOptions int int
  | IncomingPublish StreamingOperationOptions string "bytes option"

fun rr_do :: "native_env \<Rightarrow> crt_errors \<Rightarrow> user_env \<Rightarrow> rr_event \<Rightarrow> (rr_client, unit) py" where
  "rr_do N E U (MakeRequest o') = thenE (make_request N o') (ret ())"
| "rr_do N E U (RequestComplete k err topic payload) = on_request_complete E k err topic payload"
| "rr_do N E U (CreateStream o') = thenE (create_stream N o') (ret ())"
| "rr_do N E U (OpenStream b) = stream_open N b"
| "rr_do N E U (SubscriptionStatus o' ty err) = on_subscription_status_event E U o' ty err"
| "rr_do N E U (IncomingPublish o' topic payload) = on_incoming_publish_event U o' topic payload"

abbreviation rr_exec :: "native_env \<Rightarrow> crt_errors \<Rightarrow> user_env \<Rightarrow> rr_event \<Rightarrow> rr_client \<Rightarrow> rr_client" where
  "rr_exec N E U e s \<equiv> snd (rr_do N E U e s)"

fun request_trigger :: "crt_errors \<Rightarrow> nat \<Rightarrow> rr_event \<Rightarrow> (pyexc + Response) option" where
  "request_trigger E k (RequestComplete j err topic payload) =
     (if j = k then Some (request_outcome E err topic payload) else None)"
| "request_trigger E k _ = None"

lemma make_request_state:
  "request_futures (snd (make_request N o' s)) =
     (if RequestOptions_validate o' then request_futures s @ [Pending] else request_futures s)"
  by (auto simp: make_request_def py_monad split: sum.splits)

lemma listener_state:
  "request_futures (snd (on_subscription_status_event E U o' ty err s)) = request_futures s"
  "request_futures (snd (on_incoming_publish_event U o' topic payload s)) = request_futures s"
  by (simp_all add: on_subscription_status_event_def on_incoming_publish_event_def callback_state ret_def)

lemma create_stream_state: "request_futures (snd (create_stream N o' s)) = request_futures s"
  by (auto simp: create_stream_def py_monad split: sum.splits)

interpretation request_fut: settled_slot "\<lambda>s. k < length (request_futures s)" "\<lambda>s. request_futures s ! k"
    "rr_exec N E U" "request_trigger E k" for N E U k
proof unfold_locales
  fix s :: rr_client and e
  assume "k < length (request_futures s)"
  then show "k < length (request_futures (rr_exec N E U e s))"
    "request_futures (rr_exec N E U e s) ! k = settle (request_trigger E k e) (request_futures s ! k)"
    by (cases e; simp add: make_request_state create_stream_state snd_thenE_ret snd_resolve native_state
        listener_state on_request_complete_def stream_open_def nth_append nth_list_update settle_def)+
qed

text \<open>
  A request whose options do not validate raises \<open>AssertionError\<close> and leaves no trace; any
  other request either raises what native code raised or returns a new future, which ends with the
  outcome of the first completion reported for it, whatever else happens on the client.
\<close>

lemma request_settles:
  assumes "make_request N o' s = (r, s1)"
  shows "(\<not> RequestOptions_validate o' \<longrightarrow> r = Inl AssertionError \<and> s1 = s) \<and>
    (\<forall>k. r = Inr k \<longrightarrow> k = length (request_futures s) \<and>
      request_futures (run_events (rr_exec N E U) es s1) ! k =
        settle (first_some (request_trigger E k) es) Pending)"
proof -
  have "r = Inl AssertionError \<and> s1 = s" if "\<not> RequestOptions_validate o'"
    using assms that by (simp add: make_request_def py_monad)
  moreover have "k = length (request_futures s) \<and>
      request_futures (run_events (rr_exec N E U) es s1) ! k = settle (first_some (request_trigger E k) es) Pending"
    if "r = Inr k" for k
  proof -
    from assms that have v: "RequestOptions_validate o'" and k: "k = length (request_futures s)"
      by (cases "RequestOptions_validate o'"; auto simp: make_request_def py_monad split: sum.splits)+
    from make_request_state [of N o' s] assms v have "request_futures s1 = request_futures s @ [Pending]" by simp
    with request_fut.settled_run [of k s1] k show ?thesis by simp
  qed
  ultimately show ?thesis by blast
qed

definition rr_ex_options :: RequestOptions where
  "rr_ex_options = \<lparr>ro_subscription_topic_filters = PList [PStr ''a/+''],
     ro_response_paths = [\<lparr>rp_topic = PStr ''a/b'', rp_correlation_token_json_path = PNone\<rparr>],
     ro_publish_topic = PStr ''a'', ro_payload = PBytes [], ro_correlation_token = PNone\<rparr>"

text \<open>
  What validation lets through and what it does not: a plain string passes as the sequence of
  topic filters, since it is a sequence of one-character strings; and \<open>None\<close> is refused as the
  operation timeout, although the field is declared optional.
\<close>

lemma validation_edges:
  "(RequestOptions_validate o' \<longrightarrow> RequestOptions_validate (o'\<lparr>ro_subscription_topic_filters := PStr t\<rparr>)) \<and>
   \<not> RrClientOptions_validate (c\<lparr>rc_operation_timeout_in_seconds := PNone\<rparr>)"
  by (auto simp: RequestOptions_validate_def RrClientOptions_validate_def list_all_iff)

end
