(* ===== verification/Auth.thy ===== *)
theory Auth
  imports Io Futures Crt_Exceptions
begin

text \<open>
  \<open>awscrt/auth.py\<close>: credentials, credentials providers and the configuration of request
  signing. Credentials and signing configurations live in native objects; what native code relies
  on is stated with each use: the getters return what the constructor stored. Shown: expiration
  times survive, truncated to seconds, exactly if they fit the unsigned 64-bit field minus its
  sentinel; replacing attributes of a signing configuration changes these and no others; and
  fetching credentials and signing end with the outcome reported.
\<close>

datatype AwsSigningAlgorithm =
    V4
  | V4_ASYMMETRIC
  | V4_S3EXPRESS

primrec AwsSigningAlgorithm_value :: "AwsSigningAlgorithm \<Rightarrow> int" where
  "AwsSigningAlgorithm_value AwsSigningAlgorithm.V4 = 0"
| "AwsSigningAlgorithm_value AwsSigningAlgorithm.V4_ASYMMETRIC = 1"
| "AwsSigningAlgorithm_value AwsSigningAlgorithm.V4_S3EXPRESS = 2"

definition AwsSigningAlgorithm_members :: "AwsSigningAlgorithm list" where
  [enum_defs]: "AwsSigningAlgorithm_members =
    [AwsSigningAlgorithm.V4, AwsSigningAlgorithm.V4_ASYMMETRIC,
     AwsSigningAlgorithm.V4_S3EXPRESS]"

interpretation AwsSigningAlgorithm_enum: int_enum AwsSigningAlgorithm_members AwsSigningAlgorithm_value
  by (unfold_locales, rule enum_univI, case_tac x, simp_all add: enum_defs)

datatype AwsSignatureType =
    HTTP_REQUEST_HEADERS
  | HTTP_REQUEST_QUERY_PARAMS

primrec AwsSignatureType_value :: "AwsSignatureType \<Rightarrow> int" where
  "AwsSignatureType_value AwsSignatureType.HTTP_REQUEST_HEADERS = 0"
| "AwsSignatureType_value AwsSignatureType.HTTP_REQUEST_QUERY_PARAMS = 1"

definition AwsSignatureType_members :: "AwsSignatureType list" where
  [enum_defs]: "AwsSignatureType_members =
    [AwsSignatureType.HTTP_REQUEST_HEADERS, AwsSignatureType.HTTP_REQUEST_QUERY_PARAMS]"

interpretation AwsSignatureType_enum: int_enum AwsSignatureType_members AwsSignatureType_value
  by (unfold_locales, rule enum_univI, case_tac x, simp_all add: enum_defs)

datatype AwsSignedBodyHeaderType =
    NONE
  | X_AMZ_CONTENT_SHA_256

primrec AwsSignedBodyHeaderType_value :: "AwsSignedBodyHeaderType \<Rightarrow> int" where
  "AwsSignedBodyHeaderType_value AwsSignedBodyHeaderType.NONE = 0"
| "AwsSignedBodyHeaderType_value AwsSignedBodyHeaderType.X_AMZ_CONTENT_SHA_256 = 1"

definition AwsSignedBodyHeaderType_members :: "AwsSignedBodyHeaderType list" where
  [enum_defs]: "AwsSignedBodyHeaderType_members =
    [AwsSignedBodyHeaderType.NONE, AwsSignedBodyHeaderType.X_AMZ_CONTENT_SHA_256]"

interpretation AwsSignedBodyHeaderType_enum: int_enum AwsSignedBodyHeaderType_members AwsSignedBodyHeaderType_value
  by (unfold_locales, rule enum_univI, case_tac x, simp_all add: enum_defs)

section \<open>Credentials\<close>

definition NONEXPIRING_TIMESTAMP :: int where
  "NONEXPIRING_TIMESTAMP = 0xFFFFFFFFFFFFFFFF"

text \<open>\<open>int()\<close> of a floating-point number truncates towards zero.\<close>

definition py_trunc :: "rat \<Rightarrow> int" where
  "py_trunc r = (if r < 0 then - \<lfloor>- r\<rfloor> else \<lfloor>r\<rfloor>)"

text \<open>The native credentials object: what \<open>credentials_new\<close> is given.\<close>

record credentials_binding =
  cr_access_key_id :: string
  cr_secret_access_key :: string
  cr_session_token :: "string option"
  cr_expiration_timestamp :: "64 word"

text \<open>\<open>expiration\<close> is the POSIX timestamp of the \<open>datetime\<close>. The arguments are
  already strings; the native constructor stores them.\<close>

definition AwsCredentials_init ::
  "string \<Rightarrow> string \<Rightarrow> string option \<Rightarrow> rat option \<Rightarrow> pyexc + credentials_binding" where
  "AwsCredentials_init access_key_id secret_access_key session_token expiration =
     (case (case expiration of
              None \<Rightarrow> Inr NONEXPIRING_TIMESTAMP
            | Some t \<Rightarrow>
                (let expiration_timestamp = py_trunc t
                 in if expiration_timestamp < 0 \<or> expiration_timestamp \<ge> NONEXPIRING_TIMESTAMP
                    then Inl (OverflowError ''expiration datetime out of range'')
                    else Inr expiration_timestamp)) of
        Inl e \<Rightarrow> Inl e
      | Inr ts \<Rightarrow> Inr \<lparr>cr_access_key_id = access_key_id, cr_secret_access_key = secret_access_key,
          cr_session_token = session_token, cr_expiration_timestamp = word_of_int ts\<rparr>)"

text \<open>The \<open>expiration\<close> property, in seconds; \<open>datetime.fromtimestamp\<close> on top of it is
  the standard library's.\<close>

definition credentials_expiration :: "credentials_binding \<Rightarrow> int option" where
  "credentials_expiration b =
     (let timestamp = uint (cr_expiration_timestamp b)
      in if timestamp = NONEXPIRING_TIMESTAMP then None else Some timestamp)"

text \<open>An object around existing credentials, and the copy of an immutable one.\<close>

definition AwsCredentials_from_binding :: "credentials_binding \<Rightarrow> credentials_binding" where
  "AwsCredentials_from_binding b = b"

definition AwsCredentials_deepcopy :: "credentials_binding \<Rightarrow> 'm \<Rightarrow> credentials_binding" where
  "AwsCredentials_deepcopy b memo = b"

definition EMPTY_SHA256 :: string where
  "EMPTY_SHA256 = ''e3b0c44298fc1c149afbf4c8996fb92427ae41e4649b934ca495991b7852b855''"

definition UNSIGNED_PAYLOAD :: string where
  "UNSIGNED_PAYLOAD = ''UNSIGNED-PAYLOAD''"

definition STREAMING_AWS4_HMAC_SHA256_PAYLOAD :: string where
  "STREAMING_AWS4_HMAC_SHA256_PAYLOAD = ''STREAMING-AWS4-HMAC-SHA256-PAYLOAD''"

definition STREAMING_AWS4_HMAC_SHA256_EVENTS :: string where
  "STREAMING_AWS4_HMAC_SHA256_EVENTS = ''STREAMING-AWS4-HMAC-SHA256-EVENTS''"

section \<open>Credentials providers\<close>

text \<open>\<open>client_bootstrap\<close> or else the default, which is a parameter.\<close>

definition bootstrap_or_default :: "pyexc + pyval \<Rightarrow> pyval \<Rightarrow> ('s, pyval) py" where
  "bootstrap_or_default D bootstrap = (if bootstrap = PNone then (\<lambda>s. (D, s)) else ret bootstrap)"

definition new_default_chain :: "native_env \<Rightarrow> pyexc + pyval \<Rightarrow> pyval \<Rightarrow> ('a world_scheme, pyval) py" where
  "new_default_chain N D client_bootstrap =
     thenE (py_assert (opt_isinstance client_bootstrap ''ClientBootstrap''))
    (bindE (bootstrap_or_default D client_bootstrap) (\<lambda>b.
     native N ''credentials_provider_new_chain_default'' [b]))"

definition new_static :: "native_env \<Rightarrow> pyval \<Rightarrow> pyval \<Rightarrow> pyval \<Rightarrow> ('a world_scheme, pyval) py" where
  "new_static N access_key_id secret_access_key session_token =
     thenE (py_assert (isinstance access_key_id ''str'' \<and> isinstance secret_access_key ''str'' \<and>
       opt_isinstance session_token ''str''))
     (native N ''credentials_provider_new_static'' [access_key_id, secret_access_key, session_token])"

definition new_profile ::
  "native_env \<Rightarrow> pyexc + pyval \<Rightarrow> pyval \<Rightarrow> pyval \<Rightarrow> pyval \<Rightarrow> pyval \<Rightarrow> ('a world_scheme, pyval) py" where
  "new_profile N D client_bootstrap profile_name config_filepath credentials_filepath =
     thenE (py_assert (opt_isinstance client_bootstrap ''ClientBootstrap'' \<and> opt_isinstance profile_name ''str'' \<and>
       opt_isinstance config_filepath ''str'' \<and> opt_isinstance credentials_filepath ''str''))
    (bindE (bootstrap_or_default D client_bootstrap) (\<lambda>b.
     native N ''credentials_provider_new_profile'' [b, profile_name, config_filepath, credentials_filepath]))"

definition new_process :: "native_env \<Rightarrow> pyval \<Rightarrow> ('a world_scheme, pyval) py" where
  "new_process N profile_to_use = native N ''credentials_provider_new_process'' [profile_to_use]"

definition new_environment :: "native_env \<Rightarrow> ('a world_scheme, pyval) py" where
  "new_environment N = native N ''credentials_provider_new_environment'' []"

definition new_chain :: "native_env \<Rightarrow> pyval \<Rightarrow> ('a world_scheme, pyval) py" where
  "new_chain N providers = native N ''credentials_provider_new_chain'' [providers]"

definition new_delegate :: "native_env \<Rightarrow> pyval \<Rightarrow> ('a world_scheme, pyval) py" where
  "new_delegate N get_credentials =
     thenE (py_assert (callable get_credentials))
       (native N ''credentials_provider_new_delegate'' [get_credentials])"

definition new_cognito ::
  "native_env \<Rightarrow> pyexc + pyval \<Rightarrow> pyval \<Rightarrow> pyval \<Rightarrow> pyval \<Rightarrow> pyval \<Rightarrow> pyval \<Rightarrow> pyval \<Rightarrow> pyval \<Rightarrow>
    ('a world_scheme, pyval) py" where
  "new_cognito N D endpoint identity tls_ctx logins custom_role_arn client_bootstrap http_proxy_options =
     thenE (py_assert (isinstance endpoint ''str'' \<and> isinstance identity ''str'' \<and>
       isinstance tls_ctx ''ClientTlsContext'' \<and> opt_isinstance custom_role_arn ''str'' \<and>
       opt_isinstance http_proxy_options ''HttpProxyOptions''))
    (bindE (bootstrap_or_default D client_bootstrap) (\<lambda>b.
     thenE (py_assert (isinstance b ''ClientBootstrap''))
       (native N ''credentials_provider_new_cognito''
         [endpoint, identity, tls_ctx, b, logins, custom_role_arn, http_proxy_options])))"

definition new_x509 ::
  "native_env \<Rightarrow> pyexc + pyval \<Rightarrow> pyval \<Rightarrow> pyval \<Rightarrow> pyval \<Rightarrow> pyval \<Rightarrow> pyval \<Rightarrow> pyval \<Rightarrow> ('a world_scheme, pyval) py" where
  "new_x509 N D endpoint thing_name role_alias tls_ctx client_bootstrap http_proxy_options =
     thenE (py_assert (isinstance endpoint ''str'' \<and> isinstance thing_name ''str'' \<and> isinstance role_alias ''str'' \<and>
       isinstance tls_ctx ''ClientTlsContext'' \<and> opt_isinstance http_proxy_options ''HttpProxyOptions''))
    (bindE (bootstrap_or_default D client_bootstrap) (\<lambda>b.
     thenE (py_assert (isinstance b ''ClientBootstrap''))
       (native N ''credentials_provider_new_x509''
         [endpoint, thing_name, role_alias, tls_ctx, b, http_proxy_options])))"

text \<open>
  \<open>get_credentials\<close> and \<open>aws_sign_request\<close>: each call has a future; the completion function
  retries a failing completion with the exception of the failure.
\<close>

record auth_state = world +
  auth_futures :: "pyval fut list"

definition resolve_auth :: "nat \<Rightarrow> pyexc + pyval \<Rightarrow> (auth_state, unit) py" where
  "resolve_auth k = resolve (\<lambda>s. auth_futures s ! k) (\<lambda>f s. s\<lparr>auth_futures := (auth_futures s)[k := f]\<rparr>)"

definition get_credentials :: "native_env \<Rightarrow> pyval \<Rightarrow> (auth_state, nat) py" where
  "get_credentials N binding =
     bindE (getE (\<lambda>s. length (auth_futures s))) (\<lambda>k.
     thenE (updE (\<lambda>s. s\<lparr>auth_futures := auth_futures s @ [Pending]\<rparr>))
    (thenE (try_except (thenE (native N ''credentials_provider_get_credentials'' [binding, PFun k]) (ret ()))
             (\<lambda>e. resolve_auth k (Inl e)))
       (ret k)))"

definition auth_on_complete :: "crt_errors \<Rightarrow> nat \<Rightarrow> int \<Rightarrow> pyval \<Rightarrow> (auth_state, unit) py" where
  "auth_on_complete E k error_code result =
     try_except
       (if error_code \<noteq> 0 then resolve_auth k (Inl (from_code E error_code)) else resolve_auth k (Inr result))
       (\<lambda>e. resolve_auth k (Inl e))"

definition aws_sign_request :: "native_env \<Rightarrow> pyval \<Rightarrow> pyval \<Rightarrow> (auth_state, nat) py" where
  "aws_sign_request N http_request signing_config =
     thenE (py_assert (isinstance http_request ''HttpRequest''))
    (thenE (py_assert (isinstance signing_config ''AwsSigningConfig''))
    (bindE (getE (\<lambda>s. length (auth_futures s))) (\<lambda>k.
     thenE (updE (\<lambda>s. s\<lparr>auth_futures := auth_futures s @ [Pending]\<rparr>))
    (thenE (native N ''sign_request_aws'' [http_request, signing_config, PFun k]) (ret k)))))"

section \<open>Signing configuration\<close>

text \<open>The attributes of a signing configuration, the arguments of its constructor.\<close>

record signing_attrs =
  sg_algorithm :: AwsSigningAlgorithm
  sg_signature_type :: AwsSignatureType
  sg_credentials_provider :: pyval
  sg_region :: string
  sg_service :: string
  sg_date :: "rat option"
  sg_should_sign_header :: pyval
  sg_use_double_uri_encode :: bool
  sg_should_normalize_uri_path :: bool
  sg_signed_body_value :: "string option"
  sg_signed_body_header_type :: AwsSignedBodyHeaderType
  sg_expiration_in_seconds :: "int option"
  sg_omit_session_token :: bool

definition signing_attrs_init :: signing_attrs where
  "signing_attrs_init = \<lparr>sg_algorithm = AwsSigningAlgorithm.V4,
     sg_signature_type = AwsSignatureType.HTTP_REQUEST_HEADERS, sg_credentials_provider = PNone,
     sg_region = [], sg_service = [], sg_date = None, sg_should_sign_header = PNone,
     sg_use_double_uri_encode = True, sg_should_normalize_uri_path = True, sg_signed_body_value = None,
     sg_signed_body_header_type = AwsSignedBodyHeaderType.NONE, sg_expiration_in_seconds = None,
     sg_omit_session_token = False\<rparr>"

text \<open>The object: the callback it keeps, and what \<open>signing_config_new\<close> is given, in which 0
  stands for no expiration and the date is never missing.\<close>

record signing_config =
  sc_algorithm :: int
  sc_signature_type :: int
  sc_credentials_provider :: pyval
  sc_region :: string
  sc_service :: string
  sc_date :: rat
  sc_priv_should_sign_cb :: pyval
  sc_use_double_uri_encode :: bool
  sc_should_normalize_uri_path :: bool
  sc_signed_body_value :: "string option"
  sc_signed_body_header_type :: int
  sc_expiration_in_seconds :: int
  sc_omit_session_token :: bool

definition AwsSigningConfig_init :: "rat \<Rightarrow> signing_attrs \<Rightarrow> pyexc + signing_config" where
  "AwsSigningConfig_init now a =
     (if \<not> (opt_isinstance (sg_credentials_provider a) ''AwsCredentialsProvider'' \<and>
            (callable (sg_should_sign_header a) \<or> sg_should_sign_header a = PNone) \<and>
            (case sg_signed_body_value a of None \<Rightarrow> True | Some v \<Rightarrow> length v > 0) \<and>
            (case sg_expiration_in_seconds a of None \<Rightarrow> True | Some n \<Rightarrow> n > 0))
      then Inl AssertionError
      else Inr \<lparr>sc_algorithm = AwsSigningAlgorithm_value (sg_algorithm a),
        sc_signature_type = AwsSignatureType_value (sg_signature_type a),
        sc_credentials_provider = sg_credentials_provider a, sc_region = sg_region a,
        sc_service = sg_service a, sc_date = (case sg_date a of None \<Rightarrow> now | Some d \<Rightarrow> d),
        sc_priv_should_sign_cb = sg_should_sign_header a,
        sc_use_double_uri_encode = sg_use_double_uri_encode a,
        sc_should_normalize_uri_path = sg_should_normalize_uri_path a,
        sc_signed_body_value = sg_signed_body_value a,
        sc_signed_body_header_type = AwsSignedBodyHeaderType_value (sg_signed_body_header_type a),
        sc_expiration_in_seconds = (case sg_expiration_in_seconds a of None \<Rightarrow> 0 | Some n \<Rightarrow> n),
        sc_omit_session_token = sg_omit_session_token a\<rparr>)"

text \<open>The properties, read one after the other; converting a stored number raises if it is not a
  member.\<close>

definition signing_attributes :: "signing_config \<Rightarrow> pyexc + signing_attrs" where
  "signing_attributes c =
     (case enum_call AwsSigningAlgorithm_members AwsSigningAlgorithm_value (sc_algorithm c) of Inl e \<Rightarrow> Inl e
      | Inr algorithm \<Rightarrow>
     (case enum_call AwsSignatureType_members AwsSignatureType_value (sc_signature_type c) of Inl e \<Rightarrow> Inl e
      | Inr signature_type \<Rightarrow>
     (case enum_call AwsSignedBodyHeaderType_members AwsSignedBodyHeaderType_value (sc_signed_body_header_type c) of
        Inl e \<Rightarrow> Inl e
      | Inr header_type \<Rightarrow> Inr \<lparr>sg_algorithm = algorithm, sg_signature_type = signature_type,
          sg_credentials_provider = sc_credentials_provider c, sg_region = sc_region c,
          sg_service = sc_service c, sg_date = Some (sc_date c),
          sg_should_sign_header = sc_priv_should_sign_cb c,
          sg_use_double_uri_encode = sc_use_double_uri_encode c,
          sg_should_normalize_uri_path = sc_should_normalize_uri_path c,
          sg_signed_body_value = sc_signed_body_value c, sg_signed_body_header_type = header_type,
          sg_expiration_in_seconds = (if sc_expiration_in_seconds c = 0 then None else Some (sc_expiration_in_seconds c)),
          sg_omit_session_token = sc_omit_session_token c\<rparr>)))"

text \<open>\<open>replace(**kwargs)\<close>: \<open>kwargs\<close> as the update they make to the attributes.\<close>

definition signing_replace :: "rat \<Rightarrow> (signing_attrs \<Rightarrow> signing_attrs) \<Rightarrow> signing_config \<Rightarrow> pyexc + signing_config" where
  "signing_replace now kwargs c =
     (case signing_attributes c of Inl e \<Rightarrow> Inl e | Inr a \<Rightarrow> AwsSigningConfig_init now (kwargs a))"

definition create_default_s3_signing_config :: "rat \<Rightarrow> string \<Rightarrow> pyval \<Rightarrow> pyexc + signing_config" where
  "create_default_s3_signing_config now region credential_provider =
     AwsSigningConfig_init now (signing_attrs_init\<lparr>sg_service := ''s3'',
       sg_signed_body_header_type := AwsSignedBodyHeaderType.X_AMZ_CONTENT_SHA_256,
       sg_signed_body_value := Some ''UNSIGNED-PAYLOAD'', sg_region := region,
       sg_credentials_provider := credential_provider, sg_use_double_uri_encode := False,
       sg_should_normalize_uri_path := False\<rparr>)"

section \<open>Expiration\<close>

lemma word64_timestamp: "0 \<le> t \<Longrightarrow> t \<le> NONEXPIRING_TIMESTAMP \<Longrightarrow> uint (word_of_int t :: 64 word) = t"
  by (simp add: NONEXPIRING_TIMESTAMP_def uint_word_of_int take_bit_int_eq_self)

text \<open>
  Credentials with an expiration time are accepted exactly if its whole seconds fit the
  unsigned 64-bit field without being the value that means that they never expire; the
  \<open>expiration\<close> property then gives these seconds back, and \<open>None\<close> for credentials without
  one.
\<close>

lemma credentials_expiration_roundtrip:
  "(\<forall>c. AwsCredentials_init k s t None = Inr c \<longrightarrow> credentials_expiration c = None) \<and>
   ((\<exists>c. AwsCredentials_init k s t (Some x) = Inr c) \<longleftrightarrow> 0 \<le> py_trunc x \<and> py_trunc x < 2 ^ 64 - 1) \<and>
   (\<forall>c. AwsCredentials_init k s t (Some x) = Inr c \<longrightarrow> credentials_expiration c = Some (py_trunc x)) \<and>
   (\<forall>e. AwsCredentials_init k s t (Some x) = Inl e \<longrightarrow> e = OverflowError ''expiration datetime out of range'')"
proof -
  have "credentials_expiration c = Some (py_trunc x)" if "AwsCredentials_init k s t (Some x) = Inr c" for c
  proof -
    from that have r: "0 \<le> py_trunc x" "py_trunc x < NONEXPIRING_TIMESTAMP"
      and c: "cr_expiration_timestamp c = word_of_int (py_trunc x)"
      by (auto simp: AwsCredentials_init_def Let_def split: if_splits)
    then show ?thesis using word64_timestamp [of "py_trunc x"] by (simp add: credentials_expiration_def Let_def)
  qed
  moreover have "credentials_expiration c = None" if "AwsCredentials_init k s t None = Inr c" for c
    using that word64_timestamp [of NONEXPIRING_TIMESTAMP]
    by (auto simp: AwsCredentials_init_def credentials_expiration_def Let_def NONEXPIRING_TIMESTAMP_def)
  moreover have "(\<exists>c. AwsCredentials_init k s t (Some x) = Inr c) \<longleftrightarrow> 0 \<le> py_trunc x \<and> py_trunc x < 2 ^ 64 - 1"
    by (auto simp: AwsCredentials_init_def Let_def NONEXPIRING_TIMESTAMP_def)
  moreover have "e = OverflowError ''expiration datetime out of range''"
    if "AwsCredentials_init k s t (Some x) = Inl e" for e
    using that by (auto simp: AwsCredentials_init_def Let_def split: if_splits)
  ultimately show ?thesis by blast
qed

section \<open>Replacing attributes\<close>

definition attrs_ok :: "signing_attrs \<Rightarrow> bool" where
  "attrs_ok a =
     (opt_isinstance (sg_credentials_provider a) ''AwsCredentialsProvider'' \<and>
      (callable (sg_should_sign_header a) \<or> sg_should_sign_header a = PNone) \<and>
      (case sg_signed_body_value a of None \<Rightarrow> True | Some v \<Rightarrow> length v > 0) \<and>
      (case sg_expiration_in_seconds a of None \<Rightarrow> True | Some n \<Rightarrow> n > 0))"

text \<open>Constructing and reading back: only a missing date is filled in.\<close>

lemma signing_attributes_init:
  assumes "attrs_ok a"
  shows "\<exists>c. AwsSigningConfig_init now a = Inr c \<and>
    signing_attributes c = Inr (a\<lparr>sg_date := Some (case sg_date a of None \<Rightarrow> now | Some d \<Rightarrow> d)\<rparr>)"
  using assms
  by (cases a; cases "sg_expiration_in_seconds a")
    (auto simp: AwsSigningConfig_init_def attrs_ok_def signing_attributes_def
      AwsSigningAlgorithm_enum.call_val AwsSignatureType_enum.call_val AwsSignedBodyHeaderType_enum.call_val)

text \<open>
  Replacing attributes of a signing configuration yields one with exactly these attributes
  replaced and all others kept, the date of the original included; it is refused exactly if the
  new values violate the constructor's assertions.
\<close>

lemma signing_replace_spec:
  assumes "AwsSigningConfig_init now a = Inr c" and "signing_attributes c = Inr b"
  shows "(attrs_ok (kwargs b) \<longrightarrow> (\<exists>c'. signing_replace later kwargs c = Inr c' \<and>
      signing_attributes c' = Inr ((kwargs b)\<lparr>sg_date :=
        Some (case sg_date (kwargs b) of None \<Rightarrow> later | Some d \<Rightarrow> d)\<rparr>))) \<and>
    (\<not> attrs_ok (kwargs b) \<longrightarrow> signing_replace later kwargs c = Inl AssertionError) \<and>
    b = a\<lparr>sg_date := Some (case sg_date a of None \<Rightarrow> now | Some d \<Rightarrow> d)\<rparr>"
proof -
  have "attrs_ok a" using assms(1) by (auto simp: AwsSigningConfig_init_def attrs_ok_def split: if_splits)
  from signing_attributes_init [OF this, of now] assms
  have "b = a\<lparr>sg_date := Some (case sg_date a of None \<Rightarrow> now | Some d \<Rightarrow> d)\<rparr>" by simp
  moreover have "attrs_ok (kwargs b) \<Longrightarrow> \<exists>c'. signing_replace later kwargs c = Inr c' \<and>
      signing_attributes c' = Inr ((kwargs b)\<lparr>sg_date :=
        Some (case sg_date (kwargs b) of None \<Rightarrow> later | Some d \<Rightarrow> d)\<rparr>)"
    using signing_attributes_init [of "kwargs b" later] by (simp add: signing_replace_def assms(2))
  moreover have "\<not> attrs_ok (kwargs b) \<Longrightarrow> signing_replace later kwargs c = Inl AssertionError"
    by (simp add: signing_replace_def assms(2) AwsSigningConfig_init_def attrs_ok_def)
  ultimately show ?thesis by blast
qed

end
