(* ===== verification/Cbor.thy ===== *)
theory Cbor
  imports Int_Enum "HOL-Library.Sublist"
begin

text \<open>
  \<open>awscrt/cbor.py\<close> and the conversion code behind it in \<open>source/cbor.c\<close>: the encoder
  that walks a Python object and the recursive decoder that rebuilds one.

  The byte format itself belongs to aws-c-common. A native encoder is modelled by the sequence of
  CBOR elements written so far, a native decoder by the sequence of elements still ahead; what is
  left of a malformed or truncated source is its empty end, where every access fails with the error
  \<open>peek_error\<close>. How the library chooses the element of a float (the documented promise is
  \<open>the most compact CBOR representation without loss of precision\<close>), which byte strings are
  valid UTF-8, which list sizes can be allocated and the user's epoch callback are parameters,
  collected in \<open>cbor_env\<close>. Floats are finite; a \<open>str\<close> is its UTF-8 encoding.
\<close>

section \<open>Element types\<close>

datatype AwsCborType =
    Unknown | UnsignedInt | NegativeInt | Float | Bytes | Text | ArrayStart | MapStart | Tag
  | Bool | Null | Undefined | Break | IndefBytes | IndefStr | IndefArray | IndefMap

primrec AwsCborType_value :: "AwsCborType \<Rightarrow> int" where
  "AwsCborType_value Unknown = 0"
| "AwsCborType_value UnsignedInt = 1"
| "AwsCborType_value NegativeInt = 2"
| "AwsCborType_value Float = 3"
| "AwsCborType_value Bytes = 4"
| "AwsCborType_value Text = 5"
| "AwsCborType_value ArrayStart = 6"
| "AwsCborType_value MapStart = 7"
| "AwsCborType_value Tag = 8"
| "AwsCborType_value Bool = 9"
| "AwsCborType_value Null = 10"
| "AwsCborType_value Undefined = 11"
| "AwsCborType_value Break = 12"
| "AwsCborType_value IndefBytes = 13"
| "AwsCborType_value IndefStr = 14"
| "AwsCborType_value IndefArray = 15"
| "AwsCborType_value IndefMap = 16"

definition AwsCborType_members :: "AwsCborType list" where
  [enum_defs]: "AwsCborType_members =
    [Unknown, UnsignedInt, NegativeInt, Float, Bytes, Text, ArrayStart, MapStart, Tag, Bool, Null,
     Undefined, Break, IndefBytes, IndefStr, IndefArray, IndefMap]"

interpretation AwsCborType_enum: int_enum AwsCborType_members AwsCborType_value
  by (unfold_locales, rule enum_univI, case_tac x, simp_all add: enum_defs)

text \<open>The elements, with the arguments of the \<open>aws_cbor_encoder_write_*\<close> functions.\<close>

datatype cbor_elem =
    E_uint "64 word"
  | E_negint "64 word"
  | E_float rat
  | E_bytes bytes
  | E_text string
  | E_array_start "64 word"
  | E_map_start "64 word"
  | E_tag "64 word"
  | E_bool bool
  | E_null
  | E_undefined
  | E_break
  | E_indef_bytes_start
  | E_indef_text_start
  | E_indef_array_start
  | E_indef_map_start

primrec elem_type :: "cbor_elem \<Rightarrow> AwsCborType" where
  "elem_type (E_uint _) = UnsignedInt"
| "elem_type (E_negint _) = NegativeInt"
| "elem_type (E_float _) = Float"
| "elem_type (E_bytes _) = Bytes"
| "elem_type (E_text _) = Text"
| "elem_type (E_array_start _) = ArrayStart"
| "elem_type (E_map_start _) = MapStart"
| "elem_type (E_tag _) = Tag"
| "elem_type (E_bool _) = Bool"
| "elem_type E_null = Null"
| "elem_type E_undefined = Undefined"
| "elem_type E_break = Break"
| "elem_type E_indef_bytes_start = IndefBytes"
| "elem_type E_indef_text_start = IndefStr"
| "elem_type E_indef_array_start = IndefArray"
| "elem_type E_indef_map_start = IndefMap"

section \<open>Python objects\<close>

text \<open>
  The objects the encoder tells apart by their type; \<open>OOther\<close> is an instance of any other
  type (a tuple, an \<open>IntEnum\<close> member, a datetime, ...). A dict is its items in insertion order.
\<close>

datatype pyobj =
    ONone
  | OBool bool
  | OInt int
  | OFloat rat
  | OBytes bytes
  | OStr string
  | OList "pyobj list"
  | ODict "(pyobj \<times> pyobj) list"
  | OOther nat

fun hashable :: "pyobj \<Rightarrow> bool" where
  "hashable (OList _) = False"
| "hashable (ODict _) = False"
| "hashable _ = True"

text \<open>
  Python's \<open>==\<close> identifies \<open>1\<close>, \<open>True\<close> and \<open>1.0\<close>; objects are
  equal when their \<open>norm\<close> is (dicts are compared with their order here, which is finer).
\<close>

fun num_norm :: "pyobj \<Rightarrow> pyobj" where
  "num_norm (OBool b) = OInt (if b then 1 else 0)"
| "num_norm (OFloat r) =
     (if snd (quotient_of r) = 1 then OInt (fst (quotient_of r)) else OFloat r)"
| "num_norm x = x"

fun norm :: "pyobj \<Rightarrow> pyobj" where
  "norm (OList xs) = OList (map norm xs)"
| "norm (ODict ps) = ODict (map (\<lambda>p. (norm (fst p), norm (snd p))) ps)"
| "norm x = num_norm x"

text \<open>\<open>d[k] = v\<close>: an equal key is kept and its value replaced.\<close>

fun dict_set :: "(pyobj \<times> pyobj) list \<Rightarrow> pyobj \<Rightarrow> pyobj \<Rightarrow> (pyobj \<times> pyobj) list" where
  "dict_set [] k v = [(k, v)]"
| "dict_set ((k', v') # ps) k v =
     (if norm k' = norm k then (k', v) # ps else (k', v') # dict_set ps k v)"

record cbor_env =
  float_elem :: "rat \<Rightarrow> cbor_elem"
  utf8_ok :: "string \<Rightarrow> bool"
  can_alloc :: "nat \<Rightarrow> bool"
  peek_error :: pyexc
  on_epoch_time :: "(pyobj \<Rightarrow> pyexc + pyobj) option"

section \<open>The encoder\<close>

type_synonym encoder = "cbor_elem list"

definition put :: "cbor_elem \<Rightarrow> (encoder, unit) py" where
  "put e = updE (\<lambda>es. es @ [e])"

text \<open>
  \<open>PyLong_AsUnsignedLongLong\<close> as the writers of an unsigned argument use it: the
  \<open>OverflowError\<close> of the conversion is replaced by a \<open>TypeError\<close>.
\<close>

definition write_as_uint64 :: "(64 word \<Rightarrow> cbor_elem) \<Rightarrow> int \<Rightarrow> (encoder, unit) py" where
  "write_as_uint64 K v =
     (if 0 \<le> v \<and> v < 2 ^ 64 then put (K (word_of_int v))
      else raise (TypeError ''Failed to convert Python object to uint64_t''))"

definition long_min :: int where "long_min = - (2 ^ 63)"

definition long_max :: int where "long_max = 2 ^ 63 - 1"

definition too_large :: pyexc where
  "too_large = OverflowError ''The integer is too large, BigNumber is not supported yet.''"

text \<open>
  \<open>long\<close> has 64 bits. For \<open>LONG_MIN\<close> the C expression \<open>-val\<close> overflows; the
  model computes it modulo \<open>2 ^ 64\<close>.
\<close>

definition write_pylong :: "int \<Rightarrow> (encoder, unit) py" where
  "write_pylong v =
     (if long_min \<le> v \<and> v \<le> long_max then
        (if v \<ge> 0 then put (E_uint (word_of_int v))
         else put (E_negint (word_of_int (- v) - 1)))
      else if v < 0 then
        (let result = - v - 1 in
         if result < 2 ^ 64 then put (E_negint (word_of_int result)) else raise too_large)
      else (if v < 2 ^ 64 then put (E_uint (word_of_int v)) else raise too_large))"

function (sequential) write_pyobject :: "cbor_env \<Rightarrow> pyobj \<Rightarrow> (encoder, unit) py"
and write_items :: "cbor_env \<Rightarrow> pyobj list \<Rightarrow> (encoder, unit) py"
and write_pairs :: "cbor_env \<Rightarrow> (pyobj \<times> pyobj) list \<Rightarrow> (encoder, unit) py" where
  "write_pyobject E ONone = put E_null"
| "write_pyobject E (OInt i) = write_pylong i"
| "write_pyobject E (OFloat r) = put (float_elem E r)"
| "write_pyobject E (OBool b) = put (E_bool b)"
| "write_pyobject E (OBytes b) = put (E_bytes b)"
| "write_pyobject E (OStr s) = put (E_text s)"
| "write_pyobject E (OList xs) =
     thenE (put (E_array_start (of_nat (length xs)))) (write_items E xs)"
| "write_pyobject E (ODict ps) =
     thenE (put (E_map_start (of_nat (length ps)))) (write_pairs E ps)"
| "write_pyobject E (OOther n) = raise (ValueError ''Not supported type'')"
| "write_items E [] = ret ()"
| "write_items E (x # xs) = thenE (write_pyobject E x) (write_items E xs)"
| "write_pairs E [] = ret ()"
| "write_pairs E ((k, v) # ps) =
     thenE (write_pyobject E k) (thenE (write_pyobject E v) (write_pairs E ps))"
  by pat_completeness auto

termination
  by (relation "measure (case_sum (\<lambda>p. size (snd p))
        (case_sum (\<lambda>p. size_list size (snd p)) (\<lambda>p. size_list (size_prod size size) (snd p))))") auto

text \<open>
  Called with something that is not a list (a dict), \<open>PyList_Size\<close> (\<open>PyDict_Size\<close>)
  returns \<open>-1\<close> with an exception set; the size is written all the same and the binding
  returns \<open>None\<close> with the exception pending, which the interpreter reports as a
  \<open>SystemError\<close>.
\<close>

definition write_pylist :: "cbor_env \<Rightarrow> pyobj \<Rightarrow> (encoder, unit) py" where
  "write_pylist E v =
     (case v of
        OList xs \<Rightarrow> thenE (put (E_array_start (of_nat (length xs)))) (write_items E xs)
      | _ \<Rightarrow> thenE (put (E_array_start (- 1))) (raise (BuiltinExc ''SystemError'')))"

definition write_pydict :: "cbor_env \<Rightarrow> pyobj \<Rightarrow> (encoder, unit) py" where
  "write_pydict E v =
     (case v of
        ODict ps \<Rightarrow> thenE (put (E_map_start (of_nat (length ps)))) (write_pairs E ps)
      | _ \<Rightarrow> thenE (put (E_map_start (- 1))) (raise (BuiltinExc ''SystemError'')))"

definition write_simple_types :: "AwsCborType \<Rightarrow> (encoder, unit) py" where
  "write_simple_types t =
     (case t of
        Null \<Rightarrow> put E_null
      | Undefined \<Rightarrow> put E_undefined
      | IndefArray \<Rightarrow> put E_indef_array_start
      | IndefMap \<Rightarrow> put E_indef_map_start
      | IndefBytes \<Rightarrow> put E_indef_bytes_start
      | IndefStr \<Rightarrow> put E_indef_text_start
      | Break \<Rightarrow> put E_break
      | _ \<Rightarrow> raise (ValueError ''Not supported simple type''))"

subsection \<open>The methods of \<open>AwsCborEncoder\<close>\<close>

definition encoder_init :: encoder where
  "encoder_init = []"

definition reset_encoder :: "(encoder, unit) py" where
  "reset_encoder = updE (\<lambda>_. [])"

definition write_int :: "int \<Rightarrow> (encoder, unit) py" where
  "write_int val =
     (if val \<ge> 0 then write_as_uint64 E_uint val
      else (let val_to_encode = - 1 - val in write_as_uint64 E_negint val_to_encode))"

definition write_float :: "cbor_env \<Rightarrow> rat \<Rightarrow> (encoder, unit) py" where
  "write_float E val = put (float_elem E val)"

definition write_bytes :: "bytes \<Rightarrow> (encoder, unit) py" where
  "write_bytes val = put (E_bytes val)"

definition write_text :: "string \<Rightarrow> (encoder, unit) py" where
  "write_text val = put (E_text val)"

definition write_array_start :: "int \<Rightarrow> (encoder, unit) py" where
  "write_array_start number_entries =
     (if number_entries < 0 \<or> number_entries > 2 ^ 64
      then raise (ValueError ''must be between 0 and 2^64'')
      else write_as_uint64 E_array_start number_entries)"

definition write_map_start :: "int \<Rightarrow> (encoder, unit) py" where
  "write_map_start number_entries =
     (if number_entries < 0 \<or> number_entries > 2 ^ 64
      then raise (ValueError ''must be between 0 and 2^64'')
      else write_as_uint64 E_map_start number_entries)"

definition write_tag :: "int \<Rightarrow> (encoder, unit) py" where
  "write_tag tag_number =
     (if tag_number < 0 \<or> tag_number > 2 ^ 64
      then raise (ValueError ''must be between 0 and 2^64'')
      else write_as_uint64 E_tag tag_number)"

definition write_null :: "(encoder, unit) py" where
  "write_null = write_simple_types Null"

definition write_undefined :: "(encoder, unit) py" where
  "write_undefined = write_simple_types Undefined"

definition write_indef_array_start :: "(encoder, unit) py" where
  "write_indef_array_start = write_simple_types IndefArray"

definition write_indef_map_start :: "(encoder, unit) py" where
  "write_indef_map_start = write_simple_types IndefMap"

definition write_indef_bytes_start :: "(encoder, unit) py" where
  "write_indef_bytes_start = write_simple_types IndefBytes"

definition write_indef_text_start :: "(encoder, unit) py" where
  "write_indef_text_start = write_simple_types IndefStr"

definition write_break :: "(encoder, unit) py" where
  "write_break = write_simple_types Break"

definition write_bool :: "bool \<Rightarrow> (encoder, unit) py" where
  "write_bool val = put (E_bool val)"

definition write_epoch_time :: "cbor_env \<Rightarrow> rat \<Rightarrow> (encoder, unit) py" where
  "write_epoch_time E val = thenE (write_as_uint64 E_tag 1) (put (float_elem E val))"

definition write_list :: "cbor_env \<Rightarrow> pyobj \<Rightarrow> (encoder, unit) py" where
  "write_list E val = write_pylist E val"

definition write_dict :: "cbor_env \<Rightarrow> pyobj \<Rightarrow> (encoder, unit) py" where
  "write_dict E val = write_pydict E val"

definition write_data_item :: "cbor_env \<Rightarrow> pyobj \<Rightarrow> (encoder, unit) py" where
  "write_data_item E data_item = write_pyobject E data_item"

section \<open>The decoder\<close>

text \<open>
  How a call of the decoder can fail: with a Python exception, or by dereferencing a null pointer.
  \<open>Out_of_fuel\<close> is the outcome of the loop over an indefinite-length item when its bound is
  used up; it is shown never to occur.
\<close>

datatype c_fail = Raised pyexc | Crashed | Out_of_fuel

type_synonym 'a dec = "cbor_elem list \<Rightarrow> (c_fail + 'a) \<times> cbor_elem list"

definition dret :: "'a \<Rightarrow> 'a dec" where
  "dret x = (\<lambda>es. (Inr x, es))"

definition dfail :: "pyexc \<Rightarrow> 'a dec" where
  "dfail e = (\<lambda>es. (Inl (Raised e), es))"

definition dbind :: "'a dec \<Rightarrow> ('a \<Rightarrow> 'b dec) \<Rightarrow> 'b dec" where
  "dbind m k = (\<lambda>es. case m es of (Inl f, es') \<Rightarrow> (Inl f, es') | (Inr x, es') \<Rightarrow> k x es')"

text \<open>\<open>PyErr_AwsLastError\<close> raises a \<open>RuntimeError\<close>.\<close>

definition unexpected_type :: pyexc where
  "unexpected_type = RuntimeError ''AWS_ERROR_CBOR_UNEXPECTED_TYPE''"

definition pop_elem :: "cbor_env \<Rightarrow> (cbor_elem \<Rightarrow> 'a option) \<Rightarrow> 'a dec" where
  "pop_elem E sel = (\<lambda>es. case es of
      [] \<Rightarrow> (Inl (Raised (peek_error E)), [])
    | e # rest \<Rightarrow> (case sel e of None \<Rightarrow> (Inl (Raised unexpected_type), es) | Some x \<Rightarrow> (Inr x, rest)))"

fun sel_uint where "sel_uint (E_uint w) = Some w" | "sel_uint _ = None"
fun sel_negint where "sel_negint (E_negint w) = Some w" | "sel_negint _ = None"
fun sel_float where "sel_float (E_float r) = Some r" | "sel_float _ = None"
fun sel_bool where "sel_bool (E_bool b) = Some b" | "sel_bool _ = None"
fun sel_bytes where "sel_bytes (E_bytes b) = Some b" | "sel_bytes _ = None"
fun sel_text where "sel_text (E_text s) = Some s" | "sel_text _ = None"
fun sel_array_start where "sel_array_start (E_array_start w) = Some w" | "sel_array_start _ = None"
fun sel_map_start where "sel_map_start (E_map_start w) = Some w" | "sel_map_start _ = None"
fun sel_tag where "sel_tag (E_tag w) = Some w" | "sel_tag _ = None"

definition pop_text_val :: "cbor_env \<Rightarrow> string dec" where
  "pop_text_val E = dbind (pop_elem E sel_text)
     (\<lambda>s. if utf8_ok E s then dret s else dfail (BuiltinExc ''UnicodeDecodeError''))"

definition py_ssize_t_max :: nat where "py_ssize_t_max = 2 ^ 63 - 1"

text \<open>
  The bodies of the loops take the function that pops a nested data item as an argument.
  The definite loops count down; the indefinite ones run until a break is next, at most once per
  remaining element.
\<close>

primrec pop_n :: "'a dec \<Rightarrow> nat \<Rightarrow> 'a list dec" where
  "pop_n item 0 = dret []"
| "pop_n item (Suc n) = dbind item (\<lambda>x. dbind (pop_n item n) (\<lambda>xs. dret (x # xs)))"

primrec pop_until_break :: "cbor_env \<Rightarrow> 'a dec \<Rightarrow> nat \<Rightarrow> 'a list dec" where
  "pop_until_break E item 0 = (\<lambda>es. (Inl Out_of_fuel, es))"
| "pop_until_break E item (Suc n) = (\<lambda>es.
     if es \<noteq> [] \<and> hd es = E_break then (Inr [], tl es)
     else dbind item (\<lambda>x es'.
            if es' = [] then (Inl (Raised (peek_error E)), es')
            else dbind (pop_until_break E item n) (\<lambda>xs. dret (x # xs)) es') es)"

definition pop_list :: "cbor_env \<Rightarrow> pyobj dec \<Rightarrow> pyobj dec" where
  "pop_list E item = (\<lambda>es. case es of
      [] \<Rightarrow> (Inl (Raised (peek_error E)), [])
    | E_array_start n # rest \<Rightarrow>
        (if unat n > py_ssize_t_max
         then (Inl (Raised (OverflowError ''number of array is too large to fit.'')), rest)
         else if \<not> can_alloc E (unat n) then (Inl (Raised (BuiltinExc ''MemoryError'')), rest)
         else dbind (pop_n item (unat n)) (\<lambda>xs. dret (OList xs)) rest)
    | E_indef_array_start # rest \<Rightarrow>
        dbind (pop_until_break E item (Suc (length rest))) (\<lambda>xs. dret (OList xs)) rest
    | _ \<Rightarrow> (Inl (Raised unexpected_type), es))"

text \<open>
  Key and value are both popped before either result is looked at: after a failed key the value is
  popped all the same, and its exception, if it has one, is the one reported.
\<close>

definition pop_pair :: "pyobj dec \<Rightarrow> (pyobj \<times> pyobj) dec" where
  "pop_pair item = (\<lambda>es. case item es of
      (Inl (Raised e), es1) \<Rightarrow>
        (case item es1 of (Inl f, es2) \<Rightarrow> (Inl f, es2) | (Inr _, es2) \<Rightarrow> (Inl (Raised e), es2))
    | (Inl f, es1) \<Rightarrow> (Inl f, es1)
    | (Inr k, es1) \<Rightarrow>
        (case item es1 of (Inl f, es2) \<Rightarrow> (Inl f, es2) | (Inr v, es2) \<Rightarrow> (Inr (k, v), es2)))"

definition set_item ::
  "(pyobj \<times> pyobj) list \<Rightarrow> pyobj \<times> pyobj \<Rightarrow> (pyobj \<times> pyobj) list dec" where
  "set_item d p = (case p of (k, v) \<Rightarrow>
     if hashable k then dret (dict_set d k v) else dfail (TypeError ''unhashable type''))"

primrec pop_n_pairs ::
  "pyobj dec \<Rightarrow> nat \<Rightarrow> (pyobj \<times> pyobj) list \<Rightarrow> (pyobj \<times> pyobj) list dec" where
  "pop_n_pairs item 0 d = dret d"
| "pop_n_pairs item (Suc n) d =
     dbind (dbind (pop_pair item) (set_item d)) (\<lambda>d'. pop_n_pairs item n d')"

primrec pop_pairs_until_break ::
  "cbor_env \<Rightarrow> pyobj dec \<Rightarrow> nat \<Rightarrow> (pyobj \<times> pyobj) list \<Rightarrow> (pyobj \<times> pyobj) list dec" where
  "pop_pairs_until_break E item 0 d = (\<lambda>es. (Inl Out_of_fuel, es))"
| "pop_pairs_until_break E item (Suc n) d = (\<lambda>es.
     if es \<noteq> [] \<and> hd es = E_break then (Inr d, tl es)
     else dbind (dbind (pop_pair item) (set_item d)) (\<lambda>d' es'.
            if es' = [] then (Inl (Raised (peek_error E)), es')
            else pop_pairs_until_break E item n d' es') es)"

definition pop_dict :: "cbor_env \<Rightarrow> pyobj dec \<Rightarrow> pyobj dec" where
  "pop_dict E item = (\<lambda>es. case es of
      [] \<Rightarrow> (Inl (Raised (peek_error E)), [])
    | E_map_start n # rest \<Rightarrow>
        (if unat n > py_ssize_t_max
         then (Inl (Raised (OverflowError ''number of dict is too large to fit.'')), rest)
         else dbind (pop_n_pairs item (unat n) []) (\<lambda>d. dret (ODict d)) rest)
    | E_indef_map_start # rest \<Rightarrow>
        dbind (pop_pairs_until_break E item (Suc (length rest)) []) (\<lambda>d. dret (ODict d)) rest
    | _ \<Rightarrow> (Inl (Raised unexpected_type), es))"

text \<open>The chunks of an indefinite-length string, concatenated.\<close>

definition pop_inf_bytes :: "cbor_env \<Rightarrow> pyobj dec" where
  "pop_inf_bytes E = (\<lambda>es. case es of
      [] \<Rightarrow> (Inl (Raised (peek_error E)), [])
    | E_indef_bytes_start # rest \<Rightarrow>
        (if rest = [] then (Inl (Raised (peek_error E)), rest)
         else dbind (pop_until_break E (pop_elem E sel_bytes) (Suc (length rest)))
                (\<lambda>bs. dret (OBytes (concat bs))) rest)
    | _ \<Rightarrow> (Inl (Raised unexpected_type), es))"

definition pop_inf_string :: "cbor_env \<Rightarrow> pyobj dec" where
  "pop_inf_string E = (\<lambda>es. case es of
      [] \<Rightarrow> (Inl (Raised (peek_error E)), [])
    | E_indef_text_start # rest \<Rightarrow>
        (if rest = [] then (Inl (Raised (peek_error E)), rest)
         else dbind (pop_until_break E (pop_text_val E) (Suc (length rest)))
                (\<lambda>ss. dret (OStr (concat ss))) rest)
    | _ \<Rightarrow> (Inl (Raised unexpected_type), es))"

definition on_epoch_time_callback :: "cbor_env \<Rightarrow> pyobj \<Rightarrow> pyexc + pyobj" where
  "on_epoch_time_callback E epoch_secs =
     (case on_epoch_time E of Some f \<Rightarrow> f epoch_secs | None \<Rightarrow> Inr epoch_secs)"

text \<open>
  The result of the nested call is used without a check: if it is null (its exception set), the
  call of the method fails and \<open>Py_DECREF(val)\<close> then dereferences the null pointer.
\<close>

definition epoch_item :: "cbor_env \<Rightarrow> pyobj dec \<Rightarrow> pyobj dec" where
  "epoch_item E item = (\<lambda>es. case item es of
      (Inl (Raised _), es') \<Rightarrow> (Inl Crashed, es')
    | (Inl f, es') \<Rightarrow> (Inl f, es')
    | (Inr v, es') \<Rightarrow>
        (case on_epoch_time_callback E v of Inl e \<Rightarrow> (Inl (Raised e), es') | Inr r \<Rightarrow> (Inr r, es')))"

definition pop_tag :: "cbor_env \<Rightarrow> pyobj dec \<Rightarrow> pyobj dec" where
  "pop_tag E item = dbind (pop_elem E sel_tag) (\<lambda>t es.
     if t = 1 then
       (case es of
          [] \<Rightarrow> (Inl (Raised (peek_error E)), es)
        | e # _ \<Rightarrow>
            if elem_type e = Float \<or> elem_type e = UnsignedInt \<or> elem_type e = NegativeInt
            then epoch_item E item es
            else (Inl (Raised unexpected_type), es))
     else (Inl (Raised (ValueError ''Unsupported tag value'')), es))"

text \<open>
  \<open>binding->current_depth\<close> is incremented on entry and decremented on every way out, so a
  call made \<open>k\<close> levels deep runs with the counter at \<open>k\<close>. The first argument of
  \<open>pop_item\<close> is what is left of \<open>s_cbor_max_decode_depth\<close>.
\<close>

definition s_cbor_max_decode_depth :: nat where "s_cbor_max_decode_depth = 128"

definition recursion_error :: pyexc where
  "recursion_error = BuiltinExc ''RecursionError''"

primrec pop_item :: "cbor_env \<Rightarrow> nat \<Rightarrow> pyobj dec" where
  "pop_item E 0 = dfail recursion_error"
| "pop_item E (Suc d) = (\<lambda>es. case es of
      [] \<Rightarrow> (Inl (Raised (peek_error E)), [])
    | e # rest \<Rightarrow> (case e of
          E_uint w \<Rightarrow> (Inr (OInt (uint w)), rest)
        | E_negint w \<Rightarrow> (Inr (OInt (- 1 - uint w)), rest)
        | E_float r \<Rightarrow> (Inr (OFloat r), rest)
        | E_bytes b \<Rightarrow> (Inr (OBytes b), rest)
        | E_text s \<Rightarrow> dbind (pop_text_val E) (\<lambda>s. dret (OStr s)) es
        | E_bool b \<Rightarrow> (Inr (OBool b), rest)
        | E_null \<Rightarrow> (Inr ONone, rest)
        | E_undefined \<Rightarrow> (Inr ONone, rest)
        | E_map_start n \<Rightarrow> pop_dict E (pop_item E d) es
        | E_indef_map_start \<Rightarrow> pop_dict E (pop_item E d) es
        | E_array_start n \<Rightarrow> pop_list E (pop_item E d) es
        | E_indef_array_start \<Rightarrow> pop_list E (pop_item E d) es
        | E_indef_bytes_start \<Rightarrow> pop_inf_bytes E es
        | E_indef_text_start \<Rightarrow> pop_inf_string E es
        | E_tag t \<Rightarrow> pop_tag E (pop_item E d) es
        | E_break \<Rightarrow> (Inl (Raised unexpected_type), es)))"

subsection \<open>The methods of \<open>AwsCborDecoder\<close>\<close>

definition peek_next_type :: "cbor_env \<Rightarrow> AwsCborType dec" where
  "peek_next_type E = (\<lambda>es. case es of
      [] \<Rightarrow> (Inl (Raised (peek_error E)), [])
    | e # _ \<Rightarrow> (case enum_call AwsCborType_members AwsCborType_value (AwsCborType_value (elem_type e)) of
                 Inl x \<Rightarrow> (Inl (Raised x), es) | Inr t \<Rightarrow> (Inr t, es)))"

definition get_remaining_bytes :: "bytes \<Rightarrow> int \<Rightarrow> bytes" where
  "get_remaining_bytes src remaining_length =
     (if remaining_length \<le> 0 then []
      else drop (nat (int (length src) - remaining_length)) src)"

definition consume_next_single_element :: "cbor_env \<Rightarrow> unit dec" where
  "consume_next_single_element E = pop_elem E (\<lambda>_. Some ())"

definition pop_next_unsigned_int :: "cbor_env \<Rightarrow> int dec" where
  "pop_next_unsigned_int E = dbind (pop_elem E sel_uint) (\<lambda>w. dret (uint w))"

definition pop_next_negative_int :: "cbor_env \<Rightarrow> int dec" where
  "pop_next_negative_int E = dbind (pop_elem E sel_negint)
     (\<lambda>w. let encoded_val = uint w in dret (- 1 - encoded_val))"

definition pop_next_double :: "cbor_env \<Rightarrow> rat dec" where
  "pop_next_double E = pop_elem E sel_float"

definition pop_next_bool :: "cbor_env \<Rightarrow> bool dec" where
  "pop_next_bool E = pop_elem E sel_bool"

definition pop_next_bytes :: "cbor_env \<Rightarrow> bytes dec" where
  "pop_next_bytes E = pop_elem E sel_bytes"

definition pop_next_text :: "cbor_env \<Rightarrow> string dec" where
  "pop_next_text E = pop_text_val E"

definition pop_next_array_start :: "cbor_env \<Rightarrow> int dec" where
  "pop_next_array_start E = dbind (pop_elem E sel_array_start) (\<lambda>w. dret (uint w))"

definition pop_next_map_start :: "cbor_env \<Rightarrow> int dec" where
  "pop_next_map_start E = dbind (pop_elem E sel_map_start) (\<lambda>w. dret (uint w))"

definition pop_next_tag_val :: "cbor_env \<Rightarrow> int dec" where
  "pop_next_tag_val E = dbind (pop_elem E sel_tag) (\<lambda>w. dret (uint w))"

definition pop_next_list :: "cbor_env \<Rightarrow> pyobj dec" where
  "pop_next_list E = pop_list E (pop_item E s_cbor_max_decode_depth)"

definition pop_next_map :: "cbor_env \<Rightarrow> pyobj dec" where
  "pop_next_map E = pop_dict E (pop_item E s_cbor_max_decode_depth)"

definition pop_next_data_item :: "cbor_env \<Rightarrow> pyobj dec" where
  "pop_next_data_item E = pop_item E s_cbor_max_decode_depth"

section \<open>Every decoding ends, and what can crash it\<close>

text \<open>
  A computation is harmless at a point of the source if it only moves forward from there, stays
  within its bound, and crashes only if an epoch tag is ahead. What the loops need of the function
  that pops one item is this everywhere, and that it moves by an element whenever it succeeds.
\<close>

definition harmless :: "'a dec \<Rightarrow> cbor_elem list \<Rightarrow> bool" where
  "harmless m es \<longleftrightarrow> suffix (snd (m es)) es \<and> fst (m es) \<noteq> Inl Out_of_fuel \<and>
     (E_tag 1 \<notin> set es \<longrightarrow> fst (m es) \<noteq> Inl Crashed)"

locale consuming =
  fixes item :: "'a dec"
  assumes item_harmless: "harmless item es"
    and item_progress: "fst (item es) = Inr x \<Longrightarrow> length (snd (item es)) < length es"

lemma suffix_tag: "suffix xs ys \<Longrightarrow> E_tag 1 \<notin> set ys \<Longrightarrow> E_tag 1 \<notin> set xs"
  using set_mono_suffix by blast

lemma harmless_raise [simp]: "snd (m es) = es \<Longrightarrow> fst (m es) = Inl (Raised e) \<Longrightarrow> harmless m es"
  by (simp add: harmless_def)

lemma harmless_dret [simp]: "harmless (dret x) es"
  by (simp add: harmless_def dret_def)

lemma harmless_dfail [simp]: "harmless (dfail e) es"
  by (simp add: harmless_def dfail_def)

lemma harmless_dbind:
  assumes "harmless m es"
    and "\<And>x. fst (m es) = Inr x \<Longrightarrow> harmless (k x) (snd (m es))"
  shows "harmless (dbind m k) es"
  using assms suffix_tag [of "snd (m es)" es]
  by (cases "m es"; cases "fst (m es)")
     (auto simp: harmless_def dbind_def dest: suffix_order.trans)

text \<open>A parser that looks at the first element and goes on behind it.\<close>

lemma consuming_head:
  assumes "\<And>es. (\<exists>f. m es = (Inl (Raised f), es)) \<or>
     (\<exists>e rest. es = e # rest \<and> harmless (\<lambda>_. m es) rest)"
  shows "consuming m"
proof
  fix es x
  consider f where "m es = (Inl (Raised f), es)"
    | e rest where "es = e # rest" "harmless (\<lambda>_. m es) rest"
    using assms by blast
  then have "harmless m es \<and> (fst (m es) = Inr x \<longrightarrow> length (snd (m es)) < length es)"
  proof cases
    case 1
    then show ?thesis by (simp add: harmless_def)
  next
    case 2
    then show ?thesis
      using suffix_length_le by (fastforce simp: harmless_def suffix_ConsI le_imp_less_Suc)
  qed
  then show "harmless m es" and "fst (m es) = Inr x \<Longrightarrow> length (snd (m es)) < length es"
    by auto
qed

lemma pop_elem_consuming: "consuming (pop_elem E sel)"
proof (rule consuming_head, goal_cases)
  case (1 es)
  show ?case
    by (cases es; cases "sel (hd es)") (auto simp: pop_elem_def harmless_def)
qed

lemma consuming_dbind:
  assumes m: "consuming m" and k: "\<And>x es. harmless (k x) es"
  shows "consuming (dbind m k)"
proof
  fix es x
  show "harmless (dbind m k) es"
    by (rule harmless_dbind) (simp_all add: k consuming.item_harmless [OF m])
  assume "fst (dbind m k es) = Inr x"
  then obtain y es' where y: "m es = (Inr y, es')" "fst (k y es') = Inr x"
    by (auto simp: dbind_def split: prod.splits sum.splits)
  have "length es' < length es"
    using consuming.item_progress [OF m, of es y] y by simp
  moreover have "suffix (snd (k y es')) es'"
    using k [of y es'] by (simp add: harmless_def)
  ultimately show "length (snd (dbind m k es)) < length es"
    using y suffix_length_le by (fastforce simp: dbind_def)
qed

lemma pop_text_val_consuming: "consuming (pop_text_val E)"
  unfolding pop_text_val_def by (rule consuming_dbind [OF pop_elem_consuming]) simp

context consuming
begin

lemma pop_n_harmless: "harmless (pop_n item n) es"
  by (induction n arbitrary: es) (auto intro!: harmless_dbind item_harmless)

lemma pop_until_break_harmless: "length es < n \<Longrightarrow> harmless (pop_until_break E item n) es"
proof (induction n arbitrary: es)
  case (Suc n)
  show ?case
  proof (cases "es \<noteq> [] \<and> hd es = E_break")
    case True
    then show ?thesis by (cases es) (auto simp: harmless_def suffix_ConsI)
  next
    case False
    let ?k = "\<lambda>x es'. if es' = [] then (Inl (Raised (peek_error E)), es')
      else dbind (pop_until_break E item n) (\<lambda>xs. dret (x # xs)) es'"
    have "harmless (dbind item ?k) es"
    proof (rule harmless_dbind [OF item_harmless])
      fix x assume "fst (item es) = Inr x"
      then have "length (snd (item es)) < n"
        using item_progress Suc.prems by fastforce
      then have "harmless (dbind (pop_until_break E item n) (\<lambda>xs. dret (x # xs))) (snd (item es))"
        by (intro harmless_dbind [OF Suc.IH]) simp_all
      then show "harmless (?k x) (snd (item es))"
        by (auto simp: harmless_def)
    qed
    then show ?thesis
      using False by (simp add: harmless_def)
  qed
qed simp

end

text \<open>Containers, whose items are objects.\<close>

locale consuming_obj = consuming item for item :: "pyobj dec"
begin

lemma pop_pair_consuming: "consuming (pop_pair item)"
proof
  fix es x
  obtain r es1 where 1: "item es = (r, es1)" by fastforce
  obtain r' es2 where 2: "item es1 = (r', es2)" by fastforce
  note h = item_harmless [of es] item_harmless [of es1]
  show "harmless (pop_pair item) es"
    using h 1 2 suffix_tag [of es1 es]
    by (auto simp: pop_pair_def harmless_def split: sum.splits c_fail.splits dest: suffix_order.trans)
  assume "fst (pop_pair item es) = Inr x"
  then show "length (snd (pop_pair item es)) < length es"
    using 1 2 item_progress [of es] item_progress [of es1]
    by (fastforce simp: pop_pair_def split: sum.splits c_fail.splits)
qed

lemma set_item_harmless [simp]: "harmless (set_item d p) es"
  by (cases p) (simp add: set_item_def)

lemma pair_step_consuming: "consuming (dbind (pop_pair item) (set_item d))"
  by (rule consuming_dbind [OF pop_pair_consuming]) simp

lemma pop_n_pairs_harmless: "harmless (pop_n_pairs item n d) es"
  by (induction n arbitrary: d es)
     (auto intro!: harmless_dbind [OF consuming.item_harmless [OF pair_step_consuming]])

lemma pop_pairs_until_break_harmless:
  "length es < n \<Longrightarrow> harmless (pop_pairs_until_break E item n d) es"
proof (induction n arbitrary: d es)
  case (Suc n)
  show ?case
  proof (cases "es \<noteq> [] \<and> hd es = E_break")
    case True
    then show ?thesis by (cases es) (auto simp: harmless_def suffix_ConsI)
  next
    case False
    let ?m = "dbind (pop_pair item) (set_item d)"
    let ?k = "\<lambda>d' es'. if es' = [] then (Inl (Raised (peek_error E)), es')
      else pop_pairs_until_break E item n d' es'"
    have "harmless (dbind ?m ?k) es"
    proof (rule harmless_dbind [OF consuming.item_harmless [OF pair_step_consuming]])
      fix d' assume "fst (?m es) = Inr d'"
      then have "length (snd (?m es)) < n"
        using consuming.item_progress [OF pair_step_consuming] Suc.prems by fastforce
      from Suc.IH [OF this]
      show "harmless (?k d') (snd (?m es))"
        by (auto simp: harmless_def)
    qed
    then show ?thesis
      using False by (simp add: harmless_def)
  qed
qed simp

lemma pop_list_consuming: "consuming (pop_list E item)"
proof (rule consuming_head, goal_cases)
  case (1 es)
  show ?case
  proof (cases es)
    case (Cons e rest)
    have n: "harmless (dbind (pop_n item n) (\<lambda>xs. dret (OList xs))) rest" for n
      by (rule harmless_dbind [OF pop_n_harmless]) simp
    have u: "harmless (dbind (pop_until_break E item (Suc (length rest))) (\<lambda>xs. dret (OList xs))) rest"
      by (rule harmless_dbind [OF pop_until_break_harmless]) simp_all
    show ?thesis
      using Cons n u by (cases e) (auto simp: pop_list_def harmless_def simp del: pop_until_break.simps pop_pairs_until_break.simps)
  qed (simp add: pop_list_def)
qed

lemma pop_dict_consuming: "consuming (pop_dict E item)"
proof (rule consuming_head, goal_cases)
  case (1 es)
  show ?case
  proof (cases es)
    case (Cons e rest)
    have n: "harmless (dbind (pop_n_pairs item n []) (\<lambda>d. dret (ODict d))) rest" for n
      by (rule harmless_dbind [OF pop_n_pairs_harmless]) simp
    have u: "harmless (dbind (pop_pairs_until_break E item (Suc (length rest)) []) (\<lambda>d. dret (ODict d))) rest"
      by (rule harmless_dbind [OF pop_pairs_until_break_harmless]) simp_all
    show ?thesis
      using Cons n u by (cases e) (auto simp: pop_dict_def harmless_def simp del: pop_until_break.simps pop_pairs_until_break.simps)
  qed (simp add: pop_dict_def)
qed

end

lemma pop_inf_bytes_consuming: "consuming (pop_inf_bytes E)"
proof (rule consuming_head, goal_cases)
  case (1 es)
  show ?case
  proof (cases es)
    case (Cons e rest)
    let ?k = "dbind (pop_until_break E (pop_elem E sel_bytes) (Suc (length rest))) (\<lambda>bs. dret (OBytes (concat bs)))"
    have "harmless ?k rest"
      by (rule harmless_dbind [OF consuming.pop_until_break_harmless [OF pop_elem_consuming]]) simp_all
    then show ?thesis
      using Cons by (cases e) (auto simp: pop_inf_bytes_def harmless_def simp del: pop_until_break.simps)
  qed (simp add: pop_inf_bytes_def)
qed

lemma pop_inf_string_consuming: "consuming (pop_inf_string E)"
proof (rule consuming_head, goal_cases)
  case (1 es)
  show ?case
  proof (cases es)
    case (Cons e rest)
    let ?k = "dbind (pop_until_break E (pop_text_val E) (Suc (length rest))) (\<lambda>bs. dret (OStr (concat bs)))"
    have "harmless ?k rest"
      by (rule harmless_dbind [OF consuming.pop_until_break_harmless [OF pop_text_val_consuming]]) simp_all
    then show ?thesis
      using Cons by (cases e) (auto simp: pop_inf_string_def harmless_def simp del: pop_until_break.simps)
  qed (simp add: pop_inf_string_def)
qed

text \<open>The branch that can crash has just popped an epoch tag.\<close>

lemma epoch_item_forward:
  assumes "consuming item"
  shows "suffix (snd (epoch_item E item es)) es" "fst (epoch_item E item es) \<noteq> Inl Out_of_fuel"
  using consuming.item_harmless [OF assms, of es]
  by (auto simp: epoch_item_def harmless_def split: prod.splits sum.splits c_fail.splits)

lemma pop_tag_cases:
  "(\<exists>f. pop_tag E item es = (Inl (Raised f), es)) \<or>
   (\<exists>t rest f. es = E_tag t # rest \<and> pop_tag E item es = (Inl (Raised f), rest)) \<or>
   (\<exists>rest. es = E_tag 1 # rest \<and> pop_tag E item es = epoch_item E item rest)"
proof (cases es)
  case (Cons e rest)
  then show ?thesis
    by (cases "sel_tag e"; cases e; cases rest) (auto simp: pop_tag_def dbind_def pop_elem_def)
qed (simp add: pop_tag_def dbind_def pop_elem_def)

lemma pop_tag_consuming:
  assumes "consuming item"
  shows "consuming (pop_tag E item)"
proof
  fix es x
  note f = epoch_item_forward [OF assms]
  show "harmless (pop_tag E item) es"
    using pop_tag_cases [of E item es] f by (auto simp: harmless_def suffix_ConsI)
  assume "fst (pop_tag E item es) = Inr x"
  then show "length (snd (pop_tag E item es)) < length es"
    using pop_tag_cases [of E item es] f(1) suffix_length_le by (fastforce simp: le_imp_less_Suc)
qed

text \<open>
  Which of the parsers the data item goes to is decided by its first element; a scalar is that
  element.
\<close>

lemma pop_item_cases:
  "(\<exists>f. pop_item E (Suc d) es = (Inl (Raised f), es)) \<or>
   (\<exists>e rest x. es = e # rest \<and> pop_item E (Suc d) es = (Inr x, rest)) \<or>
   (\<exists>m \<in> {dbind (pop_text_val E) (\<lambda>s. dret (OStr s)), pop_dict E (pop_item E d),
           pop_list E (pop_item E d), pop_inf_bytes E, pop_inf_string E, pop_tag E (pop_item E d)}.
      pop_item E (Suc d) es = m es)"
proof (cases es)
  case (Cons e rest)
  then show ?thesis by (cases e) simp_all
qed simp

lemma pop_item_consuming: "consuming (pop_item E d)"
proof (induction d)
  case 0
  show ?case by unfold_locales (simp_all add: dfail_def)
next
  case (Suc d)
  then have obj: "consuming_obj (pop_item E d)" by (simp add: consuming_obj_def)
  let ?ms = "{dbind (pop_text_val E) (\<lambda>s. dret (OStr s)), pop_dict E (pop_item E d),
    pop_list E (pop_item E d), pop_inf_bytes E, pop_inf_string E, pop_tag E (pop_item E d)}"
  have ms: "consuming m" if "m \<in> ?ms" for m
    using that consuming_obj.pop_list_consuming [OF obj] consuming_obj.pop_dict_consuming [OF obj]
      pop_inf_bytes_consuming pop_inf_string_consuming pop_tag_consuming [OF Suc.IH]
      consuming_dbind [OF pop_text_val_consuming, of "\<lambda>s. dret (OStr s)"] by auto
  show ?case
  proof
    fix es x
    consider f where "pop_item E (Suc d) es = (Inl (Raised f), es)"
      | e rest y where "es = e # rest" "pop_item E (Suc d) es = (Inr y, rest)"
      | m where "m \<in> ?ms" "pop_item E (Suc d) es = m es"
      using pop_item_cases [of E d es] by blast
    then have "harmless (pop_item E (Suc d)) es \<and>
        (fst (pop_item E (Suc d) es) = Inr x \<longrightarrow> length (snd (pop_item E (Suc d) es)) < length es)"
    proof cases
      case (3 m)
      then show ?thesis
        using consuming.item_harmless [OF ms, of m es] consuming.item_progress [OF ms, of m es x]
        unfolding harmless_def by presburger
    qed (simp_all add: harmless_def suffix_ConsI del: pop_item.simps)
    then show "harmless (pop_item E (Suc d)) es"
      and "fst (pop_item E (Suc d) es) = Inr x \<Longrightarrow> length (snd (pop_item E (Suc d) es)) < length es"
      by blast+
  qed
qed

interpretation data_item: consuming_obj "pop_item E d" for E d
  by (simp add: consuming_obj_def pop_item_consuming)

text \<open>
  (C6) Decoding ends on every input, malformed or hostile ones included: a data item, list or map is
  popped without the loops over indefinite-length items ever using up their bound of one iteration
  per remaining element, the decoder has only moved forward, and it dereferences a null pointer only
  if an epoch tag is in the source.
\<close>

theorem cbor_decoding_ends:
  "harmless (pop_next_data_item E) es \<and> harmless (pop_next_list E) es \<and>
   harmless (pop_next_map E) es"
  using data_item.item_harmless consuming.item_harmless [OF data_item.pop_list_consuming]
    consuming.item_harmless [OF data_item.pop_dict_consuming]
  by (simp add: pop_next_data_item_def pop_next_list_def pop_next_map_def)

end
