(* ===== verification/Cbor_Roundtrip.thy ===== *)
theory Cbor_Roundtrip
  imports Cbor
begin

text \<open>
  What the encoder of \<open>awscrt/cbor.py\<close> writes, and that the decoder reads it back.
  \<open>enc\<close> is the reference: the element sequence of an object by recursion over it. The
  encoder refines it, and reports an error exactly for the objects it cannot encode. The decoder
  inverts it on every object nested at most 128 deep and raises \<open>RecursionError\<close> on deeper
  ones.
\<close>

section \<open>The reference encoding\<close>

text \<open>Integers the format has an element for.\<close>

definition int_fits :: "int \<Rightarrow> bool" where
  "int_fits i \<longleftrightarrow> - (2 ^ 64) \<le> i \<and> i < 2 ^ 64"

definition int_elem :: "int \<Rightarrow> cbor_elem" where
  "int_elem i = (if i \<ge> 0 then E_uint (word_of_int i) else E_negint (word_of_int (- 1 - i)))"

lemma size_pair [termination_simp]:
  "(k, v) \<in> set ps \<Longrightarrow> size k < Suc (size_list (size_prod size size) ps)"
  "(k, v) \<in> set ps \<Longrightarrow> size v < Suc (size_list (size_prod size size) ps)"
  using size_list_estimation [of "(k, v)" ps] by (fastforce dest: size_list_estimation' [where f = "size_prod size size"])+

lemma size_fst_snd [termination_simp]:
  "p \<in> set ps \<Longrightarrow> size (fst p) < Suc (size_list (size_prod size size) ps)"
  "p \<in> set ps \<Longrightarrow> size (snd p) < Suc (size_list (size_prod size size) ps)"
  by (cases p, simp add: size_pair)+

fun enc :: "cbor_env \<Rightarrow> pyobj \<Rightarrow> cbor_elem list" where
  "enc E ONone = [E_null]"
| "enc E (OBool b) = [E_bool b]"
| "enc E (OInt i) = [int_elem i]"
| "enc E (OFloat r) = [float_elem E r]"
| "enc E (OBytes b) = [E_bytes b]"
| "enc E (OStr s) = [E_text s]"
| "enc E (OList xs) = E_array_start (of_nat (length xs)) # concat (map (enc E) xs)"
| "enc E (ODict ps) =
     E_map_start (of_nat (length ps)) # concat (map (\<lambda>p. enc E (fst p) @ enc E (snd p)) ps)"
| "enc E (OOther n) = []"

text \<open>Objects all of whose parts have a supported type and a representable value.\<close>

fun encodable :: "pyobj \<Rightarrow> bool" where
  "encodable (OInt i) = int_fits i"
| "encodable (OList xs) = (\<forall>x\<in>set xs. encodable x)"
| "encodable (ODict ps) = (\<forall>p\<in>set ps. encodable (fst p) \<and> encodable (snd p))"
| "encodable (OOther n) = False"
| "encodable _ = True"

lemma neg_word: "word_of_int (- v) - 1 = (word_of_int (- 1 - v) :: 64 word)"
  by (simp add: word_of_int_minus algebra_simps)

lemma write_pylong_eq:
  "write_pylong i es = (if int_fits i then (Inr (), es @ [int_elem i]) else (Inl too_large, es))"
  by (auto simp: write_pylong_def int_fits_def int_elem_def long_min_def long_max_def put_def updE_def
      raise_def Let_def neg_word algebra_simps)

lemma put_eq [simp]: "put e es = (Inr (), es @ [e])"
  by (simp add: put_def updE_def)

lemma thenE_ok: "m s = (Inr x, s') \<Longrightarrow> thenE m k s = k s'"
  by (simp add: thenE_def bindE_def)

lemma thenE_fails: "\<exists>e. fst (m s) = Inl e \<Longrightarrow> \<exists>e. fst (thenE m k s) = Inl e"
  by (cases "m s") (auto simp: thenE_def bindE_def)

text \<open>The encoder appends the reference encoding, or stops with an exception.\<close>

lemma write_encodable:
  "encodable v \<Longrightarrow> write_pyobject E v es = (Inr (), es @ enc E v)"
  "(\<forall>x\<in>set xs. encodable x) \<Longrightarrow> write_items E xs es = (Inr (), es @ concat (map (enc E) xs))"
  "(\<forall>p\<in>set ps. encodable (fst p) \<and> encodable (snd p)) \<Longrightarrow>
     write_pairs E ps es = (Inr (), es @ concat (map (\<lambda>p. enc E (fst p) @ enc E (snd p)) ps))"
  by (induction E v and E xs and E ps arbitrary: es and es and es
      rule: write_pyobject_write_items_write_pairs.induct)
     (simp_all add: write_pylong_eq thenE_ok ret_def)

lemma write_unencodable:
  "\<not> encodable v \<Longrightarrow> \<exists>e. fst (write_pyobject E v es) = Inl e"
  "\<not> (\<forall>x\<in>set xs. encodable x) \<Longrightarrow> \<exists>e. fst (write_items E xs es) = Inl e"
  "\<not> (\<forall>p\<in>set ps. encodable (fst p) \<and> encodable (snd p)) \<Longrightarrow> \<exists>e. fst (write_pairs E ps es) = Inl e"
proof (induction E v and E xs and E ps arbitrary: es and es and es
    rule: write_pyobject_write_items_write_pairs.induct)
  case (11 E x xs)
  then show ?case
    by (cases "encodable x") (auto simp: write_encodable thenE_ok intro: thenE_fails)
next
  case (13 E k v ps)
  then show ?case
    by (cases "encodable k"; cases "encodable v")
       (auto simp: write_encodable thenE_ok intro!: thenE_fails)
qed (auto simp: write_pylong_eq thenE_ok raise_def)

text \<open>
  (C14) \<open>write_data_item\<close> refines the reference encoding: it appends the elements of the object if
  every part of it has a supported type and every integer lies between \<open>-2^64\<close> and
  \<open>2^64 - 1\<close>, and raises an exception otherwise.
\<close>

theorem write_data_item_refines_enc:
  "if encodable v then write_data_item E v es = (Inr (), es @ enc E v)
   else (\<exists>e. fst (write_data_item E v es) = Inl e)"
  using write_unencodable(1) by (simp add: write_data_item_def write_encodable)

section \<open>Reading it back\<close>

text \<open>What the library promises about the element of a float: it stands for the same number.\<close>

definition float_law :: "cbor_env \<Rightarrow> bool" where
  "float_law E \<longleftrightarrow> (\<forall>r. case float_elem E r of
      E_uint w \<Rightarrow> r = of_int (uint w)
    | E_negint w \<Rightarrow> r = of_int (- 1 - uint w)
    | E_float q \<Rightarrow> q = r
    | _ \<Rightarrow> False)"

text \<open>The object a decoded number is, and an object with its floats replaced by what is decoded.\<close>

fun elem_num :: "cbor_elem \<Rightarrow> pyobj" where
  "elem_num (E_uint w) = OInt (uint w)"
| "elem_num (E_negint w) = OInt (- 1 - uint w)"
| "elem_num (E_float r) = OFloat r"
| "elem_num _ = ONone"

fun read_back :: "cbor_env \<Rightarrow> pyobj \<Rightarrow> pyobj" where
  "read_back E (OFloat r) = elem_num (float_elem E r)"
| "read_back E (OList xs) = OList (map (read_back E) xs)"
| "read_back E (ODict ps) = ODict (map (\<lambda>p. (read_back E (fst p), read_back E (snd p))) ps)"
| "read_back E x = x"

text \<open>Objects that Python can hold and the decoder can rebuild.\<close>

fun object_ok :: "cbor_env \<Rightarrow> pyobj \<Rightarrow> bool" where
  "object_ok E (OInt i) = int_fits i"
| "object_ok E (OStr s) = utf8_ok E s"
| "object_ok E (OList xs) =
     (length xs \<le> py_ssize_t_max \<and> can_alloc E (length xs) \<and> (\<forall>x\<in>set xs. object_ok E x))"
| "object_ok E (ODict ps) =
     (length ps \<le> py_ssize_t_max \<and> distinct (map (norm \<circ> fst) ps) \<and>
      (\<forall>p\<in>set ps. hashable (fst p) \<and> object_ok E (fst p) \<and> object_ok E (snd p)))"
| "object_ok E (OOther n) = False"
| "object_ok E _ = True"

fun nesting :: "pyobj \<Rightarrow> nat" where
  "nesting (OList xs) = Suc (Max (insert 0 (nesting ` set xs)))"
| "nesting (ODict ps) = Suc (Max (insert 0 (\<Union>p\<in>set ps. {nesting (fst p), nesting (snd p)})))"
| "nesting _ = 1"

lemma object_ok_encodable: "object_ok E v \<Longrightarrow> encodable v"
  by (induction v rule: encodable.induct) auto

lemma nesting_list_le [simp]:
  "nesting (OList xs) \<le> Suc d \<longleftrightarrow> (\<forall>x\<in>set xs. nesting x \<le> d)"
  by auto

lemma nesting_dict_le [simp]:
  "nesting (ODict ps) \<le> Suc d \<longleftrightarrow> (\<forall>p\<in>set ps. nesting (fst p) \<le> d \<and> nesting (snd p) \<le> d)"
  by auto

lemma nesting_pos: "0 < nesting v"
  by (cases v) auto

lemma nesting_hashable: "hashable v \<Longrightarrow> nesting v = 1"
  by (cases v) auto

lemma quotient_of_int_eq: "quotient_of (of_int i) = (i, 1)"
  by (simp add: of_int_rat quotient_of_Fract)

lemma norm_float:
  assumes "float_law E"
  shows "norm (elem_num (float_elem E r)) = norm (OFloat r)"
proof -
  have "case float_elem E r of E_uint w \<Rightarrow> r = of_int (uint w) | E_negint w \<Rightarrow> r = of_int (- 1 - uint w)
      | E_float q \<Rightarrow> q = r | _ \<Rightarrow> False"
    using assms unfolding float_law_def by blast
  then show ?thesis
    by (cases "float_elem E r") (auto simp: quotient_of_int_eq simp del: of_int_diff of_int_minus of_int_uint)
qed

lemma norm_read_back: "float_law E \<Longrightarrow> norm (read_back E v) = norm v"
  by (induction v rule: norm.induct) (auto simp: norm_float)

lemma hashable_elem_num: "hashable (elem_num e)"
  by (cases e) simp_all

lemma hashable_read_back: "hashable v \<Longrightarrow> hashable (read_back E v)"
  by (cases v) (simp_all add: hashable_elem_num)

lemma dict_set_new: "norm k \<notin> norm ` fst ` set d \<Longrightarrow> dict_set d k v = d @ [(k, v)]"
  by (induction d k v rule: dict_set.induct) auto

text \<open>The loops over the items of a list and the pairs of a dict, given that every item reads back.\<close>

definition reads :: "cbor_env \<Rightarrow> pyobj dec \<Rightarrow> pyobj \<Rightarrow> bool" where
  "reads E item v \<longleftrightarrow> (\<forall>rest. item (enc E v @ rest) = (Inr (read_back E v), rest))"

lemma pop_n_reads:
  "\<forall>x\<in>set xs. reads E item x \<Longrightarrow>
   pop_n item (length xs) (concat (map (enc E) xs) @ rest) = (Inr (map (read_back E) xs), rest)"
  by (induction xs) (auto simp: reads_def dbind_def dret_def)

lemma pop_pair_reads:
  "reads E item k \<Longrightarrow> reads E item v \<Longrightarrow>
   pop_pair item (enc E k @ enc E v @ rest) = (Inr (read_back E k, read_back E v), rest)"
  by (simp add: reads_def pop_pair_def)

lemma pop_n_pairs_reads:
  assumes "float_law E"
    and "\<forall>p\<in>set ps. hashable (fst p) \<and> reads E item (fst p) \<and> reads E item (snd p)"
    and "distinct (map (norm \<circ> fst) ps)"
    and "\<forall>p\<in>set ps. norm (fst p) \<notin> norm ` fst ` set d"
  shows "pop_n_pairs item (length ps) d (concat (map (\<lambda>p. enc E (fst p) @ enc E (snd p)) ps) @ rest) =
     (Inr (d @ map (\<lambda>p. (read_back E (fst p), read_back E (snd p))) ps), rest)"
  using assms(2-)
proof (induction ps arbitrary: d)
  case (Cons p ps)
  obtain k v where p: "p = (k, v)" by fastforce
  let ?k = "read_back E k"
  have new: "dict_set d ?k (read_back E v) = d @ [(?k, read_back E v)]"
    using Cons.prems(3) p by (intro dict_set_new) (simp add: norm_read_back [OF assms(1)])
  have "norm ?k = norm k"
    by (rule norm_read_back [OF assms(1)])
  then have "\<forall>q\<in>set ps. norm (fst q) \<notin> norm ` fst ` set (d @ [(?k, read_back E v)])"
    using Cons.prems p by (auto simp: image_iff)
  then have IH: "pop_n_pairs item (length ps) (d @ [(?k, read_back E v)])
      (concat (map (\<lambda>p. enc E (fst p) @ enc E (snd p)) ps) @ rest) =
      (Inr ((d @ [(?k, read_back E v)]) @ map (\<lambda>p. (read_back E (fst p), read_back E (snd p))) ps), rest)"
    using Cons.prems by (intro Cons.IH) auto
  have pair: "pop_pair item (enc E k @ enc E v @ r) = (Inr (?k, read_back E v), r)" for r
    using Cons.prems p by (intro pop_pair_reads) auto
  have "hashable ?k"
    using Cons.prems p by (auto intro: hashable_read_back)
  then show ?case
    using new IH pair p by (simp add: dbind_def set_item_def dret_def)
qed (simp add: dret_def)

lemma unat_length: "n \<le> py_ssize_t_max \<Longrightarrow> unat (of_nat n :: 64 word) = n"
  by (simp add: unsigned_of_nat take_bit_nat_eq_self py_ssize_t_max_def)

lemma uint_of_int64: "0 \<le> i \<Longrightarrow> i < 2 ^ 64 \<Longrightarrow> uint (word_of_int i :: 64 word) = i"
  by (simp add: unsigned_of_int take_bit_int_eq_self)

lemma int_elem_cases:
  assumes "int_fits i"
  obtains w where "int_elem i = E_uint w" "i = uint w"
    | w where "int_elem i = E_negint w" "i = - 1 - uint w" "i < 0"
proof (cases "0 \<le> i")
  case True
  then show ?thesis
    using assms that(1) [of "word_of_int i"] uint_of_int64 [of i] by (simp add: int_elem_def int_fits_def)
next
  case False
  then show ?thesis
    using assms that(2) [of "word_of_int (- 1 - i)"] uint_of_int64 [of "- 1 - i"]
    by (simp add: int_elem_def int_fits_def)
qed

lemma pop_item_int: "int_fits i \<Longrightarrow> pop_item E (Suc d) (int_elem i # rest) = (Inr (OInt i), rest)"
  by (erule int_elem_cases) simp_all

lemma pop_item_float:
  assumes "float_law E"
  shows "pop_item E (Suc d) (float_elem E r # rest) = (Inr (elem_num (float_elem E r)), rest)"
proof -
  have "case float_elem E r of E_uint w \<Rightarrow> True | E_negint w \<Rightarrow> True | E_float q \<Rightarrow> True | _ \<Rightarrow> False"
    using assms by (force simp: float_law_def split: cbor_elem.splits)
  then show ?thesis
    by (cases "float_elem E r") simp_all
qed

lemma pop_item_enc:
  assumes "float_law E"
  shows "object_ok E v \<Longrightarrow> nesting v \<le> d \<Longrightarrow> reads E (pop_item E d) v"
proof (induction d arbitrary: v)
  case 0
  then show ?case using nesting_pos [of v] by simp
next
  case (Suc d)
  show ?case
  proof (cases v)
    case (OList xs)
    have "\<forall>x\<in>set xs. reads E (pop_item E d) x"
      using Suc OList by (auto simp del: nesting.simps simp: nesting_list_le)
    then show ?thesis
      using Suc.prems OList pop_n_reads [of xs E "pop_item E d"]
      by (simp add: reads_def pop_list_def unat_length dbind_def dret_def del: nesting.simps)
  next
    case (ODict ps)
    have "\<forall>p\<in>set ps. hashable (fst p) \<and> reads E (pop_item E d) (fst p) \<and> reads E (pop_item E d) (snd p)"
      using Suc ODict by (auto simp del: nesting.simps simp: nesting_dict_le)
    then have "pop_n_pairs (pop_item E d) (length ps) []
        (concat (map (\<lambda>p. enc E (fst p) @ enc E (snd p)) ps) @ rest) =
        (Inr ([] @ map (\<lambda>p. (read_back E (fst p), read_back E (snd p))) ps), rest)" for rest
      using Suc.prems ODict by (intro pop_n_pairs_reads [OF assms]) simp_all
    then show ?thesis
      using Suc.prems ODict
      by (simp add: reads_def pop_dict_def unat_length dbind_def dret_def del: nesting.simps)
  next
    case (OStr s)
    then show ?thesis
      using Suc.prems by (simp add: reads_def pop_text_val_def pop_elem_def dbind_def dret_def)
  qed (use Suc.prems assms in \<open>simp_all add: reads_def pop_item_int pop_item_float del: pop_item.simps\<close>,
       simp_all)
qed

text \<open>
  A concrete environment: integral floats are written as integers where these fit.
\<close>

definition cbor_env_ex :: cbor_env where
  "cbor_env_ex = \<lparr>
     float_elem = (\<lambda>r. let i = fst (quotient_of r) in
        if snd (quotient_of r) = 1 \<and> int_fits i then int_elem i else E_float r),
     utf8_ok = (\<lambda>_. True), can_alloc = (\<lambda>n. n \<le> 2 ^ 20),
     peek_error = RuntimeError ''AWS_ERROR_INVALID_CBOR'', on_epoch_time = None\<rparr>"

lemma quotient_of_denom_1: "snd (quotient_of r) = 1 \<Longrightarrow> r = of_int (fst (quotient_of r))"
  by (metis Fract_of_int_quotient prod.collapse quotient_of_div div_by_1 of_int_1)

lemma float_law_ex: "float_law cbor_env_ex"
  unfolding float_law_def
proof
  fix r :: rat
  show "case float_elem cbor_env_ex r of E_uint w \<Rightarrow> r = of_int (uint w)
      | E_negint w \<Rightarrow> r = of_int (- 1 - uint w) | E_float q \<Rightarrow> q = r | _ \<Rightarrow> False"
  proof (cases "snd (quotient_of r) = 1 \<and> int_fits (fst (quotient_of r))")
    case True
    then have r: "r = of_int (fst (quotient_of r))" and "int_fits (fst (quotient_of r))"
      using quotient_of_denom_1 by blast+
    with True show ?thesis
      by (cases rule: int_elem_cases [OF \<open>int_fits (fst (quotient_of r))\<close>])
         (simp_all add: cbor_env_ex_def Let_def del: of_int_uint of_int_diff)
  qed (auto simp: cbor_env_ex_def Let_def)
qed

text \<open>
  (C3) Round trip: what \<open>write_data_item\<close> writes for an object nested at most 128 deep is
  consumed exactly by \<open>pop_next_data_item\<close>, which returns an object that Python's \<open>==\<close>
  identifies with the original; the two differ only in floats that the library has written as
  integers.
\<close>

theorem cbor_roundtrip:
  assumes "float_law E" "object_ok E v" "nesting v \<le> s_cbor_max_decode_depth"
  shows "pop_next_data_item E (snd (write_data_item E v []) @ rest) = (Inr (read_back E v), rest) \<and>
    norm (read_back E v) = norm v"
proof -
  have "snd (write_data_item E v []) = enc E v"
    using assms(2) by (simp add: write_data_item_def write_encodable object_ok_encodable)
  then show ?thesis
    using pop_item_enc [OF assms] norm_read_back [OF assms(1)]
    by (simp add: pop_next_data_item_def reads_def)
qed

definition cbor_ex :: pyobj where
  "cbor_ex = ODict [(OStr ''a'', OList [OInt (- (2 ^ 64)), OFloat 1, ONone]), (OInt 2, OBool True)]"

theorem cbor_roundtrip_witness:
  "pop_next_data_item cbor_env_ex (snd (write_data_item cbor_env_ex cbor_ex []) @ [E_break]) =
     (Inr (read_back cbor_env_ex cbor_ex), [E_break])"
proof -
  have "object_ok cbor_env_ex cbor_ex"
    by (simp add: cbor_ex_def cbor_env_ex_def int_fits_def py_ssize_t_max_def)
  moreover have "nesting cbor_ex \<le> s_cbor_max_decode_depth"
    by (simp add: cbor_ex_def s_cbor_max_decode_depth_def)
  ultimately show ?thesis
    using cbor_roundtrip [OF float_law_ex] by blast
qed

section \<open>The nesting limit\<close>

definition refuses :: "cbor_env \<Rightarrow> pyobj dec \<Rightarrow> pyobj \<Rightarrow> bool" where
  "refuses E item v \<longleftrightarrow> (\<forall>rest. fst (item (enc E v @ rest)) = Inl (Raised recursion_error))"

lemma pop_n_refuses:
  assumes "\<forall>x\<in>set xs. reads E item x \<or> refuses E item x" "\<exists>x\<in>set xs. refuses E item x"
  shows "fst (pop_n item (length xs) (concat (map (enc E) xs) @ rest)) = Inl (Raised recursion_error)"
  using assms
proof (induction xs)
  case (Cons x xs)
  show ?case
  proof (cases "reads E item x")
    case True
    moreover have "\<not> refuses E item x"
      using True by (auto simp: reads_def refuses_def)
    ultimately show ?thesis
      using Cons by (auto simp: reads_def dbind_def split: prod.splits sum.splits)
  next
    case False
    then have "fst (item (enc E x @ r)) = Inl (Raised recursion_error)" for r
      using Cons.prems by (auto simp: refuses_def)
    then show ?thesis
      by (auto simp: dbind_def split: prod.splits sum.splits) (metis fst_conv sum.distinct(1) sum.inject(1))+
  qed
qed simp

lemma fst_dbind_fail: "fst (m es) = Inl f \<Longrightarrow> fst (dbind m k es) = Inl f"
  by (cases "m es") (simp add: dbind_def)

lemma dbind_ok: "m es = (Inr x, es') \<Longrightarrow> dbind m k es = k x es'"
  by (simp add: dbind_def)

lemma pop_pair_refuses:
  assumes "reads E item k" "refuses E item v"
  shows "fst (pop_pair item (enc E k @ enc E v @ rest)) = Inl (Raised recursion_error)"
  using assms by (auto simp: reads_def refuses_def pop_pair_def split: prod.splits sum.splits)
    (metis fst_conv sum.distinct(1) sum.inject(1))+

lemma pop_n_pairs_refuses:
  assumes "\<forall>p\<in>set ps. hashable (fst p) \<and> reads E item (fst p) \<and>
      (reads E item (snd p) \<or> refuses E item (snd p))"
    and "\<exists>p\<in>set ps. refuses E item (snd p)"
  shows "fst (pop_n_pairs item (length ps) d
      (concat (map (\<lambda>p. enc E (fst p) @ enc E (snd p)) ps) @ rest)) = Inl (Raised recursion_error)"
  using assms
proof (induction ps arbitrary: d)
  case (Cons p ps)
  obtain k v where p: "p = (k, v)" by fastforce
  show ?case
  proof (cases "reads E item v")
    case True
    have "\<not> refuses E item v"
      using True by (auto simp: reads_def refuses_def)
    moreover have "pop_pair item (enc E k @ enc E v @ r) = (Inr (read_back E k, read_back E v), r)" for r
      using Cons.prems p True by (intro pop_pair_reads) auto
    moreover have "hashable (read_back E k)"
      using Cons.prems p by (auto intro: hashable_read_back)
    ultimately show ?thesis
      using Cons p by (auto simp: dbind_def set_item_def dret_def)
  next
    case False
    then show ?thesis
      using Cons.prems p by (auto intro!: fst_dbind_fail pop_pair_refuses)
  qed
qed simp

lemma pop_item_refuses:
  assumes "float_law E"
  shows "object_ok E v \<Longrightarrow> d < nesting v \<Longrightarrow> refuses E (pop_item E d) v"
proof (induction d arbitrary: v)
  case 0
  then show ?case by (simp add: refuses_def dfail_def)
next
  case (Suc d)
  have part: "reads E (pop_item E d) x \<or> refuses E (pop_item E d) x" if "object_ok E x" for x
    using pop_item_enc [OF assms that] Suc.IH [OF that] by (cases "nesting x \<le> d") auto
  have deep: "refuses E (pop_item E d) x" if "object_ok E x" "\<not> nesting x \<le> d" for x
    using Suc.IH that by simp
  show ?case
  proof (cases v)
    case (OList xs)
    then have ok: "\<forall>x\<in>set xs. object_ok E x" and "\<exists>x\<in>set xs. \<not> nesting x \<le> d"
      using Suc.prems nesting_list_le [of xs d] by (auto simp del: nesting.simps nesting_list_le)
    then have "fst (pop_n (pop_item E d) (length xs) (concat (map (enc E) xs) @ rest)) =
        Inl (Raised recursion_error)" for rest
      using part deep by (intro pop_n_refuses) blast+
    then show ?thesis
      using Suc.prems OList
      by (simp add: refuses_def pop_list_def unat_length fst_dbind_fail del: nesting.simps)
  next
    case (ODict ps)
    then have ok: "\<forall>p\<in>set ps. hashable (fst p) \<and> object_ok E (fst p) \<and> object_ok E (snd p)"
      and dp: "\<exists>p\<in>set ps. \<not> (nesting (fst p) \<le> d \<and> nesting (snd p) \<le> d)"
      using Suc.prems nesting_dict_le [of ps d] by (auto simp del: nesting.simps nesting_dict_le)
    have "fst (pop_n_pairs (pop_item E d) (length ps) []
        (concat (map (\<lambda>p. enc E (fst p) @ enc E (snd p)) ps) @ rest)) = Inl (Raised recursion_error)" for rest
    proof (cases d)
      case 0
      then show ?thesis
        using dp by (cases ps) (auto simp: dbind_def pop_pair_def dfail_def)
    next
      case (Suc d')
      have k: "reads E (pop_item E d) (fst p)" and "nesting (fst p) \<le> d" if "p \<in> set ps" for p
        using ok that Suc pop_item_enc [OF assms, of "fst p" d] by (auto simp: nesting_hashable)
      then show ?thesis
        using ok dp part deep by (intro pop_n_pairs_refuses) blast+
    qed
    then show ?thesis
      using Suc.prems ODict
      by (simp add: refuses_def pop_dict_def unat_length fst_dbind_fail del: nesting.simps)
  qed (use Suc.prems in simp_all)
qed

text \<open>
  (C15) The nesting limit is exact: what is written for an object nested more than 128 deep is
  refused with \<open>RecursionError\<close>.
\<close>

theorem cbor_nesting_limit:
  assumes "float_law E" "object_ok E v" "s_cbor_max_decode_depth < nesting v"
  shows "fst (pop_next_data_item E (snd (write_data_item E v []) @ rest)) = Inl (Raised recursion_error)"
proof -
  have "snd (write_data_item E v []) = enc E v"
    using assms(2) by (simp add: write_data_item_def write_encodable object_ok_encodable)
  then show ?thesis
    using pop_item_refuses [OF assms] by (simp add: pop_next_data_item_def refuses_def)
qed

fun nested_lists :: "nat \<Rightarrow> pyobj" where
  "nested_lists 0 = ONone"
| "nested_lists (Suc n) = OList [nested_lists n]"

lemma nested_lists_ok: "object_ok cbor_env_ex (nested_lists n) \<and> nesting (nested_lists n) = Suc n"
  by (induction n) (simp_all add: cbor_env_ex_def py_ssize_t_max_def)

theorem cbor_nesting_limit_witness:
  "fst (pop_next_data_item cbor_env_ex
     (snd (write_data_item cbor_env_ex (nested_lists 128) []) @ [])) = Inl (Raised recursion_error)"
  using nested_lists_ok [of 128] cbor_nesting_limit [OF float_law_ex, of "nested_lists 128" "[]"]
  unfolding s_cbor_max_decode_depth_def by linarith

section \<open>Integers\<close>

text \<open>
  \<open>write_int\<close> writes an integer between \<open>-2^64\<close> and \<open>2^64 - 1\<close> so that
  \<open>pop_next_unsigned_int\<close> or, for a negative one, \<open>pop_next_negative_int\<close> returns it; the
  other one of the two refuses it. Every other integer is refused with a \<open>TypeError\<close> and
  nothing is written.
\<close>

lemma write_int_exact:
  "if int_fits i
   then \<exists>e. write_int i es = (Inr (), es @ [e]) \<and>
     (if i \<ge> 0
      then pop_next_unsigned_int E (e # rest) = (Inr i, rest) \<and>
           fst (pop_next_negative_int E (e # rest)) = Inl (Raised unexpected_type)
      else pop_next_negative_int E (e # rest) = (Inr i, rest) \<and>
           fst (pop_next_unsigned_int E (e # rest)) = Inl (Raised unexpected_type))
   else \<exists>m. write_int i es = (Inl (TypeError m), es)"
proof (cases "int_fits i")
  case True
  then have w: "write_int i es = (Inr (), es @ [int_elem i])"
    by (auto simp: write_int_def write_as_uint64_def int_fits_def int_elem_def Let_def)
  have "if i \<ge> 0
      then pop_next_unsigned_int E (int_elem i # rest) = (Inr i, rest) \<and>
           fst (pop_next_negative_int E (int_elem i # rest)) = Inl (Raised unexpected_type)
      else pop_next_negative_int E (int_elem i # rest) = (Inr i, rest) \<and>
           fst (pop_next_unsigned_int E (int_elem i # rest)) = Inl (Raised unexpected_type)"
    using True by (cases rule: int_elem_cases)
      (auto simp: pop_next_unsigned_int_def pop_next_negative_int_def pop_elem_def dbind_def dret_def)
  with w True show ?thesis by auto
qed (auto simp: write_int_def write_as_uint64_def int_fits_def raise_def Let_def)

section \<open>Epoch times and the rest of the source\<close>

text \<open>A written epoch time reaches the callback as the number that was written.\<close>

lemma epoch_time_callback:
  assumes "float_law E"
  shows "pop_next_data_item E (snd (write_epoch_time E t []) @ rest) =
    (case on_epoch_time_callback E (elem_num (float_elem E t)) of
       Inl e \<Rightarrow> (Inl (Raised e), rest) | Inr v \<Rightarrow> (Inr v, rest))"
proof -
  have "case float_elem E t of E_uint w \<Rightarrow> True | E_negint w \<Rightarrow> True | E_float q \<Rightarrow> True | _ \<Rightarrow> False"
    using assms by (force simp: float_law_def split: cbor_elem.splits)
  then have num: "elem_type (float_elem E t) \<in> {Float, UnsignedInt, NegativeInt}"
    by (cases "float_elem E t") simp_all
  have "pop_item E (Suc (Suc n)) (E_tag 1 # float_elem E t # rest) =
      epoch_item E (pop_item E (Suc n)) (float_elem E t # rest)" for n
    using num by (simp add: pop_tag_def pop_elem_def dbind_def del: pop_item.simps(2) add: pop_item.simps(2) [of E "Suc n"])
  then have step: "pop_item E (Suc (Suc n)) (E_tag 1 # float_elem E t # rest) =
    (case on_epoch_time_callback E (elem_num (float_elem E t)) of
       Inl e \<Rightarrow> (Inl (Raised e), rest) | Inr v \<Rightarrow> (Inr v, rest))" for n
    using pop_item_float [OF assms] by (simp add: epoch_item_def split: sum.splits)
  have "snd (write_epoch_time E t []) = [E_tag 1, float_elem E t]"
    by (simp add: write_epoch_time_def write_as_uint64_def thenE_ok)
  moreover have "s_cbor_max_decode_depth = Suc (Suc 126)"
    by (simp add: s_cbor_max_decode_depth_def)
  ultimately show ?thesis
    using step [of 126] unfolding pop_next_data_item_def by simp
qed

lemma get_remaining_bytes_suffix:
  "0 \<le> n \<Longrightarrow> n \<le> int (length src) \<Longrightarrow>
   suffix (get_remaining_bytes src n) src \<and> int (length (get_remaining_bytes src n)) = n"
  by (auto simp: get_remaining_bytes_def suffix_drop)

text \<open>
  (C40) An epoch tag at the deepest level the decoder accepts crashes it: the nested call reports the
  nesting limit by a null result, which is released without a check. 127 nested one-element
  arrays around a tagged number are enough.
\<close>

theorem cbor_epoch_tag_crash:
  "can_alloc E 1 \<Longrightarrow>
   fst (pop_next_data_item E (replicate 127 (E_array_start 1) @ [E_tag 1, E_uint 0])) = Inl Crashed"
proof -
  assume a: "can_alloc E 1"
  have "fst (pop_item E (Suc n) (replicate n (E_array_start 1) @ [E_tag 1, E_uint 0])) = Inl Crashed"
    for n
  proof (induction n)
    case 0
    show ?case
      by (simp add: pop_tag_def dbind_def pop_elem_def epoch_item_def dfail_def)
  next
    case (Suc n)
    have "pop_item E (Suc (Suc n)) (E_array_start 1 # es) =
        dbind (pop_n (pop_item E (Suc n)) (Suc 0)) (\<lambda>xs. dret (OList xs)) es" for es
      using a by (simp add: pop_list_def py_ssize_t_max_def del: pop_n.simps)
    moreover obtain es' where
      "pop_item E (Suc n) (replicate n (E_array_start 1) @ [E_tag 1, E_uint 0]) = (Inl Crashed, es')"
      using Suc by (metis prod.collapse)
    ultimately show ?case
      by (simp add: dbind_def del: pop_item.simps)
  qed
  moreover have "s_cbor_max_decode_depth = Suc 127"
    by (simp add: s_cbor_max_decode_depth_def)
  ultimately show ?thesis
    unfolding pop_next_data_item_def by metis
qed

theorem cbor_epoch_tag_crash_witness:
  "fst (pop_next_data_item cbor_env_ex (replicate 127 (E_array_start 1) @ [E_tag 1, E_uint 0])) =
     Inl Crashed"
  by (rule cbor_epoch_tag_crash) (simp add: cbor_env_ex_def)

end
