(* ===== verification/Crt_Logging.thy ===== *)
theory Crt_Logging
  imports Io_Types Py_Strings
begin

text \<open>
  \<open>awscrt/logging.py\<close>: routing the log messages of the native libraries to Python's
  \<open>logging\<close> module, together with the C side of it in \<open>source/module.c\<close> (the logger
  that may be initialised once, its level, and the call back into Python). The test
  \<open>AWS_LOGF\<close> makes before it passes a message on belongs to aws-c-common and is the parameter
  \<open>enabled\<close>. Shown: the two tables of levels fit together, so that a message is logged exactly
  if its level is at least the requested one; the logger is initialised at most once.
\<close>

section \<open>Levels\<close>

text \<open>The levels of Python's \<open>logging\<close>.\<close>

definition NOTSET :: int where "NOTSET = 0"
definition DEBUG :: int where "DEBUG = 10"
definition INFO :: int where "INFO = 20"
definition WARNING :: int where "WARNING = 30"
definition ERROR :: int where "ERROR = 40"
definition CRITICAL :: int where "CRITICAL = 50"

lemmas py_levels = NOTSET_def DEBUG_def INFO_def WARNING_def ERROR_def CRITICAL_def

definition CRT_TO_PY_LEVEL :: "(int \<times> int) list" where
  "CRT_TO_PY_LEVEL = [(0, NOTSET), (1, CRITICAL), (2, ERROR), (3, WARNING), (4, INFO), (5, DEBUG), (6, DEBUG)]"

definition PY_TO_CRT_LEVEL :: "(int \<times> LogLevel) list" where
  "PY_TO_CRT_LEVEL = [(NOTSET, LogLevel.NoLogs), (CRITICAL, LogLevel.Fatal), (ERROR, LogLevel.Error),
     (WARNING, LogLevel.Warn), (INFO, LogLevel.Info), (DEBUG, LogLevel.Trace)]"

definition crt_to_py :: "int \<Rightarrow> int" where
  "crt_to_py crt_level = (case map_of CRT_TO_PY_LEVEL crt_level of None \<Rightarrow> DEBUG | Some l \<Rightarrow> l)"

definition py_to_crt :: "int \<Rightarrow> pyexc + int" where
  "py_to_crt level = (case map_of PY_TO_CRT_LEVEL level of
      None \<Rightarrow> Inl (ValueError ''Invalid log level'')
    | Some l \<Rightarrow> Inr (LogLevel_value l))"

section \<open>Subjects\<close>

datatype LogSubject =
    COMMON_GENERAL
  | COMMON_TASK_SCHEDULER
  | IO_GENERAL
  | IO_EVENT_LOOP
  | IO_SOCKET
  | IO_SOCKET_HANDLER
  | IO_TLS
  | IO_ALPN
  | IO_DNS
  | IO_PKI
  | IO_CHANNEL
  | IO_CHANNEL_BOOTSTRAP
  | IO_FILE_UTILS
  | IO_SHARED_LIBRARY
  | HTTP_GENERAL
  | HTTP_CONNECTION
  | HTTP_SERVER
  | HTTP_STREAM
  | HTTP_CONNECTION_MANAGER
  | HTTP_WEBSOCKET
  | HTTP_WEBSOCKET_SETUP
  | EVENT_STREAM_GENERAL
  | EVENT_STREAM_CHANNEL_HANDLER
  | EVENT_STREAM_RPC_SERVER
  | EVENT_STREAM_RPC_CLIENT
  | MQTT_GENERAL
  | MQTT_CLIENT
  | MQTT_TOPIC_TREE
  | AUTH_GENERAL
  | AUTH_PROFILE
  | AUTH_CREDENTIALS_PROVIDER
  | AUTH_SIGNING
  | CAL_GENERAL
  | CAL_ECC
  | CAL_HASH
  | CAL_HMAC
  | CAL_DER
  | CAL_LIBCRYPTO_RESOLVE
  | CAL_RSA
  | CAL_ED25519
  | S3_GENERAL
  | S3_CLIENT
  | SDKUTILS_GENERAL
  | SDKUTILS_PROFILE
  | SDKUTILS_ENDPOINTS_PARSING
  | SDKUTILS_ENDPOINTS_RESOLVE
  | SDKUTILS_ENDPOINTS_GENERAL
  | SDKUTILS_PARTITIONS_PARSING
  | SDKUTILS_ENDPOINTS_REGEX

primrec LogSubject_value :: "LogSubject \<Rightarrow> int" where
  "LogSubject_value LogSubject.COMMON_GENERAL = 0"
| "LogSubject_value LogSubject.COMMON_TASK_SCHEDULER = 1"
| "LogSubject_value LogSubject.IO_GENERAL = 1024"
| "LogSubject_value LogSubject.IO_EVENT_LOOP = 1025"
| "LogSubject_value LogSubject.IO_SOCKET = 1026"
| "LogSubject_value LogSubject.IO_SOCKET_HANDLER = 1027"
| "LogSubject_value LogSubject.IO_TLS = 1028"
| "LogSubject_value LogSubject.IO_ALPN = 1029"
| "LogSubject_value LogSubject.IO_DNS = 1030"
| "LogSubject_value LogSubject.IO_PKI = 1031"
| "LogSubject_value LogSubject.IO_CHANNEL = 1032"
| "LogSubject_value LogSubject.IO_CHANNEL_BOOTSTRAP = 1033"
| "LogSubject_value LogSubject.IO_FILE_UTILS = 1034"
| "LogSubject_value LogSubject.IO_SHARED_LIBRARY = 1035"
| "LogSubject_value LogSubject.HTTP_GENERAL = 2048"
| "LogSubject_value LogSubject.HTTP_CONNECTION = 2049"
| "LogSubject_value LogSubject.HTTP_SERVER = 2050"
| "LogSubject_value LogSubject.HTTP_STREAM = 2051"
| "LogSubject_value LogSubject.HTTP_CONNECTION_MANAGER = 2052"
| "LogSubject_value LogSubject.HTTP_WEBSOCKET = 2053"
| "LogSubject_value LogSubject.HTTP_WEBSOCKET_SETUP = 2054"
| "LogSubject_value LogSubject.EVENT_STREAM_GENERAL = 4096"
| "LogSubject_value LogSubject.EVENT_STREAM_CHANNEL_HANDLER = 4097"
| "LogSubject_value LogSubject.EVENT_STREAM_RPC_SERVER = 4098"
| "LogSubject_value LogSubject.EVENT_STREAM_RPC_CLIENT = 4099"
| "LogSubject_value LogSubject.MQTT_GENERAL = 5120"
| "LogSubject_value LogSubject.MQTT_CLIENT = 5121"
| "LogSubject_value LogSubject.MQTT_TOPIC_TREE = 5122"
| "LogSubject_value LogSubject.AUTH_GENERAL = 6144"
| "LogSubject_value LogSubject.AUTH_PROFILE = 6145"
| "LogSubject_value LogSubject.AUTH_CREDENTIALS_PROVIDER = 6146"
| "LogSubject_value LogSubject.AUTH_SIGNING = 6147"
| "LogSubject_value LogSubject.CAL_GENERAL = 7168"
| "LogSubject_value LogSubject.CAL_ECC = 7169"
| "LogSubject_value LogSubject.CAL_HASH = 7170"
| "LogSubject_value LogSubject.CAL_HMAC = 7171"
| "LogSubject_value LogSubject.CAL_DER = 7172"
| "LogSubject_value LogSubject.CAL_LIBCRYPTO_RESOLVE = 7173"
| "LogSubject_value LogSubject.CAL_RSA = 7174"
| "LogSubject_value LogSubject.CAL_ED25519 = 7175"
| "LogSubject_value LogSubject.S3_GENERAL = 14336"
| "LogSubject_value LogSubject.S3_CLIENT = 14337"
| "LogSubject_value LogSubject.SDKUTILS_GENERAL = 15360"
| "LogSubject_value LogSubject.SDKUTILS_PROFILE = 15361"
| "LogSubject_value LogSubject.SDKUTILS_ENDPOINTS_PARSING = 15362"
| "LogSubject_value LogSubject.SDKUTILS_ENDPOINTS_RESOLVE = 15363"
| "LogSubject_value LogSubject.SDKUTILS_ENDPOINTS_GENERAL = 15364"
| "LogSubject_value LogSubject.SDKUTILS_PARTITIONS_PARSING = 15365"
| "LogSubject_value LogSubject.SDKUTILS_ENDPOINTS_REGEX = 15366"

definition LogSubject_members :: "LogSubject list" where
  [enum_defs]: "LogSubject_members =
    [LogSubject.COMMON_GENERAL, LogSubject.COMMON_TASK_SCHEDULER, LogSubject.IO_GENERAL,
     LogSubject.IO_EVENT_LOOP, LogSubject.IO_SOCKET, LogSubject.IO_SOCKET_HANDLER,
     LogSubject.IO_TLS, LogSubject.IO_ALPN, LogSubject.IO_DNS, LogSubject.IO_PKI,
     LogSubject.IO_CHANNEL, LogSubject.IO_CHANNEL_BOOTSTRAP, LogSubject.IO_FILE_UTILS,
     LogSubject.IO_SHARED_LIBRARY, LogSubject.HTTP_GENERAL, LogSubject.HTTP_CONNECTION,
     LogSubject.HTTP_SERVER, LogSubject.HTTP_STREAM, LogSubject.HTTP_CONNECTION_MANAGER,
     LogSubject.HTTP_WEBSOCKET, LogSubject.HTTP_WEBSOCKET_SETUP,
     LogSubject.EVENT_STREAM_GENERAL, LogSubject.EVENT_STREAM_CHANNEL_HANDLER,
     LogSubject.EVENT_STREAM_RPC_SERVER, LogSubject.EVENT_STREAM_RPC_CLIENT,
     LogSubject.MQTT_GENERAL, LogSubject.MQTT_CLIENT, LogSubject.MQTT_TOPIC_TREE,
     LogSubject.AUTH_GENERAL, LogSubject.AUTH_PROFILE, LogSubject.AUTH_CREDENTIALS_PROVIDER,
     LogSubject.AUTH_SIGNING, LogSubject.CAL_GENERAL, LogSubject.CAL_ECC,
     LogSubject.CAL_HASH, LogSubject.CAL_HMAC, LogSubject.CAL_DER,
     LogSubject.CAL_LIBCRYPTO_RESOLVE, LogSubject.CAL_RSA, LogSubject.CAL_ED25519,
     LogSubject.S3_GENERAL, LogSubject.S3_CLIENT, LogSubject.SDKUTILS_GENERAL,
     LogSubject.SDKUTILS_PROFILE, LogSubject.SDKUTILS_ENDPOINTS_PARSING,
     LogSubject.SDKUTILS_ENDPOINTS_RESOLVE, LogSubject.SDKUTILS_ENDPOINTS_GENERAL,
     LogSubject.SDKUTILS_PARTITIONS_PARSING, LogSubject.SDKUTILS_ENDPOINTS_REGEX]"

interpretation LogSubject_enum: int_enum LogSubject_members LogSubject_value
  by (unfold_locales, rule enum_univI, case_tac x, simp_all add: enum_defs)

definition PACKAGE_ID_TO_MODULE :: "(int \<times> string) list" where
  "PACKAGE_ID_TO_MODULE = [(0, ''common''), (1, ''io''), (2, ''http''), (4, ''event-stream''),
     (5, ''mqtt''), (6, ''auth''), (7, ''cal''), (14, ''s3''), (15, ''sdkutils'')]"

definition logger_name :: "int \<Rightarrow> string \<Rightarrow> string" where
  "logger_name subject_id subject_name =
     (let module = (case map_of PACKAGE_ID_TO_MODULE (drop_bit 10 subject_id) of
          None \<Rightarrow> ''unknown'' | Some m \<Rightarrow> m)
      in ''awscrt.'' @ module @ ''.'' @ subject_name)"

section \<open>The logger\<close>

text \<open>
  The native logger (whether it is initialised, its level, whether it is the one that calls Python),
  the level of the Python logger \<open>awscrt\<close>, the name of the calling thread and the calls of
  \<open>Logger.log\<close> made so far, with the name of the logger, the level and the message.
\<close>

record log_state =
  logger_init :: bool
  logger_level :: int
  python_logger :: bool
  awscrt_level :: int
  thread_name_of :: string
  records :: "(string \<times> int \<times> string) list"

definition python_logging_callback ::
  "int \<Rightarrow> string \<Rightarrow> int \<Rightarrow> string \<Rightarrow> string option \<Rightarrow> (log_state, unit) py" where
  "python_logging_callback crt_level message subject_id subject_name thread_name =
     (let logger = logger_name subject_id subject_name;
          py_level = crt_to_py crt_level in
      thenE (updE (\<lambda>s. if take 5 (thread_name_of s) = ''Dummy'' \<and> thread_name \<noteq> None
                       then s\<lparr>thread_name_of := the thread_name\<rparr> else s))
            (updE (\<lambda>s. s\<lparr>records := records s @ [(logger, py_level, message)]\<rparr>)))"

text \<open>\<open>aws_py_init_python_logging\<close>; the callback passed by \<open>init_logging\<close> is callable.\<close>

definition crt_init_python_logging :: "int \<Rightarrow> (log_state, unit) py" where
  "crt_init_python_logging log_level = (\<lambda>s.
     if logger_init s then (Inl (RuntimeError ''AWS_ERROR_INVALID_STATE''), s)
     else (Inr (), s\<lparr>logger_init := True, python_logger := True, logger_level := log_level\<rparr>))"

text \<open>\<open>aws_py_set_log_level\<close>; the level is read as an unsigned byte.\<close>

definition crt_set_log_level :: "int \<Rightarrow> (log_state, unit) py" where
  "crt_set_log_level log_level = (\<lambda>s.
     if \<not> logger_init s
     then (Inl (RuntimeError ''Invalid state: logger cannot be initialized multiple times.''), s)
     else if log_level < 0 \<or> log_level > 255 then (Inl (ValueError []), s)
     else (Inr (), s\<lparr>logger_level := log_level\<rparr>))"

text \<open>
  A message logged by native code, in a thread with the given native name: \<open>AWS_LOGF\<close> asks the
  logger for its level and calls \<open>s_py_logger_log\<close>, which calls Python.
\<close>

definition crt_log ::
  "(int \<Rightarrow> int \<Rightarrow> bool) \<Rightarrow> int \<Rightarrow> int \<Rightarrow> string \<Rightarrow> string \<Rightarrow> string option \<Rightarrow> (log_state, unit) py" where
  "crt_log enabled log_level subject subject_name message thread_name = (\<lambda>s.
     if logger_init s \<and> python_logger s \<and> enabled (logger_level s) log_level
     then python_logging_callback log_level message subject subject_name thread_name s
     else (Inr (), s))"

definition logging_init_logging :: "int \<Rightarrow> (log_state, unit) py" where
  "logging_init_logging level =
     (case py_to_crt level of
        Inl e \<Rightarrow> raise e
      | Inr crt_level \<Rightarrow>
          thenE (updE (\<lambda>s. if awscrt_level s = NOTSET then s\<lparr>awscrt_level := crt_to_py crt_level\<rparr> else s))
                (crt_init_python_logging crt_level))"

definition logging_set_log_level :: "int \<Rightarrow> (log_state, unit) py" where
  "logging_set_log_level level =
     (case py_to_crt level of Inl e \<Rightarrow> raise e | Inr crt_level \<Rightarrow> crt_set_log_level crt_level)"

text \<open>\<open>names\<close> gives the name native code has for a subject.\<close>

definition logging_log ::
  "(int \<Rightarrow> int \<Rightarrow> bool) \<Rightarrow> (int \<Rightarrow> string) \<Rightarrow> string option \<Rightarrow> int \<Rightarrow> LogSubject \<Rightarrow> string \<Rightarrow> (log_state, unit) py" where
  "logging_log enabled names thread_name level subject message =
     (case py_to_crt level of
        Inl e \<Rightarrow> raise e
      | Inr crt_level \<Rightarrow>
          crt_log enabled crt_level (LogSubject_value subject) (names (LogSubject_value subject)) message thread_name)"

text \<open>
  The destination \<open>aws_py_init_logging\<close> chooses for the file name of
  \<open>awscrt.io.init_logging\<close>: only as many characters as the shorter of the name and
  \<open>stdout\<close> are compared.
\<close>

datatype log_destination = To_stdout | To_stderr | To_file string

definition log_destination_of :: "string \<Rightarrow> log_destination" where
  "log_destination_of file_path =
     (let cmp_len = (if length file_path > 6 then 6 else length file_path) in
      if take cmp_len ''stdout'' = take cmp_len file_path then To_stdout
      else if take cmp_len ''stderr'' = take cmp_len file_path then To_stderr
      else To_file file_path)"

section \<open>Properties\<close>

text \<open>The two tables form a Galois connection between the levels that are switched on.\<close>

lemma py_to_crt_cases:
  "(\<exists>c. py_to_crt l = Inr c) \<longleftrightarrow> l \<in> {NOTSET, DEBUG, INFO, WARNING, ERROR, CRITICAL}"
  by (auto simp: py_to_crt_def PY_TO_CRT_LEVEL_def split: option.splits if_splits)

lemma level_tables:
  assumes "py_to_crt l = Inr c" "l \<noteq> NOTSET" "1 \<le> m" "m \<le> 6"
  shows "m \<le> c \<longleftrightarrow> l \<le> crt_to_py m"
proof -
  have "m \<in> {1, 2, 3, 4, 5, 6}" using assms by auto
  moreover have "(l, c) \<in> {(DEBUG, 6), (INFO, 4), (WARNING, 3), (ERROR, 2), (CRITICAL, 1)}"
    using assms by (auto simp: py_to_crt_def PY_TO_CRT_LEVEL_def split: option.splits if_splits)
  ultimately show ?thesis
    by (auto simp: crt_to_py_def CRT_TO_PY_LEVEL_def py_levels)
qed

lemma crt_to_py_inverse: "py_to_crt l = Inr c \<Longrightarrow> crt_to_py c = l"
  by (auto simp: py_to_crt_def PY_TO_CRT_LEVEL_def crt_to_py_def CRT_TO_PY_LEVEL_def py_levels
      split: option.splits if_splits)

lemma every_subject_has_module:
  "map_of PACKAGE_ID_TO_MODULE (drop_bit 10 (LogSubject_value s)) \<noteq> None"
  by (cases s) (simp_all add: PACKAGE_ID_TO_MODULE_def drop_bit_eq_div)

lemma init_logging_effect:
  "logging_init_logging l s = (Inr (), s1) \<Longrightarrow>
   \<exists>c. py_to_crt l = Inr c \<and> \<not> logger_init s \<and> logger_init s1 \<and> python_logger s1 \<and> logger_level s1 = c \<and>
     records s1 = records s \<and> awscrt_level s1 = (if awscrt_level s = NOTSET then l else awscrt_level s)"
  by (auto simp: logging_init_logging_def crt_init_python_logging_def thenE_def bindE_def updE_def raise_def
      crt_to_py_inverse split: sum.splits if_splits)


definition log_ex :: log_state where
  "log_ex = \<lparr>logger_init = False, logger_level = 0, python_logger = False, awscrt_level = 0,
     thread_name_of = ''MainThread'', records = []\<rparr>"


text \<open>An unknown level raises \<open>ValueError\<close> and changes nothing; a second initialisation fails.\<close>

lemma init_logging_unknown_level:
  "l \<notin> {NOTSET, DEBUG, INFO, WARNING, ERROR, CRITICAL} \<Longrightarrow>
     logging_init_logging l s = (Inl (ValueError ''Invalid log level''), s)"
  using py_to_crt_cases [of l]
  by (auto simp: logging_init_logging_def py_to_crt_def raise_def split: option.splits)

lemma init_logging_twice: "logger_init s \<Longrightarrow> \<exists>e. fst (logging_init_logging l s) = Inl e"
  by (auto simp: logging_init_logging_def raise_def crt_init_python_logging_def thenE_def
      bindE_def updE_def split: sum.splits)

text \<open>
  The destination is standard output for every path that starts with \<open>stdout\<close>, and for every
  proper prefix of it.
\<close>

lemma log_destination_stdout_prefix: "log_destination_of (''stdout'' @ rest) = To_stdout"
  by (simp add: log_destination_of_def Let_def)

lemma log_destination_short: "n \<le> 6 \<Longrightarrow> log_destination_of (take n ''stdout'') = To_stdout"
  by (auto simp: log_destination_of_def Let_def min_def)

end
