(* ===== verification/Checksums.thy ===== *)
theory Checksums
  imports Py_Prelude
begin

text \<open>
  \<open>awscrt/checksums.py\<close> with the C functions behind it in \<open>source/crc.c\<close>: running CRCs,
  and combining the CRCs of two blocks. The checksum functions themselves are aws-checksums' and
  are parameters; what is promised of them is that a running checksum continues
  (\<open>crc_running\<close>) and that combining is the checksum of the concatenation
  (\<open>crc_combining\<close>). \<open>unsigned long\<close> has 64 bits. Shown: feeding a block in pieces
  through the Python functions gives the checksum of the whole block, and so does combining; and
  which integers the functions accept.
\<close>

section \<open>Conversions\<close>

definition as_unsigned64 :: "int \<Rightarrow> pyexc + 64 word" where
  "as_unsigned64 v =
     (if 0 \<le> v \<and> v < 2 ^ 64 then Inr (word_of_int v)
      else Inl (OverflowError ''int too big to convert''))"

text \<open>
  \<open>uint32_t x = PyLong_AsUnsignedLong(v)\<close>: the 64-bit result is truncated. The error value of
  the conversion is all ones, also after the truncation, so an error is always noticed.
\<close>

definition as_uint32_truncated :: "int \<Rightarrow> pyexc + 32 word" where
  "as_uint32_truncated v = (case as_unsigned64 v of Inl e \<Rightarrow> Inl e | Inr w \<Rightarrow> Inr (ucast w))"

section \<open>The functions\<close>

definition crc32_common :: "(bytes \<Rightarrow> 32 word \<Rightarrow> 32 word) \<Rightarrow> bytes \<Rightarrow> int \<Rightarrow> pyexc + int" where
  "crc32_common checksum_fn input previous =
     (case as_uint32_truncated previous of Inl e \<Rightarrow> Inl e | Inr p \<Rightarrow> Inr (uint (checksum_fn input p)))"

definition crc32 :: "(bytes \<Rightarrow> 32 word \<Rightarrow> 32 word) \<Rightarrow> bytes \<Rightarrow> int \<Rightarrow> pyexc + int" where
  "crc32 aws_crc32 input previous_crc32 = crc32_common aws_crc32 input previous_crc32"

definition crc32c :: "(bytes \<Rightarrow> 32 word \<Rightarrow> 32 word) \<Rightarrow> bytes \<Rightarrow> int \<Rightarrow> pyexc + int" where
  "crc32c aws_crc32c input previous_crc32c = crc32_common aws_crc32c input previous_crc32c"

definition crc64nvme :: "(bytes \<Rightarrow> 64 word \<Rightarrow> 64 word) \<Rightarrow> bytes \<Rightarrow> int \<Rightarrow> pyexc + int" where
  "crc64nvme aws_crc64nvme input previous_crc64nvme =
     (case as_unsigned64 previous_crc64nvme of
        Inl e \<Rightarrow> Inl e | Inr p \<Rightarrow> Inr (uint (aws_crc64nvme input p)))"

definition combine_with ::
  "(int \<Rightarrow> pyexc + 'w::len word) \<Rightarrow> ('w word \<Rightarrow> 'w word \<Rightarrow> 64 word \<Rightarrow> 'w word) \<Rightarrow> int \<Rightarrow> int \<Rightarrow> int \<Rightarrow> pyexc + int" where
  "combine_with conv combine crc1 crc2 len2 =
     (case conv crc1 of
        Inl _ \<Rightarrow> Inl (ValueError ''result1 is not a valid unsigned integer'')
      | Inr c1 \<Rightarrow> (case conv crc2 of
          Inl _ \<Rightarrow> Inl (ValueError ''result2 is not a valid unsigned integer'')
        | Inr c2 \<Rightarrow> (case as_unsigned64 len2 of
            Inl _ \<Rightarrow> Inl (ValueError ''data_length2 is not a valid unsigned 64-bit integer'')
          | Inr n \<Rightarrow> Inr (uint (combine c1 c2 n)))))"

definition combine_crc32 ::
  "(32 word \<Rightarrow> 32 word \<Rightarrow> 64 word \<Rightarrow> 32 word) \<Rightarrow> int \<Rightarrow> int \<Rightarrow> int \<Rightarrow> pyexc + int" where
  "combine_crc32 aws_combine crc32_result1 crc32_result2 data_length2 =
     combine_with as_uint32_truncated aws_combine crc32_result1 crc32_result2 data_length2"

definition combine_crc32c ::
  "(32 word \<Rightarrow> 32 word \<Rightarrow> 64 word \<Rightarrow> 32 word) \<Rightarrow> int \<Rightarrow> int \<Rightarrow> int \<Rightarrow> pyexc + int" where
  "combine_crc32c aws_combine crc32c_result1 crc32c_result2 data_length2 =
     combine_with as_uint32_truncated aws_combine crc32c_result1 crc32c_result2 data_length2"

definition combine_crc64nvme ::
  "(64 word \<Rightarrow> 64 word \<Rightarrow> 64 word \<Rightarrow> 64 word) \<Rightarrow> int \<Rightarrow> int \<Rightarrow> int \<Rightarrow> pyexc + int" where
  "combine_crc64nvme aws_combine crc64nvme_result1 crc64nvme_result2 data_length2 =
     combine_with as_unsigned64 aws_combine crc64nvme_result1 crc64nvme_result2 data_length2"

section \<open>Properties\<close>

text \<open>What aws-checksums promises, for a function of either width.\<close>

definition crc_running :: "(bytes \<Rightarrow> 'w \<Rightarrow> 'w) \<Rightarrow> bool" where
  "crc_running f \<longleftrightarrow> (\<forall>p. f [] p = p) \<and> (\<forall>a b p. f (a @ b) p = f b (f a p))"

definition crc_combining ::
  "(bytes \<Rightarrow> 'w::len word \<Rightarrow> 'w word) \<Rightarrow> ('w word \<Rightarrow> 'w word \<Rightarrow> 64 word \<Rightarrow> 'w word) \<Rightarrow> bool" where
  "crc_combining f g \<longleftrightarrow>
     (\<forall>a b. length b < 2 ^ 64 \<longrightarrow> g (f a 0) (f b 0) (of_nat (length b)) = f (a @ b) 0)"

text \<open>Feeding the pieces of a block one after the other, stopping at the first exception.\<close>

fun feed :: "(bytes \<Rightarrow> int \<Rightarrow> pyexc + int) \<Rightarrow> bytes list \<Rightarrow> int \<Rightarrow> pyexc + int" where
  "feed f [] p = Inr p"
| "feed f (c # cs) p = (case f c p of Inl e \<Rightarrow> Inl e | Inr q \<Rightarrow> feed f cs q)"

lemma uint_word_of_int64: "0 \<le> v \<Longrightarrow> v < 2 ^ 64 \<Longrightarrow> uint (word_of_int v :: 64 word) = v"
  by (simp add: unsigned_of_int take_bit_int_eq_self)

lemma as_unsigned64_uint: "as_unsigned64 (uint (w :: 64 word)) = Inr w"
  using uint_lt2p [of w] by (simp add: as_unsigned64_def)

lemma uint32_bound: "uint (w :: 32 word) < 2 ^ 32"
  using uint_lt2p [of w] by simp

lemma ucast_of_int64:
  "0 \<le> v \<Longrightarrow> v < 2 ^ 64 \<Longrightarrow> uint (ucast (word_of_int v :: 64 word) :: 32 word) = v mod 2 ^ 32"
  by (simp add: unsigned_ucast_eq uint_word_of_int64 take_bit_eq_mod)

lemma as_uint32_uint: "as_uint32_truncated (uint (w :: 32 word)) = Inr w"
proof -
  have b: "uint w < 2 ^ 64" "uint w mod 2 ^ 32 = uint w"
    using uint32_bound [of w] by simp_all
  have "ucast (word_of_int (uint w) :: 64 word) = w"
    by (rule word_uint_eqI) (use ucast_of_int64 [of "uint w"] b in simp)
  then show ?thesis
    using b(1) unfolding as_uint32_truncated_def as_unsigned64_def by simp
qed

text \<open>
  The functions as codecs: the interface between an integer argument and the word behind it, on
  which the argument for running checksums rests whatever the width.
\<close>

locale word_checksum =
  fixes conv :: "int \<Rightarrow> pyexc + 'w::len word"
    and f :: "bytes \<Rightarrow> 'w word \<Rightarrow> 'w word"
    and api :: "bytes \<Rightarrow> int \<Rightarrow> pyexc + int"
  assumes conv_uint: "conv (uint w) = Inr w"
    and api_def: "api b p = (case conv p of Inl e \<Rightarrow> Inl e | Inr w \<Rightarrow> Inr (uint (f b w)))"
begin

lemma feed_words: "crc_running f \<Longrightarrow> feed api cs (uint w) = Inr (uint (f (concat cs) w))"
  by (induction cs arbitrary: w) (simp_all add: crc_running_def api_def conv_uint)

lemma combine_words:
  assumes "crc_combining f g" "length b < 2 ^ 64"
  shows "combine_with conv g (uint (f a 0)) (uint (f b 0)) (int (length b)) = Inr (uint (f (a @ b) 0))"
proof -
  have "as_unsigned64 (int (length b)) = Inr (of_nat (length b))"
    using assms(2) by (simp add: as_unsigned64_def)
  then show ?thesis
    using assms by (simp add: combine_with_def conv_uint crc_combining_def)
qed

end

interpretation crc32_words: word_checksum as_uint32_truncated f "crc32 f" for f
  by unfold_locales (simp_all add: as_uint32_uint crc32_def crc32_common_def)

interpretation crc32c_words: word_checksum as_uint32_truncated f "crc32c f" for f
  by unfold_locales (simp_all add: as_uint32_uint crc32c_def crc32_common_def)

interpretation crc64_words: word_checksum as_unsigned64 f "crc64nvme f" for f
  by unfold_locales (simp_all add: as_unsigned64_uint crc64nvme_def)

text \<open>
  A block may be checksummed in pieces: passing each result on as the previous value of the next
  call never raises and yields the checksum of the whole block; and combining the checksums of two
  blocks yields the checksum of their concatenation.
\<close>

lemma checksums_compose:
  assumes "crc_running f32" "crc_running f64" "crc_combining f32 g32" "crc_combining f64 g64"
    and "length b < 2 ^ 64"
  shows "feed (crc32 f32) cs 0 = crc32 f32 (concat cs) 0 \<and>
    feed (crc32c f32) cs 0 = crc32c f32 (concat cs) 0 \<and>
    feed (crc64nvme f64) cs 0 = crc64nvme f64 (concat cs) 0 \<and>
    (\<exists>x y. crc32 f32 a 0 = Inr x \<and> crc32 f32 b 0 = Inr y \<and>
      combine_crc32 g32 x y (int (length b)) = crc32 f32 (a @ b) 0) \<and>
    (\<exists>x y. crc32c f32 a 0 = Inr x \<and> crc32c f32 b 0 = Inr y \<and>
      combine_crc32c g32 x y (int (length b)) = crc32c f32 (a @ b) 0) \<and>
    (\<exists>x y. crc64nvme f64 a 0 = Inr x \<and> crc64nvme f64 b 0 = Inr y \<and>
      combine_crc64nvme g64 x y (int (length b)) = crc64nvme f64 (a @ b) 0)"
proof -
  note z = crc32_words.conv_uint [of 0] crc64_words.conv_uint [of 0]
  have "crc32 f32 d 0 = Inr (uint (f32 d 0))" "crc32c f32 d 0 = Inr (uint (f32 d 0))"
    "crc64nvme f64 d 0 = Inr (uint (f64 d 0))" for d
    using z by (simp_all add: crc32_words.api_def crc32c_words.api_def crc64_words.api_def)
  then show ?thesis
    using crc32_words.feed_words [OF assms(1), of cs 0] crc32c_words.feed_words [OF assms(1), of cs 0]
      crc64_words.feed_words [OF assms(2), of cs 0]
      crc32_words.combine_words [OF assms(3,5), of a] crc64_words.combine_words [OF assms(4,5), of a]
    by (simp add: combine_crc32_def combine_crc32c_def combine_crc64nvme_def)
qed

text \<open>A checksum with both properties: the sum of the bytes.\<close>

definition sum_bytes :: "bytes \<Rightarrow> 'w::len word \<Rightarrow> 'w word" where
  "sum_bytes b p = p + sum_list (map ucast b)"

lemma sum_bytes_laws:
  "crc_running sum_bytes" "crc_combining sum_bytes (\<lambda>x y n. x + y)"
  by (simp_all add: crc_running_def crc_combining_def sum_bytes_def)

text \<open>
  The previous value is not confined to 32 bits: anything below \<open>2 ^ 64\<close> is accepted and
  silently reduced modulo \<open>2 ^ 32\<close>.
\<close>

lemma crc32_truncates_previous:
  assumes "0 \<le> p" "p < 2 ^ 64"
  shows "crc32 f input p = crc32 f input (p mod 2 ^ 32)"
proof -
  have q: "p mod 2 ^ 32 < 2 ^ 64" "0 \<le> p mod 2 ^ 32"
    using pos_mod_bound [of "2 ^ 32" p] by simp_all
  have "ucast (word_of_int p :: 64 word) = (ucast (word_of_int (p mod 2 ^ 32) :: 64 word) :: 32 word)"
    by (rule word_uint_eqI) (simp only: ucast_of_int64 assms q mod_mod_trivial)
  then show ?thesis
    using assms q unfolding crc32_def crc32_common_def as_uint32_truncated_def as_unsigned64_def by simp
qed

end
