(* ===== verification/Crypto.thy ===== *)
theory Crypto
  imports Int_Enum
begin

text \<open>
  \<open>awscrt/crypto.py\<close> with the parts of \<open>source/crypto.c\<close> that decide something: which
  object of a PEM file is taken for the key, the three outcomes of a signature verification, and the
  sizes accepted when ECDSA signatures are converted. The cryptography is aws-c-cal's; its functions
  are parameters that return a result or an error. The hash and HMAC objects forward to native code.
\<close>

section \<open>Enumerations\<close>

datatype RSAEncryptionAlgorithm =
    PKCS1_5
  | OAEP_SHA256
  | OAEP_SHA512

primrec RSAEncryptionAlgorithm_value :: "RSAEncryptionAlgorithm \<Rightarrow> int" where
  "RSAEncryptionAlgorithm_value RSAEncryptionAlgorithm.PKCS1_5 = 0"
| "RSAEncryptionAlgorithm_value RSAEncryptionAlgorithm.OAEP_SHA256 = 1"
| "RSAEncryptionAlgorithm_value RSAEncryptionAlgorithm.OAEP_SHA512 = 2"

definition RSAEncryptionAlgorithm_members :: "RSAEncryptionAlgorithm list" where
  [enum_defs]: "RSAEncryptionAlgorithm_members =
    [RSAEncryptionAlgorithm.PKCS1_5, RSAEncryptionAlgorithm.OAEP_SHA256,
     RSAEncryptionAlgorithm.OAEP_SHA512]"

interpretation RSAEncryptionAlgorithm_enum: int_enum RSAEncryptionAlgorithm_members RSAEncryptionAlgorithm_value
  by (unfold_locales, rule enum_univI, case_tac x, simp_all add: enum_defs)

datatype RSASignatureAlgorithm =
    PKCS1_5_SHA256
  | PKCS1_5_SHA1
  | PSS_SHA256

primrec RSASignatureAlgorithm_value :: "RSASignatureAlgorithm \<Rightarrow> int" where
  "RSASignatureAlgorithm_value RSASignatureAlgorithm.PKCS1_5_SHA256 = 0"
| "RSASignatureAlgorithm_value RSASignatureAlgorithm.PKCS1_5_SHA1 = 1"
| "RSASignatureAlgorithm_value RSASignatureAlgorithm.PSS_SHA256 = 2"

definition RSASignatureAlgorithm_members :: "RSASignatureAlgorithm list" where
  [enum_defs]: "RSASignatureAlgorithm_members =
    [RSASignatureAlgorithm.PKCS1_5_SHA256, RSASignatureAlgorithm.PKCS1_5_SHA1,
     RSASignatureAlgorithm.PSS_SHA256]"

interpretation RSASignatureAlgorithm_enum: int_enum RSASignatureAlgorithm_members RSASignatureAlgorithm_value
  by (unfold_locales, rule enum_univI, case_tac x, simp_all add: enum_defs)

datatype ED25519ExportFormat =
    RAW
  | OPENSSH_B64

primrec ED25519ExportFormat_value :: "ED25519ExportFormat \<Rightarrow> int" where
  "ED25519ExportFormat_value ED25519ExportFormat.RAW = 0"
| "ED25519ExportFormat_value ED25519ExportFormat.OPENSSH_B64 = 1"

definition ED25519ExportFormat_members :: "ED25519ExportFormat list" where
  [enum_defs]: "ED25519ExportFormat_members =
    [ED25519ExportFormat.RAW, ED25519ExportFormat.OPENSSH_B64]"

interpretation ED25519ExportFormat_enum: int_enum ED25519ExportFormat_members ED25519ExportFormat_value
  by (unfold_locales, rule enum_univI, case_tac x, simp_all add: enum_defs)

datatype ECType =
    P_256
  | P_384

primrec ECType_value :: "ECType \<Rightarrow> int" where
  "ECType_value ECType.P_256 = 0"
| "ECType_value ECType.P_384 = 1"

definition ECType_members :: "ECType list" where
  [enum_defs]: "ECType_members =
    [ECType.P_256, ECType.P_384]"

interpretation ECType_enum: int_enum ECType_members ECType_value
  by (unfold_locales, rule enum_univI, case_tac x, simp_all add: enum_defs)

datatype ECExportFormat =
    SEC1
  | PKCS8
  | SPKI

primrec ECExportFormat_value :: "ECExportFormat \<Rightarrow> int" where
  "ECExportFormat_value ECExportFormat.SEC1 = 0"
| "ECExportFormat_value ECExportFormat.PKCS8 = 1"
| "ECExportFormat_value ECExportFormat.SPKI = 2"

definition ECExportFormat_members :: "ECExportFormat list" where
  [enum_defs]: "ECExportFormat_members =
    [ECExportFormat.SEC1, ECExportFormat.PKCS8, ECExportFormat.SPKI]"

interpretation ECExportFormat_enum: int_enum ECExportFormat_members ECExportFormat_value
  by (unfold_locales, rule enum_univI, case_tac x, simp_all add: enum_defs)

section \<open>RSA keys\<close>

datatype pem_type = Private_rsa_pkcs1 | Private_pkcs8 | Public_rsa_pkcs1 | Other_pem nat

record pem_object =
  pem_type_of :: pem_type
  pem_data_of :: bytes

text \<open>
  \<open>s_find_pem_object\<close>. The loop counts over the objects, but looks at the one at index 0 in
  every round.
\<close>

primrec find_pem_loop :: "pem_object list \<Rightarrow> pem_type \<Rightarrow> nat \<Rightarrow> pem_object option" where
  "find_pem_loop pem_list t 0 = None"
| "find_pem_loop pem_list t (Suc rounds) =
     (case pem_list of
        [] \<Rightarrow> None
      | p # _ \<Rightarrow> if pem_type_of p = t then Some p else find_pem_loop pem_list t rounds)"

definition find_pem_object :: "pem_object list \<Rightarrow> pem_type \<Rightarrow> pem_object option" where
  "find_pem_object pem_list t = find_pem_loop pem_list t (length pem_list)"

text \<open>\<open>parse\<close> splits PEM data into objects; \<open>pkcs1\<close> and \<open>pkcs8\<close> load a key.\<close>

definition rsa_private_key_from_pem_data ::
  "(bytes \<Rightarrow> pyexc + pem_object list) \<Rightarrow> (bytes \<Rightarrow> pyexc + 'k) \<Rightarrow> (bytes \<Rightarrow> pyexc + 'k) \<Rightarrow> bytes \<Rightarrow> pyexc + 'k" where
  "rsa_private_key_from_pem_data parse pkcs1 pkcs8 pem_data =
     (case parse pem_data of
        Inl e \<Rightarrow> Inl e
      | Inr pem_list \<Rightarrow>
          (case find_pem_object pem_list Private_rsa_pkcs1 of
             Some p \<Rightarrow> pkcs1 (pem_data_of p)
           | None \<Rightarrow>
               (case find_pem_object pem_list Private_pkcs8 of
                  Some p \<Rightarrow> pkcs8 (pem_data_of p)
                | None \<Rightarrow> Inl (ValueError ''RSA private key not found in PEM.''))))"

definition rsa_public_key_from_pem_data ::
  "(bytes \<Rightarrow> pyexc + pem_object list) \<Rightarrow> (bytes \<Rightarrow> pyexc + 'k) \<Rightarrow> bytes \<Rightarrow> pyexc + 'k" where
  "rsa_public_key_from_pem_data parse pkcs1 pem_data =
     (case parse pem_data of
        Inl e \<Rightarrow> Inl e
      | Inr pem_list \<Rightarrow>
          (case find_pem_object pem_list Public_rsa_pkcs1 of
             Some p \<Rightarrow> pkcs1 (pem_data_of p)
           | None \<Rightarrow> Inl (ValueError ''RSA public key not found in PEM.'')))"

section \<open>Signatures\<close>

text \<open>The outcome of the native verification: success, the signature does not match, another error.\<close>

datatype verification = Verified | Mismatch | Verify_error pyexc

definition verify_result :: "verification \<Rightarrow> pyexc + bool" where
  "verify_result v = (case v of Verified \<Rightarrow> Inr True | Mismatch \<Rightarrow> Inr False | Verify_error e \<Rightarrow> Inl e)"

record ECRawSignature =
  sig_r :: pyval
  sig_s :: pyval

definition invalid_argument :: pyexc where
  "invalid_argument = RuntimeError ''AWS_ERROR_INVALID_ARGUMENT''"

definition encode_raw_signature :: "(bytes \<Rightarrow> bytes \<Rightarrow> pyexc + bytes) \<Rightarrow> ECRawSignature \<Rightarrow> pyexc + bytes" where
  "encode_raw_signature to_der signature =
     (case (sig_r signature, sig_s signature) of
        (PBytes r, PBytes s) \<Rightarrow>
          if length r + length s + 32 > 256 then Inl invalid_argument else to_der r s
      | _ \<Rightarrow> Inl (TypeError ''r and s must be bytes''))"

definition decode_der_signature :: "(bytes \<Rightarrow> pyexc + bytes \<times> bytes) \<Rightarrow> bytes \<Rightarrow> pyexc + ECRawSignature" where
  "decode_der_signature to_raw signature =
     (case to_raw signature of
        Inl e \<Rightarrow> Inl e | Inr (r, s) \<Rightarrow> Inr \<lparr>sig_r = PBytes r, sig_s = PBytes s\<rparr>)"

definition decode_der_signature_to_padded_pair ::
  "(bytes \<Rightarrow> int \<Rightarrow> pyexc + bytes) \<Rightarrow> bytes \<Rightarrow> int \<Rightarrow> pyexc + bytes" where
  "decode_der_signature_to_padded_pair to_padded signature pad_to =
     (if pad_to > 256 then Inl invalid_argument else to_padded signature pad_to)"

section \<open>Hash and HMAC objects\<close>

definition hash_update :: "native_env \<Rightarrow> pyval \<Rightarrow> bytes \<Rightarrow> ('a world_scheme, unit) py" where
  "hash_update N hash to_hash =
     thenE (native N ''hash_update'' [hash, PBytes to_hash]) (ret ())"

definition hash_digest :: "native_env \<Rightarrow> pyval \<Rightarrow> int \<Rightarrow> ('a world_scheme, pyval) py" where
  "hash_digest N hash truncate_to = native N ''hash_digest'' [hash, PInt truncate_to]"

definition hmac_update :: "native_env \<Rightarrow> pyval \<Rightarrow> bytes \<Rightarrow> ('a world_scheme, unit) py" where
  "hmac_update N hmac to_hmac =
     thenE (native N ''hmac_update'' [hmac, PBytes to_hmac]) (ret ())"

definition hmac_digest :: "native_env \<Rightarrow> pyval \<Rightarrow> int \<Rightarrow> ('a world_scheme, pyval) py" where
  "hmac_digest N hmac truncate_to = native N ''hmac_digest'' [hmac, PInt truncate_to]"

definition Hash_sha1_new :: "native_env \<Rightarrow> ('a world_scheme, pyval) py" where
  "Hash_sha1_new N = native N ''sha1_new'' []"

definition Hash_sha256_new :: "native_env \<Rightarrow> ('a world_scheme, pyval) py" where
  "Hash_sha256_new N = native N ''sha256_new'' []"

definition Hash_md5_new :: "native_env \<Rightarrow> ('a world_scheme, pyval) py" where
  "Hash_md5_new N = native N ''md5_new'' []"

definition HMAC_sha256_hmac_new :: "native_env \<Rightarrow> bytes \<Rightarrow> ('a world_scheme, pyval) py" where
  "HMAC_sha256_hmac_new N secret_key = native N ''sha256_hmac_new'' [PBytes secret_key]"

section \<open>Operations of keys\<close>

text \<open>A key is the native object it wraps.\<close>

definition RSA_encrypt :: "native_env \<Rightarrow> pyval \<Rightarrow> RSAEncryptionAlgorithm \<Rightarrow> bytes \<Rightarrow> ('a world_scheme, pyval) py" where
  "RSA_encrypt N key alg plaintext =
     native N ''rsa_encrypt'' [key, PEnum ''RSAEncryptionAlgorithm'' (RSAEncryptionAlgorithm_value alg), PBytes plaintext]"

definition RSA_decrypt :: "native_env \<Rightarrow> pyval \<Rightarrow> RSAEncryptionAlgorithm \<Rightarrow> bytes \<Rightarrow> ('a world_scheme, pyval) py" where
  "RSA_decrypt N key alg ciphertext =
     native N ''rsa_decrypt'' [key, PEnum ''RSAEncryptionAlgorithm'' (RSAEncryptionAlgorithm_value alg), PBytes ciphertext]"

definition RSA_sign :: "native_env \<Rightarrow> pyval \<Rightarrow> RSASignatureAlgorithm \<Rightarrow> bytes \<Rightarrow> ('a world_scheme, pyval) py" where
  "RSA_sign N key alg digest =
     native N ''rsa_sign'' [key, PEnum ''RSASignatureAlgorithm'' (RSASignatureAlgorithm_value alg), PBytes digest]"

definition RSA_new_private_key_from_pem_data :: "native_env \<Rightarrow> bytes \<Rightarrow> ('a world_scheme, pyval) py" where
  "RSA_new_private_key_from_pem_data N pem_data = native N ''rsa_private_key_from_pem_data'' [PBytes pem_data]"

definition RSA_new_public_key_from_pem_data :: "native_env \<Rightarrow> bytes \<Rightarrow> ('a world_scheme, pyval) py" where
  "RSA_new_public_key_from_pem_data N pem_data = native N ''rsa_public_key_from_pem_data'' [PBytes pem_data]"

definition RSA_new_private_key_from_der_data :: "native_env \<Rightarrow> bytes \<Rightarrow> ('a world_scheme, pyval) py" where
  "RSA_new_private_key_from_der_data N der_data = native N ''rsa_private_key_from_der_data'' [PBytes der_data]"

definition RSA_new_public_key_from_der_data :: "native_env \<Rightarrow> bytes \<Rightarrow> ('a world_scheme, pyval) py" where
  "RSA_new_public_key_from_der_data N der_data = native N ''rsa_public_key_from_der_data'' [PBytes der_data]"

definition RSA_verify ::
  "native_env \<Rightarrow> pyval \<Rightarrow> RSASignatureAlgorithm \<Rightarrow> bytes \<Rightarrow> bytes \<Rightarrow> ('a world_scheme, pyval) py" where
  "RSA_verify N key alg digest signature =
     native N ''rsa_verify'' [key, PEnum ''RSASignatureAlgorithm'' (RSASignatureAlgorithm_value alg),
       PBytes digest, PBytes signature]"

definition EC_verify :: "native_env \<Rightarrow> pyval \<Rightarrow> bytes \<Rightarrow> bytes \<Rightarrow> ('a world_scheme, pyval) py" where
  "EC_verify N key digest signature = native N ''ec_verify'' [key, PBytes digest, PBytes signature]"

definition ED25519_new_generate :: "native_env \<Rightarrow> ('a world_scheme, pyval) py" where
  "ED25519_new_generate N = native N ''ed25519_new_generate'' []"

definition ED25519_export_public_key :: "native_env \<Rightarrow> pyval \<Rightarrow> ED25519ExportFormat \<Rightarrow> ('a world_scheme, pyval) py" where
  "ED25519_export_public_key N key fmt =
     native N ''ed25519_export_public_key'' [key, PEnum ''ED25519ExportFormat'' (ED25519ExportFormat_value fmt)]"

definition ED25519_export_private_key :: "native_env \<Rightarrow> pyval \<Rightarrow> ED25519ExportFormat \<Rightarrow> ('a world_scheme, pyval) py" where
  "ED25519_export_private_key N key fmt =
     native N ''ed25519_export_private_key'' [key, PEnum ''ED25519ExportFormat'' (ED25519ExportFormat_value fmt)]"

definition EC_new_generate :: "native_env \<Rightarrow> ECType \<Rightarrow> ('a world_scheme, pyval) py" where
  "EC_new_generate N t = native N ''ec_new_generate'' [PEnum ''ECType'' (ECType_value t)]"

definition EC_new_key_from_der_data :: "native_env \<Rightarrow> bytes \<Rightarrow> ('a world_scheme, pyval) py" where
  "EC_new_key_from_der_data N der_data = native N ''ec_key_from_der_data'' [PBytes der_data]"

definition EC_export_key :: "native_env \<Rightarrow> pyval \<Rightarrow> ECExportFormat \<Rightarrow> ('a world_scheme, pyval) py" where
  "EC_export_key N key fmt = native N ''ec_export_key'' [key, PEnum ''ECExportFormat'' (ECExportFormat_value fmt)]"

definition EC_sign :: "native_env \<Rightarrow> pyval \<Rightarrow> bytes \<Rightarrow> ('a world_scheme, pyval) py" where
  "EC_sign N key digest = native N ''ec_sign'' [key, PBytes digest]"

record ECPublicCoords =
  coord_x :: pyval
  coord_y :: pyval

definition EC_get_public_coords :: "native_env \<Rightarrow> pyval \<Rightarrow> ('a world_scheme, ECPublicCoords) py" where
  "EC_get_public_coords N key =
     bindE (native N ''ec_get_public_coords'' [key]) (\<lambda>r.
     case r of
       PTuple [x, y] \<Rightarrow> ret \<lparr>coord_x = x, coord_y = y\<rparr>
     | _ \<Rightarrow> raise (ValueError ''not enough values to unpack''))"

section \<open>Properties\<close>

text \<open>Only the first object of the file is ever considered.\<close>

lemma find_pem_loop_head:
  "find_pem_loop (p # ps) t (Suc n) = (if pem_type_of p = t then Some p else None)"
  by (induction n) (auto split: if_splits)

lemma find_pem_object_head:
  "find_pem_object ps t =
     (case ps of [] \<Rightarrow> None | p # _ \<Rightarrow> if pem_type_of p = t then Some p else None)"
  by (cases ps) (simp_all add: find_pem_object_def find_pem_loop_head del: find_pem_loop.simps(2))

text \<open>
  A private key is loaded exactly from a PEM file that begins with it: the first object is
  loaded if it is an RSA or a PKCS8 private key, and a file whose key follows another object (a
  certificate, say) is refused with \<open>ValueError\<close>, as if it held no key.
\<close>

lemma rsa_pem_first_object:
  assumes "parse d = Inr (p # ps)"
  shows "rsa_private_key_from_pem_data parse pkcs1 pkcs8 d =
    (case pem_type_of p of
       Private_rsa_pkcs1 \<Rightarrow> pkcs1 (pem_data_of p)
     | Private_pkcs8 \<Rightarrow> pkcs8 (pem_data_of p)
     | _ \<Rightarrow> Inl (ValueError ''RSA private key not found in PEM.''))"
  using assms
  by (simp add: rsa_private_key_from_pem_data_def find_pem_object_head split: pem_type.splits)

text \<open>Raw signatures survive the conversion to DER and back, within the accepted size.\<close>

lemma raw_signature_roundtrip:
  assumes "\<And>r s d. to_der r s = Inr d \<Longrightarrow> to_raw d = Inr (r, s)"
    and "encode_raw_signature to_der sig = Inr d"
  shows "decode_der_signature to_raw d = Inr sig"
  using assms
  by (cases sig) (auto simp: encode_raw_signature_def decode_der_signature_def split: pyval.splits if_splits)

end
