(* ===== verification/Py_Outside.thy ===== *)
theory Py_Outside
  imports Py_Logic Py_Strings
begin

text \<open>
  Scripts that call services (boto3, psutil, subprocess, the file system, compilers) instead of the
  native module. The services are a parameter whose answers may differ from call to call: each is a
  function of the number of events so far. The second half is a way to show that a program moves
  only along a given relation of states (locales \<open>frame\<close> and \<open>world_frame\<close>): what
  it keeps, and that its trace only grows.
\<close>

section \<open>What is outside\<close>

text \<open>
  \<open>o_call\<close> answers the calls of which the code uses no result (\<open>None\<close> for success);
  the other fields answer those whose result it reads. An alarm is the pair of its \<open>StateValue\<close>
  and its \<open>AlarmName\<close>; a version of an S3 object is \<open>IsLatest\<close>, \<open>VersionId\<close>
  and \<open>LastModified\<close>.
\<close>

record outside =
  o_call :: "nat \<Rightarrow> string \<Rightarrow> pyval list \<Rightarrow> pyexc option"
  o_alarms :: "nat \<Rightarrow> pyexc + (string \<times> string) list"
  o_psutil :: "nat \<Rightarrow> string \<Rightarrow> pyexc + rat"
  o_poll :: "nat \<Rightarrow> pyexc + int option"
  o_versions :: "nat \<Rightarrow> pyexc + (bool \<times> string \<times> string) list option"
  o_exists :: "nat \<Rightarrow> string \<Rightarrow> bool"
  o_text :: "nat \<Rightarrow> string \<Rightarrow> pyexc + string"
  exc_str :: "pyexc \<Rightarrow> string"
  num_str :: "rat \<Rightarrow> string"

definition outside_call :: "outside \<Rightarrow> string \<Rightarrow> pyval list \<Rightarrow> ('a world_scheme, unit) py" where
  [py_monad]: "outside_call E f args =
     thenE (emit (Native f args)) (\<lambda>s. (case o_call E (length (trace s)) f args of
        None \<Rightarrow> Inr () | Some e \<Rightarrow> Inl e, s))"

definition outside_ask :: "(nat \<Rightarrow> pyexc + 'b) \<Rightarrow> string \<Rightarrow> pyval list \<Rightarrow> ('a world_scheme, 'b) py" where
  [py_monad]: "outside_ask q f args =
     thenE (emit (Native f args)) (\<lambda>s. (q (length (trace s)), s))"

definition py_print :: "string \<Rightarrow> ('a world_scheme, unit) py" where
  [py_monad]: "py_print m = emit (Print m)"

text \<open>A loop over a list, left by the first exception.\<close>

fun forE :: "'b list \<Rightarrow> ('b \<Rightarrow> ('s, unit) py) \<Rightarrow> ('s, unit) py" where
  "forE [] f = ret ()"
| "forE (x # xs) f = thenE (f x) (forE xs f)"

definition whenE :: "bool \<Rightarrow> ('s, unit) py \<Rightarrow> ('s, unit) py" where
  [py_monad]: "whenE b m = (if b then m else ret ())"

text \<open>A body whose exceptions are handled; the result says whether it ran to its end.\<close>

definition guarded :: "('s, unit) py \<Rightarrow> (pyexc \<Rightarrow> ('s, unit) py) \<Rightarrow> ('s, bool) py" where
  "guarded m h = try_except (thenE m (ret True)) (\<lambda>e. thenE (h e) (ret False))"

text \<open>The substring test \<open>x in s\<close>.\<close>

definition contains :: "string \<Rightarrow> string \<Rightarrow> bool" where
  "contains x s = list_ex (\<lambda>i. take (length x) (drop i s) = x) [0..<Suc (length s)]"

text \<open>\<open>==\<close> between a string and a boolean is always false.\<close>

definition py_eq_str_bool :: "string \<Rightarrow> bool \<Rightarrow> bool" where
  "py_eq_str_bool s b = (PStr s = PBool b)"

definition nl :: string where "nl = [CHR 0x0A]"

definition pdict :: "(string \<times> pyval) list \<Rightarrow> pyval" where
  "pdict kvs = PList (map (\<lambda>(k, v). PTuple [PStr k, v]) kvs)"

text \<open>\<open>str\<close> of a list of strings, for printable characters.\<close>

definition py_repr :: "string \<Rightarrow> string" where
  "py_repr s =
     (let q = (if CHR 0x27 \<in> set s \<and> CHR 0x22 \<notin> set s then CHR 0x22 else CHR 0x27)
      in [q] @ concat (map (\<lambda>c. if c = CHR 0x5C \<or> c = q then [CHR 0x5C, c]
                                 else if c = CHR 0x0A then [CHR 0x5C, CHR ''n'']
                                 else if c = CHR 0x09 then [CHR 0x5C, CHR ''t'']
                                 else if c = CHR 0x0D then [CHR 0x5C, CHR ''r'']
                                 else [c]) s) @ [q])"

definition join_str :: "string \<Rightarrow> string list \<Rightarrow> string" where
  "join_str sep xs = (case xs of [] \<Rightarrow> [] | y # ys \<Rightarrow> y @ concat (map (\<lambda>z. sep @ z) ys))"

definition py_str_list :: "string list \<Rightarrow> string" where
  "py_str_list xs = ''['' @ join_str '', '' (map py_repr xs) @ '']''"

lemma guarded_cases:
  assumes "guarded m h s = (Inr b, s')"
  shows "b \<and> m s = (Inr (), s') \<or> \<not> b \<and> (\<exists>e s1. m s = (Inl e, s1) \<and> h e s1 = (Inr (), s'))"
  using assms
  by (auto simp: guarded_def try_except_def thenE_def bindE_def ret_def split: prod.splits sum.splits)

section \<open>Frames\<close>

text \<open>\<open>m\<close> moves only along \<open>R\<close>, whether it returns or raises.\<close>

definition moves :: "('s \<Rightarrow> 's \<Rightarrow> bool) \<Rightarrow> ('s, 'a) py \<Rightarrow> bool" where
  "moves R m \<longleftrightarrow> (\<forall>s. R s (snd (m s)))"

lemma movesD: "moves R m \<Longrightarrow> m s = (r, s') \<Longrightarrow> R s s'"
  by (metis moves_def snd_conv)

locale frame =
  fixes R :: "'s \<Rightarrow> 's \<Rightarrow> bool"
  assumes R_refl: "R s s"
    and R_trans: "R s s' \<Longrightarrow> R s' s'' \<Longrightarrow> R s s''"
begin

lemma moves_basic: "moves R (ret x)" "moves R (raise e)" "moves R (getE f)"
  by (simp_all add: moves_def py_monad R_refl)

lemma moves_updE: "(\<And>s. R s (f s)) \<Longrightarrow> moves R (updE f)"
  by (simp add: moves_def py_monad)

lemma moves_bindE: "moves R m \<Longrightarrow> (\<And>a. moves R (k a)) \<Longrightarrow> moves R (bindE m k)"
  unfolding moves_def bindE_def
  by (auto split: prod.splits sum.splits) (metis R_trans snd_conv)+

lemma moves_thenE: "moves R m \<Longrightarrow> moves R k \<Longrightarrow> moves R (thenE m k)"
  unfolding thenE_def by (rule moves_bindE)

lemma moves_try: "moves R m \<Longrightarrow> (\<And>e. moves R (h e)) \<Longrightarrow> moves R (try_except m h)"
  unfolding moves_def try_except_def
  by (auto split: prod.splits sum.splits) (metis R_trans snd_conv)+

lemma moves_guarded: "moves R m \<Longrightarrow> (\<And>e. moves R (h e)) \<Longrightarrow> moves R (guarded m h)"
  unfolding guarded_def by (intro moves_try moves_thenE moves_basic)

lemma moves_if: "(b \<Longrightarrow> moves R m) \<Longrightarrow> (\<not> b \<Longrightarrow> moves R k) \<Longrightarrow> moves R (if b then m else k)"
  by simp

lemma moves_whenE: "(b \<Longrightarrow> moves R m) \<Longrightarrow> moves R (whenE b m)"
  by (simp add: whenE_def moves_basic)

lemma moves_option:
  "(x = None \<Longrightarrow> moves R m) \<Longrightarrow> (\<And>y. x = Some y \<Longrightarrow> moves R (k y)) \<Longrightarrow> moves R (case_option m k x)"
  by (cases x) simp_all

lemma moves_prod: "(\<And>a b. p = (a, b) \<Longrightarrow> moves R (f a b)) \<Longrightarrow> moves R (case_prod f p)"
  by (cases p) simp

lemma moves_forE: "(\<And>x. x \<in> set xs \<Longrightarrow> moves R (f x)) \<Longrightarrow> moves R (forE xs f)"
  by (induction xs) (simp_all add: moves_basic moves_thenE)

lemmas moves_intros =
  moves_basic moves_bindE moves_thenE moves_try moves_guarded moves_if moves_whenE moves_option moves_prod moves_forE

end

locale world_frame = frame R
  for R :: "'a world_scheme \<Rightarrow> 'a world_scheme \<Rightarrow> bool" +
  assumes R_emit: "R s (s\<lparr>trace := trace s @ [e]\<rparr>)"
begin

lemma moves_emit: "moves R (emit e)"
  unfolding emit_def by (rule moves_updE) (rule R_emit)

lemma moves_print: "moves R (py_print m)"
  unfolding py_print_def by (rule moves_emit)

lemma moves_call: "moves R (outside_call E f args)"
  using R_emit by (auto simp: moves_def py_monad)

lemma moves_ask: "moves R (outside_ask q f args)"
  using R_emit by (auto simp: moves_def py_monad)

lemmas world_moves = moves_intros moves_emit moves_print moves_call moves_ask

end

end
