(* ===== verification/Native_Resources.thy ===== *)
theory Native_Resources
  imports Io Py_Outside
begin

text \<open>
  What every object around a native one shares (\<open>NativeResource\<close> of \<open>awscrt/__init__.py\<close>),
  the module \<open>common.py\<close>, the \<open>XXHash\<close> objects of \<open>checksums.py\<close>, and the leak
  checker of \<open>_test.py\<close>, which releases the process-wide defaults of \<open>Io\<close> and then waits
  until nothing is alive.
\<close>

section \<open>Tracking of native objects\<close>

text \<open>The class attributes; objects are named by numbers. An object that has been collected leaves
  the weak set.\<close>

record tracking =
  track_lifetime :: bool
  living :: "nat list"

definition NativeResource_init :: "nat \<Rightarrow> tracking \<Rightarrow> tracking" where
  "NativeResource_init i t =
     (if track_lifetime t then t\<lparr>living := (if i \<in> set (living t) then living t else living t @ [i])\<rparr> else t)"

definition collect :: "nat \<Rightarrow> tracking \<Rightarrow> tracking" where
  "collect i t = t\<lparr>living := removeAll i (living t)\<rparr>"

text \<open>With tracking on, the living objects are those constructed and not collected.\<close>

lemma living_exact:
  "track_lifetime t \<Longrightarrow> set (living (NativeResource_init i t)) = insert i (set (living t))"
  "set (living (collect i t)) = set (living t) - {i}"
  by (auto simp: NativeResource_init_def collect_def)

section \<open>System information\<close>

definition get_cpu_group_count :: "native_env \<Rightarrow> ('a world_scheme, pyval) py" where
  "get_cpu_group_count N = native N ''get_cpu_group_count'' []"

definition get_cpu_count_for_group :: "native_env \<Rightarrow> int \<Rightarrow> ('a world_scheme, pyval) py" where
  "get_cpu_count_for_group N group_idx = native N ''get_cpu_count_for_group'' [PInt group_idx]"

definition join_all_native_threads :: "native_env \<Rightarrow> rat \<Rightarrow> ('a world_scheme, pyval) py" where
  "join_all_native_threads N timeout_sec = native N ''thread_join_all_managed'' [PFloat timeout_sec]"

section \<open>XXHash\<close>

text \<open>An object is the native hash it wraps.\<close>

definition new_xxhash64 :: "native_env \<Rightarrow> int \<Rightarrow> ('a world_scheme, pyval) py" where
  "new_xxhash64 N seed = native N ''xxhash64_new'' [PInt seed]"

definition new_xxhash3_64 :: "native_env \<Rightarrow> int \<Rightarrow> ('a world_scheme, pyval) py" where
  "new_xxhash3_64 N seed = native N ''xxhash3_64_new'' [PInt seed]"

definition new_xxhash3_128 :: "native_env \<Rightarrow> int \<Rightarrow> ('a world_scheme, pyval) py" where
  "new_xxhash3_128 N seed = native N ''xxhash3_128_new'' [PInt seed]"

definition compute_xxhash64 :: "native_env \<Rightarrow> bytes \<Rightarrow> int \<Rightarrow> ('a world_scheme, pyval) py" where
  "compute_xxhash64 N input seed = native N ''xxhash64_compute'' [PBytes input, PInt seed]"

definition compute_xxhash3_64 :: "native_env \<Rightarrow> bytes \<Rightarrow> int \<Rightarrow> ('a world_scheme, pyval) py" where
  "compute_xxhash3_64 N input seed = native N ''xxhash3_64_compute'' [PBytes input, PInt seed]"

definition compute_xxhash3_128 :: "native_env \<Rightarrow> bytes \<Rightarrow> int \<Rightarrow> ('a world_scheme, pyval) py" where
  "compute_xxhash3_128 N input seed = native N ''xxhash3_128_compute'' [PBytes input, PInt seed]"

definition xxhash_update :: "native_env \<Rightarrow> pyval \<Rightarrow> bytes \<Rightarrow> ('a world_scheme, unit) py" where
  "xxhash_update N h input = thenE (native N ''xxhash_update'' [h, PBytes input]) (ret ())"

definition xxhash_finalize :: "native_env \<Rightarrow> pyval \<Rightarrow> ('a world_scheme, pyval) py" where
  "xxhash_finalize N h = native N ''xxhash_finalize'' [h]"

section \<open>The leak checker\<close>

text \<open>
  What the checker sees: two environment variables' worth of configuration, and at its \<open>n\<close>-th
  look the time, the number of living objects and the native memory in use.
\<close>

datatype referrer =
    RFrame string string string
  | RObject string string

text \<open>A frame that refers to an object has a file name; of everything the checker may print, that is
  \<open>str\<close> and \<open>type\<close>, in this order (for a frame, those of its \<open>frameinfo\<close>).\<close>

record living_object =
  ob_str :: string
  ob_type :: string
  ob_getrefcount :: int
  ob_referrers :: "referrer list"

record observations =
  memory_tracing :: "string option"
  print_secrets_ok :: "string option"
  tracking_on :: bool
  clock :: "nat \<Rightarrow> rat"
  leaked :: "nat \<Rightarrow> living_object list"
  native_memory_usage :: "nat \<Rightarrow> int"

definition living_count :: "observations \<Rightarrow> nat \<Rightarrow> nat" where
  "living_count Ob n = length (leaked Ob n)"

definition is_clean :: "observations \<Rightarrow> nat \<Rightarrow> bool" where
  "is_clean Ob n \<longleftrightarrow> living_count Ob n = 0 \<and> \<not> native_memory_usage Ob n > 0"

text \<open>The waiting loop: the result says whether it found everything freed, and at which look it
  ended; a failing join is raised. The garbage collection and the short sleep are not visible.\<close>

partial_function (option) wait_for_release ::
  "observations \<Rightarrow> native_env \<Rightarrow> rat \<Rightarrow> nat \<Rightarrow> io_state \<Rightarrow> ((pyexc + bool \<times> nat) \<times> io_state) option" where
  "wait_for_release Ob N wait_until n s =
     (if clock Ob n < wait_until then
        (if is_clean Ob n then Some (Inr (True, n), s)
         else (case join_all_native_threads N (1 / 10) s of
                 (Inl e, s') \<Rightarrow> Some (Inl e, s')
               | (Inr _, s') \<Rightarrow> wait_for_release Ob N wait_until (Suc n) s'))
      else Some (Inr (False, n), s))"

declare wait_for_release.simps [code]

definition leak_error :: "nat \<Rightarrow> int \<Rightarrow> pyexc" where
  "leak_error objs mem = RuntimeError (''awscrt leak check failed. '' @ str_int (int objs) @
     '' NativeResource objects. '' @ str_int mem @ '' bytes native memory'')"

text \<open>\<open>s[:n]\<close> and \<open>len(s)\<close>, which count code points.\<close>

definition py_len :: "string \<Rightarrow> nat" where
  "py_len s = length (filter (\<lambda>c. \<not> cont_byte (of_char c)) s)"

fun py_take :: "nat \<Rightarrow> string \<Rightarrow> string" where
  "py_take n [] = []"
| "py_take n (c # cs) =
     (if cont_byte (of_char c) then c # py_take n cs
      else (case n of 0 \<Rightarrow> [] | Suc m \<Rightarrow> c # py_take m cs))"

definition printobj :: "bool \<Rightarrow> string \<Rightarrow> string \<Rightarrow> string \<Rightarrow> ('a world_scheme, unit) py" where
  "printobj leak_secrets_ok prefix str_obj type_obj =
     (if leak_secrets_ok
      then py_print (prefix @ '' '' @ (if py_len str_obj > 1000 then py_take 1000 str_obj @ ''...TRUNCATED PRINT'' else str_obj))
      else py_print (prefix @ '' '' @ type_obj))"

definition ends_with :: "string \<Rightarrow> string \<Rightarrow> bool" where
  "ends_with suffix s = (length suffix \<le> length s \<and> drop (length s - length suffix) s = suffix)"

text \<open>The frames that are there only because the checker looks.\<close>

definition our_fault :: "referrer \<Rightarrow> bool" where
  "our_fault r = (case r of
     RFrame filename _ _ \<Rightarrow> ends_with ''_weakrefset.py'' filename \<or> ends_with ''awscrt/_test.py'' filename
   | RObject _ _ \<Rightarrow> False)"

definition print_referrer :: "bool \<Rightarrow> referrer \<Rightarrow> ('a world_scheme, unit) py" where
  "print_referrer leak_secrets_ok r = (case r of
     RFrame _ x t \<Rightarrow> printobj leak_secrets_ok ''  -'' x t
   | RObject x t \<Rightarrow> printobj leak_secrets_ok ''  -'' x t)"

definition report_object :: "bool \<Rightarrow> living_object \<Rightarrow> ('a world_scheme, unit) py" where
  "report_object leak_secrets_ok i =
     (let referrers = filter (\<lambda>r. \<not> our_fault r) (ob_referrers i)
      in thenE (printobj leak_secrets_ok ''-'' (ob_str i) (ob_type i))
        (thenE (py_print (''  sys.getrefcount(): '' @ str_int (ob_getrefcount i - 2)))
        (thenE (py_print (''  gc.referrers(): '' @ str_int (int (length referrers))))
         (forE referrers (print_referrer leak_secrets_ok)))))"

definition dump_native_memory :: "native_env \<Rightarrow> ('a world_scheme, pyval) py" where
  "dump_native_memory N = native N ''native_memory_dump'' []"

definition leak_report :: "native_env \<Rightarrow> observations \<Rightarrow> nat \<Rightarrow> ('a world_scheme, unit) py" where
  "leak_report N Ob n =
     (let leak_secrets_ok = (print_secrets_ok Ob = Some ''1'') in
      thenE (whenE (leaked Ob n \<noteq> [])
        (thenE (py_print (if leak_secrets_ok then ''Leaking NativeResources:''
                          else ''Leaking NativeResources (set AWS_CRT_MEMORY_PRINT_SECRETS_OK=1 env var for more detailed report):''))
          (forE (leaked Ob n) (report_object leak_secrets_ok))))
     (thenE (whenE (native_memory_usage Ob n > 0)
        (thenE (py_print (''Leaking '' @ str_int (native_memory_usage Ob n) @
                  '' bytes native memory (enable Trace logging to see more)''))
        (thenE (dump_native_memory N) (ret ()))))
      (raise (leak_error (living_count Ob n) (native_memory_usage Ob n)))))"

definition check_for_leaks ::
  "observations \<Rightarrow> native_env \<Rightarrow> rat \<Rightarrow> io_state \<Rightarrow> ((pyexc + unit) \<times> io_state) option" where
  "check_for_leaks Ob N timeout_sec s =
     (case (thenE ClientBootstrap_release_static_default
           (thenE EventLoopGroup_release_static_default
           (thenE DefaultHostResolver_release_static_default
           (if memory_tracing Ob \<noteq> Some ''2'' then
              raise (RuntimeError ''environment variable AWS_CRT_MEMORY_TRACING=2 must be set for accurate leak checks'')
            else if \<not> tracking_on Ob then
              raise (RuntimeError ''awscrt.NativeResource._track_lifetime=True must be set for accurate leak checks'')
            else ret ())))) s of
        (Inl e, s1) \<Rightarrow> Some (Inl e, s1)
      | (Inr _, s1) \<Rightarrow>
          (case wait_for_release Ob N (clock Ob 0 + timeout_sec) 1 s1 of
             None \<Rightarrow> None
           | Some (Inl e, s2) \<Rightarrow> Some (Inl e, s2)
           | Some (Inr (ok, n), s2) \<Rightarrow> Some (if ok then (Inr (), s2) else leak_report N Ob n s2)))"

lemma wait_for_release_result:
  assumes "k \<le> m" "clock Ob m \<ge> w" "\<And>args. \<exists>v. N ''thread_join_all_managed'' args = Inr v"
  shows "\<exists>i s'. wait_for_release Ob N w k s =
    Some (Inr (\<exists>n\<ge>k. is_clean Ob n \<and> (\<forall>j. k \<le> j \<and> j \<le> n \<longrightarrow> clock Ob j < w), i), s')"
  using assms(1)
proof (induction "m - k" arbitrary: k s)
  case 0
  then have "\<not> clock Ob k < w" using assms(2) by simp
  then show ?case by (subst wait_for_release.simps) auto
next
  case (Suc d)
  then have d: "d = m - Suc k" "Suc k \<le> m" by auto
  let ?P = "\<lambda>k. \<exists>n\<ge>k. is_clean Ob n \<and> (\<forall>j. k \<le> j \<and> j \<le> n \<longrightarrow> clock Ob j < w)"
  show ?case
  proof (cases "clock Ob k < w \<and> \<not> is_clean Ob k")
    case True
    then have "?P k \<longleftrightarrow> ?P (Suc k)"
      by (metis Suc_leD Suc_le_eq le_antisym not_less_eq_eq)
    moreover obtain v where "N ''thread_join_all_managed'' [PFloat (1 / 10)] = Inr v" using assms(3) by blast
    ultimately show ?thesis
      using Suc.hyps(1) [OF d] True
      by (subst wait_for_release.simps) (auto simp: join_all_native_threads_def py_monad)
  next
    case False
    then show ?thesis
      by (subst wait_for_release.simps) (auto intro: exI [of _ k])
  qed
qed

text \<open>
  If the clock reaches the deadline and joining threads works, the check ends: normally exactly if
  everything was freed at one of the looks within the time, and with the process-wide defaults
  released in either case.
\<close>

text \<open>Code that only prints.\<close>

definition only_prints :: "('a world_scheme, unit) py \<Rightarrow> bool" where
  "only_prints m \<longleftrightarrow> (\<forall>s. \<exists>es. m s = (Inr (), s\<lparr>trace := trace s @ es\<rparr>))"

lemma only_prints_basic: "only_prints (ret ())" "only_prints (py_print x)"
  by (auto simp: only_prints_def py_monad intro: exI [of _ "[]"])

lemma only_prints_then:
  assumes "only_prints m" "only_prints k" shows "only_prints (thenE m k)"
  unfolding only_prints_def
proof
  fix s
  obtain es where es: "m s = (Inr (), s\<lparr>trace := trace s @ es\<rparr>)" using assms(1) only_prints_def by blast
  obtain fs where "k (s\<lparr>trace := trace s @ es\<rparr>) = (Inr (), s\<lparr>trace := trace s @ es @ fs\<rparr>)"
    using assms(2) [unfolded only_prints_def, rule_format, of "s\<lparr>trace := trace s @ es\<rparr>"] by auto
  with es show "\<exists>es. thenE m k s = (Inr (), s\<lparr>trace := trace s @ es\<rparr>)" by (auto simp: thenE_def bindE_def)
qed

lemma only_prints_when: "only_prints m \<Longrightarrow> only_prints (whenE b m)"
  by (simp add: whenE_def only_prints_basic)

lemma only_prints_forE: "(\<And>x. only_prints (f x)) \<Longrightarrow> only_prints (forE xs f)"
  by (induction xs) (simp_all add: only_prints_basic only_prints_then)

lemma printobj_prints: "only_prints (printobj b prefix x t)"
  by (simp add: printobj_def only_prints_basic)

lemma referrer_prints: "only_prints (print_referrer b r)"
  by (cases r) (simp_all add: print_referrer_def printobj_prints)

lemma report_object_prints: "only_prints (report_object b i)"
  unfolding report_object_def Let_def
  by (intro only_prints_then only_prints_forE only_prints_basic printobj_prints referrer_prints)

lemma leak_report_raises:
  fixes s :: "'a world_scheme"
  assumes "\<And>args. \<exists>v. N ''native_memory_dump'' args = Inr v"
  shows "fst (leak_report N Ob n s) = Inl (leak_error (living_count Ob n) (native_memory_usage Ob n))"
proof -
  have then_raise: "fst (thenE m k s) = Inl e" if "\<And>s. \<exists>s'. m s = (Inr (), s')" "\<And>s. fst (k s) = Inl e"
    for m k :: "('a world_scheme, unit) py" and s e
    using that(1) [of s] that(2) by (auto simp: thenE_def bindE_def)
  obtain v where v: "N ''native_memory_dump'' [] = Inr v" using assms by blast
  have "only_prints (whenE (leaked Ob n \<noteq> []) (thenE (py_print x) (forE (leaked Ob n) (report_object b))) :: ('a world_scheme, unit) py)" for x b
    by (intro only_prints_when only_prints_then only_prints_basic only_prints_forE report_object_prints)
  then have A: "\<exists>s'. whenE (leaked Ob n \<noteq> []) (thenE (py_print x) (forE (leaked Ob n) (report_object b))) s = (Inr (), s')"
    for x b and s :: "'a world_scheme"
    unfolding only_prints_def by blast
  show ?thesis
    unfolding leak_report_def Let_def by (intro then_raise A) (auto simp: dump_native_memory_def py_monad v)
qed

lemma leak_check_decides:
  assumes "memory_tracing Ob = Some ''2''" "tracking_on Ob" "1 \<le> m" "clock Ob m \<ge> clock Ob 0 + t"
    and "\<And>args. \<exists>v. N ''thread_join_all_managed'' args = Inr v"
    and "\<And>args. \<exists>v. N ''native_memory_dump'' args = Inr v"
  shows "\<exists>i s'. check_for_leaks Ob N t s =
    Some (if \<exists>n\<ge>1. is_clean Ob n \<and> (\<forall>j. 1 \<le> j \<and> j \<le> n \<longrightarrow> clock Ob j < clock Ob 0 + t)
          then Inr () else Inl (leak_error (living_count Ob i) (native_memory_usage Ob i)), s')"
proof -
  obtain s1 where "(thenE ClientBootstrap_release_static_default
           (thenE EventLoopGroup_release_static_default DefaultHostResolver_release_static_default)) s = (Inr (), s1)"
    by (simp add: ClientBootstrap_release_static_default_def EventLoopGroup_release_static_default_def
        DefaultHostResolver_release_static_default_def py_monad)
  moreover have "\<exists>s'. leak_report N Ob n s = (Inl (leak_error (living_count Ob n) (native_memory_usage Ob n)), s')" for n s
    using leak_report_raises [of N Ob n s] assms(6) by (metis prod.collapse)
  ultimately show ?thesis
    using wait_for_release_result [of 1 m "clock Ob 0 + t" Ob N s1] assms(1-5)
    by (fastforce simp: check_for_leaks_def thenE_def bindE_def ret_def split: prod.splits sum.splits)
qed

section \<open>What the report gives away\<close>

text \<open>An object of which only the types are known.\<close>

definition redact_referrer :: "referrer \<Rightarrow> referrer" where
  "redact_referrer r = (case r of RFrame filename x t \<Rightarrow> RFrame filename [] t | RObject x t \<Rightarrow> RObject [] t)"

definition redact :: "living_object \<Rightarrow> living_object" where
  "redact i = i\<lparr>ob_str := [], ob_referrers := map redact_referrer (ob_referrers i)\<rparr>"

lemma forE_map: "forE (map g xs) f = forE xs (\<lambda>x. f (g x))"
  by (induction xs) simp_all

lemma referrer_redacted [simp]:
  "our_fault (redact_referrer r) = our_fault r"
  "print_referrer False (redact_referrer r) = print_referrer False r"
  by (cases r; simp add: our_fault_def redact_referrer_def print_referrer_def printobj_def)+

lemma report_redacted: "report_object False (redact i) = report_object False i"
  by (simp add: report_object_def redact_def Let_def printobj_def filter_map o_def forE_map)

lemma leak_report_redacted:
  "print_secrets_ok Ob \<noteq> Some ''1'' \<Longrightarrow>
   leak_report N (Ob\<lparr>leaked := \<lambda>n. map redact (leaked Ob n)\<rparr>) n = leak_report N Ob n"
  by (simp add: leak_report_def Let_def forE_map report_redacted living_count_def)

text \<open>The waiting loop sees only the clock and whether anything is left.\<close>

lemma wait_cong:
  assumes "wait_for_release P N w k s = Some r"
  shows "\<forall>Q. is_clean Q = is_clean P \<longrightarrow> clock Q = clock P \<longrightarrow> wait_for_release Q N w k s = Some r"
  using assms
proof (induction rule: wait_for_release.raw_induct [rotated, consumes 1])
  case (1 f P N w k s y)
  show ?case
  proof (intro allI impI)
    fix Q assume Q: "is_clean Q = is_clean P" "clock Q = clock P"
    have IH: "f P N w (Suc k) s' = Some y \<Longrightarrow> wait_for_release Q N w (Suc k) s' = Some y" for s'
      using 1(1) Q by blast
    show "wait_for_release Q N w k s = Some y"
      unfolding wait_for_release.simps [of Q N w k s] Q using 1(2) IH by (auto split: if_splits prod.splits sum.splits)
  qed
qed

lemma wait_redacted:
  "wait_for_release (Ob\<lparr>leaked := \<lambda>n. map redact (leaked Ob n)\<rparr>) N w k s = wait_for_release Ob N w k s"
proof -
  let ?O = "Ob\<lparr>leaked := \<lambda>n. map redact (leaked Ob n)\<rparr>"
  have c: "is_clean ?O = is_clean Ob" "clock ?O = clock Ob"
    by (simp_all add: is_clean_def living_count_def fun_eq_iff)
  show ?thesis
  proof (cases "wait_for_release Ob N w k s")
    case (Some r)
    with wait_cong [OF Some] c show ?thesis by simp
  next
    case None
    have "wait_for_release Ob N w k s = Some r" if "wait_for_release ?O N w k s = Some r" for r
      using wait_cong [OF that, rule_format, OF c(1) [symmetric] c(2) [symmetric]] .
    with None show ?thesis by (cases "wait_for_release ?O N w k s") simp_all
  qed
qed

text \<open>
  (C11) Unless \<open>AWS_CRT_MEMORY_PRINT_SECRETS_OK\<close> is set to 1, nothing the leak checker does, neither
  its verdict nor what it prints, depends on the contents of the leaking objects or of what refers to
  them: only their types, numbers and reference counts are visible.
\<close>

theorem leak_report_keeps_secrets:
  assumes "print_secrets_ok Ob \<noteq> Some ''1''"
  shows "check_for_leaks (Ob\<lparr>leaked := \<lambda>n. map redact (leaked Ob n)\<rparr>) N t s = check_for_leaks Ob N t s"
proof -
  have f: "clock (Ob\<lparr>leaked := l\<rparr>) = clock Ob" "memory_tracing (Ob\<lparr>leaked := l\<rparr>) = memory_tracing Ob"
    "tracking_on (Ob\<lparr>leaked := l\<rparr>) = tracking_on Ob" for l
    by simp_all
  show ?thesis unfolding check_for_leaks_def f wait_redacted leak_report_redacted [OF assms] ..
qed

definition leak_ex :: observations where
  "leak_ex = \<lparr>memory_tracing = Some ''2'', print_secrets_ok = None, tracking_on = True, clock = (\<lambda>n. of_nat n),
     leaked = (\<lambda>n. [\<lparr>ob_str = ''password'', ob_type = ''T'', ob_getrefcount = 4, ob_referrers = [RObject ''key'' ''U'']\<rparr>]),
     native_memory_usage = (\<lambda>n. 0)\<rparr>"

theorem leak_report_keeps_secrets_witness:
  "check_for_leaks (leak_ex\<lparr>leaked := \<lambda>n. map redact (leaked leak_ex n)\<rparr>) (\<lambda>_ _. Inr PNone) 2 io_init =
     check_for_leaks leak_ex (\<lambda>_ _. Inr PNone) 2 io_init"
  using leak_report_keeps_secrets [of leak_ex] by (simp add: leak_ex_def)

end
