(* ===== verification/Canary_Snapshot.thy ===== *)
theory Canary_Snapshot
  imports Py_Outside
begin

text \<open>
  The reporting half of the canary wrapper, \<open>DataSnapshot\<close> and its helpers of
  \<open>codebuild/CanaryWrapper_Classes.py\<close>, and the metric functions of
  \<open>CanaryWrapper_MetricFunctions.py\<close>: metrics and their history, alarms, dashboards, the log
  file and its upload.
\<close>

section \<open>Metrics\<close>

text \<open>The three functions a metric can be read with; \<open>None\<close> for a metric without one.\<close>

datatype metric_function = CpuUsage | MemoryValue | MemoryPercent

record metric =
  metric_name :: string
  metric_function :: "metric_function option"
  metric_dimensions :: "(string \<times> string) list"
  metric_unit :: string
  metric_alarm_threshold :: "int option"
  metric_alarm_name :: string
  metric_alarm_description :: string
  metric_value :: "rat option"
  reports_to_skip :: int
  metric_alarm_severity :: int
  is_percent :: bool

definition DataSnapshot_Metric ::
  "string \<Rightarrow> metric_function option \<Rightarrow> (string \<times> string) list \<Rightarrow> string \<Rightarrow> int option \<Rightarrow> int \<Rightarrow>
   string \<Rightarrow> string \<Rightarrow> int \<Rightarrow> bool \<Rightarrow> metric" where
  "DataSnapshot_Metric name f dims unt threshold severity hash repo skip pct =
     \<lparr>metric_name = name, metric_function = f, metric_dimensions = dims, metric_unit = unt,
      metric_alarm_threshold = threshold,
      metric_alarm_name = name @ ''-'' @ repo @ ''-'' @ hash,
      metric_alarm_description = ''Alarm for metric \"'' @ name @ ''\" - git hash: '' @ hash,
      metric_value = None, reports_to_skip = skip, metric_alarm_severity = severity,
      is_percent = pct\<rparr>"

definition pv_dimensions :: "(string \<times> string) list \<Rightarrow> pyval" where
  "pv_dimensions ds = PList (map (\<lambda>(n, v). pdict [(''Name'', PStr n), (''Value'', PStr v)]) ds)"

text \<open>The data sent to CloudWatch, or nothing; a report to skip is counted down first.\<close>

definition get_metric_cloudwatch_dictionary :: "metric \<Rightarrow> pyval option \<times> metric" where
  "get_metric_cloudwatch_dictionary m =
     (if 0 < reports_to_skip m then (None, m\<lparr>reports_to_skip := reports_to_skip m - 1\<rparr>)
      else (case metric_value m of
              None \<Rightarrow> (None, m)
            | Some v \<Rightarrow>
                (Some (pdict [(''MetricName'', PStr (metric_name m)),
                   (''Dimensions'', pv_dimensions (metric_dimensions m)),
                   (''Value'', PFloat v), (''Unit'', PStr (metric_unit m))]), m)))"

section \<open>Dashboard widgets\<close>

record widget =
  metric_list :: "string list"
  widget_region :: string
  widget_name :: string
  metric_namespace :: "string option"
  metric_dimension :: string
  widget_period :: int

definition DataSnapshot_Dashboard_Widget ::
  "string \<Rightarrow> string option \<Rightarrow> string \<Rightarrow> string \<Rightarrow> int \<Rightarrow> widget" where
  "DataSnapshot_Dashboard_Widget name ns dmn region period =
     \<lparr>metric_list = [], widget_region = region, widget_name = name, metric_namespace = ns,
      metric_dimension = dmn, widget_period = period\<rparr>"

definition get_widget_dictionary :: "widget \<Rightarrow> pyval" where
  "get_widget_dictionary w =
     pdict [(''type'', PStr ''metric''),
       (''properties'', pdict
         [(''metrics'', PList (map (\<lambda>n. PList [pv PStr (metric_namespace w), PStr n,
             PStr (metric_dimension w), PStr n]) (metric_list w))),
          (''region'', PStr (widget_region w)),
          (''title'', PStr (widget_name w)),
          (''period'', PInt (widget_period w))]),
       (''width'', PInt 14), (''height'', PInt 10)]"

section \<open>The snapshot\<close>

text \<open>
  A file object is closed or open for writing or reading. \<open>log_text\<close> and
  \<open>result_text\<close> are the contents of the two files the snapshot writes: its log and the
  file it uploads. A client attribute says whether it holds a client or \<open>None\<close>.
  \<open>output_to_file\<close> is a Python value because the code assigns it a file object too.
\<close>

datatype file_handle = Closed | Writing | Reading

record snapshot = world +
  metrics :: "metric list"
  metrics_numbers :: "rat option list list"
  metric_report_number :: int
  metric_report_non_zero_count :: nat
  perform_final_initialization :: bool
  abort_due_to_internal_error :: bool
  abort_due_to_internal_error_reason :: string
  abort_due_to_internal_error_due_to_credentials :: bool
  git_hash :: "string option"
  git_repo_name :: "string option"
  git_hash_as_namespace :: bool
  git_fixed_namespace_text :: string
  git_metric_namespace :: "string option"
  cloudwatch_region :: string
  cloudwatch_client :: bool
  cloudwatch_make_dashboard :: bool
  cloudwatch_teardown_alarms_on_complete :: bool
  cloudwatch_teardown_dashboard_on_complete :: bool
  cloudwatch_dashboard_name :: string
  cloudwatch_dashboard_widgets :: "widget list"
  s3_bucket_name :: string
  s3_client :: bool
  s3_bucket_upload_on_complete :: bool
  output_to_file_filepath :: "string option"
  output_to_file :: pyval
  output_file :: "file_handle option"
  output_to_console :: bool
  lambda_client :: bool
  lambda_name :: string
  datetime_string :: "string option"
  metric_frequency :: "int option"
  cache_cpu_psutil_process :: "nat option"
  log_text :: string
  result_text :: string

text \<open>\<open>None\<close> where a string is concatenated is a \<open>TypeError\<close>.\<close>

definition as_str :: "string option \<Rightarrow> ('s, string) py" where
  [py_monad]: "as_str x = (case x of None \<Rightarrow> raise (TypeError ''str expected, not NoneType'') | Some t \<Rightarrow> ret t)"

subsection \<open>Messages\<close>

definition write_output :: "string \<Rightarrow> ('a snapshot_scheme, unit) py" where
  [py_monad]: "write_output t =
     bindE (getE output_file) (\<lambda>h. case h of
        None \<Rightarrow> raise (AttributeError ''write'')
      | Some Closed \<Rightarrow> raise (ValueError ''I/O operation on closed file.'')
      | Some Reading \<Rightarrow> raise (BuiltinExc ''UnsupportedOperation'')
      | Some Writing \<Rightarrow> updE (\<lambda>s. s\<lparr>log_text := log_text s @ t\<rparr>))"

definition print_message :: "string \<Rightarrow> ('a snapshot_scheme, unit) py" where
  "print_message m =
     thenE (bindE (getE output_to_file) (\<lambda>v. whenE (v = PBool True) (write_output (m @ nl))))
           (bindE (getE output_to_console) (\<lambda>c. whenE c (py_print m)))"

text \<open>The abort flag with its reason, which the monitor reads later.\<close>

definition set_abort :: "string \<Rightarrow> ('a snapshot_scheme, unit) py" where
  [py_monad]: "set_abort r = updE (\<lambda>s. s\<lparr>abort_due_to_internal_error := True,
     abort_due_to_internal_error_reason := r\<rparr>)"

text \<open>A message, the text of the exception, then the abort flag: the shape of most handlers.\<close>

definition report_exc :: "outside \<Rightarrow> string \<Rightarrow> pyexc \<Rightarrow> ('a snapshot_scheme, unit) py" where
  "report_exc E m e =
     thenE (print_message m) (print_message (''[DataSnapshot] Exception: '' @ exc_str E e))"

definition call_on :: "outside \<Rightarrow> ('a snapshot_scheme \<Rightarrow> bool) \<Rightarrow> string \<Rightarrow> pyval list \<Rightarrow> ('a snapshot_scheme, unit) py" where
  [py_monad]: "call_on E client f args =
     bindE (getE client) (\<lambda>c. if c then outside_call E f args else raise (AttributeError f))"

subsection \<open>Construction\<close>

text \<open>The attributes set before anything is checked.\<close>

definition snapshot_init ::
  "bool \<Rightarrow> string \<Rightarrow> string option \<Rightarrow> string option \<Rightarrow> bool \<Rightarrow> string \<Rightarrow> bool \<Rightarrow> bool \<Rightarrow> bool \<Rightarrow> string \<Rightarrow>
   bool \<Rightarrow> string \<Rightarrow> int option \<Rightarrow> 'a \<Rightarrow> 'a snapshot_scheme" where
  "snapshot_init as_ns fixed dt path console region dash tda tdd bucket upload lam freq rest =
     \<lparr>trace = [], metrics = [], metrics_numbers = [], metric_report_number = 0,
      metric_report_non_zero_count = 4, perform_final_initialization = True,
      abort_due_to_internal_error = False, abort_due_to_internal_error_reason = [],
      abort_due_to_internal_error_due_to_credentials = False,
      git_hash = None, git_repo_name = None, git_hash_as_namespace = as_ns,
      git_fixed_namespace_text = fixed, git_metric_namespace = None,
      cloudwatch_region = region, cloudwatch_client = False, cloudwatch_make_dashboard = dash,
      cloudwatch_teardown_alarms_on_complete = tda, cloudwatch_teardown_dashboard_on_complete = tdd,
      cloudwatch_dashboard_name = [], cloudwatch_dashboard_widgets = [],
      s3_bucket_name = bucket, s3_client = False, s3_bucket_upload_on_complete = upload,
      output_to_file_filepath = path, output_to_file = PBool False, output_file = None,
      output_to_console = console, lambda_client = False, lambda_name = lam,
      datetime_string = dt, metric_frequency = freq, cache_cpu_psutil_process = None,
      log_text = [], result_text = [], \<dots> = rest\<rparr>"

text \<open>
  The checks of the constructor, in order; each failure sets the abort flag and returns at once. A
  failing \<open>open\<close> of the log is not caught.
\<close>

definition make_client ::
  "outside \<Rightarrow> string \<Rightarrow> pyval list \<Rightarrow> ('a snapshot_scheme \<Rightarrow> 'a snapshot_scheme) \<Rightarrow> string \<Rightarrow>
   ('a snapshot_scheme, unit) py \<Rightarrow> ('a snapshot_scheme, unit) py" where
  "make_client E service args upd name k =
     bindE (try_except (thenE (outside_call E ''boto3.client'' (PStr service # args))
                              (thenE (updE upd) (ret True)))
              (\<lambda>e. thenE (report_exc E (''[DataSnapshot] ERROR - could not make '' @ name @
                                        '' client due to exception!'') e)
                   (thenE (set_abort (''Could not make '' @ name @ '' client!'')) (ret False))))
       (\<lambda>ok. whenE ok k)"

definition namespace_text :: "('a snapshot_scheme) \<Rightarrow> string \<Rightarrow> string \<Rightarrow> string" where
  "namespace_text s repo hash =
     (if \<not> git_hash_as_namespace s then git_fixed_namespace_text s
      else (case datetime_string s of
              None \<Rightarrow> repo @ ''-'' @ hash
            | Some dt \<Rightarrow> repo @ ''/'' @ dt @ ''-'' @ hash))"

definition open_log :: "outside \<Rightarrow> ('a snapshot_scheme, unit) py" where
  "open_log E =
     bindE (getE output_to_file_filepath) (\<lambda>p. case p of
        None \<Rightarrow> updE (\<lambda>s. s\<lparr>output_to_file := PBool False, output_file := None\<rparr>)
      | Some path \<Rightarrow>
          thenE (updE (\<lambda>s. s\<lparr>output_to_file := PBool True\<rparr>))
         (thenE (outside_call E ''open'' [PStr path, PStr ''w''])
                (updE (\<lambda>s. s\<lparr>output_file := Some Writing, log_text := []\<rparr>))))"

definition DataSnapshot :: "outside \<Rightarrow> string option \<Rightarrow> string option \<Rightarrow> ('a snapshot_scheme, unit) py" where
  "DataSnapshot E hash repo =
     bindE (try_except (thenE (outside_call E ''boto3.client'' [PStr ''sts''])
                       (thenE (outside_call E ''get_caller_identity'' []) (ret True)))
              (\<lambda>e. thenE (py_print ''[DataSnapshot] ERROR - AWS credentials are NOT valid!'')
                   (thenE (set_abort ''AWS credentials are NOT valid!'')
                   (thenE (updE (\<lambda>s. s\<lparr>abort_due_to_internal_error_due_to_credentials := True\<rparr>))
                          (ret False)))))
       (\<lambda>ok. whenE ok
         (case (hash, repo) of
            (Some h, Some r) \<Rightarrow>
              thenE (updE (\<lambda>s. s\<lparr>git_hash := Some h, git_repo_name := Some r,
                                  git_metric_namespace := Some (namespace_text s r h)\<rparr>))
             (bindE (getE cloudwatch_region) (\<lambda>region.
                make_client E ''cloudwatch'' [PStr region]
                  (\<lambda>s. s\<lparr>cloudwatch_client := True,
                          cloudwatch_dashboard_name := namespace_text s r h\<rparr>) ''Cloudwatch''
               (make_client E ''s3'' [] (\<lambda>s. s\<lparr>s3_client := True\<rparr>) ''S3''
               (make_client E ''lambda'' [PStr region] (\<lambda>s. s\<lparr>lambda_client := True\<rparr>) ''Lambda''
               (thenE (open_log E) (print_message ''[DataSnapshot] Data snapshot created!''))))))
          | _ \<Rightarrow>
              thenE (py_print ''[DataSnapshot] ERROR - a Git hash and repository name are REQUIRED for the canary wrapper to run!'')
                    (set_abort ''No Git hash and repository passed!'')))"

subsection \<open>Alarms\<close>

definition add_cloudwatch_metric_alarm :: "outside \<Rightarrow> metric \<Rightarrow> ('a snapshot_scheme, unit) py" where
  "add_cloudwatch_metric_alarm E m =
     bindE (getE cloudwatch_client) (\<lambda>c.
       if \<not> c then print_message ''[DataSnapshot] ERROR - Cloudwatch client not setup. Cannot register alarm''
       else bindE (getE git_metric_namespace) (\<lambda>ns.
         try_except (outside_call E ''put_metric_alarm''
             [PStr (metric_alarm_name m), PStr (metric_alarm_description m), PStr (metric_name m),
              pv PStr ns, PStr ''Maximum'', pv_dimensions (metric_dimensions m), PInt 60, PInt 120,
              PInt 1, pv PInt (metric_alarm_threshold m), PStr ''GreaterThanOrEqualToThreshold''])
           (\<lambda>e. report_exc E (''[DataSnapshot] ERROR - could not register alarm for metric due to exception: ''
                              @ metric_name m) e)))"

definition cleanup_cloudwatch_alarms :: "outside \<Rightarrow> ('a snapshot_scheme, unit) py" where
  "cleanup_cloudwatch_alarms E =
     bindE (getE cloudwatch_teardown_alarms_on_complete) (\<lambda>b. whenE b
       (try_except
          (bindE (getE metrics) (\<lambda>ms. forE ms (\<lambda>m.
             whenE (metric_alarm_threshold m \<noteq> None)
               (call_on E cloudwatch_client ''delete_alarms'' [PList [PStr (metric_alarm_name m)]]))))
          (\<lambda>e. report_exc E ''[DataSnapshot] ERROR - could not delete alarms due to exception!'' e)))"

definition cleanup_cloudwatch_dashboard :: "outside \<Rightarrow> ('a snapshot_scheme, unit) py" where
  "cleanup_cloudwatch_dashboard E =
     bindE (getE cloudwatch_teardown_dashboard_on_complete) (\<lambda>b. whenE b
       (try_except
          (bindE (getE cloudwatch_dashboard_name) (\<lambda>n.
             thenE (call_on E cloudwatch_client ''delete_dashboards'' [PList [PStr n]])
                   (print_message ''[DataSnapshot] Cloudwatch Dashboards deleted successfully!'')))
          (\<lambda>e. thenE (report_exc E ''[DataSnapshot] ERROR - dashboard cleaning function failed due to exception!'' e)
                     (set_abort ''Cloudwatch dashboard cleaning function failed due to exception''))))"

definition init_cloudwatch_pre_first_run_dashboard :: "outside \<Rightarrow> ('a snapshot_scheme, unit) py" where
  "init_cloudwatch_pre_first_run_dashboard E =
     try_except
       (thenE (cleanup_cloudwatch_dashboard E)
       (bindE (getE cloudwatch_dashboard_widgets) (\<lambda>ws.
        bindE (getE cloudwatch_dashboard_name) (\<lambda>n.
        thenE (call_on E cloudwatch_client ''put_dashboard''
                 [PStr n, pdict [(''start'', PStr ''-PT1H''),
                                 (''widgets'', PList (map get_widget_dictionary ws))]])
              (print_message ''[DataSnapshot] Added Cloudwatch dashboard successfully'')))))
       (\<lambda>e. thenE (report_exc E ''[DataSnapshot] ERROR - Cloudwatch client could not make dashboard due to exception!'' e)
                  (set_abort ''Cloudwatch client could not make dashboard due to exception''))"

definition init_cloudwatch_pre_first_run :: "outside \<Rightarrow> ('a snapshot_scheme, unit) py" where
  "init_cloudwatch_pre_first_run E =
     thenE (bindE (getE metrics) (\<lambda>ms. forE ms (\<lambda>m.
              whenE (metric_alarm_threshold m \<noteq> None) (add_cloudwatch_metric_alarm E m))))
           (bindE (getE cloudwatch_make_dashboard) (\<lambda>b.
              whenE b (init_cloudwatch_pre_first_run_dashboard E)))"

text \<open>
  The state of the alarms of one metric: whether none is in the state ALARM, the name of the first
  one that is, and the severity.
\<close>

type_synonym alarm_result = "bool \<times> string option \<times> int"

definition check_cloudwatch_alarm_state_metric :: "outside \<Rightarrow> metric \<Rightarrow> ('a snapshot_scheme, alarm_result) py" where
  "check_cloudwatch_alarm_state_metric E m =
     bindE (getE cloudwatch_client) (\<lambda>c.
       if \<not> c then raise (AttributeError ''describe_alarms_for_metric'')
       else bindE (getE git_metric_namespace) (\<lambda>ns.
         bindE (outside_ask (o_alarms E) ''describe_alarms_for_metric''
                  [PStr (metric_name m), pv PStr ns, pv_dimensions (metric_dimensions m)])
           (\<lambda>alarms. ret (case find (\<lambda>a. fst a = ''ALARM'') alarms of
               None \<Rightarrow> (True, None, metric_alarm_severity m)
             | Some a \<Rightarrow> (False, Some (snd a), metric_alarm_severity m)))))"

text \<open>
  The loop over the metrics. The condition \<open>"Alive_Alarm" in tmp[1] == False\<close> is a chain of two
  comparisons, \<open>"Alive_Alarm" in tmp[1] and tmp[1] == False\<close>.
\<close>

fun check_alarm_states :: "outside \<Rightarrow> metric list \<Rightarrow> (string \<times> int) list \<Rightarrow> ('a snapshot_scheme, (string \<times> int) list) py" where
  "check_alarm_states E [] acc = ret acc"
| "check_alarm_states E (m # ms) acc =
     bindE (check_cloudwatch_alarm_state_metric E m) (\<lambda>(ok, name, sev).
       check_alarm_states E ms
         (case name of
            None \<Rightarrow> acc
          | Some n \<Rightarrow>
              (if contains ''Alive_Alarm'' n \<and> py_eq_str_bool n False
               then (if \<not> ok then acc @ [(n, sev)] else acc)
               else acc)))"

definition get_cloudwatch_alarm_results :: "outside \<Rightarrow> ('a snapshot_scheme, (string \<times> int) list) py" where
  "get_cloudwatch_alarm_results E = bindE (getE metrics) (\<lambda>ms. check_alarm_states E ms [])"

subsection \<open>Upload of the log and clean-up\<close>

text \<open>The S3 key of the uploaded file.\<close>

definition s3_log_key :: "bool \<Rightarrow> string option \<Rightarrow> string \<Rightarrow> string \<Rightarrow> string" where
  "s3_log_key err dt repo hash =
     (if \<not> err then
        (case dt of None \<Rightarrow> repo @ ''/'' @ hash @ ''.log''
                  | Some d \<Rightarrow> repo @ ''/'' @ d @ ''/'' @ hash @ ''.log'')
      else
        (case dt of None \<Rightarrow> repo @ ''/Failed_Logs/'' @ hash @ ''.log''
                  | Some d \<Rightarrow> repo @ ''/Failed_Logs/'' @ d @ ''/'' @ hash @ ''.log''))"

definition log_banner :: string where
  "log_banner = nl @ nl @ ''OUTPUT LOG'' @ nl @ replicate 90 (CHR ''='') @ nl"

text \<open>
  Copying the log into the file to upload: the log is closed, reopened for reading and copied. If it
  was open before, it is then opened for appending, and the new file object is assigned to
  \<open>output_to_file\<close>, while \<open>output_file\<close> keeps the object that was just closed.
\<close>

definition copy_log :: "outside \<Rightarrow> ('a snapshot_scheme, unit) py" where
  "copy_log E =
     bindE (getE output_file) (\<lambda>h.
     thenE (updE (\<lambda>s. if h \<noteq> None then s\<lparr>output_file := Some Closed\<rparr> else s))
    (bindE (bindE (getE output_to_file_filepath) as_str) (\<lambda>path.
       thenE (outside_call E ''open'' [PStr path, PStr ''r''])
      (thenE (updE (\<lambda>s. s\<lparr>result_text := result_text s @ log_banner @ log_text s,
                            output_file := Some Closed\<rparr>))
             (whenE (h \<noteq> None)
               (thenE (outside_call E ''open'' [PStr path, PStr ''a''])
                      (updE (\<lambda>s. s\<lparr>output_to_file := PObj ''file'' 0\<rparr>))))))))"

definition upload_log :: "outside \<Rightarrow> bool \<Rightarrow> string \<Rightarrow> ('a snapshot_scheme, unit) py" where
  "upload_log E err hash =
     thenE (try_except
         (bindE (getE s3_bucket_name) (\<lambda>bucket. bindE (getE datetime_string) (\<lambda>dt.
          bindE (bindE (getE git_repo_name) as_str) (\<lambda>repo.
            thenE (call_on E s3_client ''upload_file''
                     [PStr (hash @ ''.log''), PStr bucket, PStr (s3_log_key err dt repo hash)])
                  (print_message ''[DataSnapshot] Uploaded to S3!'')))))
         (\<lambda>e. thenE (report_exc E ''[DataSnapshot] ERROR - could not upload to S3 due to exception!'' e)
                    (set_abort ''S3 client had exception and therefore could not upload log!'')))
       (outside_call E ''os.remove'' [PStr (hash @ ''.log'')])"

definition export_result_to_s3_bucket :: "outside \<Rightarrow> bool \<Rightarrow> bool \<Rightarrow> ('a snapshot_scheme, unit) py" where
  "export_result_to_s3_bucket E copy err =
     bindE (getE s3_client) (\<lambda>c.
       if \<not> c then
         thenE (print_message ''[DataSnapshot] ERROR - No S3 client initialized! Cannot send log to S3'')
               (set_abort ''S3 client not initialized and therefore cannot send log to S3'')
       else
         bindE (bindE (getE git_hash) as_str) (\<lambda>hash.
           thenE (outside_call E ''open'' [PStr (hash @ ''.log''), PStr ''w''])
          (thenE (updE (\<lambda>s. s\<lparr>result_text := hash\<rparr>))
          (thenE (bindE (getE output_to_file) (\<lambda>v. whenE (copy \<and> v = PBool True) (copy_log E)))
                 (upload_log E err hash)))))"

definition cleanup :: "outside \<Rightarrow> bool \<Rightarrow> ('a snapshot_scheme, unit) py" where
  "cleanup E err =
     thenE (bindE (getE s3_bucket_upload_on_complete) (\<lambda>b.
              whenE b (export_result_to_s3_bucket E True err)))
    (thenE (cleanup_cloudwatch_alarms E)
    (thenE (bindE (getE cloudwatch_make_dashboard) (\<lambda>b. whenE b (cleanup_cloudwatch_dashboard E)))
    (thenE (print_message ''[DataSnapshot] Data snapshot cleaned!'')
           (updE (\<lambda>s. if output_file s \<noteq> None then s\<lparr>output_file := None\<rparr> else s)))))"

definition lambda_send_email :: "outside \<Rightarrow> string \<Rightarrow> string \<Rightarrow> ('a snapshot_scheme, unit) py" where
  "lambda_send_email E message subject =
     bindE (getE lambda_name) (\<lambda>lam.
       try_except
         (call_on E lambda_client ''invoke''
            [PStr lam, PStr ''Event'', PStr ''MQTT Wrapper Script'',
             pdict [(''Message'', PStr message), (''Subject'', PStr subject)]])
         (\<lambda>e. thenE (report_exc E ''[DataSnapshot] ERROR - could not send email via Lambda due to exception!'' e)
                    (set_abort ''Lambda email function had an exception!'')))"

subsection \<open>Registration\<close>

definition register_metric ::
  "string \<Rightarrow> metric_function option \<Rightarrow> string \<Rightarrow> int option \<Rightarrow> int \<Rightarrow> int \<Rightarrow> bool \<Rightarrow> ('a snapshot_scheme, unit) py" where
  "register_metric name f unt threshold skip severity pct =
     bindE (bindE (getE git_repo_name) as_str) (\<lambda>repo.
     bindE (bindE (getE git_hash) as_str) (\<lambda>hash.
     bindE (getE git_hash_as_namespace) (\<lambda>as_ns.
       updE (\<lambda>s. s\<lparr>
         metrics := metrics s @ [DataSnapshot_Metric name f
           [((if \<not> as_ns then repo @ ''-'' @ hash else ''System_Metrics''), name)]
           unt threshold severity hash repo skip pct],
         metrics_numbers := metrics_numbers s @ [[]]\<rparr>))))"

text \<open>Widgets are objects held in a list; they are referred to by their position.\<close>

definition find_cloudwatch_widget :: "string \<Rightarrow> 'a snapshot_scheme \<Rightarrow> nat option" where
  "find_cloudwatch_widget name s =
     find (\<lambda>i. widget_name (cloudwatch_dashboard_widgets s ! i) = name)
       [0..<length (cloudwatch_dashboard_widgets s)]"

definition upd_widget :: "nat \<Rightarrow> (widget \<Rightarrow> widget) \<Rightarrow> ('a snapshot_scheme, unit) py" where
  [py_monad]: "upd_widget i f = updE (\<lambda>s. s\<lparr>cloudwatch_dashboard_widgets :=
     (cloudwatch_dashboard_widgets s)[i := f (cloudwatch_dashboard_widgets s ! i)]\<rparr>)"

definition with_widget :: "string \<Rightarrow> nat option \<Rightarrow> (nat \<Rightarrow> ('a snapshot_scheme, unit) py) \<Rightarrow> ('a snapshot_scheme, unit) py" where
  "with_widget name w k =
     bindE (case w of Some i \<Rightarrow> ret (Some i) | None \<Rightarrow> getE (find_cloudwatch_widget name)) (\<lambda>r. case r of
        None \<Rightarrow> py_print (''[DataSnapshot] ERROR - could not find widget with name: '' @ name)
      | Some i \<Rightarrow> k i)"

definition add_metric_to_widget :: "string \<Rightarrow> widget \<Rightarrow> widget" where
  "add_metric_to_widget n w = w\<lparr>metric_list := metric_list w @ [n]\<rparr>"

text \<open>\<open>list.remove\<close> raises when there is nothing to remove, which is caught and printed.\<close>

definition remove_metric_from_widget :: "outside \<Rightarrow> string \<Rightarrow> nat \<Rightarrow> ('a snapshot_scheme, unit) py" where
  "remove_metric_from_widget E n i =
     bindE (getE (\<lambda>s. metric_list (cloudwatch_dashboard_widgets s ! i))) (\<lambda>l.
       if n \<in> set l then upd_widget i (\<lambda>w. w\<lparr>metric_list := remove1 n l\<rparr>)
       else thenE (py_print ''[DataSnapshot_Dashboard] ERROR - could not remove metric from dashboard widget due to exception!'')
                  (py_print (''[DataSnapshot_Dashboard] Exception: '' @
                      exc_str E (ValueError ''list.remove(x): x not in list''))))"

definition register_metric_to_dashboard_widget :: "string \<Rightarrow> string \<Rightarrow> nat option \<Rightarrow> ('a snapshot_scheme, unit) py" where
  "register_metric_to_dashboard_widget wname mname w =
     with_widget wname w (\<lambda>i. upd_widget i (add_metric_to_widget mname))"

definition remove_metric_from_dashboard_widget :: "outside \<Rightarrow> string \<Rightarrow> string \<Rightarrow> nat option \<Rightarrow> ('a snapshot_scheme, unit) py" where
  "remove_metric_from_dashboard_widget E wname mname w =
     with_widget wname w (remove_metric_from_widget E mname)"

definition register_dashboard_widget :: "string \<Rightarrow> string list \<Rightarrow> int \<Rightarrow> ('a snapshot_scheme, unit) py" where
  "register_dashboard_widget name ms period =
     bindE (bindE (getE git_hash_as_namespace) (\<lambda>as_ns. if as_ns then ret ''System_Metrics''
              else bindE (bindE (getE git_repo_name) as_str) (\<lambda>repo.
                   bindE (bindE (getE git_hash) as_str) (\<lambda>hash. ret (repo @ ''-'' @ hash)))))
       (\<lambda>dmn.
     thenE (bindE (getE (find_cloudwatch_widget name)) (\<lambda>r. whenE (r = None)
              (updE (\<lambda>s. s\<lparr>cloudwatch_dashboard_widgets := cloudwatch_dashboard_widgets s @
                 [DataSnapshot_Dashboard_Widget name (git_metric_namespace s) dmn
                    (cloudwatch_region s) period]\<rparr>))))
           (forE ms (\<lambda>m. register_metric_to_dashboard_widget name m None)))"

subsection \<open>Reading and posting metrics\<close>

text \<open>The processor load; the first reading of a process is thrown away.\<close>

definition metric_guard :: "outside \<Rightarrow> nat option \<Rightarrow> (nat \<Rightarrow> ('a snapshot_scheme, rat option) py) \<Rightarrow> ('a snapshot_scheme, rat option) py" where
  "metric_guard E proc k =
     try_except
       (case proc of
          None \<Rightarrow> thenE (py_print ''ERROR - No psutil.process passed! Cannot gather metric!'') (ret None)
        | Some p \<Rightarrow> k p)
       (\<lambda>e. thenE (py_print ''ERROR - exception occurred gathering metrics!'')
           (thenE (py_print (''Exception: '' @ exc_str E e)) (ret None)))"

definition get_metric_total_cpu_usage :: "outside \<Rightarrow> nat option \<Rightarrow> ('a snapshot_scheme, rat option) py" where
  "get_metric_total_cpu_usage E proc = metric_guard E proc (\<lambda>p.
     bindE (getE cache_cpu_psutil_process) (\<lambda>c.
       bindE (outside_ask (\<lambda>t. o_psutil E t ''cpu_percent'') ''cpu_percent'' []) (\<lambda>v.
         if c \<noteq> Some p then thenE (updE (\<lambda>s. s\<lparr>cache_cpu_psutil_process := Some p\<rparr>)) (ret None)
         else ret (Some v))))"

definition get_metric_total_memory_usage_value :: "outside \<Rightarrow> nat option \<Rightarrow> ('a snapshot_scheme, rat option) py" where
  "get_metric_total_memory_usage_value E proc = metric_guard E proc (\<lambda>p.
     bindE (outside_ask (\<lambda>t. o_psutil E t ''virtual_memory[3]'') ''virtual_memory'' []) (\<lambda>v. ret (Some v)))"

definition get_metric_total_memory_usage_percent :: "outside \<Rightarrow> nat option \<Rightarrow> ('a snapshot_scheme, rat option) py" where
  "get_metric_total_memory_usage_percent E proc = metric_guard E proc (\<lambda>p.
     bindE (outside_ask (\<lambda>t. o_psutil E t ''virtual_memory[2]'') ''virtual_memory'' []) (\<lambda>v. ret (Some v)))"

fun call_metric_function :: "outside \<Rightarrow> metric_function \<Rightarrow> nat option \<Rightarrow> ('a snapshot_scheme, rat option) py" where
  "call_metric_function E CpuUsage p = get_metric_total_cpu_usage E p"
| "call_metric_function E MemoryValue p = get_metric_total_memory_usage_value E p"
| "call_metric_function E MemoryPercent p = get_metric_total_memory_usage_percent E p"

definition get_metric_value :: "outside \<Rightarrow> nat \<Rightarrow> nat option \<Rightarrow> ('a snapshot_scheme, rat option) py" where
  "get_metric_value E i proc =
     bindE (getE (\<lambda>s. metrics s ! i)) (\<lambda>m. case metric_function m of
        None \<Rightarrow> ret (metric_value m)
      | Some f \<Rightarrow> bindE (call_metric_function E f proc) (\<lambda>v.
          thenE (updE (\<lambda>s. s\<lparr>metrics := (metrics s)[i := (metrics s ! i)\<lparr>metric_value := v\<rparr>]\<rparr>)) (ret v)))"

text \<open>
  The history of a metric, newest first: a new value goes to the front and what exceeds the limit is
  deleted from the end.
\<close>

definition push_number :: "nat \<Rightarrow> rat option \<Rightarrow> rat option list \<Rightarrow> rat option list" where
  "push_number n v l =
     (let l1 = v # l
      in if n < length l1 then take (length l1 - (length l1 - n)) l1 else l1)"

definition non_zero_found :: "rat option list \<Rightarrow> bool" where
  "non_zero_found l = list_ex (\<lambda>x. x \<noteq> Some 0 \<and> x \<noteq> None) l"

definition post_metric :: "outside \<Rightarrow> nat option \<Rightarrow> nat \<Rightarrow> ('a snapshot_scheme, unit) py" where
  "post_metric E proc i =
     bindE (get_metric_value E i proc) (\<lambda>v.
     bindE (getE metrics_numbers) (\<lambda>nums. bindE (getE metric_report_non_zero_count) (\<lambda>n.
       if length nums \<le> i then raise (BuiltinExc ''IndexError'')
       else let l = push_number n v (nums ! i) in
         thenE (updE (\<lambda>s. s\<lparr>metrics_numbers := nums[i := l]\<rparr>))
               (whenE (length l = n \<and> \<not> non_zero_found l)
                 (thenE (print_message (nl @ ''[DataSnapshot] METRIC ZERO ERROR!''))
                 (thenE (print_message (''[DataSnapshot] Metric index '' @ str_int (int i) @
                           '' has been zero for last '' @ str_int (int n) @ '' reports!''))
                        (print_message nl)))))))"

text \<open>\<open>now\<close> is the formatted local time.\<close>

definition metric_line :: "outside \<Rightarrow> metric \<Rightarrow> string" where
  "metric_line E m = ''    '' @ metric_name m @ '' - value: '' @
     (case metric_value m of None \<Rightarrow> ''None'' | Some v \<Rightarrow> num_str E v) @ (if is_percent m then ''%'' else [])"

definition export_metrics_console :: "outside \<Rightarrow> ('a snapshot_scheme, unit) py" where
  "export_metrics_console E =
     bindE (outside_ask (\<lambda>t. o_text E t ''now'') ''now'' []) (\<lambda>now.
     bindE (getE metric_report_number) (\<lambda>k. bindE (getE metrics) (\<lambda>ms.
       thenE (print_message (nl @ ''[DataSnapshot] Metric report: '' @ str_int k @ '' ('' @ now @ '')''))
      (thenE (forE ms (\<lambda>m. print_message (metric_line E m)))
             (print_message [])))))"

definition cloudwatch_data :: "metric list \<Rightarrow> pyval list" where
  "cloudwatch_data ms = List.map_filter (\<lambda>m. fst (get_metric_cloudwatch_dictionary m)) ms"

definition export_metrics_cloudwatch :: "outside \<Rightarrow> ('a snapshot_scheme, unit) py" where
  "export_metrics_cloudwatch E =
     bindE (getE cloudwatch_client) (\<lambda>c.
       if \<not> c then
         thenE (print_message ''[DataSnapshot] Error - cannot export Cloudwatch metrics! Cloudwatch was not initialized.'')
               (set_abort ''Could not export Cloudwatch metrics due to no Cloudwatch client initialized!'')
       else
         thenE (print_message ''[DataSnapshot] Preparing to send to Cloudwatch...'')
        (bindE (getE metrics) (\<lambda>ms.
         thenE (updE (\<lambda>s. s\<lparr>metrics := map (\<lambda>m. snd (get_metric_cloudwatch_dictionary m)) ms\<rparr>))
         (if cloudwatch_data ms = [] then
            print_message ''[DataSnapshot] INFO - no metric data to send. Skipping...''
          else bindE (getE git_metric_namespace) (\<lambda>ns.
            try_except
              (thenE (outside_call E ''put_metric_data'' [pv PStr ns, PList (cloudwatch_data ms)])
                     (print_message ''[DataSnapshot] Metrics sent to Cloudwatch.''))
              (\<lambda>e. thenE (report_exc E ''[DataSnapshot] Error - something when wrong posting cloudwatch metrics!'' e)
                         (set_abort ''Could not export Cloudwatch metrics due to exception in Cloudwatch client!'')))))))"

definition post_metrics :: "outside \<Rightarrow> nat option \<Rightarrow> ('a snapshot_scheme, unit) py" where
  "post_metrics E proc =
     thenE (bindE (getE perform_final_initialization) (\<lambda>b. whenE b
              (thenE (updE (\<lambda>s. s\<lparr>perform_final_initialization := False\<rparr>))
                     (init_cloudwatch_pre_first_run E))))
    (thenE (bindE (getE (\<lambda>s. length (metrics s))) (\<lambda>n. forE [0..<n] (post_metric E proc)))
    (thenE (updE (\<lambda>s. s\<lparr>metric_report_number := metric_report_number s + 1\<rparr>))
    (thenE (export_metrics_console E)
           (export_metrics_cloudwatch E))))"

subsection \<open>Diagnosis\<close>

text \<open>The list alternates names and hashes; a last name without a hash is shown as unknown.\<close>

fun dependency_lines :: "string list \<Rightarrow> string list" where
  "dependency_lines [] = []"
| "dependency_lines [d] = [''* '' @ d, CHR 0x09 # '' Commit hash: Unknown'']"
| "dependency_lines (d # h # ds) =
     (''* '' @ d) # (CHR 0x09 # '' Commit hash: '' @ h) # dependency_lines ds"

definition metric_info_lines :: "metric \<Rightarrow> string list" where
  "metric_info_lines m =
     (''* '' @ metric_name m) #
     (case metric_alarm_threshold m of
        None \<Rightarrow> [CHR 0x09 # '' No alarm set for metric.'']
      | Some t \<Rightarrow> [CHR 0x09 # '' Alarm Threshold: '' @ str_int t,
                   CHR 0x09 # '' Alarm Severity: '' @ str_int (metric_alarm_severity m)])"

definition output_diagnosis_information :: "string \<Rightarrow> ('a snapshot_scheme, unit) py" where
  "output_diagnosis_information deps =
     thenE (print_message (nl @ ''========== Canary Wrapper diagnosis information ==========''))
    (bindE (bindE (getE git_repo_name) as_str) (\<lambda>repo.
     thenE (print_message (nl @ ''Running Canary for repository: '' @ repo))
    (bindE (bindE (getE git_hash) as_str) (\<lambda>hash.
     thenE (print_message (CHR 0x09 # '' Commit hash: '' @ hash))
    (thenE (whenE (deps \<noteq> [])
              (thenE (print_message (nl @ ''Dependencies:''))
                     (forE (dependency_lines (split_on (CHR '';'') deps)) print_message)))
    (bindE (getE metric_frequency) (\<lambda>fq.
     thenE (case fq of None \<Rightarrow> ret ()
            | Some n \<Rightarrow> print_message (nl @ ''Metric Snapshot Frequency: '' @ str_int n @ '' seconds''))
    (thenE (print_message (nl @ ''Metrics:''))
    (bindE (getE metrics) (\<lambda>ms.
     thenE (forE (concat (map metric_info_lines ms)) print_message)
    (thenE (print_message nl)
    (thenE (print_message (replicate 58 (CHR ''=''))) (print_message nl)))))))))))))"

section \<open>What the operations leave alone\<close>

text \<open>
  \<open>grows\<close>: the trace is only extended, and neither the identity of the run nor the state of
  the objects around the snapshot (the record extension) changes. \<open>quiet\<close>: in addition the
  log stays as it was opened. \<open>steady\<close>: in addition the number of reports stays, and
  \<open>tidy\<close>: so do the metrics and their histories.
\<close>

definition run_identity :: "'a snapshot_scheme \<Rightarrow> string option \<times> string option \<times> string option \<times> string \<times> bool \<times> bool \<times> bool" where
  "run_identity s = (git_hash s, git_repo_name s, datetime_string s, s3_bucket_name s, s3_client s,
     s3_bucket_upload_on_complete s, output_to_console s)"

definition grows :: "'a snapshot_scheme \<Rightarrow> 'a snapshot_scheme \<Rightarrow> bool" where
  "grows s s' \<longleftrightarrow> (\<exists>es. trace s' = trace s @ es) \<and> snapshot.more s' = snapshot.more s \<and>
     run_identity s' = run_identity s"

definition quiet :: "'a snapshot_scheme \<Rightarrow> 'a snapshot_scheme \<Rightarrow> bool" where
  "quiet s s' \<longleftrightarrow> grows s s' \<and> output_to_file s' = output_to_file s \<and> output_file s' = output_file s"

definition steady :: "'a snapshot_scheme \<Rightarrow> 'a snapshot_scheme \<Rightarrow> bool" where
  "steady s s' \<longleftrightarrow> quiet s s' \<and> metric_report_number s' = metric_report_number s \<and>
     metric_report_non_zero_count s' = metric_report_non_zero_count s"

definition tidy :: "'a snapshot_scheme \<Rightarrow> 'a snapshot_scheme \<Rightarrow> bool" where
  "tidy s s' \<longleftrightarrow> steady s s' \<and> metrics s' = metrics s \<and> metrics_numbers s' = metrics_numbers s"

lemmas frame_defs = run_identity_def grows_def quiet_def steady_def tidy_def

interpretation grows: world_frame "grows :: 'a snapshot_scheme \<Rightarrow> 'a snapshot_scheme \<Rightarrow> bool"
  by unfold_locales (auto simp: frame_defs)

interpretation quiet: world_frame "quiet :: 'a snapshot_scheme \<Rightarrow> 'a snapshot_scheme \<Rightarrow> bool"
  by unfold_locales (auto simp: frame_defs)

interpretation steady: world_frame "steady :: 'a snapshot_scheme \<Rightarrow> 'a snapshot_scheme \<Rightarrow> bool"
  by unfold_locales (auto simp: frame_defs)

interpretation tidy: world_frame "tidy :: 'a snapshot_scheme \<Rightarrow> 'a snapshot_scheme \<Rightarrow> bool"
  by unfold_locales (auto simp: frame_defs)

lemma moves_weaken: "moves R m \<Longrightarrow> (\<And>s s'. R s s' \<Longrightarrow> R' s s') \<Longrightarrow> moves R' m"
  by (simp add: moves_def)

lemma steady_of_tidy: "moves tidy m \<Longrightarrow> moves steady m"
  by (erule moves_weaken) (simp add: tidy_def)

lemma quiet_of_steady: "moves steady m \<Longrightarrow> moves quiet m"
  by (erule moves_weaken) (simp add: steady_def)

lemma grows_of_quiet: "moves quiet m \<Longrightarrow> moves grows m"
  by (erule moves_weaken) (simp add: quiet_def)

lemma tidy_write: "moves tidy (write_output t)"
  unfolding write_output_def
  by (intro tidy.moves_bindE tidy.moves_basic)
    (auto simp: moves_def py_monad frame_defs split: option.splits file_handle.splits)

lemma tidy_message: "moves tidy (print_message m)"
  unfolding print_message_def by (intro tidy.world_moves tidy_write)

lemma tidy_abort: "moves tidy (set_abort r)"
  unfolding set_abort_def by (rule tidy.moves_updE) (simp add: frame_defs)

lemma tidy_report: "moves tidy (report_exc E m e)"
  unfolding report_exc_def by (intro tidy.world_moves tidy_message)

lemma tidy_call_on: "moves tidy (call_on E c f args)"
  unfolding call_on_def by (intro tidy.world_moves)

lemma tidy_as_str: "moves tidy (as_str x)"
  unfolding as_str_def by (intro tidy.world_moves)

lemmas tidy_intros = tidy.world_moves tidy_message tidy_abort tidy_report tidy_call_on tidy_as_str

lemma tidy_alarms:
  "moves tidy (add_cloudwatch_metric_alarm E m)" "moves tidy (cleanup_cloudwatch_alarms E)"
  "moves tidy (cleanup_cloudwatch_dashboard E)" "moves tidy (lambda_send_email E b c)"
  unfolding add_cloudwatch_metric_alarm_def cleanup_cloudwatch_alarms_def cleanup_cloudwatch_dashboard_def
    lambda_send_email_def
  by (intro tidy_intros)+

lemma tidy_init: "moves tidy (init_cloudwatch_pre_first_run E)"
  unfolding init_cloudwatch_pre_first_run_def init_cloudwatch_pre_first_run_dashboard_def
  by (intro tidy_intros tidy_alarms)

lemma tidy_check_states: "moves tidy (check_alarm_states E ms acc)"
  by (induction ms arbitrary: acc)
    (auto simp: check_cloudwatch_alarm_state_metric_def intro!: tidy_intros)

lemma tidy_results: "moves tidy (get_cloudwatch_alarm_results E)"
  unfolding get_cloudwatch_alarm_results_def by (intro tidy_intros tidy_check_states)

lemma tidy_console: "moves tidy (export_metrics_console E)"
  unfolding export_metrics_console_def by (intro tidy_intros)

lemma tidy_metric_function: "moves tidy (call_metric_function E f p)"
  by (cases f)
    (auto simp: get_metric_total_cpu_usage_def get_metric_total_memory_usage_value_def
       get_metric_total_memory_usage_percent_def metric_guard_def frame_defs
       intro!: tidy_intros tidy.moves_updE)

lemma steady_post_metric: "moves steady (post_metric E proc i)"
  unfolding post_metric_def get_metric_value_def Let_def
  by (intro steady.world_moves steady.moves_updE steady_of_tidy [OF tidy_metric_function]
      steady_of_tidy [OF tidy_message]) (simp_all add: frame_defs)

lemma steady_export_cloudwatch: "moves steady (export_metrics_cloudwatch E)"
  unfolding export_metrics_cloudwatch_def
  by (intro steady.world_moves steady.moves_updE steady_of_tidy [OF tidy_message]
      steady_of_tidy [OF tidy_report] steady_of_tidy [OF tidy_abort]) (simp_all add: frame_defs)

text \<open>The two halves of \<open>post_metrics\<close> around the report counter.\<close>

definition gather_metrics :: "outside \<Rightarrow> nat option \<Rightarrow> ('a snapshot_scheme, unit) py" where
  "gather_metrics E proc =
     thenE (bindE (getE perform_final_initialization) (\<lambda>b. whenE b
              (thenE (updE (\<lambda>s. s\<lparr>perform_final_initialization := False\<rparr>))
                     (init_cloudwatch_pre_first_run E))))
           (bindE (getE (\<lambda>s. length (metrics s))) (\<lambda>n. forE [0..<n] (post_metric E proc)))"

lemma thenE_assoc: "thenE (thenE m k) h = thenE m (thenE k h)"
  by (simp add: thenE_def bindE_assoc)

lemma post_metrics_halves:
  "post_metrics E proc =
     thenE (gather_metrics E proc)
    (thenE (updE (\<lambda>s. s\<lparr>metric_report_number := metric_report_number s + 1\<rparr>))
           (thenE (export_metrics_console E) (export_metrics_cloudwatch E)))"
  unfolding post_metrics_def gather_metrics_def thenE_assoc ..

lemma steady_gather: "moves steady (gather_metrics E proc)"
  unfolding gather_metrics_def
  by (intro steady.world_moves steady.moves_updE steady_post_metric steady_of_tidy [OF tidy_init])
    (simp add: frame_defs)

lemma steady_exports: "moves steady (thenE (export_metrics_console E) (export_metrics_cloudwatch E))"
  by (intro steady.world_moves steady_export_cloudwatch steady_of_tidy [OF tidy_console])

lemma quiet_post_metrics: "moves quiet (post_metrics E proc)"
  unfolding post_metrics_halves
  by (intro quiet.world_moves quiet.moves_updE quiet_of_steady [OF steady_gather]
      quiet_of_steady [OF steady_export_cloudwatch] quiet_of_steady [OF steady_of_tidy [OF tidy_console]])
    (simp add: frame_defs)

lemma post_metrics_counts:
  assumes "post_metrics E proc s = (Inr (), s')"
  shows "metric_report_number s' = metric_report_number s + 1"
  using assms movesD [OF steady_gather [of E proc]] movesD [OF steady_exports [of E]]
  unfolding post_metrics_halves thenE_def bindE_def updE_def
  by (fastforce simp: steady_def split: prod.splits sum.splits)

section \<open>Alarms are never reported\<close>

text \<open>A string never equals \<open>False\<close>, so the condition of the loop never holds.\<close>

lemma check_alarm_states_acc:
  "check_alarm_states E ms acc s = (Inr res, s') \<Longrightarrow> res = acc"
  by (induction ms arbitrary: acc s)
    (auto simp: py_monad py_eq_str_bool_def split: prod.splits sum.splits option.splits)

lemma no_alarm_results: "get_cloudwatch_alarm_results E s = (Inr res, s') \<Longrightarrow> res = []"
  unfolding get_cloudwatch_alarm_results_def
  by (auto simp: bindE_def getE_def dest: check_alarm_states_acc)

section \<open>The history of a metric\<close>

lemma push_number_take: "push_number n v l = take n (v # l)"
  by (simp add: push_number_def Let_def take_Cons')

text \<open>The report of one metric changes its own value and history only.\<close>

definition posted_at :: "nat \<Rightarrow> 'a snapshot_scheme \<Rightarrow> 'a snapshot_scheme \<Rightarrow> bool" where
  "posted_at i s s' \<longleftrightarrow>
     length (metrics s') = length (metrics s) \<and> length (metrics_numbers s') = length (metrics_numbers s) \<and>
     metric_report_non_zero_count s' = metric_report_non_zero_count s \<and>
     (\<forall>j. j \<noteq> i \<longrightarrow> metrics s' ! j = metrics s ! j \<and> metrics_numbers s' ! j = metrics_numbers s ! j) \<and>
     metrics_numbers s' ! i =
       take (metric_report_non_zero_count s) (metric_value (metrics s' ! i) # metrics_numbers s ! i)"

lemma get_metric_value_spec:
  assumes "get_metric_value E i proc s = (Inr v, s')" "i < length (metrics s)"
  shows "metrics_numbers s' = metrics_numbers s \<and>
    metric_report_non_zero_count s' = metric_report_non_zero_count s \<and>
    metrics s' = (metrics s)[i := (metrics s ! i)\<lparr>metric_value := v\<rparr>]"
proof (cases "metric_function (metrics s ! i)")
  case None
  then show ?thesis using assms by (auto simp: get_metric_value_def py_monad)
next
  case (Some f)
  obtain r s1 where c: "call_metric_function E f proc s = (r, s1)" by fastforce
  from movesD [OF tidy_metric_function c] have "tidy s s1" .
  then show ?thesis using assms Some c
    by (cases r) (auto simp: get_metric_value_def py_monad frame_defs)
qed

lemma post_metric_spec:
  assumes "post_metric E proc i s = (Inr (), s')" "i < length (metrics s)"
  shows "posted_at i s s'"
proof -
  obtain r s1 where v: "get_metric_value E i proc s = (r, s1)" by fastforce
  with assms(1) obtain v where r: "r = Inr v"
    by (cases r) (auto simp: post_metric_def bindE_def)
  note g = get_metric_value_spec [OF v [unfolded r] assms(2)]
  define l where "l = push_number (metric_report_non_zero_count s1) v (metrics_numbers s1 ! i)"
  define k where "k = whenE (length l = metric_report_non_zero_count s1 \<and> \<not> non_zero_found l)
       (thenE (print_message (nl @ ''[DataSnapshot] METRIC ZERO ERROR!''))
       (thenE (print_message (''[DataSnapshot] Metric index '' @ str_int (int i) @
           '' has been zero for last '' @ str_int (int (metric_report_non_zero_count s1)) @ '' reports!''))
              (print_message nl) :: ('a snapshot_scheme, unit) py))"
  let ?s2 = "s1\<lparr>metrics_numbers := (metrics_numbers s1)[i := l]\<rparr>"
  have i: "i < length (metrics_numbers s1)"
    using assms(1) by (auto simp: post_metric_def bindE_def getE_def v r raise_def split: if_splits)
  then have k2: "k ?s2 = (Inr (), s')"
    using assms(1) by (simp add: post_metric_def bindE_def getE_def thenE_def updE_def Let_def v r l_def k_def)
  have "moves tidy k"
    unfolding k_def by (intro tidy_intros)
  from movesD [OF this k2] have "tidy ?s2 s'" .
  then show ?thesis
    using g assms(2) i by (auto simp: posted_at_def frame_defs l_def push_number_take)
qed

lemma post_all_spec:
  assumes "forE is (post_metric E proc) s = (Inr (), s')" "distinct is" "set is \<subseteq> {..<length (metrics s)}"
  shows "length (metrics s') = length (metrics s) \<and> length (metrics_numbers s') = length (metrics_numbers s) \<and>
    (\<forall>i. i \<notin> set is \<longrightarrow> metrics s' ! i = metrics s ! i \<and> metrics_numbers s' ! i = metrics_numbers s ! i) \<and>
    (\<forall>i\<in>set is. metrics_numbers s' ! i =
       take (metric_report_non_zero_count s) (metric_value (metrics s' ! i) # metrics_numbers s ! i))"
  using assms
proof (induction "is" arbitrary: s)
  case Nil
  then show ?case by (simp add: ret_def)
next
  case (Cons i "is")
  obtain r s1 where p: "post_metric E proc i s = (r, s1)" by fastforce
  with Cons.prems(1) have r: "r = Inr ()" and rest: "forE is (post_metric E proc) s1 = (Inr (), s')"
    by (cases r; simp add: thenE_def bindE_def)+
  have at: "posted_at i s s1"
    using post_metric_spec [OF p [unfolded r]] Cons.prems(3) by simp
  then have "length (metrics s1) = length (metrics s)" by (simp add: posted_at_def)
  with Cons.IH [OF rest] Cons.prems(2,3) at show ?case
    by (auto simp: posted_at_def)
qed

text \<open>Exporting counts down the reports to skip and changes no value.\<close>

lemma dictionary_keeps_value [simp]:
  "metric_value (snd (get_metric_cloudwatch_dictionary m)) = metric_value m"
  by (simp add: get_metric_cloudwatch_dictionary_def split: option.splits)

definition same_values :: "'a snapshot_scheme \<Rightarrow> 'a snapshot_scheme \<Rightarrow> bool" where
  "same_values s s' \<longleftrightarrow> map metric_value (metrics s') = map metric_value (metrics s) \<and>
     metrics_numbers s' = metrics_numbers s"

interpretation same_values: world_frame "same_values :: 'a snapshot_scheme \<Rightarrow> 'a snapshot_scheme \<Rightarrow> bool"
  by unfold_locales (auto simp: same_values_def)

lemma same_values_of_tidy: "moves tidy m \<Longrightarrow> moves same_values m"
  by (erule moves_weaken) (simp add: tidy_def same_values_def)

lemma same_values_cloudwatch: "moves same_values (export_metrics_cloudwatch E)"
proof -
  have "same_values s (s\<lparr>metrics := map (\<lambda>m. snd (get_metric_cloudwatch_dictionary m)) (metrics s)\<rparr>)"
    for s :: "'a snapshot_scheme"
    by (simp add: same_values_def o_def)
  then have *: "moves same_values (bindE (getE metrics) (\<lambda>ms. thenE (updE (\<lambda>s. s\<lparr>metrics :=
      map (\<lambda>m. snd (get_metric_cloudwatch_dictionary m)) ms\<rparr>)) (k ms)))"
    if "\<And>ms. moves same_values (k ms)" for k :: "metric list \<Rightarrow> ('a snapshot_scheme, unit) py"
    using that by (auto simp: moves_def py_monad intro: same_values.R_trans)
  note rules = same_values.moves_bindE same_values.moves_thenE same_values.moves_if same_values.moves_try
    same_values.moves_basic same_values.moves_call same_values_of_tidy [OF tidy_message]
    same_values_of_tidy [OF tidy_report] same_values_of_tidy [OF tidy_abort]
  show ?thesis
    unfolding export_metrics_cloudwatch_def
  proof (rule same_values.moves_bindE, rule same_values.moves_basic, rule same_values.moves_if, goal_cases)
    case (1 c)
    show ?case by (intro rules)
  next
    case (2 c)
    show ?case
      by (rule same_values.moves_thenE [OF same_values_of_tidy [OF tidy_message]], rule *)
        (intro rules)
  qed
qed

lemma gather_spec:
  assumes "gather_metrics E proc s = (Inr (), s')" "i < length (metrics s)"
  shows "i < length (metrics s') \<and> metrics_numbers s' ! i =
    take (metric_report_non_zero_count s) (metric_value (metrics s' ! i) # metrics_numbers s ! i)"
proof -
  define m0 where "m0 = bindE (getE perform_final_initialization) (\<lambda>b. whenE b
      (thenE (updE (\<lambda>s. s\<lparr>perform_final_initialization := False\<rparr>))
             (init_cloudwatch_pre_first_run E) :: ('a snapshot_scheme, unit) py))"
  obtain r s1 where m: "m0 s = (r, s1)" by fastforce
  have "moves tidy m0"
    unfolding m0_def by (intro tidy.world_moves tidy.moves_updE tidy_init) (simp add: frame_defs)
  from movesD [OF this m] have t: "tidy s s1" .
  have "gather_metrics E proc = thenE m0 (bindE (getE (\<lambda>s. length (metrics s))) (\<lambda>n. forE [0..<n] (post_metric E proc)))"
    by (simp only: gather_metrics_def m0_def)
  with assms(1) m have "r = Inr ()" "forE [0..<length (metrics s1)] (post_metric E proc) s1 = (Inr (), s')"
    by (cases r; simp add: thenE_def bindE_def getE_def)+
  moreover have "set [0..<length (metrics s1)] \<subseteq> {..<length (metrics s1)}" by auto
  moreover have "metrics s1 = metrics s" "metrics_numbers s1 = metrics_numbers s"
    "metric_report_non_zero_count s1 = metric_report_non_zero_count s"
    using t by (simp_all add: tidy_def steady_def)
  ultimately show ?thesis
    using post_all_spec [of "[0..<length (metrics s1)]" E proc s1 s'] assms(2) by simp
qed

lemma post_metrics_history:
  assumes "post_metrics E proc s = (Inr (), s')" "i < length (metrics s)"
  shows "metrics_numbers s' ! i =
    take (metric_report_non_zero_count s) (metric_value (metrics s' ! i) # metrics_numbers s ! i)"
proof -
  let ?up = "\<lambda>s. s\<lparr>metric_report_number := metric_report_number s + 1\<rparr>"
  obtain r s1 where g: "gather_metrics E proc s = (r, s1)" by fastforce
  with assms(1) have r: "r = Inr ()"
    and rest: "thenE (export_metrics_console E) (export_metrics_cloudwatch E) (?up s1) = (Inr (), s')"
    by (cases r; simp add: post_metrics_halves thenE_def bindE_def updE_def)+
  note h = gather_spec [OF g [unfolded r] assms(2)]
  have "moves same_values (thenE (export_metrics_console E) (export_metrics_cloudwatch E) ::
      ('a snapshot_scheme, unit) py)"
    by (intro same_values.moves_thenE same_values_cloudwatch same_values_of_tidy [OF tidy_console])
  from movesD [OF this rest] have v: "map metric_value (metrics s') = map metric_value (metrics s1)"
    "metrics_numbers s' = metrics_numbers s1"
    by (simp_all add: same_values_def)
  from v(1) have "length (metrics s') = length (metrics s1)"
    by (metis length_map)
  with v(1) h have "metric_value (metrics s' ! i) = metric_value (metrics s1 ! i)"
    by (metis nth_map)
  with h v(2) show ?thesis by simp
qed

section \<open>The uploaded log\<close>

lemma grows_export: "moves grows (export_result_to_s3_bucket E copy err)"
  unfolding export_result_to_s3_bucket_def copy_log_def upload_log_def
  by (intro grows.world_moves grows.moves_updE grows_of_quiet [OF quiet_of_steady [OF steady_of_tidy]]
      tidy_message tidy_abort tidy_report tidy_call_on tidy_as_str; simp add: frame_defs)

lemma grows_cleanup: "moves grows (cleanup E err)"
  unfolding cleanup_def
  by (intro grows.world_moves grows.moves_updE grows_export grows_of_quiet [OF quiet_of_steady [OF steady_of_tidy]]
      tidy_message tidy_alarms; simp add: frame_defs)

text \<open>While \<open>output_to_file\<close> is not \<open>True\<close>, messages do not change the log.\<close>

lemma print_message_no_log:
  "output_to_file s \<noteq> PBool True \<Longrightarrow>
   print_message m s = (Inr (), s\<lparr>trace := trace s @ (if output_to_console s then [Print m] else [])\<rparr>)"
  by (simp add: print_message_def py_monad)

lemma copy_log_spec:
  assumes "copy_log E s = (Inr (), s')" "output_file s = Some Writing"
  shows "result_text s' = result_text s @ log_banner @ log_text s \<and> log_text s' = log_text s \<and>
    output_to_file s' = PObj ''file'' 0 \<and> output_file s' = Some Closed"
  using assms by (auto simp: copy_log_def py_monad split: option.splits)

definition logless :: "'a snapshot_scheme \<Rightarrow> 'a snapshot_scheme \<Rightarrow> bool" where
  "logless s s' \<longleftrightarrow> (output_to_file s \<noteq> PBool True \<longrightarrow>
     output_to_file s' = output_to_file s \<and> log_text s' = log_text s \<and> result_text s' = result_text s)"

interpretation logless: world_frame "logless :: 'a snapshot_scheme \<Rightarrow> 'a snapshot_scheme \<Rightarrow> bool"
  by unfold_locales (auto simp: logless_def)

lemma logless_message: "moves logless (print_message m)"
  by (simp add: moves_def logless_def print_message_no_log)

lemma logless_upload: "moves logless (upload_log E err hash)"
  unfolding upload_log_def report_exc_def set_abort_def call_on_def as_str_def
  by (intro logless.world_moves logless.moves_updE logless_message) (simp add: logless_def)

lemma export_log:
  assumes "export_result_to_s3_bucket E True err s = (Inr (), s')"
    and "s3_client s" "git_hash s = Some h" "output_to_file s = PBool True" "output_file s = Some Writing"
  shows "result_text s' = h @ log_banner @ log_text s \<and> log_text s' = log_text s \<and>
    output_to_file s' = PObj ''file'' 0"
proof -
  let ?s = "s\<lparr>trace := trace s @ [Native ''open'' [PStr (h @ ''.log''), PStr ''w'']], result_text := h\<rparr>"
  obtain r s1 where c: "copy_log E ?s = (r, s1)" by fastforce
  have r: "r = Inr ()" and u: "upload_log E err h s1 = (Inr (), s')"
    using assms c
    by (cases r; auto simp: export_result_to_s3_bucket_def outside_call_def emit_def as_str_def whenE_def
        thenE_def bindE_def getE_def updE_def ret_def split: option.splits)+
  from copy_log_spec [OF c [unfolded r]] assms(5) movesD [OF logless_upload u] show ?thesis
    by (simp add: logless_def)
qed

text \<open>
  The file uploaded at the end of a run holds the commit and the whole log so far. Afterwards
  nothing is written to the log any more, as the reopened file is assigned to the wrong attribute:
  later messages go to the console only.
\<close>

lemma canary_uploaded_log:
  assumes "export_result_to_s3_bucket E True err s = (Inr (), s')"
    and "s3_client s" "git_hash s = Some h" "output_to_file s = PBool True" "output_file s = Some Writing"
  shows "result_text s' = h @ log_banner @ log_text s \<and>
    print_message m s' = (Inr (), s'\<lparr>trace := trace s' @ (if output_to_console s then [Print m] else [])\<rparr>)"
proof -
  from movesD [OF grows_export assms(1)] have "output_to_console s' = output_to_console s"
    by (simp add: frame_defs)
  with export_log [OF assms] print_message_no_log [of s' m] show ?thesis by simp
qed

end
