(* ===== verification/Canary_Monitors.thy ===== *)
theory Canary_Monitors
  imports Canary_Snapshot
begin

text \<open>
  The monitors of \<open>codebuild/CanaryWrapper_Classes.py\<close>: \<open>SnapshotMonitor\<close>, which polls
  alarms and posts metrics, \<open>ApplicationMonitor\<close>, which starts and watches the canary, the
  \<open>S3Monitor\<close>, and the function that cuts a ticket. The state of the two monitors of the wrapper
  extends that of the snapshot they share.
\<close>

section \<open>Tickets\<close>

record ticket =
  ticket_description :: string
  ticket_reason :: string
  ticket_severity :: int
  ticket_category :: string
  ticket_type :: string
  ticket_item :: string
  ticket_group :: string
  ticket_allow_duplicates :: bool
  ticket_repo :: "string option"
  ticket_hash :: "string option"
  ticket_hash_as_namespace :: bool
  ticket_fixed_namespace :: string
  ticket_region :: string

definition ticket_arn :: "ticket \<Rightarrow> string" where
  "ticket_arn t =
     map (\<lambda>c. if c = CHR '' '' then CHR ''+'' else c)
       (''arn:aws:cloudwatch::cwa-internal:ticket:'' @ str_int (ticket_severity t) @ '':'' @
        ticket_category t @ '':'' @ ticket_type t @ '':'' @ ticket_item t @ '':'' @ ticket_group t @ '':'' @
        (if ticket_allow_duplicates t then ''DO-NOT-DEDUPE'' else []))"

definition repo_hash :: "ticket \<Rightarrow> ('s, string) py" where
  [py_monad]: "repo_hash t = bindE (as_str (ticket_repo t)) (\<lambda>r. bindE (as_str (ticket_hash t)) (\<lambda>h. ret (r @ ''-'' @ h)))"

text \<open>A step that prints and gives up when it raises; otherwise it goes on.\<close>

definition attempt :: "outside \<Rightarrow> string \<Rightarrow> ('a world_scheme, 'b) py \<Rightarrow> ('b \<Rightarrow> ('a world_scheme, unit) py) \<Rightarrow> ('a world_scheme, unit) py" where
  "attempt E msg m k =
     bindE (try_except (bindE m (\<lambda>x. ret (Some x)))
              (\<lambda>e. thenE (py_print msg) (thenE (py_print (''Exception: '' @ exc_str E e)) (ret None))))
       (\<lambda>r. case r of None \<Rightarrow> ret () | Some x \<Rightarrow> k x)"

definition cut_ticket_using_cloudwatch :: "outside \<Rightarrow> ticket \<Rightarrow> ('a world_scheme, unit) py" where
  "cut_ticket_using_cloudwatch E t =
     bindE (if \<not> ticket_hash_as_namespace t then ret (ticket_fixed_namespace t) else repo_hash t) (\<lambda>ns.
     attempt E ''ERROR - could not create Cloudwatch client to make ticket metric alarm due to exception!''
       (thenE (outside_call E ''boto3.client'' [PStr ''cloudwatch'', PStr (ticket_region t)])
              (bindE (repo_hash t) (\<lambda>rh. ret (rh @ ''-AUTO-TICKET''))))
    (\<lambda>name.
     bindE (if \<not> ticket_hash_as_namespace t then repo_hash t else ret ''System_Metrics'') (\<lambda>dmn.
     attempt E ''ERROR - could not create ticket metric alarm due to exception!''
       (outside_call E ''put_metric_alarm''
          [PStr name,
           PStr (''AUTO CUT CANARY WRAPPER TICKET'' @ nl @ nl @ ''REASON: '' @ ticket_reason t @ nl @ nl @
                 ''DESCRIPTION: '' @ ticket_description t @ nl @ nl),
           PStr name, PStr ns, PStr ''Maximum'', pv_dimensions [(dmn, name)], PInt 60, PInt 1, PInt 1,
           PInt 1, PStr ''GreaterThanOrEqualToThreshold'', PList [PStr (ticket_arn t)]])
    (\<lambda>_.
     attempt E ''ERROR - could not cut ticket due to exception!''
       (outside_call E ''set_alarm_state'' [PStr name, PStr ''ALARM'', PStr ''AUTO TICKET CUT''])
    (\<lambda>_.
     thenE (py_print ''Waiting for ticket metric to trigger...'')
    (thenE (outside_call E ''sleep'' [PInt 2])
    (thenE (py_print ''Removing ticket metric...'')
    (thenE (outside_call E ''delete_alarms'' [PList [PStr name]])
           (py_print ''Finished cutting ticket via Cloudwatch!'')))))))))"

definition cut_ticket_using_cloudwatch_from_args :: "outside \<Rightarrow> ticket \<Rightarrow> ('a world_scheme, unit) py" where
  "cut_ticket_using_cloudwatch_from_args E t =
     (if 6 \<le> ticket_severity t then ret ()
      else cut_ticket_using_cloudwatch E (t\<lparr>ticket_allow_duplicates := False,
             ticket_fixed_namespace := ''mqtt5_canary'', ticket_region := ''us-east-1''\<rparr>))"

section \<open>The state of the wrapper\<close>

text \<open>\<open>metric_post_timer\<close> is missing while the constructor has not come that far.\<close>

record canary = snapshot +
  had_internal_error :: bool
  monitor_error_due_to_credentials :: bool
  internal_error_reason :: string
  can_cut_ticket :: bool
  has_cut_ticket :: bool
  cloudwatch_current_alarms_triggered :: "string list"
  metric_post_timer :: "int option"
  metric_post_timer_time :: int
  application_process :: "nat option"
  application_process_psutil :: "nat option"
  error_has_occurred :: bool
  error_due_to_credentials :: bool
  error_reason :: string
  error_code :: int
  wrapper_application_path :: string
  wrapper_application_arguments :: string
  wrapper_application_restart_on_finish :: bool
  monitor_has_snapshot :: bool

section \<open>The snapshot monitor\<close>

definition set_internal_error :: "string \<Rightarrow> (canary, unit) py" where
  [py_monad]: "set_internal_error r = updE (\<lambda>s. s\<lparr>had_internal_error := True, internal_error_reason := r\<rparr>)"

definition SnapshotMonitor :: "outside \<Rightarrow> int \<Rightarrow> (canary, unit) py" where
  "SnapshotMonitor E wait =
     thenE (updE (\<lambda>s. s\<lparr>had_internal_error := False, monitor_error_due_to_credentials := False,
        internal_error_reason := [], can_cut_ticket := False, has_cut_ticket := False,
        cloudwatch_current_alarms_triggered := [], metric_post_timer := None\<rparr>))
    (bindE (getE abort_due_to_internal_error) (\<lambda>b.
       if b then
         thenE (set_internal_error ''Could not initialize DataSnapshot. Likely credentials are not setup!'')
        (thenE (updE (\<lambda>s. if abort_due_to_internal_error_due_to_credentials s
                          then s\<lparr>monitor_error_due_to_credentials := True\<rparr> else s))
               (cleanup E False))
       else updE (\<lambda>s. s\<lparr>metric_post_timer := Some 0, metric_post_timer_time := wait\<rparr>)))"

definition monitor_register_metric ::
  "outside \<Rightarrow> string \<Rightarrow> metric_function option \<Rightarrow> string \<Rightarrow> int option \<Rightarrow> int \<Rightarrow> int \<Rightarrow> (canary, unit) py" where
  "monitor_register_metric E name f unt threshold skip severity =
     try_except (register_metric name f unt threshold skip severity False)
       (\<lambda>e. thenE (print_message ''[SnaptshotMonitor] ERROR - could not register metric in data snapshot due to exception!'')
           (thenE (print_message (''[SnaptshotMonitor] Exception: '' @ exc_str E e))
                  (set_internal_error ''Could not register metric in data snapshot due to exception'')))"

definition monitor_register_dashboard_widget :: "string \<Rightarrow> string list \<Rightarrow> int \<Rightarrow> (canary, unit) py" where
  "monitor_register_dashboard_widget name ms period = register_dashboard_widget name ms period"

definition monitor_output_diagnosis_information :: "string \<Rightarrow> (canary, unit) py" where
  "monitor_output_diagnosis_information deps = output_diagnosis_information deps"

definition cleanup_monitor :: "outside \<Rightarrow> bool \<Rightarrow> (canary, unit) py" where
  "cleanup_monitor E err = cleanup E err"

text \<open>
  The alarms in the state ALARM are sorted into those known from the last check and new ones; what
  else the loop computes (a severity and a description) is not used.
\<close>

fun classify_alarms :: "string list \<Rightarrow> (string \<times> int) list \<Rightarrow> string list \<times> string list \<Rightarrow> (canary, string list \<times> string list) py" where
  "classify_alarms known [] acc = ret acc"
| "classify_alarms known ((n, sev) # as) (old, new) =
     (if n \<in> set known then classify_alarms known as (old @ [n], new)
      else thenE (print_message (''    (NEW) Alarm with name \"'' @ n @ ''\" is in the ALARM state!''))
                 (classify_alarms known as (old, new @ [n])))"

definition alarm_ticket :: "canary \<Rightarrow> string list \<Rightarrow> ticket" where
  "alarm_ticket s new =
     \<lparr>ticket_description = ''New metric(s) went into alarm for the Canary! Metrics in alarm: '' @ py_str_list new,
      ticket_reason = ''New metric(s) went into alarm'', ticket_severity = 4, ticket_category = ''AWS'',
      ticket_type = ''SDKs and Tools'', ticket_item = ''IoT SDK for CPP'', ticket_group = ''AWS IoT Device SDK'',
      ticket_allow_duplicates = True, ticket_repo = git_repo_name s, ticket_hash = git_hash s,
      ticket_hash_as_namespace = False, ticket_fixed_namespace = git_fixed_namespace_text s,
      ticket_region = ''us-east-1''\<rparr>"

definition check_alarms_for_new_alarms :: "outside \<Rightarrow> (string \<times> int) list \<Rightarrow> (canary, unit) py" where
  "check_alarms_for_new_alarms E triggered =
     (if triggered \<noteq> [] then
        thenE (print_message ''WARNING - One or more alarms are in state of ALARM'')
       (bindE (getE cloudwatch_current_alarms_triggered) (\<lambda>known.
        bindE (classify_alarms known triggered ([], [])) (\<lambda>(old, new).
        thenE (bindE (getE can_cut_ticket) (\<lambda>c. whenE (new \<noteq> [] \<and> c)
                 (thenE (bindE (getE (\<lambda>s. alarm_ticket s new)) (cut_ticket_using_cloudwatch E))
                        (updE (\<lambda>s. s\<lparr>has_cut_ticket := True\<rparr>)))))
              (updE (\<lambda>s. s\<lparr>cloudwatch_current_alarms_triggered := old @ new\<rparr>)))))
      else updE (\<lambda>s. s\<lparr>cloudwatch_current_alarms_triggered := []\<rparr>))"

text \<open>The two guarded parts of the loop function say whether it goes on.\<close>

definition poll_alarms :: "outside \<Rightarrow> (canary, bool) py" where
  "poll_alarms E =
     guarded
       (bindE (getE had_internal_error) (\<lambda>h. whenE (\<not> h)
          (bindE (get_cloudwatch_alarm_results E) (check_alarms_for_new_alarms E))))
       (\<lambda>e. thenE (print_message ''[SnaptshotMonitor] ERROR - exception occurred checking metric alarms!'')
           (thenE (print_message ''[SnaptshotMonitor] (Likely session credentials expired)'')
                  (set_internal_error ''Exception occurred checking metric alarms! Likely session credentials expired'')))"

definition post_or_fail :: "outside \<Rightarrow> nat option \<Rightarrow> (canary, bool) py" where
  "post_or_fail E proc =
     guarded (post_metrics E proc)
       (\<lambda>e. thenE (print_message ''[SnaptshotMonitor] ERROR - exception occurred posting metrics!'')
           (thenE (print_message ''[SnaptshotMonitor] (Likely session credentials expired)'')
           (thenE (py_print (exc_str E e))
                  (set_internal_error ''Exception occurred posting metrics! Likely session credentials expired''))))"

definition get_timer :: "(canary, int) py" where
  [py_monad]: "get_timer = bindE (getE metric_post_timer) (\<lambda>t. case t of
     None \<Rightarrow> raise (AttributeError ''metric_post_timer'') | Some v \<Rightarrow> ret v)"

definition snapshot_monitor_loop :: "outside \<Rightarrow> nat option \<Rightarrow> int \<Rightarrow> (canary, unit) py" where
  "snapshot_monitor_loop E proc time_passed =
     bindE (getE abort_due_to_internal_error) (\<lambda>b.
       if b then bindE (getE abort_due_to_internal_error_reason) (\<lambda>r.
         set_internal_error (''Data Snapshot internal error: '' @ r))
       else bindE (poll_alarms E) (\<lambda>ok. whenE ok
         (bindE get_timer (\<lambda>t.
          bindE (if t \<le> 0 then bindE (getE had_internal_error) (\<lambda>h. if h then ret True else post_or_fail E proc)
                 else ret True)
            (\<lambda>ok. whenE ok
              (thenE (whenE (t \<le> 0) (updE (\<lambda>s. s\<lparr>metric_post_timer := Some (t + metric_post_timer_time s)\<rparr>)))
                     (bindE get_timer (\<lambda>t. updE (\<lambda>s. s\<lparr>metric_post_timer := Some (t - time_passed)\<rparr>)))))))))"

definition send_email :: "outside \<Rightarrow> string \<Rightarrow> string option \<Rightarrow> (canary, unit) py" where
  "send_email E body app =
     bindE (bindE (getE git_repo_name) as_str) (\<lambda>repo. bindE (bindE (getE git_hash) as_str) (\<lambda>hash.
       lambda_send_email E body (''Canary: '' @ repo @ '':'' @ hash @
         (case app of None \<Rightarrow> [] | Some a \<Rightarrow> '' - '' @ a))))"

section \<open>The application monitor\<close>

definition monitor_print :: "string \<Rightarrow> (canary, unit) py" where
  "monitor_print m = bindE (getE monitor_has_snapshot) (\<lambda>b. if b then print_message m else py_print m)"

definition set_app_error :: "string \<Rightarrow> int \<Rightarrow> (canary, unit) py" where
  [py_monad]: "set_app_error r c = updE (\<lambda>s. s\<lparr>error_has_occurred := True, error_reason := r, error_code := c\<rparr>)"

definition ApplicationMonitor :: "string \<Rightarrow> string \<Rightarrow> bool \<Rightarrow> bool \<Rightarrow> (canary, unit) py" where
  "ApplicationMonitor path args restart has_snapshot =
     updE (\<lambda>s. s\<lparr>application_process := None, application_process_psutil := None,
       error_has_occurred := False, error_due_to_credentials := False, error_reason := [],
       error_code := 0, wrapper_application_path := path, wrapper_application_arguments := args,
       wrapper_application_restart_on_finish := restart, monitor_has_snapshot := has_snapshot\<rparr>)"

definition stdout_file_path :: string where
  "stdout_file_path = ''Canary_Stdout_File.txt''"

text \<open>A process is named by the number of events before it was started.\<close>

definition app_start_monitoring :: "outside \<Rightarrow> (canary, unit) py" where
  "app_start_monitoring E =
     thenE (monitor_print ''[ApplicationMonitor] Starting to monitor application...'')
    (bindE (getE application_process) (\<lambda>p.
       if p = None then
         try_except
           (bindE (getE (\<lambda>s. (length (trace s),
                wrapper_application_path s @ '' '' @ wrapper_application_arguments s))) (\<lambda>(pid, cmd).
            thenE (outside_call E ''Popen'' [PStr (cmd @ '' | tee '' @ stdout_file_path), PBool True])
           (thenE (updE (\<lambda>s. s\<lparr>application_process := Some pid\<rparr>))
           (thenE (outside_call E ''psutil.Process'' [PInt (int pid)])
           (thenE (updE (\<lambda>s. s\<lparr>application_process_psutil := Some pid\<rparr>))
                  (monitor_print ''[ApplicationMonitor] Application started...''))))))
           (\<lambda>e. thenE (monitor_print ''[ApplicationMonitor] ERROR - Could not launch Canary/Application due to exception!'')
               (thenE (monitor_print (''[ApplicationMonitor] Exception: '' @ exc_str E e))
                      (set_app_error ''Could not launch Canary/Application due to exception'' 1)))
       else monitor_print ''[ApplicationMonitor] ERROR - Monitor already has an application process! Cannot monitor two applications with one monitor class!''))"

definition print_stdout :: "outside \<Rightarrow> (canary, unit) py" where
  "print_stdout E =
     bindE (outside_ask (\<lambda>t. Inr (o_exists E t stdout_file_path)) ''isfile'' [PStr stdout_file_path]) (\<lambda>b. whenE b
       (thenE (monitor_print ''Just finished Application STDOUT: '')
       (bindE (outside_ask (\<lambda>t. o_text E t stdout_file_path) ''read'' [PStr stdout_file_path]) (\<lambda>txt.
        thenE (monitor_print txt)
              (outside_call E ''os.remove'' [PStr stdout_file_path])))))"

definition app_stop_monitoring :: "outside \<Rightarrow> (canary, unit) py" where
  "app_stop_monitoring E =
     thenE (monitor_print ''[ApplicationMonitor] Stopping monitor application...'')
    (bindE (getE application_process) (\<lambda>p. case p of
        Some pid \<Rightarrow>
          thenE (outside_call E ''terminate'' [PInt (int pid)])
         (thenE (outside_call E ''wait'' [PInt (int pid)])
         (thenE (monitor_print ''[ApplicationMonitor] Stopped monitor application!'')
         (thenE (updE (\<lambda>s. s\<lparr>application_process := None\<rparr>))
                (print_stdout E))))
      | None \<Rightarrow> monitor_print ''[ApplicationMonitor] ERROR - cannot stop monitor application because no process is found!''))"

definition app_restart_monitoring :: "outside \<Rightarrow> (canary, unit) py" where
  "app_restart_monitoring E =
     thenE (monitor_print ''[ApplicationMonitor] Restarting monitor application...'')
    (bindE (getE application_process) (\<lambda>p.
       if p \<noteq> None then
         try_except
           (thenE (app_stop_monitoring E)
           (thenE (app_start_monitoring E)
           (thenE (monitor_print (nl @ ''[ApplicationMonitor] Restarted monitor application!''))
                  (monitor_print (replicate 80 (CHR ''=''))))))
           (\<lambda>e. thenE (monitor_print ''[ApplicationMonitor] ERROR - Could not restart Canary/Application due to exception!'')
               (thenE (monitor_print (''[ApplicationMonitor] Exception: '' @ exc_str E e))
                      (set_app_error ''Could not restart Canary/Application due to exception'' 1)))
       else
         thenE (monitor_print ''[ApplicationMonitor] ERROR - Application process restart called but process is/was not running!'')
               (set_app_error ''Could not restart Canary/Application due to application process not being started initially'' 1)))"

text \<open>What the loop function does with the exit status of the application.\<close>

definition app_finished :: "outside \<Rightarrow> int \<Rightarrow> (canary, unit) py" where
  "app_finished E code =
     thenE (monitor_print ''[ApplicationMonitor] Monitor application has stopped! Processing result...'')
     (if code \<noteq> 0 then
        thenE (monitor_print ''[ApplicationMonitor] ERROR - Something Crashed in Canary/Application!'')
       (thenE (monitor_print (''[ApplicationMonitor] Error code: '' @ str_int code))
              (set_app_error ''Canary application crashed!'' code))
      else bindE (getE wrapper_application_restart_on_finish) (\<lambda>r.
        if r then
          thenE (monitor_print ''[ApplicationMonitor] NOTE - Canary finished running and is restarting...'')
                (app_restart_monitoring E)
        else
          thenE (monitor_print ''[ApplicationMonitor] Monitor application has stopped and monitor is not supposed to restart... Finishing...'')
                (set_app_error ''Canary Application Finished'' 0)))"

definition app_monitor_loop :: "outside \<Rightarrow> (canary, unit) py" where
  "app_monitor_loop E =
     bindE (getE application_process) (\<lambda>p. case p of
        None \<Rightarrow> ret ()
      | Some pid \<Rightarrow>
          bindE (try_except (bindE (outside_ask (o_poll E) ''poll'' [PInt (int pid)]) (\<lambda>c. ret (Some c)))
                   (\<lambda>e. thenE (monitor_print ''[ApplicationMonitor] ERROR - exception occurred while trying to poll application status!'')
                       (thenE (monitor_print (''[ApplicationMonitor] Exception: '' @ exc_str E e))
                       (thenE (set_app_error ''Exception when polling application status'' 1) (ret None)))))
            (\<lambda>r. case r of
               None \<Rightarrow> ret ()
             | Some None \<Rightarrow> monitor_print ''[ApplicationMonitor] Monitor application is still running...''
             | Some (Some code) \<Rightarrow> app_finished E code))"

section \<open>The S3 monitor\<close>

text \<open>\<open>os.path.splitext\<close>: the extension starts at the last dot of the last path component,
  unless only dots come before it there.\<close>

definition splitext :: "string \<Rightarrow> string \<times> string" where
  "splitext p =
     (let r = rev p;
          rbase = takeWhile (\<lambda>c. c \<noteq> CHR ''/'') r;
          rext = takeWhile (\<lambda>c. c \<noteq> CHR ''.'') rbase;
          rstem = drop (Suc (length rext)) rbase
      in if length rext < length rbase \<and> list_ex (\<lambda>c. c \<noteq> CHR ''.'') rstem
         then (take (length p - Suc (length rext)) p, drop (length p - Suc (length rext)) p)
         else (p, []))"

record s3_monitor = snapshot +
  mon_s3_client :: bool
  s3_current_object_version_id :: "string option"
  s3_current_object_last_modified :: "string option"
  mon_s3_bucket_name :: string
  s3_file_name :: string
  s3_file_name_only_path :: string
  s3_file_name_only_extension :: string
  canary_local_application_path :: string
  s3_file_name_in_zip :: "string option"
  s3_file_name_in_zip_only_path :: "string option"
  s3_file_name_in_zip_only_extension :: "string option"
  s3_file_needs_replacing :: bool
  s3_had_internal_error :: bool
  s3_error_due_to_credentials :: bool
  s3_internal_error_reason :: string
  s3_has_snapshot :: bool

definition s3_print :: "string \<Rightarrow> (s3_monitor, unit) py" where
  "s3_print m = bindE (getE s3_has_snapshot) (\<lambda>b. if b then print_message m else py_print m)"

definition set_s3_error :: "string \<Rightarrow> (s3_monitor, unit) py" where
  [py_monad]: "set_s3_error r = updE (\<lambda>s. s\<lparr>s3_had_internal_error := True, s3_internal_error_reason := r\<rparr>)"

definition S3Monitor :: "outside \<Rightarrow> string \<Rightarrow> string \<Rightarrow> string option \<Rightarrow> string \<Rightarrow> bool \<Rightarrow> (s3_monitor, unit) py" where
  "S3Monitor E bucket file in_zip path has_snapshot =
     thenE (updE (\<lambda>s. s\<lparr>mon_s3_client := False, s3_current_object_version_id := None,
        s3_current_object_last_modified := None, mon_s3_bucket_name := bucket, s3_file_name := file,
        s3_file_name_only_path := fst (splitext file), s3_file_name_only_extension := snd (splitext file),
        canary_local_application_path := path, s3_file_name_in_zip := in_zip,
        s3_file_name_in_zip_only_path := map_option (fst \<circ> splitext) in_zip,
        s3_file_name_in_zip_only_extension := map_option (snd \<circ> splitext) in_zip,
        s3_file_needs_replacing := False, s3_had_internal_error := False,
        s3_error_due_to_credentials := False, s3_internal_error_reason := [],
        s3_has_snapshot := has_snapshot\<rparr>))
    (bindE (try_except (thenE (outside_call E ''boto3.client'' [PStr ''sts''])
                       (thenE (outside_call E ''get_caller_identity'' []) (ret True)))
              (\<lambda>e. thenE (s3_print ''[S3Monitor] ERROR - (S3 Check) AWS credentials are NOT valid!'')
                   (thenE (set_s3_error ''AWS credentials are NOT valid!'')
                   (thenE (updE (\<lambda>s. s\<lparr>s3_error_due_to_credentials := True\<rparr>)) (ret False)))))
       (\<lambda>ok. whenE ok
         (try_except (thenE (outside_call E ''boto3.client'' [PStr ''s3''])
                            (updE (\<lambda>s. s\<lparr>mon_s3_client := True\<rparr>)))
            (\<lambda>e. thenE (s3_print ''[S3Monitor] ERROR - (S3 Check) Could not make S3 client'')
                       (set_s3_error ''Could not make S3 client for S3 Monitor'')))))"

definition version_changed :: "s3_monitor \<Rightarrow> bool \<times> string \<times> string \<Rightarrow> bool" where
  "version_changed s v = (case v of (latest, vid, modified) \<Rightarrow>
     latest \<and> (Some vid \<noteq> s3_current_object_version_id s \<or> Some modified \<noteq> s3_current_object_last_modified s))"

definition check_for_file_change :: "outside \<Rightarrow> (s3_monitor, unit) py" where
  "check_for_file_change E =
     try_except
       (bindE (getE (\<lambda>s. (mon_s3_client s, mon_s3_bucket_name s, s3_file_name_only_path s))) (\<lambda>(c, bucket, prefix).
        bindE (if c then outside_ask (o_versions E) ''list_object_versions'' [PStr bucket, PStr prefix]
               else raise (AttributeError ''list_object_versions'')) (\<lambda>resp.
        bindE (getE (\<lambda>s. find (version_changed s) (case resp of None \<Rightarrow> [] | Some vs \<Rightarrow> vs))) (\<lambda>r. case r of
            None \<Rightarrow> ret ()
          | Some (_, vid, modified) \<Rightarrow>
              thenE (s3_print ''[S3Monitor] Found new version of Canary/Application in S3!'')
             (thenE (s3_print ''[S3Monitor] Changing running Canary/Application to new one...'')
                    (updE (\<lambda>s. s\<lparr>s3_file_needs_replacing := True,
                       s3_current_object_version_id := Some vid,
                       s3_current_object_last_modified := Some modified\<rparr>)))))))
       (\<lambda>e. thenE (s3_print ''[S3Monitor] ERROR - Could not check for new version of file in S3 due to exception!'')
           (thenE (s3_print (''[S3Monitor] Exception: '' @ exc_str E e))
                  (set_s3_error ''Could not check for S3 file due to exception in S3 client'')))"

text \<open>A step of the replacement: when it raises, the handler runs and the replacement stops.\<close>

definition or_stop :: "(s3_monitor, unit) py \<Rightarrow> (pyexc \<Rightarrow> (s3_monitor, unit) py) \<Rightarrow> (s3_monitor, unit) py \<Rightarrow> (s3_monitor, unit) py" where
  "or_stop m h k = bindE (guarded m h) (\<lambda>ok. whenE ok k)"

definition move_new_file :: "outside \<Rightarrow> string \<Rightarrow> string \<Rightarrow> (s3_monitor, unit) py" where
  "move_new_file E new_path path =
     bindE (outside_ask (\<lambda>t. Inr (o_exists E t path)) ''exists'' [PStr path]) (\<lambda>b.
       thenE (whenE b (outside_call E ''os.remove'' [PStr path]))
      (thenE (s3_print ''[S3Monitor] Moving file...'')
      (thenE (outside_call E ''os.replace'' [PStr new_path, PStr path])
      (thenE (s3_print ''[S3Monitor] Getting execution rights...'')
             (outside_call E ''os.system'' [PStr (''chmod u+x '' @ path)])))))"

definition replace_current_file_for_new_file :: "outside \<Rightarrow> (s3_monitor, unit) py" where
  "replace_current_file_for_new_file E =
     or_stop
       (thenE (s3_print ''[S3Monitor] Making directory...'')
       (bindE (outside_ask (\<lambda>t. Inr (o_exists E t ''tmp'')) ''exists'' [PStr ''tmp'']) (\<lambda>b.
          whenE (\<not> b) (outside_call E ''os.makedirs'' [PStr ''tmp'']))))
       (\<lambda>e. thenE (s3_print ''[S3Monitor] ERROR - could not make tmp directory to place S3 file into!'')
                  (set_s3_error ''Could not make TMP folder for S3 file download''))
    (bindE (getE (\<lambda>s. ''tmp/new_file'' @ s3_file_name_only_extension s)) (\<lambda>new_path.
     bindE (getE (\<lambda>s. (mon_s3_bucket_name s, s3_file_name s, s3_file_name_in_zip s))) (\<lambda>(bucket, file, in_zip).
     or_stop
       (thenE (s3_print ''[S3Monitor] Downloading file...'')
       (thenE (outside_call E ''boto3.resource'' [PStr ''s3''])
              (outside_call E ''download_file'' [PStr bucket, PStr file, PStr new_path])))
       (\<lambda>e. thenE (s3_print ''[S3Monitor] ERROR - could not download latest S3 file into TMP folder!'')
                  (set_s3_error ''Could not download latest S3 file into TMP folder''))
    (bindE (if in_zip = None then ret new_path
            else thenE (s3_print ''[S3Monitor] New file is zip file. Unzipping...'')
                (thenE (outside_call E ''extractall'' [PStr new_path, PStr ''tmp/new_file_zip''])
                (bindE (bindE (getE s3_file_name_in_zip_only_path) as_str) (\<lambda>zp.
                 bindE (bindE (getE s3_file_name_in_zip_only_extension) as_str) (\<lambda>ze.
                 ret (''tmp/new_file_zip/'' @ zp @ ze)))))) (\<lambda>src.
     bindE (getE canary_local_application_path) (\<lambda>path.
     or_stop (move_new_file E src path)
       (\<lambda>e. thenE (s3_print ''[S3Monitor] ERROR - could not move file into local application path due to exception!'')
           (thenE (s3_print (''[S3Monitor] Exception: '' @ exc_str E e))
                  (set_s3_error ''Could not move file into local application path'')))
       (thenE (s3_print ''[S3Monitor] New file downloaded and moved into correct location!'')
              (updE (\<lambda>s. s\<lparr>s3_file_needs_replacing := False\<rparr>)))))))))"

section \<open>Facts about the monitors\<close>

lemma splitext_join: "fst (splitext p) @ snd (splitext p) = p"
  by (simp add: splitext_def Let_def)

text \<open>Known alarms stay known, the others are new, and none is lost.\<close>

lemma classify_alarms_spec:
  "classify_alarms known as (old, new) s = (Inr res, s') \<Longrightarrow>
   res = (old @ filter (\<lambda>n. n \<in> set known) (map fst as), new @ filter (\<lambda>n. n \<notin> set known) (map fst as))"
proof (induction known as "(old, new)" arbitrary: old new s rule: classify_alarms.induct)
  case (1 known)
  then show ?case by (simp add: ret_def)
next
  case (2 known n sev as old new)
  show ?case
  proof (cases "n \<in> set known")
    case True
    with 2 show ?thesis by simp
  next
    case False
    from False 2(3) obtain s1 where "classify_alarms known as (old, new @ [n]) s1 = (Inr res, s')"
      by (auto simp: thenE_def bindE_def split: prod.splits sum.splits)
    from 2(2) [OF False this] False show ?thesis by simp
  qed
qed

text \<open>
  Two objects whose names begin alike both have a latest version; whichever was seen last, the other
  one counts as a change, so every check asks for a replacement.
\<close>

lemma shared_prefix_always_changes:
  "v \<noteq> w \<Longrightarrow> find (version_changed s) [(True, v, m), (True, w, m')] \<noteq> None"
  by (auto simp: version_changed_def) (metis option.inject)

end
