(* ===== verification/Canary_Wrapper.thy ===== *)
theory Canary_Wrapper
  imports Canary_Monitors
begin

text \<open>
  The script \<open>codebuild/CanaryWrapper.py\<close>: its arguments, the loop that watches the canary
  until something stops it, and what is reported then. The loop may run for ever, so it is a partial
  function into \<open>option\<close>; that it returns is a theorem.
\<close>

section \<open>Arguments\<close>

record wrapper_args =
  canary_executable :: string
  canary_arguments :: string
  arg_git_hash :: string
  arg_git_repo_name :: string
  arg_git_hash_as_namespace :: bool
  arg_output_log_filepath :: "string option"
  arg_output_to_console :: bool
  arg_cloudwatch_region :: string
  arg_s3_bucket_name :: string
  snapshot_wait_time :: int
  arg_ticket_category :: string
  arg_ticket_type :: string
  arg_ticket_item :: string
  arg_ticket_group :: string
  arg_dependencies :: string
  arg_lambda_name :: string
  codebuild_log_path :: string

text \<open>
  The options as \<open>argparse\<close> leaves them: \<open>opts\<close> gives the text of an option on the
  command line, \<open>wait\<close> the converted number. An option declared with \<open>type=bool\<close> is
  converted by \<open>bool\<close>, so any text but the empty one is true. A missing required option
  ends the program.
\<close>

definition text_option :: "(string \<Rightarrow> string option) \<Rightarrow> string \<Rightarrow> string \<Rightarrow> string" where
  "text_option opts n d = (case opts n of None \<Rightarrow> d | Some t \<Rightarrow> t)"

definition bool_option :: "(string \<Rightarrow> string option) \<Rightarrow> string \<Rightarrow> bool \<Rightarrow> bool" where
  "bool_option opts n d = (case opts n of None \<Rightarrow> d | Some t \<Rightarrow> truthy (PStr t))"

definition parse_args :: "(string \<Rightarrow> string option) \<Rightarrow> int option \<Rightarrow> wrapper_args option" where
  "parse_args opts wait =
     (case (opts ''canary_executable'', opts ''git_hash'', opts ''git_repo_name'') of
        (Some exe, Some hash, Some repo) \<Rightarrow>
          Some \<lparr>canary_executable = exe, canary_arguments = text_option opts ''canary_arguments'' [],
            arg_git_hash = hash, arg_git_repo_name = repo,
            arg_git_hash_as_namespace = bool_option opts ''git_hash_as_namespace'' False,
            arg_output_log_filepath = Some (text_option opts ''output_log_filepath'' ''output.log''),
            arg_output_to_console = bool_option opts ''output_to_console'' True,
            arg_cloudwatch_region = text_option opts ''cloudwatch_region'' ''us-east-1'',
            arg_s3_bucket_name = text_option opts ''s3_bucket_name'' ''canary-wrapper-folder'',
            snapshot_wait_time = (case wait of None \<Rightarrow> 600 | Some w \<Rightarrow> w),
            arg_ticket_category = text_option opts ''ticket_category'' ''AWS'',
            arg_ticket_type = text_option opts ''ticket_type'' ''SDKs and Tools'',
            arg_ticket_item = text_option opts ''ticket_item'' ''IoT SDK for CPP'',
            arg_ticket_group = text_option opts ''ticket_group'' ''AWS IoT Device SDK'',
            arg_dependencies = text_option opts ''dependencies'' [],
            arg_lambda_name = text_option opts ''lambda_name'' ''iot-send-email-lambda'',
            codebuild_log_path = text_option opts ''codebuild_log_path'' []\<rparr>
      | _ \<Rightarrow> None)"

definition default_if_empty :: "string \<Rightarrow> string \<Rightarrow> string" where
  "default_if_empty t d = (if t = [] then d else t)"

text \<open>Empty values: an error message (and exit status 1) or the default.\<close>

definition check_args :: "wrapper_args \<Rightarrow> string + wrapper_args" where
  "check_args a =
     (if canary_executable a = [] then Inl ''ERROR - required canary_executable is empty!''
      else if arg_git_hash a = [] then Inl ''ERROR - required git_hash is empty!''
      else if arg_git_repo_name a = [] then Inl ''ERROR - required git_repo_name is empty!''
      else Inr (a\<lparr>
        arg_output_log_filepath :=
          (if arg_output_log_filepath a = Some ''None'' \<or> arg_output_log_filepath a = Some [] then None
           else arg_output_log_filepath a),
        snapshot_wait_time := (if snapshot_wait_time a \<le> 0 then 60 else snapshot_wait_time a),
        arg_cloudwatch_region := default_if_empty (arg_cloudwatch_region a) ''us-east-1'',
        arg_s3_bucket_name := default_if_empty (arg_s3_bucket_name a) ''canary-wrapper-folder'',
        arg_ticket_category := default_if_empty (arg_ticket_category a) ''AWS'',
        arg_ticket_type := default_if_empty (arg_ticket_type a) ''SDKs and Tools'',
        arg_ticket_item := default_if_empty (arg_ticket_item a) ''IoT SDK for CPP'',
        arg_ticket_group := default_if_empty (arg_ticket_group a) ''AWS IoT Device SDK''\<rparr>))"

section \<open>The loop\<close>

definition execution_sleep_time :: int where
  "execution_sleep_time = 30"

text \<open>One round; the result says whether the loop is left.\<close>

definition execution_step :: "outside \<Rightarrow> (canary, bool) py" where
  "execution_step E =
     bindE (getE application_process_psutil) (\<lambda>proc.
     thenE (snapshot_monitor_loop E proc execution_sleep_time)
    (thenE (app_monitor_loop E)
    (bindE (getE has_cut_ticket) (\<lambda>cut.
       if cut then thenE (updE (\<lambda>s. s\<lparr>had_internal_error := True\<rparr>)) (ret True)
       else bindE (getE (\<lambda>s. error_has_occurred s \<or> had_internal_error s)) (\<lambda>stop.
         if stop then ret True
         else thenE (outside_call E ''sleep'' [PInt execution_sleep_time]) (ret False))))))"

partial_function (option) execution_loop :: "outside \<Rightarrow> canary \<Rightarrow> ((pyexc + unit) \<times> canary) option" where
  "execution_loop E s =
     (case execution_step E s of
        (Inl e, s') \<Rightarrow> Some (Inl e, s')
      | (Inr stop, s') \<Rightarrow> (if stop then Some (Inr (), s') else execution_loop E s'))"

declare execution_loop.simps [code]

section \<open>Start and end of a run\<close>

definition start_thread :: "outside \<Rightarrow> wrapper_args \<Rightarrow> (canary, unit) py" where
  "start_thread E a =
     thenE (send_email E
        (''MQTT5 Short Running Canary Wrapper has started for \"'' @ arg_git_repo_name a @ ''\" commit \"'' @
         arg_git_hash a @ ''\"'' @ nl @
         ''The wrapper will run for the length the MQTT5 Canary application is set to run for, which is determined by '' @
         ''the arguments set. The arguments used for this run are listed below:'' @ nl @
         ''  Arguments: '' @ canary_arguments a) (Some ''Started''))
    (thenE (app_start_monitoring E)
           (updE (\<lambda>s. s\<lparr>can_cut_ticket := True\<rparr>)))"

definition wrapper_ticket :: "wrapper_args \<Rightarrow> string \<Rightarrow> string \<Rightarrow> ticket" where
  "wrapper_ticket a desc reason =
     \<lparr>ticket_description = desc, ticket_reason = reason, ticket_severity = 4,
      ticket_category = arg_ticket_category a, ticket_type = arg_ticket_type a,
      ticket_item = arg_ticket_item a, ticket_group = arg_ticket_group a, ticket_allow_duplicates = True,
      ticket_repo = Some (arg_git_repo_name a), ticket_hash = Some (arg_git_hash a),
      ticket_hash_as_namespace = arg_git_hash_as_namespace a,
      ticket_fixed_namespace = ''mqtt5_canary'', ticket_region = ''us-east-1''\<rparr>"

text \<open>
  Why the loop was left: \<open>wrapper_error_occurred\<close>, \<open>send_finished_email\<close> and what is added
  to the mail. An exception leaves all three as they were initialised.
\<close>

definition find_reason :: "outside \<Rightarrow> wrapper_args \<Rightarrow> (canary, bool \<times> bool \<times> string) py" where
  "find_reason E a =
     try_except
       (bindE (getE (\<lambda>s. s)) (\<lambda>s.
          if had_internal_error s then
            (if has_cut_ticket s then
               thenE (py_print ''ERROR - Snapshot monitor stopped due to metric in alarm!'')
                     (ret (True, True, ''Failure due to required metrics being in alarm! A new ticket should have been cut!'' @
                        nl @ ''Metrics in Alarm: '' @ py_str_list (cloudwatch_current_alarms_triggered s)))
             else
               thenE (py_print ''ERROR - Snapshot monitor stopped due to internal error!'')
              (thenE (cut_ticket_using_cloudwatch E (wrapper_ticket a
                        (''Snapshot monitor stopped due to internal error! Reason info: '' @ internal_error_reason s)
                        ''Snapshot monitor stopped due to internal error''))
                     (ret (True, True, ''Failure due to Snapshot monitor stopping due to an internal error.'' @
                        '' Reason given for error: '' @ internal_error_reason s))))
          else if error_has_occurred s then
            (if error_due_to_credentials s then
               thenE (py_print ''INFO - Stopping application due to error caused by credentials'')
              (thenE (py_print ''Please fix your credentials and then restart this application again'')
                     (ret (True, False, [])))
             else if error_code s \<noteq> 0 then
               thenE (cut_ticket_using_cloudwatch E (wrapper_ticket a
                        ''The Short Running Canary exited with a non-zero exit code! This likely means something in the canary failed.''
                        ''The Short Running Canary exited with a non-zero exit code''))
                     (ret (True, True, ''Failure due to MQTT5 application exiting with a non-zero exit code! This means something in the Canary application itself failed''))
             else
               thenE (py_print ''INFO - Stopping application. No error has occurred, application has stopped normally'')
              (thenE (print_stdout E)
                     (ret (False, True, ''Short Running Canary finished successfully and run without errors!''))))
          else
            thenE (py_print ''ERROR - Short Running Canary stopped due to unknown reason!'')
           (thenE (cut_ticket_using_cloudwatch E (wrapper_ticket a
                     ''The Short Running Canary stopped for an unknown reason!''
                     ''The Short Running Canary stopped for unknown reason''))
                  (ret (True, True, ''Failure due to unknown reason! This shouldn't happen and means something has gone wrong!'')))))
       (\<lambda>e. thenE (py_print ''ERROR: Could not (possibly) cut ticket due to exception!'')
           (thenE (py_print (''Exception: '' @ exc_str E e)) (ret (False, True, []))))"

text \<open>The place of the log that the mail names.\<close>

definition emailed_log_key :: "wrapper_args \<Rightarrow> string \<Rightarrow> bool \<Rightarrow> string" where
  "emailed_log_key a dt err =
     arg_git_repo_name a @ ''/'' @ dt @ ''/'' @ (if err then ''Failed_Logs/'' else []) @ arg_git_hash a @ ''.log''"

definition finished_email_body :: "wrapper_args \<Rightarrow> string \<Rightarrow> bool \<Rightarrow> string \<Rightarrow> string" where
  "finished_email_body a dt err reason =
     ''MQTT5 Short Running Canary Wrapper has stopped.'' @ nl @ nl @ reason @ nl @ nl @
     ''You can find the log file for this run at the following S3 location: '' @
     ''https://s3.console.aws.amazon.com/s3/object/'' @ arg_s3_bucket_name a @
     ''?region='' @ arg_cloudwatch_region a @ ''&prefix='' @ emailed_log_key a dt err"

definition finish_thread :: "outside \<Rightarrow> wrapper_args \<Rightarrow> string \<Rightarrow> (canary, int) py" where
  "finish_thread E a dt =
     thenE (app_stop_monitoring E)
    (bindE (find_reason E a) (\<lambda>(err, send, reason).
     thenE (cleanup_monitor E err)
    (thenE (py_print ''Short Running Canary finished!'')
    (thenE (whenE (codebuild_log_path a \<noteq> [])
              (py_print (nl @ '' Codebuild log path: '' @ codebuild_log_path a @ nl)))
    (thenE (whenE send (send_email E (finished_email_body a dt err reason)
              (Some (if err then ''Had an error'' else ''Finished''))))
           (getE error_code))))))"

definition application_thread :: "outside \<Rightarrow> wrapper_args \<Rightarrow> string \<Rightarrow> canary \<Rightarrow> ((pyexc + int) \<times> canary) option" where
  "application_thread E a dt s =
     (case start_thread E a s of
        (Inl e, s1) \<Rightarrow> Some (Inl e, s1)
      | (Inr _, s1) \<Rightarrow>
          (case execution_loop E s1 of
             None \<Rightarrow> None
           | Some (Inl e, s2) \<Rightarrow> Some (Inl e, s2)
           | Some (Inr _, s2) \<Rightarrow> Some (finish_thread E a dt s2)))"

section \<open>The script\<close>

definition canary_blank :: "unit canary_ext" where
  "canary_blank = canary.fields False False [] False False [] None 0 None None False False [] 0 [] [] False False"

definition wrapper_init :: "wrapper_args \<Rightarrow> string \<Rightarrow> canary" where
  "wrapper_init a dt =
     snapshot_init (arg_git_hash_as_namespace a) ''mqtt5_canary'' (Some dt) (Some ''output.txt'')
       (arg_output_to_console a) ''us-east-1'' False True True (arg_s3_bucket_name a) True
       (arg_lambda_name a) (Some (snapshot_wait_time a)) canary_blank"

definition register_canary_metrics :: "(canary, unit) py" where
  "register_canary_metrics =
     thenE (register_metric ''total_cpu_usage'' (Some CpuUsage) ''Percent'' (Some 70) 1 5 True)
    (thenE (register_metric ''total_memory_usage_value'' (Some MemoryValue) ''Bytes'' None 0 6 False)
           (register_metric ''total_memory_usage_percent'' (Some MemoryPercent) ''Percent'' (Some 70) 0 5 True))"

text \<open>Whether the set-up got as far as the thread; otherwise the script exits with status 0.\<close>

definition credentials_notice :: "(canary, bool) py" where
  "credentials_notice =
     thenE (py_print ''INFO - Stopping application due to error caused by credentials'')
    (thenE (py_print ''Please fix your credentials and then restart this application again'') (ret False))"

definition setup_wrapper :: "outside \<Rightarrow> wrapper_args \<Rightarrow> string \<Rightarrow> (canary, bool) py" where
  "setup_wrapper E a dt =
     thenE (py_print (''Datetime string is: '' @ dt))
    (thenE (DataSnapshot E (Some (arg_git_hash a)) (Some (arg_git_repo_name a)))
    (bindE (getE abort_due_to_internal_error) (\<lambda>b.
       if b then credentials_notice
       else
         thenE register_canary_metrics
        (thenE (output_diagnosis_information (arg_dependencies a))
        (thenE (SnapshotMonitor E (snapshot_wait_time a))
        (bindE (getE had_internal_error) (\<lambda>h.
           if h then credentials_notice
           else
             thenE (ApplicationMonitor (canary_executable a) (canary_arguments a) False True)
            (bindE (getE error_has_occurred) (\<lambda>oc. if oc then credentials_notice else ret True)))))))))"

definition run_wrapper :: "outside \<Rightarrow> wrapper_args \<Rightarrow> string \<Rightarrow> ((pyexc + int) \<times> canary) option" where
  "run_wrapper E a dt =
     (case setup_wrapper E a dt (wrapper_init a dt) of
        (Inl e, s) \<Rightarrow> Some (Inl e, s)
      | (Inr ok, s) \<Rightarrow> (if ok then application_thread E a dt s else Some (Inr 0, s)))"

section \<open>The monitors do not disturb each other\<close>

text \<open>
  \<open>aside\<close>: the trace only grows, and what belongs to the application monitor and the ticket
  flag stay; so it is with every operation of the snapshot and, as alarms are never reported, with
  the loop function of the snapshot monitor. \<open>apart\<close>: what belongs to the snapshot monitor
  stays; so it is with the loop function of the application monitor.
\<close>

definition aside :: "canary \<Rightarrow> canary \<Rightarrow> bool" where
  "aside s s' \<longleftrightarrow> (\<exists>es. trace s' = trace s @ es) \<and> application_process s' = application_process s \<and>
     wrapper_application_restart_on_finish s' = wrapper_application_restart_on_finish s \<and>
     error_has_occurred s' = error_has_occurred s \<and> has_cut_ticket s' = has_cut_ticket s"

definition apart :: "canary \<Rightarrow> canary \<Rightarrow> bool" where
  "apart s s' \<longleftrightarrow> (\<exists>es. trace s' = trace s @ es) \<and> metric_post_timer s' = metric_post_timer s \<and>
     metric_post_timer_time s' = metric_post_timer_time s \<and> had_internal_error s' = had_internal_error s \<and>
     metric_report_number s' = metric_report_number s \<and> has_cut_ticket s' = has_cut_ticket s \<and>
     wrapper_application_restart_on_finish s' = wrapper_application_restart_on_finish s"

interpretation aside: world_frame aside
  by unfold_locales (auto simp: aside_def)

interpretation apart: world_frame apart
  by unfold_locales (auto simp: apart_def)

lemma same_more:
  assumes "snapshot.more (s' :: canary) = snapshot.more s"
  shows "application_process s' = application_process s" "metric_post_timer s' = metric_post_timer s"
    "wrapper_application_restart_on_finish s' = wrapper_application_restart_on_finish s"
    "error_has_occurred s' = error_has_occurred s" "has_cut_ticket s' = has_cut_ticket s"
    "metric_post_timer_time s' = metric_post_timer_time s" "had_internal_error s' = had_internal_error s"
  using assms by (cases s; cases s'; simp)+

lemma grows_aside: "grows s s' \<Longrightarrow> aside s s'"
  using same_more [of s' s] by (simp add: grows_def aside_def)

lemma tidy_apart: "tidy s s' \<Longrightarrow> apart s s'"
  using same_more [of s' s] by (simp add: tidy_def steady_def quiet_def grows_def apart_def)

lemma aside_of_grows: "moves grows m \<Longrightarrow> moves aside m"
  by (erule moves_weaken) (rule grows_aside)

lemma apart_of_tidy: "moves tidy m \<Longrightarrow> moves apart m"
  by (erule moves_weaken) (rule tidy_apart)

lemmas aside_of_tidy = aside_of_grows [OF grows_of_quiet [OF quiet_of_steady [OF steady_of_tidy]]]
lemmas aside_message = aside_of_tidy [OF tidy_message]

lemma aside_internal_error: "moves aside (set_internal_error r)"
  unfolding set_internal_error_def by (rule aside.moves_updE) (simp add: aside_def)

lemma poll_alarms_quiet:
  "bindE (get_cloudwatch_alarm_results E) (check_alarms_for_new_alarms E) =
   thenE (get_cloudwatch_alarm_results E) (updE (\<lambda>s. s\<lparr>cloudwatch_current_alarms_triggered := []\<rparr>))"
proof
  fix s
  show "bindE (get_cloudwatch_alarm_results E) (check_alarms_for_new_alarms E) s =
    thenE (get_cloudwatch_alarm_results E) (updE (\<lambda>s. s\<lparr>cloudwatch_current_alarms_triggered := []\<rparr>)) s"
    by (cases "get_cloudwatch_alarm_results E s"; cases "fst (get_cloudwatch_alarm_results E s)")
      (auto simp: thenE_def bindE_def check_alarms_for_new_alarms_def dest: no_alarm_results)
qed

lemma aside_poll: "moves aside (poll_alarms E)"
  unfolding poll_alarms_def poll_alarms_quiet
  by (intro aside.world_moves aside.moves_updE aside_internal_error aside_message aside_of_tidy [OF tidy_results])
    (simp add: aside_def)

lemma aside_post: "moves aside (post_or_fail E proc)"
  unfolding post_or_fail_def
  by (intro aside.world_moves aside_internal_error aside_message
      aside_of_grows [OF grows_of_quiet [OF quiet_post_metrics]])

lemma aside_snapshot_loop: "moves aside (snapshot_monitor_loop E proc t)"
  unfolding snapshot_monitor_loop_def get_timer_def
  by (intro aside.world_moves aside.moves_updE aside_internal_error aside_poll aside_post)
    (simp_all add: aside_def)

lemma apart_print: "moves apart (monitor_print m)"
  unfolding monitor_print_def by (intro apart.world_moves apart_of_tidy [OF tidy_message])

lemma apart_app_error: "moves apart (set_app_error r c)"
  unfolding set_app_error_def by (rule apart.moves_updE) (simp add: apart_def)

lemma apart_stdout: "moves apart (print_stdout E)"
  unfolding print_stdout_def by (intro apart.world_moves apart_print)

lemma apart_start_stop: "moves apart (app_start_monitoring E)" "moves apart (app_stop_monitoring E)"
  unfolding app_start_monitoring_def app_stop_monitoring_def
  by (intro apart.world_moves apart.moves_updE apart_print apart_app_error apart_stdout; simp add: apart_def)+

lemma apart_app_loop: "moves apart (app_monitor_loop E)"
  unfolding app_monitor_loop_def app_finished_def app_restart_monitoring_def
  by (intro apart.world_moves apart_print apart_app_error apart_start_stop)

section \<open>No alarm ever cuts a ticket\<close>

definition cut_free :: "canary \<Rightarrow> canary \<Rightarrow> bool" where
  "cut_free s s' \<longleftrightarrow> (\<not> has_cut_ticket s \<longrightarrow> \<not> has_cut_ticket s')"

interpretation cut_free: world_frame cut_free
  by unfold_locales (auto simp: cut_free_def)

lemma cut_free_of_aside: "moves aside m \<Longrightarrow> moves cut_free m"
  by (erule moves_weaken) (simp add: aside_def cut_free_def)

lemma cut_free_of_apart: "moves apart m \<Longrightarrow> moves cut_free m"
  by (erule moves_weaken) (simp add: apart_def cut_free_def)

lemmas cut_free_of_tidy = cut_free_of_apart [OF apart_of_tidy]

lemma cut_free_ticket: "moves cut_free (cut_ticket_using_cloudwatch E t)"
  unfolding cut_ticket_using_cloudwatch_def attempt_def repo_hash_def as_str_def
  by (intro cut_free.world_moves)

lemma cut_free_step: "moves cut_free (execution_step E)"
  unfolding execution_step_def
  by (intro cut_free.world_moves cut_free.moves_updE cut_free_of_aside [OF aside_snapshot_loop]
      cut_free_of_apart [OF apart_app_loop]) (simp add: cut_free_def)

text \<open>What every round keeps, the loop keeps.\<close>

lemma loop_moves:
  assumes R: "frame R" and st: "moves R (execution_step E)" and l: "execution_loop E s = Some y"
  shows "R s (snd y)"
proof -
  have "R s (snd y)"
    if IH: "\<And>s' y'. loop s' = Some y' \<Longrightarrow> R s' (snd y')"
      and ev: "(case execution_step E s of (Inl e, s') \<Rightarrow> Some (Inl e, s')
        | (Inr stop, s') \<Rightarrow> (if stop then Some (Inr (), s') else loop s')) = Some y" for loop s y
  proof -
    obtain x s1 where x: "execution_step E s = (x, s1)" by fastforce
    note r = movesD [OF st x]
    show ?thesis
    proof (cases "x = Inr False")
      case True
      with ev x IH have "R s1 (snd y)" by simp
      with r frame.R_trans [OF R] show ?thesis by blast
    next
      case False
      with ev x r show ?thesis by (auto split: sum.splits if_splits)
    qed
  qed
  with l show ?thesis
    by (rule execution_loop.raw_induct [of "\<lambda>E' s y. E' = E \<longrightarrow> R s (snd y)", rotated, rule_format]) auto
qed

lemma cut_free_loop: "execution_loop E s = Some y \<Longrightarrow> cut_free s (snd y)"
  by (rule loop_moves [OF cut_free.frame_axioms cut_free_step])

lemma tidy_send_email: "moves tidy (send_email E b c)"
  unfolding send_email_def by (intro tidy_intros tidy_alarms)

lemma tidy_diagnosis: "moves tidy (output_diagnosis_information d)"
  unfolding output_diagnosis_information_def by (intro tidy_intros)

lemma cut_free_export: "moves cut_free (export_result_to_s3_bucket E copy err)"
  unfolding export_result_to_s3_bucket_def copy_log_def upload_log_def
  by (intro cut_free.world_moves cut_free.moves_updE cut_free_of_tidy [OF tidy_message]
      cut_free_of_tidy [OF tidy_abort] cut_free_of_tidy [OF tidy_report] cut_free_of_tidy [OF tidy_call_on]
      cut_free_of_tidy [OF tidy_as_str]; simp add: cut_free_def)

lemma cut_free_cleanup: "moves cut_free (cleanup E err)"
  unfolding cleanup_def
  by (intro cut_free.world_moves cut_free.moves_updE cut_free_export cut_free_of_tidy [OF tidy_message]
      cut_free_of_tidy [OF tidy_alarms(2)] cut_free_of_tidy [OF tidy_alarms(3)]; simp add: cut_free_def)

lemma cut_free_start: "moves cut_free (start_thread E a)"
  unfolding start_thread_def
  by (intro cut_free.world_moves cut_free.moves_updE cut_free_of_tidy [OF tidy_send_email]
      cut_free_of_apart [OF apart_start_stop(1)]; simp add: cut_free_def)

lemma cut_free_finish: "moves cut_free (finish_thread E a dt)"
  unfolding finish_thread_def find_reason_def cleanup_monitor_def
  by (intro cut_free.world_moves cut_free_of_apart [OF apart_start_stop(2)] cut_free_ticket cut_free_cleanup
      cut_free_of_tidy [OF tidy_send_email] cut_free_of_apart [OF apart_stdout])

lemma cut_free_snapshot: "moves cut_free (DataSnapshot E h r)"
  unfolding DataSnapshot_def make_client_def open_log_def
  by (intro cut_free.world_moves cut_free.moves_updE cut_free_of_tidy [OF tidy_message]
      cut_free_of_tidy [OF tidy_abort] cut_free_of_tidy [OF tidy_report]; simp add: cut_free_def)

lemma cut_free_setup: "moves cut_free (setup_wrapper E a dt)"
  unfolding setup_wrapper_def credentials_notice_def register_canary_metrics_def register_metric_def
    SnapshotMonitor_def ApplicationMonitor_def set_internal_error_def
  by (intro cut_free.world_moves cut_free.moves_updE cut_free_snapshot cut_free_cleanup
      cut_free_of_tidy [OF tidy_diagnosis] cut_free_of_tidy [OF tidy_as_str]; simp add: cut_free_def)

lemma cut_free_thread:
  assumes "application_thread E a dt s = Some y"
  shows "cut_free s (snd y)"
proof -
  obtain r1 s1 where s1: "start_thread E a s = (r1, s1)" by fastforce
  note c1 = movesD [OF cut_free_start s1]
  show ?thesis
  proof (cases r1)
    case (Inl e)
    with assms s1 c1 show ?thesis by (auto simp: application_thread_def)
  next
    case (Inr u)
    with assms s1 obtain r2 s2 where l: "execution_loop E s1 = Some (r2, s2)"
      by (auto simp: application_thread_def split: option.splits)
    from cut_free_loop [OF this] c1 have c2: "cut_free s s2"
      by (auto intro: cut_free.R_trans)
    show ?thesis
    proof (cases r2)
      case (Inl e)
      with assms s1 Inr l c2 show ?thesis by (auto simp: application_thread_def)
    next
      case (Inr u')
      with assms s1 \<open>r1 = Inr u\<close> l have "finish_thread E a dt s2 = y"
        by (simp add: application_thread_def)
      with cut_free_finish [of E a dt] have "cut_free s2 (snd y)"
        by (auto simp: moves_def)
      with c2 show ?thesis by (rule cut_free.R_trans)
    qed
  qed
qed

lemma run_never_cuts:
  assumes "run_wrapper E a dt = Some (r, s)"
  shows "\<not> has_cut_ticket s"
proof -
  obtain r1 s1 where s1: "setup_wrapper E a dt (wrapper_init a dt) = (r1, s1)" by fastforce
  have "\<not> has_cut_ticket (wrapper_init a dt)"
    by (simp add: wrapper_init_def snapshot_init_def canary_blank_def canary.defs)
  with movesD [OF cut_free_setup s1] have "\<not> has_cut_ticket s1" by (simp add: cut_free_def)
  with assms s1 show ?thesis
    by (auto simp: run_wrapper_def cut_free_def split: sum.splits if_splits dest: cut_free_thread)
qed

section \<open>The loop ends with the application\<close>

lemma aside_print: "moves aside (monitor_print m)"
  unfolding monitor_print_def by (intro aside.world_moves aside_message)

text \<open>A round of the application monitor after which the loop goes on has found it running.\<close>

lemma app_loop_running:
  assumes "app_monitor_loop E s = (Inr (), s')" "application_process s = Some pid"
    and "\<not> wrapper_application_restart_on_finish s" "\<not> error_has_occurred s'"
  shows "o_poll E (Suc (length (trace s))) = Inr None \<and> application_process s' = Some pid \<and>
    length (trace s) < length (trace s')"
proof -
  let ?s = "s\<lparr>trace := trace s @ [Native ''poll'' [PInt (int pid)]]\<rparr>"
  let ?running = "''[ApplicationMonitor] Monitor application is still running...''"
  show ?thesis
  proof (cases "o_poll E (Suc (length (trace s)))")
    case (Inl e)
    with assms show ?thesis
      by (auto simp: app_monitor_loop_def py_monad split: prod.splits sum.splits)
  next
    case (Inr c)
    show ?thesis
    proof (cases c)
      case None
      with assms Inr have m: "monitor_print ?running ?s = (Inr (), s')"
        by (simp add: app_monitor_loop_def py_monad)
      from movesD [OF aside_print m] assms(2) Inr None show ?thesis
        by (auto simp: aside_def)
    next
      case (Some code)
      with assms Inr have f: "app_finished E code ?s = (Inr (), s')"
        by (simp add: app_monitor_loop_def py_monad)
      obtain r1 s1 where p: "monitor_print ''[ApplicationMonitor] Monitor application has stopped! Processing result...'' ?s = (r1, s1)"
        by fastforce
      from movesD [OF apart_print p] assms(3) have "\<not> wrapper_application_restart_on_finish s1"
        by (simp add: apart_def)
      with f p assms(4) show ?thesis
        by (auto simp: app_finished_def py_monad split: prod.splits sum.splits if_splits)
    qed
  qed
qed

lemma step_goes_on:
  assumes "execution_step E s = (Inr False, s')"
  obtains s1 s2 where
    "snapshot_monitor_loop E (application_process_psutil s) execution_sleep_time s = (Inr (), s1)"
    "app_monitor_loop E s1 = (Inr (), s2)"
    "\<not> error_has_occurred s2" "\<not> had_internal_error s2"
    "s' = s2\<lparr>trace := trace s2 @ [Native ''sleep'' [PInt execution_sleep_time]]\<rparr>"
  using assms that
  by (auto simp: execution_step_def py_monad split: prod.splits sum.splits if_splits option.splits)

lemma step_waits:
  assumes "execution_step E s = (Inr False, s')" "application_process s = Some pid"
    and "\<not> wrapper_application_restart_on_finish s"
  shows "application_process s' = Some pid \<and> \<not> wrapper_application_restart_on_finish s' \<and>
    length (trace s) < length (trace s') \<and>
    (\<exists>t. length (trace s) < t \<and> t \<le> length (trace s') \<and> o_poll E t = Inr None)"
proof -
  obtain s1 s2 where
    a: "snapshot_monitor_loop E (application_process_psutil s) execution_sleep_time s = (Inr (), s1)"
    and b: "app_monitor_loop E s1 = (Inr (), s2)" and c: "\<not> error_has_occurred s2"
    and d: "s' = s2\<lparr>trace := trace s2 @ [Native ''sleep'' [PInt execution_sleep_time]]\<rparr>"
    using step_goes_on [OF assms(1)] .
  from movesD [OF aside_snapshot_loop a] assms
  have s1: "application_process s1 = Some pid" "\<not> wrapper_application_restart_on_finish s1"
    "length (trace s) \<le> length (trace s1)"
    by (auto simp: aside_def)
  from movesD [OF apart_app_loop b] s1 have "\<not> wrapper_application_restart_on_finish s2"
    by (simp add: apart_def)
  with app_loop_running [OF b s1(1,2) c] s1(3) d show ?thesis
    by (auto intro!: exI [of _ "Suc (length (trace s1))"])
qed

lemma loop_ends:
  assumes "\<And>t. k \<le> t \<Longrightarrow> o_poll E t \<noteq> Inr None"
    and "application_process s = Some pid" "\<not> wrapper_application_restart_on_finish s"
  shows "\<exists>y. execution_loop E s = Some y"
  using assms(2,3)
proof (induction "k - length (trace s)" arbitrary: s rule: less_induct)
  case less
  obtain x s' where x: "execution_step E s = (x, s')" by fastforce
  show ?case
  proof (cases "x = Inr False")
    case True
    note w = step_waits [OF x [unfolded True] less.prems]
    then obtain t where "length (trace s) < t" "t \<le> length (trace s')" "o_poll E t = Inr None" by blast
    with assms(1) [of t] have "length (trace s) < k" by (metis leI le_trans less_imp_le_nat)
    with w less.hyps [of s'] have "\<exists>y. execution_loop E s' = Some y" by auto
    then show ?thesis by (subst execution_loop.simps) (simp add: x True)
  next
    case False
    then show ?thesis
      by (subst execution_loop.simps) (auto simp: x split: sum.splits)
  qed
qed

section \<open>How often metrics are posted\<close>

text \<open>What an alarm check or a report that succeeds leaves alone.\<close>

definition timed :: "canary \<Rightarrow> canary \<Rightarrow> bool" where
  "timed s s' \<longleftrightarrow> metric_post_timer s' = metric_post_timer s \<and> metric_post_timer_time s' = metric_post_timer_time s \<and>
     had_internal_error s' = had_internal_error s"

interpretation timed: world_frame timed
  by unfold_locales (auto simp: timed_def)

lemma timed_of_apart: "moves apart m \<Longrightarrow> moves timed m"
  by (erule moves_weaken) (simp add: apart_def timed_def)

lemma quiet_timed: "quiet s s' \<Longrightarrow> timed s s'"
  using same_more [of s' s] by (simp add: quiet_def grows_def timed_def)

lemma poll_alarms_cases:
  assumes "poll_alarms E s = (Inr ok, s')" "\<not> had_internal_error s'"
  shows "ok \<and> timed s s' \<and> metric_report_number s' = metric_report_number s"
proof -
  define m where "m = bindE (getE had_internal_error) (\<lambda>h. whenE (\<not> h)
    (bindE (get_cloudwatch_alarm_results E) (check_alarms_for_new_alarms E)))"
  have "moves apart m"
    unfolding m_def poll_alarms_quiet
    by (intro apart.world_moves apart.moves_updE apart_of_tidy [OF tidy_results]) (simp add: apart_def)
  from guarded_cases [OF assms(1) [unfolded poll_alarms_def, folded m_def]] assms(2) movesD [OF this]
  show ?thesis
    by (fastforce simp: set_internal_error_def py_monad apart_def timed_def split: prod.splits sum.splits)
qed

lemma post_or_fail_cases:
  assumes "post_or_fail E proc s = (Inr ok, s')" "\<not> had_internal_error s'"
  shows "ok \<and> timed s s' \<and> metric_report_number s' = metric_report_number s + 1"
  using guarded_cases [OF assms(1) [unfolded post_or_fail_def]] assms(2)
    post_metrics_counts [of E proc s s'] movesD [OF quiet_post_metrics, of E proc s] quiet_timed [of s s']
  by (fastforce simp: set_internal_error_def py_monad split: prod.splits sum.splits)

lemma snapshot_loop_cases:
  assumes run: "snapshot_monitor_loop E proc tp s = (Inr (), s')"
    and ok: "\<not> had_internal_error s'" and t: "metric_post_timer s = Some t"
  shows "metric_post_timer s' = Some ((if t \<le> 0 then t + metric_post_timer_time s else t) - tp) \<and>
    metric_post_timer_time s' = metric_post_timer_time s \<and>
    metric_report_number s' = metric_report_number s + (if t \<le> 0 then 1 else 0)"
proof -
  have "\<not> abort_due_to_internal_error s"
    using run ok by (auto simp: snapshot_monitor_loop_def py_monad)
  then obtain b s1 where b: "poll_alarms E s = (Inr b, s1)"
    using run by (cases "poll_alarms E s"; cases "fst (poll_alarms E s)")
      (auto simp: snapshot_monitor_loop_def bindE_def getE_def)
  define rest where "rest = bindE get_timer (\<lambda>t.
    bindE (if t \<le> 0 then bindE (getE had_internal_error) (\<lambda>h. if h then ret True else post_or_fail E proc)
           else ret True)
      (\<lambda>ok. whenE ok
        (thenE (whenE (t \<le> 0) (updE (\<lambda>s. s\<lparr>metric_post_timer := Some (t + metric_post_timer_time s)\<rparr>)))
               (bindE get_timer (\<lambda>t. updE (\<lambda>s. s\<lparr>metric_post_timer := Some (t - tp)\<rparr>))))))"
  have r: "whenE b rest s1 = (Inr (), s')"
    using run b \<open>\<not> abort_due_to_internal_error s\<close>
    by (simp add: snapshot_monitor_loop_def rest_def bindE_def getE_def)
  have "\<not> had_internal_error s1"
    using r ok by (auto simp: rest_def py_monad split: if_splits option.splits)
  from poll_alarms_cases [OF b this] t
  have b: b and s1: "metric_post_timer s1 = Some t" "metric_post_timer_time s1 = metric_post_timer_time s"
    "metric_report_number s1 = metric_report_number s"
    by (simp_all add: timed_def)
  show ?thesis
  proof (cases "t \<le> 0")
    case False
    with r b s1 show ?thesis by (auto simp: rest_def py_monad)
  next
    case True
    obtain x s2 where p: "post_or_fail E proc s1 = (x, s2)" by fastforce
    with r b s1 True \<open>\<not> had_internal_error s1\<close> obtain c where c: "x = Inr c"
      by (cases x) (auto simp: rest_def py_monad)
    have "\<not> had_internal_error s2"
      using r b s1 True \<open>\<not> had_internal_error s1\<close> p c ok
      by (auto simp: rest_def py_monad split: if_splits option.splits)
    from post_or_fail_cases [OF p [unfolded c] this] s1
    have "c" "metric_post_timer s2 = Some t" "metric_post_timer_time s2 = metric_post_timer_time s"
      "metric_report_number s2 = metric_report_number s + 1"
      by (simp_all add: timed_def)
    with r b s1 True \<open>\<not> had_internal_error s1\<close> p c show ?thesis
      by (auto simp: rest_def py_monad)
  qed
qed

lemma step_cadence:
  assumes "execution_step E s = (Inr False, s')" "metric_post_timer s = Some t"
  shows "metric_post_timer s' = Some ((if t \<le> 0 then t + metric_post_timer_time s else t) - 30) \<and>
    metric_post_timer_time s' = metric_post_timer_time s \<and>
    metric_report_number s' = metric_report_number s + (if t \<le> 0 then 1 else 0)"
proof -
  obtain s1 s2 where
    a: "snapshot_monitor_loop E (application_process_psutil s) execution_sleep_time s = (Inr (), s1)"
    and b: "app_monitor_loop E s1 = (Inr (), s2)" and c: "\<not> had_internal_error s2"
    and d: "s' = s2\<lparr>trace := trace s2 @ [Native ''sleep'' [PInt execution_sleep_time]]\<rparr>"
    using step_goes_on [OF assms(1)] .
  note k = movesD [OF apart_app_loop b]
  with c have "\<not> had_internal_error s1" by (simp add: apart_def)
  from snapshot_loop_cases [OF a this assms(2)] k d show ?thesis
    by (auto simp: apart_def execution_sleep_time_def)
qed

text \<open>\<open>n\<close> rounds after which the loop still goes on.\<close>

abbreviation rounds :: "outside \<Rightarrow> canary \<Rightarrow> unit list \<Rightarrow> canary \<Rightarrow> bool" where
  "rounds E \<equiv> run_steps (\<lambda>s _ s'. execution_step E s = (Inr False, s'))"

lemma rounds_cadence:
  assumes "rounds E s us s'" "us \<noteq> []" "metric_post_timer s = Some 0" "30 \<le> metric_post_timer_time s"
  shows "metric_post_timer_time s' = metric_post_timer_time s \<and>
    (\<exists>r. metric_report_number s' = metric_report_number s + r \<and>
       metric_post_timer s' = Some (r * metric_post_timer_time s - 30 * int (length us)) \<and>
       metric_post_timer_time s * (r - 1) \<le> 30 * (int (length us) - 1) \<and>
       30 * (int (length us) - 1) < metric_post_timer_time s * r)"
  using assms(1,2)
proof (induction us arbitrary: s' rule: rev_induct)
  case (snoc u us)
  then obtain s1 where r: "rounds E s us s1" and e: "execution_step E s1 = (Inr False, s')"
    by (auto simp: run_steps_append run_steps_Cons)
  let ?T = "metric_post_timer_time s"
  show ?case
  proof (cases "us = []")
    case True
    with r have "s1 = s" by simp
    with step_cadence [OF e] assms(3,4) True show ?thesis by simp
  next
    case False
    from snoc.IH [OF r False] obtain k where
      T: "metric_post_timer_time s1 = ?T" and k: "metric_report_number s1 = metric_report_number s + k"
      and t: "metric_post_timer s1 = Some (k * ?T - 30 * int (length us))"
      and lo: "?T * (k - 1) \<le> 30 * (int (length us) - 1)" and hi: "30 * (int (length us) - 1) < ?T * k"
      by blast
    note st = step_cadence [OF e t]
    show ?thesis
    proof (cases "k * ?T - 30 * int (length us) \<le> 0")
      case True
      with st T k lo hi assms(4) show ?thesis
        by (intro conjI exI [of _ "k + 1"]) (simp_all add: algebra_simps)
    next
      case False
      with st T k lo hi show ?thesis
        by (intro conjI exI [of _ k]) (simp_all add: algebra_simps)
    qed
  qed
qed simp

section \<open>The verdict\<close>

definition log_ok :: "'a snapshot_scheme \<Rightarrow> bool" where
  "log_ok s \<longleftrightarrow> (output_to_file s = PBool True \<longrightarrow> output_file s = Some Writing)"

definition tickets_cut :: "ev list \<Rightarrow> nat" where
  "tickets_cut es = length (filter (\<lambda>e. case e of Native f _ \<Rightarrow> f = ''set_alarm_state'' | _ \<Rightarrow> False) es)"

lemma tickets_cut_simps [simp]:
  "tickets_cut [] = 0" "tickets_cut (es @ fs) = tickets_cut es + tickets_cut fs"
  "tickets_cut (Print m # es) = tickets_cut es"
  "tickets_cut (Native f args # es) = (if f = ''set_alarm_state'' then 1 else 0) + tickets_cut es"
  by (simp_all add: tickets_cut_def)

definition run_failed :: "canary \<Rightarrow> bool" where
  "run_failed s \<longleftrightarrow> had_internal_error s \<or> \<not> error_has_occurred s \<or> error_due_to_credentials s \<or> error_code s \<noteq> 0"

lemma cut_ticket_succeeds:
  assumes "\<And>t f args. o_call E t f args = None" "ticket_repo t = Some repo" "ticket_hash t = Some hash"
  shows "\<exists>es s'. cut_ticket_using_cloudwatch E t s = (Inr (), s') \<and> trace s' = trace s @ es \<and> tickets_cut es = 1"
  using assms
  by (cases "ticket_hash_as_namespace t") (simp_all add: cut_ticket_using_cloudwatch_def attempt_def py_monad)

lemma monitor_print_succeeds:
  "log_ok s \<Longrightarrow> \<exists>es s'. monitor_print m s = (Inr (), s') \<and> log_ok s' \<and> trace s' = trace s @ es \<and> tickets_cut es = 0"
  by (auto simp: log_ok_def monitor_print_def print_message_def py_monad)

lemma print_stdout_succeeds:
  assumes "\<And>t f args. o_call E t f args = None" "\<And>t p. \<exists>x. o_text E t p = Inr x" "log_ok s"
  shows "\<exists>es s'. print_stdout E s = (Inr (), s') \<and> trace s' = trace s @ es \<and> tickets_cut es = 0"
proof -
  obtain stext where stext: "\<And>t p. o_text E t p = Inr (stext t p)" using assms(2) by metis
  let ?s = "s\<lparr>trace := trace s @ [Native ''isfile'' [PStr stdout_file_path]]\<rparr>"
  have "log_ok ?s" using assms(3) by (simp add: log_ok_def)
  then obtain es1 s1 where
    p1: "monitor_print ''Just finished Application STDOUT: '' ?s = (Inr (), s1)" "log_ok s1"
      "trace s1 = trace ?s @ es1" "tickets_cut es1 = 0"
    using monitor_print_succeeds by blast
  let ?s1 = "s1\<lparr>trace := trace s1 @ [Native ''read'' [PStr stdout_file_path]]\<rparr>"
  have "log_ok ?s1" using p1(2) by (simp add: log_ok_def)
  then obtain es2 s2 where
    "monitor_print (stext (Suc (length (trace s1))) stdout_file_path) ?s1 = (Inr (), s2)" "log_ok s2"
      "trace s2 = trace ?s1 @ es2" "tickets_cut es2 = 0"
    using monitor_print_succeeds by blast
  with p1 show ?thesis
    by (simp add: print_stdout_def py_monad stext assms(1))
qed

text \<open>\<open>m\<close> returns \<open>x\<close> and cuts \<open>n\<close> tickets on the way.\<close>

definition settles :: "'b \<Rightarrow> nat \<Rightarrow> (canary, 'b) py \<Rightarrow> canary \<Rightarrow> bool" where
  "settles x n m s \<longleftrightarrow> (\<exists>es s'. m s = (Inr x, s') \<and> trace s' = trace s @ es \<and> tickets_cut es = n)"

lemma settles_ret: "settles x 0 (ret x) s"
  by (simp add: settles_def ret_def)

lemma settles_try: "settles x n m s \<Longrightarrow> settles x n (try_except m h) s"
  by (auto simp: settles_def try_except_def)

lemma settles_get: "settles x n (k s) s \<Longrightarrow> settles x n (bindE (getE (\<lambda>s. s)) k) s"
  by (simp add: settles_def bindE_def getE_def)

lemma settles_if:
  "b \<Longrightarrow> settles x n m s \<Longrightarrow> settles x n (if b then m else k) s"
  "\<not> b \<Longrightarrow> settles x n k s \<Longrightarrow> settles x n (if b then m else k) s"
  by simp_all

lemma settles_then:
  assumes "settles () n m s" "\<And>s'. settles x n' k s'"
  shows "settles x (n + n') (thenE m k) s"
proof -
  obtain es s1 where 1: "m s = (Inr (), s1)" "trace s1 = trace s @ es" "tickets_cut es = n"
    using assms(1) by (auto simp: settles_def)
  obtain fs s2 where "k s1 = (Inr x, s2)" "trace s2 = trace s1 @ fs" "tickets_cut fs = n'"
    using assms(2) [of s1] by (auto simp: settles_def)
  with 1 show ?thesis
    by (auto simp: settles_def thenE_def bindE_def intro!: exI [of _ "es @ fs"])
qed

lemma settles_print: "settles () 0 (py_print t) s"
  by (auto simp: settles_def py_monad)

lemma settles_cut:
  assumes "\<And>t f args. o_call E t f args = None"
  shows "settles () 1 (cut_ticket_using_cloudwatch E (wrapper_ticket a d r)) s"
  unfolding settles_def
  by (rule cut_ticket_succeeds [OF assms]) (simp_all add: wrapper_ticket_def)

lemma verdict_table:
  assumes "\<And>t f args. o_call E t f args = None" "\<And>t p. \<exists>x. o_text E t p = Inr x" "log_ok s"
  shows "\<exists>reason. settles
      (run_failed s, had_internal_error s \<or> \<not> error_has_occurred s \<or> \<not> error_due_to_credentials s, reason)
      (if had_internal_error s then (if has_cut_ticket s then 0 else 1)
       else if error_has_occurred s then (if \<not> error_due_to_credentials s \<and> error_code s \<noteq> 0 then 1 else 0)
       else 1)
      (find_reason E a) s"
proof -
  note cut = settles_cut [OF assms(1)]
    and ends = settles_then [OF settles_print settles_ret, simplified]
    and pcut = settles_then [OF settles_print settles_then [OF settles_cut [OF assms(1)] settles_ret], simplified]
    and ccut = settles_then [OF settles_cut [OF assms(1)] settles_ret, simplified]
  consider (alarm) "had_internal_error s" "has_cut_ticket s"
    | (internal) "had_internal_error s" "\<not> has_cut_ticket s"
    | (cred) "\<not> had_internal_error s" "error_has_occurred s" "error_due_to_credentials s"
    | (crash) "\<not> had_internal_error s" "error_has_occurred s" "\<not> error_due_to_credentials s" "error_code s \<noteq> 0"
    | (fine) "\<not> had_internal_error s" "error_has_occurred s" "\<not> error_due_to_credentials s" "\<not> error_code s \<noteq> 0"
    | (unknown) "\<not> had_internal_error s" "\<not> error_has_occurred s"
    by blast
  then show ?thesis
  proof cases
    case alarm
    have "\<exists>reason. settles (True, True, reason) 0 (find_reason E a) s"
      unfolding find_reason_def
      by (rule exI, rule settles_try, rule settles_get, rule settles_if(1), fact, rule settles_if(1), fact, rule ends)
    with alarm show ?thesis by (simp add: run_failed_def)
  next
    case internal
    have "\<exists>reason. settles (True, True, reason) (Suc 0) (find_reason E a) s"
      unfolding find_reason_def
      by (rule exI, rule settles_try, rule settles_get, rule settles_if(1), fact, rule settles_if(2), fact, rule pcut)
    with internal show ?thesis by (simp add: run_failed_def)
  next
    case cred
    have "\<exists>reason. settles (True, False, reason) 0 (find_reason E a) s"
      unfolding find_reason_def
      by (rule exI, rule settles_try, rule settles_get, rule settles_if(2), fact, rule settles_if(1), fact,
          rule settles_if(1), fact, rule settles_then [OF settles_print ends, simplified])
    with cred show ?thesis by (simp add: run_failed_def)
  next
    case crash
    have "\<exists>reason. settles (True, True, reason) (Suc 0) (find_reason E a) s"
      unfolding find_reason_def
      by (rule exI, rule settles_try, rule settles_get, rule settles_if(2), fact, rule settles_if(1), fact,
          rule settles_if(2), fact, rule settles_if(1), fact, rule ccut)
    with crash show ?thesis by (simp add: run_failed_def)
  next
    case fine
    let ?m = "''INFO - Stopping application. No error has occurred, application has stopped normally''"
    let ?s = "s\<lparr>trace := trace s @ [Print ?m]\<rparr>"
    have "log_ok ?s" using assms(3) by (simp add: log_ok_def)
    from print_stdout_succeeds [OF assms(1,2) this] obtain es s' where
      "print_stdout E ?s = (Inr (), s')" "trace s' = trace ?s @ es" "tickets_cut es = 0" by blast
    then have ok: "settles x 0 (thenE (py_print ?m) (thenE (print_stdout E) (ret x))) s" for x :: "bool \<times> bool \<times> string"
      by (simp add: settles_def py_monad)
    have "\<exists>reason. settles (False, True, reason) 0 (find_reason E a) s"
      unfolding find_reason_def
      by (rule exI, rule settles_try, rule settles_get, rule settles_if(2), fact, rule settles_if(1), fact,
          rule settles_if(2), fact, rule settles_if(2), fact, rule ok)
    with fine show ?thesis by (simp add: run_failed_def)
  next
    case unknown
    have "\<exists>reason. settles (True, True, reason) (Suc 0) (find_reason E a) s"
      unfolding find_reason_def
      by (rule exI, rule settles_try, rule settles_get, rule settles_if(2), fact, rule settles_if(2), fact, rule pcut)
    with unknown show ?thesis by (simp add: run_failed_def)
  qed
qed

text \<open>An exception while the ticket is cut makes a failed run count as a success.\<close>

lemma ticket_failure_hides_error:
  assumes "\<And>t f args. o_call E t f args = (if f = ''delete_alarms'' then Some e else None)"
    and "had_internal_error s" "\<not> has_cut_ticket s"
  shows "fst (find_reason E a s) = Inr (False, True, [])"
  using assms
  by (cases "arg_git_hash_as_namespace a")
    (simp_all add: find_reason_def cut_ticket_using_cloudwatch_def attempt_def wrapper_ticket_def py_monad)

text \<open>The exit status is that of the application, whatever else went wrong.\<close>

definition coded :: "canary \<Rightarrow> canary \<Rightarrow> bool" where
  "coded s s' \<longleftrightarrow> error_code s' = error_code s"

interpretation coded: world_frame coded
  by unfold_locales (auto simp: coded_def)

lemma grows_coded: "grows s s' \<Longrightarrow> coded s s'"
  by (cases s; cases s'; simp add: grows_def coded_def)

lemma coded_of_grows: "moves grows m \<Longrightarrow> moves coded m"
  by (erule moves_weaken) (rule grows_coded)

lemmas coded_of_tidy = coded_of_grows [OF grows_of_quiet [OF quiet_of_steady [OF steady_of_tidy]]]

lemma coded_print: "moves coded (monitor_print m)"
  unfolding monitor_print_def by (intro coded.world_moves coded_of_tidy [OF tidy_message])

lemma coded_stdout: "moves coded (print_stdout E)"
  unfolding print_stdout_def by (intro coded.world_moves coded_print)

lemma coded_stop: "moves coded (app_stop_monitoring E)"
  unfolding app_stop_monitoring_def
  by (intro coded.world_moves coded.moves_updE coded_print coded_stdout) (simp add: coded_def)

lemma coded_reason: "moves coded (find_reason E a)"
  unfolding find_reason_def cut_ticket_using_cloudwatch_def attempt_def repo_hash_def as_str_def
  by (intro coded.world_moves coded_stdout)

lemma exit_status:
  assumes "finish_thread E a dt s = (Inr c, s')"
  shows "c = error_code s"
proof -
  have "moves coded (finish_thread E a dt)"
    unfolding finish_thread_def cleanup_monitor_def
    by (intro coded.world_moves coded_stop coded_reason coded_of_grows [OF grows_cleanup]
        coded_of_tidy [OF tidy_send_email])
  from movesD [OF this assms] have "error_code s' = error_code s" by (simp add: coded_def)
  moreover have "c = error_code s'"
    using assms
    by (auto simp: finish_thread_def thenE_def bindE_def getE_def split: prod.splits sum.splits)
  ultimately show ?thesis by simp
qed

section \<open>Every run ends once the application has\<close>

lemma loop_ends_on_error:
  assumes "application_process s = None" "error_has_occurred s"
  shows "\<exists>y. execution_loop E s = Some y"
proof -
  obtain x s1 where x: "snapshot_monitor_loop E (application_process_psutil s) execution_sleep_time s = (x, s1)"
    by fastforce
  from movesD [OF aside_snapshot_loop this] assms have "application_process s1 = None" "error_has_occurred s1"
    by (simp_all add: aside_def)
  with x have "fst (execution_step E s) \<noteq> Inr False"
    by (cases x) (auto simp: execution_step_def app_monitor_loop_def py_monad)
  then show ?thesis
    by (subst execution_loop.simps) (auto split: prod.splits sum.splits)
qed

lemma app_start_result:
  assumes "app_start_monitoring E s = (Inr (), s')" "application_process s = None"
  shows "application_process s' \<noteq> None \<or> error_has_occurred s'"
proof -
  let ?m = "''[ApplicationMonitor] Starting to monitor application...''"
  let ?started = "''[ApplicationMonitor] Application started...''"
  obtain r1 s1 where p: "monitor_print ?m s = (r1, s1)" by fastforce
  from movesD [OF aside_print p] assms(2) have n: "application_process s1 = None" by (simp add: aside_def)
  have k: "monitor_print ?started s2 = (Inr x, s3) \<Longrightarrow> application_process s3 = application_process s2" for s2 x s3
    using movesD [OF aside_print, of ?started s2 "Inr x" s3] by (simp add: aside_def)
  show ?thesis
    using assms(1) p n
    by (auto dest!: k simp: app_start_monitoring_def outside_call_def set_app_error_def emit_def thenE_def bindE_def
        getE_def updE_def try_except_def split: prod.splits sum.splits option.splits)
qed

lemma snapshot_monitor_ready:
  assumes "SnapshotMonitor E w s = (Inr (), s')" "\<not> had_internal_error s'"
  shows "metric_post_timer s' = Some 0 \<and> metric_post_timer_time s' = w"
proof (cases "abort_due_to_internal_error s")
  case True
  have c: "\<not> had_internal_error s1" if "cleanup E False s1 = (Inr (), s')" for s1
    using movesD [OF grows_cleanup that] assms(2) same_more(7) [of s' s1] by (simp add: grows_def)
  show ?thesis
    using assms(1) True by (auto dest!: c simp: SnapshotMonitor_def py_monad split: if_splits)
next
  case False
  then show ?thesis using assms(1) by (auto simp: SnapshotMonitor_def py_monad)
qed

lemma setup_leaves:
  assumes "setup_wrapper E a dt s = (Inr True, s')"
  shows "application_process s' = None \<and> \<not> wrapper_application_restart_on_finish s' \<and>
    metric_post_timer s' = Some 0 \<and> metric_post_timer_time s' = snapshot_wait_time a"
proof -
  obtain s1 s2 where m: "SnapshotMonitor E (snapshot_wait_time a) s1 = (Inr (), s2)" "\<not> had_internal_error s2"
    and s': "s' = snd (ApplicationMonitor (canary_executable a) (canary_arguments a) False True s2)"
    using assms
    by (auto simp: setup_wrapper_def credentials_notice_def ret_def thenE_def bindE_def getE_def
        split: prod.splits sum.splits if_splits)
  from snapshot_monitor_ready [OF m] s' show ?thesis
    by (simp add: ApplicationMonitor_def updE_def)
qed

lemma start_leaves:
  assumes "start_thread E a s = (Inr (), s')" "application_process s = None"
    and "\<not> wrapper_application_restart_on_finish s"
  shows "\<not> wrapper_application_restart_on_finish s' \<and> (application_process s' \<noteq> None \<or> error_has_occurred s')"
proof -
  let ?body = "''MQTT5 Short Running Canary Wrapper has started for \"'' @ arg_git_repo_name a @ ''\" commit \"'' @
         arg_git_hash a @ ''\"'' @ nl @
         ''The wrapper will run for the length the MQTT5 Canary application is set to run for, which is determined by '' @
         ''the arguments set. The arguments used for this run are listed below:'' @ nl @
         ''  Arguments: '' @ canary_arguments a"
  obtain r1 s1 where e: "send_email E ?body (Some ''Started'') s = (r1, s1)" by fastforce
  from movesD [OF aside_of_tidy [OF tidy_send_email] e] assms(2,3)
  have s1: "application_process s1 = None" "\<not> wrapper_application_restart_on_finish s1"
    by (simp_all add: aside_def)
  obtain r2 s2 where m: "app_start_monitoring E s1 = (r2, s2)" by fastforce
  have r: "r1 = Inr ()" "r2 = Inr ()" "s' = s2\<lparr>can_cut_ticket := True\<rparr>"
    using assms(1) e m by (cases r1; cases r2; simp add: start_thread_def thenE_def bindE_def updE_def)+
  from movesD [OF apart_start_stop(1) m] app_start_result [OF m [unfolded r(2)] s1(1)] s1(2) r(3)
  show ?thesis by (auto simp: apart_def)
qed

lemma run_ends:
  assumes "\<And>t. k \<le> t \<Longrightarrow> o_poll E t \<noteq> Inr None"
  shows "\<exists>y. run_wrapper E a dt = Some y"
proof -
  have thread: "\<exists>y. application_thread E a dt s = Some y" if ok: "setup_wrapper E a dt s0 = (Inr True, s)" for s0 s
  proof -
    obtain r1 s1 where s1: "start_thread E a s = (r1, s1)" by fastforce
    show ?thesis
    proof (cases r1)
      case (Inl e)
      with s1 show ?thesis by (simp add: application_thread_def)
    next
      case (Inr u)
      from start_leaves [of E a s s1] s1 Inr setup_leaves [OF ok]
      have "\<not> wrapper_application_restart_on_finish s1" "application_process s1 \<noteq> None \<or> error_has_occurred s1"
        by simp_all
      then have "\<exists>y. execution_loop E s1 = Some y"
        using loop_ends [OF assms] loop_ends_on_error by (cases "application_process s1") auto
      with s1 Inr show ?thesis
        by (auto simp: application_thread_def split: prod.splits sum.splits)
    qed
  qed
  show ?thesis
    unfolding run_wrapper_def using thread by (auto split: prod.splits sum.splits)
qed

section \<open>Instances\<close>

text \<open>Services that always answer, with an alarm in the state ALARM, and an application that
  ends with status 0 after a while.\<close>

definition calm :: outside where
  "calm = \<lparr>o_call = (\<lambda>_ _ _. None), o_alarms = (\<lambda>_. Inr [(''ALARM'', ''total_cpu_usage-r-h'')]),
     o_psutil = (\<lambda>_ _. Inr 50), o_poll = (\<lambda>t. Inr (if t < 100 then None else Some 0)),
     o_versions = (\<lambda>_. Inr None), o_exists = (\<lambda>_ _. True), o_text = (\<lambda>_ _. Inr ''text''),
     exc_str = (\<lambda>_. ''error''), num_str = (\<lambda>_. ''50.0'')\<rparr>"

definition sample_args :: wrapper_args where
  "sample_args = the (parse_args
     ((Map.empty)(''canary_executable'' \<mapsto> ''python3'', ''git_hash'' \<mapsto> ''h'', ''git_repo_name'' \<mapsto> ''r'')) None)"

text \<open>A wrapper whose application runs.\<close>

definition idle :: canary where
  "idle = (wrapper_init sample_args ''01-02-2024/10-00-00'')\<lparr>output_to_console := False,
     cloudwatch_client := True, metric_post_timer := Some 0, metric_post_timer_time := 600,
     application_process := Some 1, application_process_psutil := Some 1\<rparr>"

section \<open>Properties\<close>

text \<open>
  (C29) The wrapper ends: if from some moment on the status of the application is no longer
  "running" (it has exited, or polling it fails), then the script returns, whatever the services
  answer and whatever else fails.
\<close>

theorem canary_run_ends:
  assumes "\<And>t. k \<le> t \<Longrightarrow> o_poll E t \<noteq> Inr None"
  shows "\<exists>r s. run_wrapper E a dt = Some (r, s)"
  using run_ends [OF assms] by auto

theorem canary_run_ends_witness:
  "\<exists>r s. run_wrapper calm sample_args ''01-02-2024/10-00-00'' = Some (r, s)"
  by (rule canary_run_ends [of 100]) (simp add: calm_def)



text \<open>
  (C30) The rate of the reports: with a waiting time of at least the 30 seconds of a round, after n
  rounds of the loop there have been 30 (n - 1) div T + 1 reports, the first in the first round.
\<close>

theorem canary_report_cadence:
  assumes "rounds E s us s'" "us \<noteq> []" "metric_post_timer s = Some 0"
    and T: "30 \<le> metric_post_timer_time s"
  shows "metric_report_number s' =
    metric_report_number s + (30 * (int (length us) - 1)) div metric_post_timer_time s + 1"
proof -
  from rounds_cadence [OF assms] obtain r where
    r: "metric_report_number s' = metric_report_number s + r"
    and lo: "metric_post_timer_time s * (r - 1) \<le> 30 * (int (length us) - 1)"
    and hi: "30 * (int (length us) - 1) < metric_post_timer_time s * r"
    by blast
  have "(30 * (int (length us) - 1)) div metric_post_timer_time s = r - 1"
    by (rule int_div_pos_eq [of _ _ _ "30 * (int (length us) - 1) - metric_post_timer_time s * (r - 1)"])
      (use lo hi in \<open>simp_all add: algebra_simps\<close>)
  with r show ?thesis by simp
qed

theorem canary_report_cadence_witness:
  "metric_report_number (snd (execution_step calm (snd (execution_step calm idle)))) = 1"
proof -
  have "rounds calm idle [(), ()] (snd (execution_step calm (snd (execution_step calm idle))))"
    by (simp add: run_steps_Cons prod_eq_iff) code_simp
  from canary_report_cadence [OF this] show ?thesis
    by (simp add: idle_def wrapper_init_def snapshot_init_def canary_blank_def canary.defs)
qed



text \<open>
  The place of the log named in the final mail is the place it was uploaded to exactly for
  successful runs: of a failed run the two parts of the path are swapped. (The date of the run does
  not begin with an F.)
\<close>

lemma canary_log_link:
  assumes "dt \<noteq> []" "hd dt \<noteq> CHR ''F''"
  shows "emailed_log_key a dt err = s3_log_key err (Some dt) (arg_git_repo_name a) (arg_git_hash a) \<longleftrightarrow> \<not> err"
  using assms by (cases dt) (auto simp: emailed_log_key_def s3_log_key_def)

end
