(* ===== verification/Build_Setup.thy ===== *)
theory Build_Setup
  imports Py_Outside "HOL-Library.List_Lexorder"
begin

text \<open>
  \<open>setup.py\<close>: how the extension module is built. The machine (platform, interpreter,
  environment variables, installed tools) is the record \<open>host\<close>; commands are run through the
  services of \<open>Py_Outside\<close>. Version tuples are lists of integers, compared as Python compares
  tuples: lexicographically, a prefix first.
\<close>

section \<open>The machine\<close>

text \<open>
  \<open>config_var\<close> is \<open>sysconfig.get_config_var\<close>, \<open>getenv\<close> the environment the script
  is started with, \<open>which\<close> is \<open>shutil.which\<close>, \<open>output_of\<close> the output of a command,
  \<open>listdir\<close> and \<open>isdir\<close> those of \<open>os\<close>, \<open>kits_root\<close> the registry value and
  \<open>compiler_cc\<close> the compiler that distutils picks.
\<close>

record host =
  sys_platform :: string
  sys_maxsize :: int
  sys_argv :: "string list"
  version_info :: "int list"
  free_threaded :: bool
  machine :: string
  cpu_count :: int
  config_var :: "string \<Rightarrow> string option"
  getenv :: "string \<Rightarrow> string option"
  path_exists :: "string \<Rightarrow> bool"
  which :: "string \<Rightarrow> string option"
  output_of :: "string list \<Rightarrow> pyexc + string"
  listdir :: "string \<Rightarrow> pyexc + string list"
  isdir :: "string \<Rightarrow> bool"
  kits_root :: "pyexc + string"
  compiler_cc :: "pyexc + string"
  default_compiler :: string
  path_sep :: char
  list_sep :: char
  project_dir :: string

text \<open>\<open>os.path.join\<close> with relative paths after the first.\<close>

definition path_join :: "host \<Rightarrow> string list \<Rightarrow> string" where
  "path_join H ps =
     (case ps of [] \<Rightarrow> [] | q # qs \<Rightarrow>
        fold (\<lambda>b a. if a = [] \<or> last a = path_sep H \<or> last a = CHR ''/'' then a @ b
                    else a @ [path_sep H] @ b) qs q)"

definition starts_with :: "string \<Rightarrow> string \<Rightarrow> bool" where
  "starts_with p s = (take (length p) s = p)"

section \<open>Versions\<close>

definition MACOS_DEPLOYMENT_TARGET_MIN :: string where
  "MACOS_DEPLOYMENT_TARGET_MIN = ''10.15''"

definition WINDOWS_SDK_MIN_VERSION_TLS1_3_SUPPORT :: string where
  "WINDOWS_SDK_MIN_VERSION_TLS1_3_SUPPORT = ''10.0.17763.0''"

text \<open>\<open>int\<close> of a component that is not a decimal number is a \<open>ValueError\<close>; that it also
  accepts a sign, blanks and underscores plays no role for version numbers.\<close>

definition parse_version :: "string \<Rightarrow> pyexc + int list" where
  "parse_version s =
     (let ps = split_on (CHR ''.'') s
      in if list_all isdigit ps then Inr (map int_of_digits ps)
         else Inl (ValueError ''invalid literal for int() with base 10''))"

definition SDK_VERSION_RE_match :: "string \<Rightarrow> bool" where
  "SDK_VERSION_RE_match s =
     (let ps = split_on (CHR ''.'') s in length ps = 4 \<and> list_all isdigit ps)"

definition is_64bit :: "host \<Rightarrow> bool" where
  "is_64bit H = (sys_maxsize H > 2 ^ 32)"

definition is_32bit :: "host \<Rightarrow> bool" where
  "is_32bit H = (is_64bit H = False)"

definition is_development_mode :: "host \<Rightarrow> bool" where
  "is_development_mode H = (''develop'' \<in> set (sys_argv H))"

text \<open>The last word of the first line of the output of a command.\<close>

definition version_word :: "string \<Rightarrow> string" where
  "version_word out = last (split_on (CHR '' '') (hd (split_on (CHR 0x0A) out)))"

definition get_xcode_major_version :: "host \<Rightarrow> int" where
  "get_xcode_major_version H =
     (case output_of H [''xcodebuild'', ''-version''] of
        Inl _ \<Rightarrow> 0
      | Inr out \<Rightarrow>
          (let m = hd (split_on (CHR ''.'') (version_word out))
           in if isdigit m then int_of_digits m else 0))"

definition is_macos_universal2 :: "host \<Rightarrow> pyexc + bool" where
  "is_macos_universal2 H =
     (if sys_platform H \<noteq> ''darwin'' then Inr False
      else (case config_var H ''CFLAGS'' of
              None \<Rightarrow> Inl (TypeError ''argument of type NoneType is not iterable'')
            | Some f \<Rightarrow> Inr (contains ''-arch x86_64'' f \<and> contains ''-arch arm64'' f)))"

definition determine_cross_compile_args :: "host \<Rightarrow> string list" where
  "determine_cross_compile_args H =
     (if (machine H = ''AMD64'' \<or> machine H = ''x86_64'') \<and> is_32bit H \<and> sys_platform H \<noteq> ''win32''
      then [''-DCMAKE_C_FLAGS=-m32''] else [])"

section \<open>The Windows SDK\<close>

definition sdk_paths :: "host \<Rightarrow> string list" where
  "sdk_paths H =
     (case kits_root H of
        Inr kits \<Rightarrow> [path_join H [kits, ''Include'']]
      | Inl _ \<Rightarrow>
          [path_join H [(case getenv H ''ProgramFiles(x86)'' of Some p \<Rightarrow> p | None \<Rightarrow> ''C:'' @ [CHR 0x5C] @ ''Program Files (x86)''),
                        ''Windows Kits'', ''10'', ''Include''],
           path_join H [(case getenv H ''ProgramFiles'' of Some p \<Rightarrow> p | None \<Rightarrow> ''C:'' @ [CHR 0x5C] @ ''Program Files''),
                        ''Windows Kits'', ''10'', ''Include'']])"

text \<open>The entries of one directory that are added to the versions found so far.\<close>

definition add_sdk_entries :: "host \<Rightarrow> string \<Rightarrow> string list \<Rightarrow> string list \<Rightarrow> string list" where
  "add_sdk_entries H path entries found =
     fold (\<lambda>e acc. if SDK_VERSION_RE_match e \<and> isdir H (path_join H [path, e]) \<and> e \<notin> set acc
                    then acc @ [e] else acc) entries found"

definition scan_sdk_path :: "host \<Rightarrow> string \<Rightarrow> string list \<Rightarrow> string list" where
  "scan_sdk_path H path found =
     (if path_exists H path then
        (case listdir H path of Inl _ \<Rightarrow> found | Inr entries \<Rightarrow> add_sdk_entries H path entries found)
      else found)"

text \<open>The sort key; only names that match the regular expression are sorted.\<close>

definition version_key :: "string \<Rightarrow> int list" where
  "version_key v = (case parse_version v of Inr k \<Rightarrow> k | Inl _ \<Rightarrow> [])"

text \<open>\<open>sort(key=..., reverse=True)\<close> keeps the order of entries with equal keys.\<close>

definition get_windows_sdk_versions :: "host \<Rightarrow> string list" where
  "get_windows_sdk_versions H =
     (if sys_platform H \<noteq> ''win32'' then []
      else rev (sort_key version_key (rev (fold (scan_sdk_path H) (sdk_paths H) []))))"

definition get_best_windows_sdk_version :: "host \<Rightarrow> pyexc + string" where
  "get_best_windows_sdk_version H =
     (case get_windows_sdk_versions H of
        [] \<Rightarrow> Inl (RuntimeError (''No Windows SDK found. Please install Windows SDK '' @
                WINDOWS_SDK_MIN_VERSION_TLS1_3_SUPPORT @ '' or later for TLS 1.3 support.''))
      | v # vs \<Rightarrow>
          (if version_key v \<ge> version_key WINDOWS_SDK_MIN_VERSION_TLS1_3_SUPPORT then Inr v
           else Inl (RuntimeError (''No Windows SDK >= '' @ WINDOWS_SDK_MIN_VERSION_TLS1_3_SUPPORT @
                  '' found. Installed versions: '' @ join_str '', '' (v # vs) @ ''. Please install Windows SDK '' @
                  WINDOWS_SDK_MIN_VERSION_TLS1_3_SUPPORT @ '' or later for TLS 1.3 support.''))))"

section \<open>Generator and tools\<close>

text \<open>The Visual Studio of a compiler path, by the first pattern it contains.\<close>

definition vs_dir :: "string \<Rightarrow> string" where
  "vs_dir v = [CHR 0x5C] @ ''Microsoft Visual Studio'' @ [CHR 0x5C] @ v"

definition visual_studio :: "string \<Rightarrow> (int \<times> int) option" where
  "visual_studio cc =
     (if contains (vs_dir ''18'') cc then Some (18, 2026)
      else if contains (vs_dir ''2022'') cc then Some (17, 2022)
      else if contains (vs_dir ''2019'') cc then Some (16, 2019)
      else if contains (vs_dir ''2017'') cc then Some (15, 2017)
      else if contains ([CHR 0x5C] @ ''Microsoft Visual Studio 14.0'') cc then Some (14, 2015)
      else None)"

definition determine_generator_args :: "host \<Rightarrow> int list \<Rightarrow> string \<Rightarrow> pyexc + string list" where
  "determine_generator_args H cmake_version sdk =
     (if sys_platform H \<noteq> ''win32'' then Inr []
      else (case (case compiler_cc H of Inl _ \<Rightarrow> None | Inr cc \<Rightarrow> visual_studio cc) of
              None \<Rightarrow> Inl (RuntimeError ''No supported version of MSVC compiler could be found!'')
            | Some (v, y) \<Rightarrow>
                (let gen = ''Visual Studio '' @ str_int v @ '' '' @ str_int y
                 in if y \<le> 2017 then Inr [''-G'', gen @ (if is_64bit H then '' Win64'' else [])]
                    else Inr [''-G'', gen, ''-A'',
                           (if is_64bit H then ''x64'' else ''Win32'') @
                           (if cmake_version \<ge> [3, 27] then '',version='' @ sdk else [])])))"

text \<open>The state of the script: the path of CMake once found, the environment, and the attributes of
  the build command that it changes.\<close>

record build_state = world +
  cmake_found :: "string option"
  environ :: "string \<Rightarrow> string option"
  include_dirs :: "string list"
  library_dirs :: "string list"
  linker_so :: "string list"

text \<open>\<open>which\<close> never returns the empty string.\<close>

definition get_cmake_path :: "host \<Rightarrow> ('a build_state_scheme, string) py" where
  "get_cmake_path H =
     bindE (getE cmake_found) (\<lambda>c. case c of
        Some p \<Rightarrow> ret p
      | None \<Rightarrow>
          (case which H ''cmake3'' of
             Some p \<Rightarrow> thenE (updE (\<lambda>s. s\<lparr>cmake_found := Some p\<rparr>)) (ret p)
           | None \<Rightarrow>
               (case which H ''cmake'' of
                  Some p \<Rightarrow> thenE (updE (\<lambda>s. s\<lparr>cmake_found := Some p\<rparr>)) (ret p)
                | None \<Rightarrow> raise (BuiltinExc ''CMake must be installed to build from source.''))))"

definition get_cmake_version :: "host \<Rightarrow> ('a build_state_scheme, int list) py" where
  "get_cmake_version H =
     bindE (get_cmake_path H) (\<lambda>p. ret
       (case output_of H [p, ''--version''] of
          Inl _ \<Rightarrow> [0, 0, 0]
        | Inr out \<Rightarrow> (case parse_version (version_word out) of Inl _ \<Rightarrow> [0, 0, 0] | Inr v \<Rightarrow> v)))"

section \<open>Switches\<close>

definition using_system_libs :: "host \<Rightarrow> bool" where
  "using_system_libs H \<longleftrightarrow> getenv H ''AWS_CRT_BUILD_USE_SYSTEM_LIBS'' = Some ''1'' \<or>
     \<not> path_exists H (path_join H [project_dir H, ''crt'', ''aws-c-common'', ''CMakeLists.txt''])"

definition using_libcrypto :: "host \<Rightarrow> bool" where
  "using_libcrypto H =
     (if sys_platform H = ''darwin'' \<or> sys_platform H = ''win32''
      then \<not> getenv H ''AWS_CRT_BUILD_DISABLE_LIBCRYPTO_USE_FOR_ED25519_EVERYWHERE'' = Some ''1''
      else True)"

definition using_system_libcrypto :: "host \<Rightarrow> bool" where
  "using_system_libcrypto H \<longleftrightarrow> using_system_libs H \<or> getenv H ''AWS_CRT_BUILD_USE_SYSTEM_LIBCRYPTO'' = Some ''1''"

definition forcing_static_libs :: "host \<Rightarrow> bool" where
  "forcing_static_libs H \<longleftrightarrow> getenv H ''AWS_CRT_BUILD_FORCE_STATIC_LIBS'' = Some ''1''"

definition get_extra_library_dirs :: "host \<Rightarrow> string list" where
  "get_extra_library_dirs H =
     (let d = (case getenv H ''AWS_EXTRA_LIB_DIR'' of None \<Rightarrow> [] | Some v \<Rightarrow> v)
      in if d = [] then [] else filter (\<lambda>x. x \<noteq> []) (split_on (list_sep H) d))"

section \<open>Libraries\<close>

record aws_lib =
  lib_name :: string
  extra_cmake_args :: "string list"
  libname :: string

definition AwsLib :: "string \<Rightarrow> string option \<Rightarrow> aws_lib" where
  "AwsLib name lname = \<lparr>lib_name = name, extra_cmake_args = [],
     libname = (case lname of Some l \<Rightarrow> (if l = [] then name else l) | None \<Rightarrow> name)\<rparr>"

definition AWS_LIBS :: "host \<Rightarrow> aws_lib list" where
  "AWS_LIBS H =
     (if using_libcrypto H then [AwsLib ''aws-lc'' (Some ''crypto'')] else []) @
     (if sys_platform H \<noteq> ''win32'' then [AwsLib ''s2n'' None] else []) @
     map (\<lambda>n. AwsLib n None)
       [''aws-c-common'', ''aws-c-sdkutils'', ''aws-c-cal'', ''aws-c-io'', ''aws-checksums'',
        ''aws-c-compression'', ''aws-c-event-stream'', ''aws-c-http'', ''aws-c-auth'', ''aws-c-mqtt'',
        ''aws-c-s3'']"

section \<open>Building the dependencies\<close>

text \<open>The messages about the choices made (the echoed command among them) are left out.\<close>

abbreviation copy_tree :: "outside \<Rightarrow> string \<Rightarrow> string \<Rightarrow> ('a world_scheme, unit) py" where
  "copy_tree E src dst \<equiv> outside_call E ''copytree'' [PStr src, PStr dst]"

definition run_cmd :: "outside \<Rightarrow> string list \<Rightarrow> ('a build_state_scheme, unit) py" where
  [py_monad]: "run_cmd E args = outside_call E ''check_call'' (map PStr args)"

definition lift_result :: "pyexc + 'b \<Rightarrow> ('s, 'b) py" where
  [py_monad]: "lift_result r = (\<lambda>s. (r, s))"

text \<open>The arguments for Windows: the SDK comes from the environment or is the best installed one.\<close>

definition windows_args :: "host \<Rightarrow> ('a build_state_scheme, string list) py" where
  "windows_args H =
     (if sys_platform H \<noteq> ''win32'' then ret []
      else
        bindE (case getenv H ''AWS_CRT_WINDOWS_SDK_VERSION'' of
                 Some v \<Rightarrow> ret v | None \<Rightarrow> lift_result (get_best_windows_sdk_version H)) (\<lambda>sdk.
        bindE (get_cmake_version H) (\<lambda>cv.
        bindE (lift_result (determine_generator_args H cv sdk)) (\<lambda>gen.
          ret (gen @ (if cv < [3, 27] then [''-DCMAKE_SYSTEM_VERSION='' @ sdk] else []))))))"

text \<open>The deployment target: Python's, or the minimum of the library if that is later.\<close>

definition macos_target :: "host \<Rightarrow> pyexc + string \<times> bool" where
  "macos_target H =
     (case config_var H ''MACOSX_DEPLOYMENT_TARGET'' of
        None \<Rightarrow> Inr (MACOS_DEPLOYMENT_TARGET_MIN, True)
      | Some v \<Rightarrow>
          (case parse_version v of
             Inl e \<Rightarrow> Inl e
           | Inr k \<Rightarrow> (if version_key MACOS_DEPLOYMENT_TARGET_MIN > k
                       then Inr (MACOS_DEPLOYMENT_TARGET_MIN, True) else Inr (v, False))))"

definition macos_args :: "host \<Rightarrow> string option \<Rightarrow> ('a build_state_scheme, string list) py" where
  "macos_args H osx_arch =
     (if sys_platform H \<noteq> ''darwin'' then ret []
      else bindE (lift_result (macos_target H)) (\<lambda>(target, override).
        thenE (whenE override (updE (\<lambda>s. s\<lparr>environ := (environ s)(''MACOSX_DEPLOYMENT_TARGET'' \<mapsto> target)\<rparr>)))
              (ret ([''-DCMAKE_OSX_DEPLOYMENT_TARGET='' @ target] @
                    (case osx_arch of None \<Rightarrow> [] | Some a \<Rightarrow>
                       (if a = [] then [] else [''-DCMAKE_OSX_ARCHITECTURES='' @ a]))))))"

definition build_dependencies_impl ::
  "outside \<Rightarrow> host \<Rightarrow> bool \<Rightarrow> string \<Rightarrow> string \<Rightarrow> string option \<Rightarrow> ('a build_state_scheme, unit) py" where
  "build_dependencies_impl E H debug build_dir install_path osx_arch =
     bindE (get_cmake_path H) (\<lambda>cmake.
     thenE (updE (\<lambda>s. if environ s ''CMAKE_BUILD_PARALLEL_LEVEL'' = None
               then s\<lparr>environ := (environ s)(''CMAKE_BUILD_PARALLEL_LEVEL'' \<mapsto> str_int (cpu_count H))\<rparr> else s))
    (thenE (case osx_arch of None \<Rightarrow> ret () | Some a \<Rightarrow>
              whenE (a \<noteq> []) (py_print (''--- Building arch: '' @ a @ '' ---'')))
    (bindE (windows_args H) (\<lambda>wargs.
     bindE (macos_args H osx_arch) (\<lambda>margs.
     let build_type = (if debug then ''Debug'' else ''RelWithDebInfo'') in
     thenE (run_cmd E ([cmake, ''-H'' @ path_join H [project_dir H, ''crt''], ''-B'' @ build_dir] @ wargs @
              determine_cross_compile_args H @
              [''-DCMAKE_INSTALL_PREFIX='' @ install_path, ''-DCMAKE_BUILD_TYPE='' @ build_type] @
              (if using_libcrypto H then
                 (if using_system_libcrypto H then [''-DUSE_OPENSSL=ON''] else []) @
                 [''-DAWS_USE_LIBCRYPTO_TO_SUPPORT_ED25519_EVERYWHERE=ON''] else []) @
              margs))
           (run_cmd E [cmake, ''--build'', build_dir, ''--config'', build_type, ''--target'', ''install'']))))))"

definition lipo_cmd :: "host \<Rightarrow> string \<Rightarrow> string \<Rightarrow> aws_lib \<Rightarrow> string list" where
  "lipo_cmd H build_dir lib_dir l =
     (let f = ''lib'' @ libname l @ ''.a''
      in [''lipo'', ''-create'', ''-output'', path_join H [lib_dir, f],
          path_join H [build_dir, ''x86_64'', ''install'', ''lib'', f],
          path_join H [build_dir, ''arm64'', ''install'', ''lib'', f]])"

definition installed_lib_dir :: "host \<Rightarrow> string \<Rightarrow> string" where
  "installed_lib_dir H install_path =
     (let d = (if is_64bit H \<and> path_exists H (path_join H [install_path, ''lib64'']) then ''lib64'' else ''lib'')
      in if is_32bit H \<and> path_exists H (path_join H [install_path, ''lib32'']) then ''lib32'' else d)"

definition build_dependencies :: "outside \<Rightarrow> host \<Rightarrow> bool \<Rightarrow> string \<Rightarrow> ('a build_state_scheme, unit) py" where
  "build_dependencies E H debug build_temp =
     (let build_dir = path_join H [build_temp, ''deps''];
          install_path = path_join H [build_temp, ''deps'', ''install''];
          arch = (\<lambda>a. build_dependencies_impl E H debug (path_join H [build_dir, a])
                        (path_join H [build_dir, a, ''install'']) (Some a))
      in bindE (lift_result (is_macos_universal2 H)) (\<lambda>u.
         thenE (if u \<and> \<not> is_development_mode H then
                  thenE (arch ''x86_64'')
                 (thenE (arch ''arm64'')
                 (thenE (outside_call E ''makedirs'' [PStr (path_join H [install_path, ''lib''])])
                 (thenE (forE (AWS_LIBS H) (\<lambda>l. run_cmd E (lipo_cmd H build_dir (path_join H [install_path, ''lib'']) l)))
                        (copy_tree E (path_join H [build_dir, ''arm64'', ''install'', ''include''])
                           (path_join H [install_path, ''include''])))))
                else build_dependencies_impl E H debug build_dir install_path None)
               (updE (\<lambda>s. s\<lparr>include_dirs := path_join H [install_path, ''include''] # include_dirs s,
                            library_dirs := path_join H [install_path, installed_lib_dir H install_path] # library_dirs s\<rparr>))))"

section \<open>Linking\<close>

text \<open>The library directories go in front of the first \<open>-L\<close> argument, if there is one.\<close>

fun insert_search_paths :: "string list \<Rightarrow> string list \<Rightarrow> string list" where
  "insert_search_paths dirs [] = []"
| "insert_search_paths dirs (x # xs) =
     (if starts_with ''-L'' x then map (\<lambda>d. ''-L'' @ d) dirs @ [''-Wl,-search_paths_first''] @ x # xs
      else x # insert_search_paths dirs xs)"

text \<open>The linker command is restored however the inherited method ends.\<close>

definition super_build_extension :: "outside \<Rightarrow> ('a build_state_scheme, unit) py" where
  "super_build_extension E = bindE (getE linker_so) (\<lambda>l. outside_call E ''build_extension'' (map PStr l))"

definition build_extension :: "outside \<Rightarrow> host \<Rightarrow> ('a build_state_scheme, unit) py" where
  "build_extension E H =
     (if sys_platform H = ''darwin'' \<and> using_libcrypto H \<and> \<not> using_system_libs H \<and> \<not> using_system_libcrypto H then
        bindE (getE linker_so) (\<lambda>orig.
          thenE (updE (\<lambda>s. s\<lparr>linker_so := insert_search_paths (library_dirs s) (linker_so s)\<rparr>))
                (try_finally (super_build_extension E) (updE (\<lambda>s. s\<lparr>linker_so := orig\<rparr>))))
      else super_build_extension E)"

definition run_build_ext :: "outside \<Rightarrow> host \<Rightarrow> bool \<Rightarrow> string \<Rightarrow> ('a build_state_scheme, unit) py" where
  "run_build_ext E H debug build_temp =
     thenE (if using_system_libs H then py_print ''Skip building dependencies''
            else build_dependencies E H debug build_temp)
           (outside_call E ''super.run'' [])"

section \<open>The wheel and the extension\<close>

definition get_tag :: "host \<Rightarrow> string \<times> string \<times> string \<Rightarrow> string \<times> string \<times> string" where
  "get_tag H tag = (case tag of (python, abi, plat) \<Rightarrow>
     (if free_threaded H then (python, abi, plat)
      else if starts_with ''cp'' python \<and> version_info H \<ge> [3, 13] then (''cp313'', ''abi3'', plat)
      else if starts_with ''cp'' python \<and> version_info H \<ge> [3, 11] then (''cp311'', ''abi3'', plat)
      else (python, abi, plat)))"

text \<open>\<open>str.split()\<close> without a separator: the words between white space.\<close>

definition is_space :: "char \<Rightarrow> bool" where
  "is_space c = (c = CHR '' '' \<or> (9 \<le> (of_char c :: nat) \<and> (of_char c :: nat) \<le> 13))"

definition split_words :: "string \<Rightarrow> string list" where
  "split_words s = filter (\<lambda>w. w \<noteq> []) (split_on (CHR '' '') (map (\<lambda>c. if is_space c then CHR '' '' else c) s))"

record extension =
  ext_library_dirs :: "string list"
  ext_libraries :: "string list"
  ext_sources :: "string list"
  extra_compile_args :: "string list"
  extra_link_args :: "string list"
  define_macros :: "(string \<times> string) list"
  py_limited_api :: bool

definition platform_libraries :: "host \<Rightarrow> string list" where
  "platform_libraries H =
     (let libs = rev (map libname (AWS_LIBS H))
      in if sys_platform H = ''win32'' then
           libs @ [''Secur32'', ''Crypt32'', ''Advapi32'', ''NCrypt'', ''BCrypt'', ''Kernel32'', ''Ws2_32'', ''Shlwapi'']
         else if sys_platform H = ''darwin'' then libs
         else (if forcing_static_libs H then map (\<lambda>x. '':lib'' @ x @ ''.a'') libs else libs) @
              (if \<not> starts_with ''openbsd'' (sys_platform H) then [''rt''] else []) @
              (if starts_with ''freebsd'' (sys_platform H) then [''execinfo''] else []))"

definition platform_link_args :: "host \<Rightarrow> string list" where
  "platform_link_args H =
     (if sys_platform H = ''win32'' then [''/DEBUG'']
      else if sys_platform H = ''darwin'' then [''-framework'', ''Security'']
      else (if starts_with ''openbsd'' (sys_platform H) \<and> \<not> using_system_libcrypto H
            then [''-Wl,--no-execute-only''] else []) @
           [''-pthread'', ''-Wl,--exclude-libs,libcrypto.a''])"

definition warning_link_args :: "host \<Rightarrow> pyexc + string list" where
  "warning_link_args H =
     (case is_macos_universal2 H of
        Inl e \<Rightarrow> Inl e
      | Inr u \<Rightarrow> Inr
          (if u then []
           else if sys_platform H = ''darwin'' then
             [''-Wl,-fatal_warnings''] @ (if get_xcode_major_version H \<ge> 15 then [''-Wl,-ld_classic''] else [])
           else if contains ''bsd'' (sys_platform H) then [''-Wl,-fatal-warnings'']
           else [''-Wl,--fatal-warnings'']))"

text \<open>The stable ABI: the macro with the version of the API, if it is used at all.\<close>

definition limited_api :: "host \<Rightarrow> (string \<times> string) list \<times> bool" where
  "limited_api H =
     (if free_threaded H \<and> take 2 (version_info H) \<le> [3, 14] then ([], False)
      else if version_info H \<ge> [3, 13] then ([(''Py_LIMITED_API'', ''0x030D0000'')], True)
      else if version_info H \<ge> [3, 11] then ([(''Py_LIMITED_API'', ''0x030B0000'')], True)
      else ([], False))"

definition awscrt_ext :: "host \<Rightarrow> string list \<Rightarrow> pyexc + extension" where
  "awscrt_ext H sources =
     (let cflags = split_words (case getenv H ''CFLAGS'' of None \<Rightarrow> [] | Some v \<Rightarrow> v);
          ldflags = split_words (case getenv H ''LDFLAGS'' of None \<Rightarrow> [] | Some v \<Rightarrow> v);
          compile1 = cflags @ (if sys_platform H = ''win32'' then [''/Z7''] else []);
          gnu = (sys_platform H \<noteq> ''win32'' \<or> default_compiler H \<noteq> ''msvc'');
          strict = (gnu \<and> (is_development_mode H \<or> getenv H ''AWS_CRT_BUILD_WARNINGS_ARE_ERRORS'' = Some ''1''))
      in case (if strict then warning_link_args H else Inr []) of
           Inl e \<Rightarrow> Inl e
         | Inr wl \<Rightarrow> Inr
             \<lparr>ext_library_dirs = get_extra_library_dirs H,
              ext_libraries = platform_libraries H,
              ext_sources = sources,
              extra_compile_args = compile1 @ (if gnu then [''-Wno-strict-aliasing'', ''-std=gnu99''] else []) @
                (if strict then [''-Wextra'', ''-Werror''] else []),
              extra_link_args = ldflags @ platform_link_args H @ wl,
              define_macros = fst (limited_api H),
              py_limited_api = snd (limited_api H)\<rparr>)"

text \<open>
  The version of the package, from the text of \<open>awscrt/__init__.py\<close>: the regular expression
  takes the last place where the assignment is followed by a quoted text, and the text up to the next
  quote of either kind. Without such a place \<open>match\<close> gives \<open>None\<close>.
\<close>

definition is_quote :: "char \<Rightarrow> bool" where
  "is_quote c = (c = CHR 0x22 \<or> c = CHR 0x27)"

definition version_here :: "string \<Rightarrow> string option" where
  "version_here s =
     (let p = ''__version__ = ''; r = drop (length p) s
      in if starts_with p s \<and> r \<noteq> [] \<and> is_quote (hd r) \<and> list_ex is_quote (tl r)
         then Some (takeWhile (\<lambda>c. \<not> is_quote c) (tl r)) else None)"

fun last_version :: "string \<Rightarrow> string option" where
  "last_version [] = None"
| "last_version (c # s) = (case last_version s of Some v \<Rightarrow> Some v | None \<Rightarrow> version_here (c # s))"

definition load_version :: "string \<Rightarrow> pyexc + string" where
  "load_version text = (case last_version text of
     None \<Rightarrow> Inl (AttributeError ''group'') | Some v \<Rightarrow> Inr v)"

text \<open>
  The release script \<open>continuous-delivery/update-version.py\<close>: the version is taken from the
  git tag (\<open>v0.2.12-2-g50254a9\<close> gives \<open>0.2.12\<close>), and every assignment of a text in
  single quotes is replaced.
\<close>

definition strip_char :: "char \<Rightarrow> string \<Rightarrow> string" where
  "strip_char c s = rev (dropWhile (\<lambda>x. x = c) (rev (dropWhile (\<lambda>x. x = c) s)))"

definition version_of_tag :: "string \<Rightarrow> string" where
  "version_of_tag tag = hd (split_on (CHR ''-'') (strip_char (CHR ''v'') tag))"

definition version_assignment :: "string \<Rightarrow> string" where
  "version_assignment v = ''__version__ = '' @ [CHR 0x27] @ v @ [CHR 0x27]"

text \<open>The text after an assignment that starts here.\<close>

definition match_assignment :: "string \<Rightarrow> string option" where
  "match_assignment s =
     (let p = ''__version__ = '' @ [CHR 0x27]; r = drop (length p) s;
          old = takeWhile (\<lambda>c. c \<noteq> CHR 0x27) r; rest = dropWhile (\<lambda>c. c \<noteq> CHR 0x27) r
      in if starts_with p s \<and> old \<noteq> [] \<and> rest \<noteq> [] then Some (tl rest) else None)"

lemma match_assignment_shorter:
  assumes "match_assignment s = Some r"
  shows "length r < length s"
proof -
  let ?p = "''__version__ = '' @ [CHR 0x27]"
  let ?rest = "dropWhile (\<lambda>c. c \<noteq> CHR 0x27) (drop (length ?p) s)"
  have "?rest \<noteq> []" "r = tl ?rest"
    using assms by (auto simp: match_assignment_def Let_def split: if_splits)
  moreover have "length ?rest \<le> length s"
    using length_dropWhile_le [of "\<lambda>c. c \<noteq> CHR 0x27" "drop (length ?p) s"] by simp
  ultimately show ?thesis by (cases ?rest) auto
qed

function replace_version :: "string \<Rightarrow> string \<Rightarrow> string" where
  "replace_version v [] = []"
| "replace_version v (c # s) =
     (case match_assignment (c # s) of
        Some r \<Rightarrow> version_assignment v @ replace_version v r
      | None \<Rightarrow> c # replace_version v s)"
  by pat_completeness auto
termination
  by (relation "measure (\<lambda>(v, s). length s)") (auto dest: match_assignment_shorter)

section \<open>Instances\<close>

definition linux_host :: host where
  "linux_host = \<lparr>sys_platform = ''linux'', sys_maxsize = 2 ^ 63 - 1, sys_argv = [''setup.py''],
     version_info = [3, 12, 1], free_threaded = False, machine = ''x86_64'', cpu_count = 4,
     config_var = (\<lambda>_. None), getenv = (\<lambda>_. None), path_exists = (\<lambda>_. True),
     which = (\<lambda>c. Some (''/usr/bin/'' @ c)), output_of = (\<lambda>_. Inr ''cmake version 3.28.1''),
     listdir = (\<lambda>_. Inr [''10.0.9200.0'', ''10.0.22621.0'', ''10.0.17763.0'', ''wdf'']), isdir = (\<lambda>_. True),
     kits_root = Inr ''K'', compiler_cc = Inl CancelledError, default_compiler = ''unix'',
     path_sep = CHR ''/'', list_sep = CHR '':'', project_dir = ''/p''\<rparr>"

section \<open>The choice of the SDK\<close>

text \<open>A version directory in one of the places that are searched.\<close>

definition sdk_in :: "host \<Rightarrow> string \<Rightarrow> string \<Rightarrow> bool" where
  "sdk_in H path v \<longleftrightarrow> path_exists H path \<and> (\<exists>entries. listdir H path = Inr entries \<and> v \<in> set entries) \<and>
     SDK_VERSION_RE_match v \<and> isdir H (path_join H [path, v])"

definition sdk_installed :: "host \<Rightarrow> string \<Rightarrow> bool" where
  "sdk_installed H v \<longleftrightarrow> (\<exists>path\<in>set (sdk_paths H). sdk_in H path v)"

lemma set_add_sdk_entries:
  "set (add_sdk_entries H path entries found) =
     set found \<union> {v \<in> set entries. SDK_VERSION_RE_match v \<and> isdir H (path_join H [path, v])}"
  unfolding add_sdk_entries_def by (induction entries arbitrary: found) auto

lemma set_scan: "set (scan_sdk_path H path found) = set found \<union> {v. sdk_in H path v}"
  by (auto simp: scan_sdk_path_def sdk_in_def set_add_sdk_entries split: sum.splits)

lemma set_scans: "set (fold (scan_sdk_path H) paths found) = set found \<union> {v. \<exists>p\<in>set paths. sdk_in H p v}"
  by (induction paths arbitrary: found) (auto simp: set_scan)

lemma set_sdk_versions:
  "sys_platform H = ''win32'' \<Longrightarrow> v \<in> set (get_windows_sdk_versions H) \<longleftrightarrow> sdk_installed H v"
  by (auto simp: get_windows_sdk_versions_def set_scans sdk_installed_def)

lemma newest_first:
  assumes "get_windows_sdk_versions H = v # vs" "w \<in> set (v # vs)"
  shows "version_key w \<le> version_key v"
proof -
  obtain xs where "rev (sort_key version_key xs) = v # vs"
    using assms(1) by (auto simp: get_windows_sdk_versions_def split: if_splits)
  then have "sort_key version_key xs = rev (v # vs)" by (metis rev_rev_ident)
  then have "sorted (map version_key (rev (v # vs)))" by (metis sorted_sort_key)
  then show ?thesis
    using assms(2) by (auto simp: sorted_append)
qed

text \<open>
  (C37) The Windows SDK that is chosen is the newest one installed, by the numbers of its version,
  provided it supports TLS 1.3; an error is raised exactly if no installed version does.
\<close>

theorem best_sdk_is_newest:
  assumes "sys_platform H = ''win32''"
  shows "case get_best_windows_sdk_version H of
      Inr v \<Rightarrow> sdk_installed H v \<and> version_key ''10.0.17763.0'' \<le> version_key v \<and>
        (\<forall>w. sdk_installed H w \<longrightarrow> version_key w \<le> version_key v)
    | Inl _ \<Rightarrow> (\<forall>w. sdk_installed H w \<longrightarrow> version_key w < version_key ''10.0.17763.0'')"
proof (cases "get_windows_sdk_versions H")
  case Nil
  with set_sdk_versions [OF assms] show ?thesis
    by (simp add: get_best_windows_sdk_version_def)
next
  case (Cons v vs)
  have inst: "sdk_installed H w \<longleftrightarrow> w \<in> set (v # vs)" for w
    using set_sdk_versions [OF assms] Cons by metis
  have le: "version_key w \<le> version_key v" if "sdk_installed H w" for w
    using newest_first [OF Cons] that inst by blast
  show ?thesis
    using inst [of v] le
    by (auto simp: get_best_windows_sdk_version_def Cons WINDOWS_SDK_MIN_VERSION_TLS1_3_SUPPORT_def
        not_le intro: le_less_trans)
qed

theorem best_sdk_is_newest_witness:
  "get_best_windows_sdk_version (linux_host\<lparr>sys_platform := ''win32''\<rparr>) = Inr ''10.0.22621.0'' \<and>
   sdk_installed (linux_host\<lparr>sys_platform := ''win32''\<rparr>) ''10.0.22621.0'' \<and>
   version_key ''10.0.17763.0'' \<le> version_key ''10.0.22621.0''"
proof -
  have "get_best_windows_sdk_version (linux_host\<lparr>sys_platform := ''win32''\<rparr>) = Inr ''10.0.22621.0''"
    by code_simp
  with best_sdk_is_newest [of "linux_host\<lparr>sys_platform := ''win32''\<rparr>"] show ?thesis by simp
qed

section \<open>The wheel tag and the ABI\<close>

text \<open>
  On CPython with the global lock, the tag of the wheel and the way the extension is compiled
  agree: the tag is \<open>abi3\<close> of version 3.13 or 3.11 exactly if the extension is restricted to the
  stable ABI of that version, and otherwise it is the interpreter's own.
\<close>

lemma wheel_tag_matches_abi:
  assumes "\<not> free_threaded H" "starts_with ''cp'' python" "awscrt_ext H sources = Inr x"
  shows "(define_macros x, py_limited_api x, get_tag H (python, abi, plat)) \<in>
    {([(''Py_LIMITED_API'', ''0x030D0000'')], True, (''cp313'', ''abi3'', plat)),
     ([(''Py_LIMITED_API'', ''0x030B0000'')], True, (''cp311'', ''abi3'', plat)),
     ([], False, (python, abi, plat))} \<and>
    (py_limited_api x \<longleftrightarrow> version_info H \<ge> [3, 11])"
proof -
  have "[3, 11] \<le> version_info H" if "[3, 13] \<le> version_info H"
    using that by (rule order_trans [rotated]) (simp add: list_le_def)
  moreover from assms(3) have "define_macros x = fst (limited_api H)" "py_limited_api x = snd (limited_api H)"
    by (auto simp: awscrt_ext_def Let_def split: sum.splits if_splits)
  ultimately show ?thesis
    using assms(1,2) by (auto simp: get_tag_def limited_api_def)
qed

section \<open>The linker command\<close>

lemma insert_search_paths_split:
  "\<exists>pre post. xs = pre @ post \<and> list_all (\<lambda>x. \<not> starts_with ''-L'' x) pre \<and>
     insert_search_paths dirs xs =
       pre @ (if post = [] then [] else map (\<lambda>d. ''-L'' @ d) dirs @ [''-Wl,-search_paths_first''] @ post) \<and>
     (post \<noteq> [] \<longrightarrow> starts_with ''-L'' (hd post))"
proof (induction xs)
  case (Cons x xs)
  show ?case
  proof (cases "starts_with ''-L'' x")
    case True
    then show ?thesis by (intro exI [of _ "[]"] exI [of _ "x # xs"]) simp
  next
    case False
    from Cons.IH obtain pre post where "xs = pre @ post" "list_all (\<lambda>x. \<not> starts_with ''-L'' x) pre"
      "insert_search_paths dirs xs =
       pre @ (if post = [] then [] else map (\<lambda>d. ''-L'' @ d) dirs @ [''-Wl,-search_paths_first''] @ post)"
      "post \<noteq> [] \<longrightarrow> starts_with ''-L'' (hd post)" by blast
    with False show ?thesis by (intro exI [of _ "x # pre"] exI [of _ post]) simp
  qed
qed simp

lemma build_extension_restores: "linker_so (snd (build_extension E H s)) = linker_so s"
  by (auto simp: build_extension_def super_build_extension_def py_monad split: prod.splits sum.splits option.splits)

lemma starts_with_append: "starts_with p (p @ s)"
  by (simp add: starts_with_def)

text \<open>
  On macOS with the library's own libcrypto, the first search path of the linker command is a
  directory of the library's own builds, whatever paths Python's configuration puts there, and the
  linker command is as before afterwards, even if the build fails.
\<close>

lemma own_libs_searched_first:
  assumes "sys_platform H = ''darwin''" "using_libcrypto H" "\<not> using_system_libs H" "\<not> using_system_libcrypto H"
    and "library_dirs s = d # ds" "\<exists>x\<in>set (linker_so s). starts_with ''-L'' x"
  shows "\<exists>args. trace (snd (build_extension E H s)) = trace s @ [Native ''build_extension'' (map PStr args)] \<and>
    find (starts_with ''-L'') args = Some (''-L'' @ d) \<and> linker_so (snd (build_extension E H s)) = linker_so s"
proof -
  obtain pre post where p: "linker_so s = pre @ post" "list_all (\<lambda>x. \<not> starts_with ''-L'' x) pre"
    "insert_search_paths (d # ds) (linker_so s) =
       pre @ (if post = [] then [] else map (\<lambda>d. ''-L'' @ d) (d # ds) @ [''-Wl,-search_paths_first''] @ post)"
    using insert_search_paths_split [of "linker_so s" "d # ds"] by blast
  then have "post \<noteq> []" using assms(6) by (auto simp: list_all_iff)
  moreover have "find (starts_with ''-L'') (pre @ (''-L'' @ d) # r) = Some (''-L'' @ d)" for r
    using p(2) starts_with_append [of "''-L''" d] by (induction pre) auto
  ultimately have "find (starts_with ''-L'') (insert_search_paths (d # ds) (linker_so s)) = Some (''-L'' @ d)"
    using p(3) by simp
  moreover have "trace (snd (build_extension E H s)) =
      trace s @ [Native ''build_extension'' (map PStr (insert_search_paths (d # ds) (linker_so s)))]"
    using assms(1-5)
    by (auto simp: build_extension_def super_build_extension_def py_monad split: option.splits)
  ultimately show ?thesis using build_extension_restores by blast
qed

section \<open>The version of a release\<close>

abbreviation version_name :: string where
  "version_name \<equiv> ''__version__ = ''"

lemma contains_iff: "contains x s \<longleftrightarrow> (\<exists>i\<le>length s. starts_with x (drop i s))"
  by (auto simp: contains_def starts_with_def list_ex_iff less_Suc_eq_le simp del: upt_Suc)

lemma contains_Cons: "contains x (c # s) \<longleftrightarrow> starts_with x (c # s) \<or> contains x s"
proof -
  have "(\<exists>i\<le>Suc n. P i) \<longleftrightarrow> P 0 \<or> (\<exists>i\<le>n. P (Suc i))" for n and P :: "nat \<Rightarrow> bool"
    by (metis Suc_le_mono le0 not0_implies_Suc)
  then show ?thesis by (simp add: contains_iff)
qed

lemma starts_with_prefix: "starts_with (p @ q) s \<Longrightarrow> starts_with p s"
proof -
  assume "starts_with (p @ q) s"
  then have "take (length p) (take (length (p @ q)) s) = take (length p) (p @ q)"
    by (simp add: starts_with_def)
  then show ?thesis by (simp add: starts_with_def min_def)
qed

lemma no_match: "\<not> starts_with version_name s \<Longrightarrow> match_assignment s = None \<and> version_here s = None"
  using starts_with_prefix [of version_name "[CHR 0x27]" s]
  by (auto simp: match_assignment_def version_here_def Let_def)

lemma replace_version_none: "\<not> contains version_name s \<Longrightarrow> replace_version v s = s"
  by (induction s) (simp_all add: contains_Cons no_match)

lemma last_version_none: "\<not> contains version_name s \<Longrightarrow> last_version s = None"
  by (induction s) (simp_all add: contains_Cons no_match)

lemma last_version_skip: "CHR ''_'' \<notin> set x \<Longrightarrow> last_version (x @ s) = last_version s"
proof (induction x)
  case (Cons c x)
  then have "\<not> starts_with version_name (c # x @ s)" by (auto simp: starts_with_def)
  with Cons show ?case by (simp add: no_match split: option.splits)
qed simp

text \<open>\<open>pre\<close> ends where the assignment is written for the first time.\<close>

definition before_version :: "string \<Rightarrow> bool" where
  "before_version pre \<longleftrightarrow> (\<forall>i<length pre. \<not> starts_with version_name (drop i (pre @ version_name)))"

lemma before_version_Cons:
  assumes "before_version (c # pre)"
  shows "\<not> starts_with version_name (c # pre @ version_name @ rest)" "before_version pre"
proof -
  have "\<not> starts_with version_name (c # pre @ version_name)"
    using assms by (auto simp: before_version_def)
  moreover have "take (length version_name) (c # pre @ version_name @ rest) =
      take (length version_name) (c # pre @ version_name)"
    by (simp add: take_Cons')
  ultimately show "\<not> starts_with version_name (c # pre @ version_name @ rest)"
    by (metis starts_with_def)
  show "before_version pre"
    using assms unfolding before_version_def
    by (metis Suc_less_eq drop_Suc_Cons length_Cons append_Cons)
qed

lemma replace_version_first:
  assumes "before_version pre" "old \<noteq> []" "CHR 0x27 \<notin> set old" "\<not> contains version_name post"
  shows "replace_version v (pre @ version_assignment old @ post) = pre @ version_assignment v @ post"
  using assms(1)
proof (induction pre)
  case Nil
  have "match_assignment (version_assignment old @ post) = Some post"
    using assms(2,3)
    by (simp add: match_assignment_def version_assignment_def starts_with_def takeWhile_append
        dropWhile_append Let_def)
  with replace_version_none [OF assms(4)] show ?case
    by (simp add: version_assignment_def)
next
  case (Cons c pre)
  from before_version_Cons(1) [OF Cons.prems, of "[CHR 0x27] @ old @ [CHR 0x27] @ post"]
  have "match_assignment (c # pre @ version_assignment old @ post) = None"
    by (simp add: no_match version_assignment_def)
  with Cons before_version_Cons(2) show ?case by simp
qed

lemma last_version_first:
  assumes "before_version pre" "CHR ''_'' \<notin> set v" "CHR 0x22 \<notin> set v" "CHR 0x27 \<notin> set v"
    and "\<not> contains version_name post"
  shows "last_version (pre @ version_assignment v @ post) = Some v"
  using assms(1)
proof (induction pre)
  case Nil
  have "last_version ([CHR 0x27] @ v @ [CHR 0x27] @ post) = None"
    using last_version_skip [of "[CHR 0x27] @ v @ [CHR 0x27]" post] last_version_none [OF assms(5)] assms(2)
    by simp
  moreover have "version_here (version_assignment v @ post) = Some v"
    using assms(3,4)
    by (auto simp: version_here_def version_assignment_def starts_with_def is_quote_def Let_def
        takeWhile_append)
  ultimately show ?case
    by (simp add: version_assignment_def version_here_def starts_with_def Let_def)
next
  case (Cons c pre)
  with before_version_Cons(2) show ?case by simp
qed

text \<open>The tag of a release is \<open>v\<close> and the version; git appends to that of a later commit.\<close>

lemma version_of_tag_of:
  assumes "CHR ''v'' \<notin> set ver" "CHR ''-'' \<notin> set ver" "later = [] \<or> hd later = CHR ''-''"
  shows "version_of_tag (CHR ''v'' # ver @ later) = ver"
proof (cases later)
  case Nil
  have "dropWhile (\<lambda>x. x = CHR ''v'') xs = xs" if "CHR ''v'' \<notin> set xs" for xs :: string
    using that by (cases xs) auto
  with assms Nil show ?thesis
    by (simp add: version_of_tag_def strip_char_def split_on_no_sep)
next
  case (Cons c x)
  with assms have c: "c = CHR ''-''" by simp
  have "dropWhile (\<lambda>x. x = CHR ''v'') (ver @ CHR ''-'' # x) = ver @ CHR ''-'' # x"
    using assms(1) by (cases ver) auto
  moreover have "rev (dropWhile (\<lambda>x. x = CHR ''v'') (rev x @ CHR ''-'' # rev ver)) =
      ver @ CHR ''-'' # rev (dropWhile (\<lambda>x. x = CHR ''v'') (rev x))"
    by (simp add: dropWhile_append)
  ultimately show ?thesis
    using assms(2) Cons c by (simp add: version_of_tag_def strip_char_def split_on_append_sep)
qed

text \<open>
  (C38) What the release script writes, the build reads: if the package's source assigns a version in
  single quotes once, then after \<open>update-version.py\<close> has run for the tag \<open>v<version>\<close> or a
  commit after it (\<open>v<version>-...\<close>) the build finds exactly that version.
\<close>

theorem release_version_roundtrip:
  assumes "before_version pre" "old \<noteq> []" "CHR 0x27 \<notin> set old" "\<not> contains ''__version__ = '' post"
    and "list_all (\<lambda>c. c \<in> set ''0123456789.abcdef'') ver" "later = [] \<or> hd later = CHR ''-''"
  shows "load_version (replace_version (version_of_tag (CHR ''v'' # ver @ later))
    (pre @ version_assignment old @ post)) = Inr ver"
proof -
  have c: "c \<notin> set ver" if "c \<notin> set ''0123456789.abcdef''" for c
    using assms(5) [unfolded list_all_iff, rule_format] that by metis
  have "CHR ''v'' \<notin> set ver" "CHR ''-'' \<notin> set ver" "CHR ''_'' \<notin> set ver" "CHR 0x22 \<notin> set ver" "CHR 0x27 \<notin> set ver"
    by (rule c; simp)+
  note v = this
  have "last_version (pre @ version_assignment ver @ post) = Some ver"
    by (rule last_version_first [OF assms(1) v(3-5) assms(4)])
  then show ?thesis
    using replace_version_first [OF assms(1-4), of ver] version_of_tag_of [OF v(1,2) assms(6)]
    by (simp only: load_version_def option.case)
qed

theorem release_version_roundtrip_witness:
  "load_version (replace_version (version_of_tag ''v0.2.12-2-g50254a9'')
     (''__all__ = []'' @ version_assignment ''1.0.0.dev0'' @ ''class A'')) = Inr ''0.2.12''"
proof -
  have "before_version ''__all__ = []''"
    by (simp add: before_version_def starts_with_def All_less_Suc eval_nat_numeral)
  moreover have "\<not> contains ''__version__ = '' ''class A''" by code_simp
  ultimately show ?thesis
    using release_version_roundtrip [of "''__all__ = []''" "''1.0.0.dev0''" "''class A''" "''0.2.12''"
        "''-2-g50254a9''"]
    by simp
qed

end
