(* ===== verification/Mqtt_Test.thy ===== *)
theory Mqtt_Test
  imports Mqtt3 Py_Outside
begin

text \<open>
  \<open>mqtt_test.py\<close>, the program that tries a connection out: it connects, subscribes to a topic of
  its own, publishes to it, waits for the message, unsubscribes and disconnects, giving up on each
  step after five seconds. What native code delivers meanwhile (completions, messages, interruptions)
  is a parameter: \<open>W i\<close> lists the events between the start of the \<open>i\<close>th wait and the
  moment the program goes on. The exact condition under which the program reports success is shown.
\<close>

section \<open>Settings\<close>

text \<open>The constants, as functions of the identifier \<open>uuid.uuid4()\<close> made up.\<close>

definition CLIENT_ID :: "string \<Rightarrow> string" where "CLIENT_ID uid = ''test_pubsub_'' @ uid"

definition TOPIC :: "string \<Rightarrow> string" where "TOPIC uid = ''test/pubsub/'' @ uid"

definition MESSAGE :: "string \<Rightarrow> string" where "MESSAGE uid = ''test message '' @ uid"

record mt_args =
  mt_endpoint :: string
  mt_port :: "int option"
  mt_cert :: "string option"
  mt_key :: "string option"
  mt_root_ca :: "string option"

definition given :: "string option \<Rightarrow> bool" where
  "given x = truthy (pv PStr x)"

definition root_ca_options ::
  "file_env \<Rightarrow> string option \<Rightarrow> TlsContextOptions \<Rightarrow> pyexc + TlsContextOptions" where
  "root_ca_options F root_ca opt =
     (if given root_ca then
        (case read_binary_file F (pv PStr root_ca) of
           Inl e \<Rightarrow> Inl e
         | Inr rootca \<Rightarrow> override_default_trust_store rootca opt)
      else Inr opt)"

definition mt_tls_options :: "file_env \<Rightarrow> mt_args \<Rightarrow> pyexc + TlsContextOptions option" where
  "mt_tls_options F a =
     (if given (mt_cert a) \<or> given (mt_key a) \<or> given (mt_root_ca a) then
        (case (if given (mt_cert a) then
                 (if given (mt_key a)
                  then create_client_with_mtls_from_path F (pv PStr (mt_cert a)) (pv PStr (mt_key a))
                  else Inl AssertionError)
               else Inr TlsContextOptions_init) of
           Inl e \<Rightarrow> Inl e
         | Inr opt \<Rightarrow> map_sum id Some (root_ca_options F (mt_root_ca a) opt))
      else Inr None)"

text \<open>The port, and the options with the protocol list that port 443 needs.\<close>

definition mt_choose_port ::
  "native_env \<Rightarrow> mt_args \<Rightarrow> TlsContextOptions option \<Rightarrow>
    ('a world_scheme, int \<times> TlsContextOptions option) py" where
  "mt_choose_port N a opt =
     (if truthy (pv PInt (mt_port a)) then ret (the (mt_port a), opt)
      else bindE (is_alpn_available N) (\<lambda>alpn.
        if truthy alpn
        then ret (443, map_option (\<lambda>t. t\<lparr>alpn_list := PList [PStr ''x-amzn-mqtt-ca'']\<rparr>) opt)
        else ret (8883, opt)))"

text \<open>Everything up to the construction of the connection; the values are its arguments.\<close>

definition mt_setup :: "native_env \<Rightarrow> file_env \<Rightarrow> string \<Rightarrow> mt_args \<Rightarrow> (io_state, connection_args) py" where
  "mt_setup N F uid a =
     thenE (io_init_logging N (PEnum ''LogLevel'' (LogLevel_value LogLevel.Trace)) (PStr ''stderr''))
    (bindE (EventLoopGroup_init N (Some 1) None) (\<lambda>event_loop_group.
     bindE (DefaultHostResolver_init N event_loop_group 16) (\<lambda>host_resolver.
     bindE (ClientBootstrap_init N event_loop_group host_resolver) (\<lambda>client_bootstrap.
     bindE (lift_result (mt_tls_options F a)) (\<lambda>tls_options.
     bindE (mt_choose_port N a tls_options) (\<lambda>(port, tls_options).
     bindE (case tls_options of
              None \<Rightarrow> ret None
            | Some t \<Rightarrow> bindE (ClientTlsContext_init N t) (\<lambda>c. ret (Some c))) (\<lambda>tls_context.
     bindE (Mqtt3Client_init N (Inr PNone) (PObj ''ClientBootstrap'' client_bootstrap)
              (if tls_context = None then PNone else PObj ''ClientTlsContext'' 0)) (\<lambda>_.
     thenE (emit (Native ''print'' [PStr (''Connecting to '' @ mt_endpoint a @ '':'' @ str_int port @
              '' with client-id:'' @ CLIENT_ID uid)]))
    (ret ((connection_args_init (PObj ''Client'' 0) (mt_endpoint a) port (CLIENT_ID uid))
            \<lparr>a_client_tls_ctx := tls_context,
             a_on_connection_interrupted := PFun 0, a_on_connection_resumed := PFun 1\<rparr>))))))))))"

section \<open>The state of the program\<close>

record received =
  rcv_topic :: string
  rcv_payload :: bytes
  rcv_dup :: bool
  rcv_qos :: Mqtt3QoS
  rcv_retain :: bool

text \<open>\<open>receive_results\<close> is filled as a whole, just before \<open>receive_event\<close> is set;
  \<open>resubscriptions\<close> are the futures with \<open>on_resubscribe_complete\<close> attached, each with
  the packet identifier its closure holds.\<close>

record mt_state =
  mt_conn :: connection
  receive_results :: "received option"
  receive_event :: bool
  resubscriptions :: "(nat \<times> pyval) list"

definition on_conn :: "(connection, 'b) py \<Rightarrow> (mt_state, 'b) py" where
  [py_monad]: "on_conn m = (\<lambda>s. case m (mt_conn s) of (r, c) \<Rightarrow> (r, s\<lparr>mt_conn := c\<rparr>))"

definition mt_print :: "pyval list \<Rightarrow> (mt_state, unit) py" where
  [py_monad]: "mt_print vs = on_conn (emit (Native ''print'' vs))"

section \<open>Callbacks\<close>

definition mt_on_connection_interrupted :: "pyexc \<Rightarrow> (mt_state, unit) py" where
  "mt_on_connection_interrupted error =
     mt_print [PStr ''Connection has been interrupted with error'', PExc error]"

text \<open>The dictionary of a resubscription, and the checks made on it.\<close>

fun pv_op_result :: "op_result \<Rightarrow> pyval" where
  "pv_op_result (RConnect sp) = pdict [(''session_present'', PBool sp)]"
| "pv_op_result RDisconnect = pdict []"
| "pv_op_result (RSubscribe pid t q) =
     pdict [(''packet_id'', PInt pid), (''topic'', PStr t), (''qos'', PEnum ''mqtt.QoS'' (Mqtt3QoS_value q))]"
| "pv_op_result (RPacket pid) = pdict [(''packet_id'', PInt pid)]"
| "pv_op_result (RResubscribe pid ts) =
     pdict [(''packet_id'', pv PInt pid),
       (''topics'', PList (map (\<lambda>(t, q). PTuple [PStr t, pv (\<lambda>q. PEnum ''mqtt.QoS'' (Mqtt3QoS_value q)) q]) ts))]"

fun op_packet_id :: "op_result \<Rightarrow> pyexc + pyval" where
  "op_packet_id (RSubscribe pid t q) = Inr (PInt pid)"
| "op_packet_id (RPacket pid) = Inr (PInt pid)"
| "op_packet_id (RResubscribe pid ts) = Inr (pv PInt pid)"
| "op_packet_id _ = Inl KeyError"

fun op_topics :: "op_result \<Rightarrow> pyexc + (string \<times> Mqtt3QoS option) list" where
  "op_topics (RResubscribe pid ts) = Inr ts"
| "op_topics _ = Inl KeyError"

text \<open>\<open>exit(-1)\<close> raises \<open>SystemExit\<close>; the callback runs on a native thread, which
  reports the exception and goes on.\<close>

definition on_resubscribe_complete :: "pyval \<Rightarrow> pyexc + op_result \<Rightarrow> (mt_state, unit) py" where
  "on_resubscribe_complete packet_id outcome =
     try_except
       (bindE (lift_result outcome) (\<lambda>resubscribe_results.
        thenE (mt_print [PStr ''Resubscribe results:'', pv_op_result resubscribe_results])
       (bindE (lift_result (op_packet_id resubscribe_results)) (\<lambda>pid.
        thenE (py_assert (pid = packet_id))
       (bindE (lift_result (op_topics resubscribe_results)) (\<lambda>topics.
        forE topics (\<lambda>(topic, qos). py_assert (qos \<noteq> None))))))))
       (\<lambda>e. thenE (mt_print [PStr ''Resubscribe failure:'', PExc e]) (raise (BuiltinExc ''SystemExit'')))"

text \<open>\<open>resubscribe_future.add_done_callback\<close>: at once if the future is done already.\<close>

definition add_resubscribe_callback :: "nat \<Rightarrow> pyval \<Rightarrow> (mt_state, unit) py" where
  "add_resubscribe_callback k packet_id =
     bindE (getE (\<lambda>s. op_futures (mt_conn s) ! k)) (\<lambda>f.
       case fut_outcome f of
         Some outcome \<Rightarrow> on_resubscribe_complete packet_id outcome
       | None \<Rightarrow> updE (\<lambda>s. s\<lparr>resubscriptions := resubscriptions s @ [(k, packet_id)]\<rparr>))"

definition mt_on_connection_resumed :: "native_env \<Rightarrow> int \<Rightarrow> bool \<Rightarrow> (mt_state, unit) py" where
  "mt_on_connection_resumed N return_code session_present =
     thenE (mt_print [PStr ''Connection has been resumed with return code'',
              PEnum ''ConnectReturnCode'' return_code, PStr ''and session present:'', PBool session_present])
    (whenE (\<not> session_present)
      (thenE (mt_print [PStr ''Resubscribing to existing topics''])
      (bindE (on_conn (resubscribe_existing_topics N)) (\<lambda>(k, packet_id).
       add_resubscribe_callback k packet_id))))"

definition on_receive_message :: "string \<Rightarrow> bytes \<Rightarrow> bool \<Rightarrow> Mqtt3QoS \<Rightarrow> bool \<Rightarrow> (mt_state, unit) py" where
  "on_receive_message topic payload dup qos retain =
     updE (\<lambda>s. s\<lparr>receive_results := Some \<lparr>rcv_topic = topic, rcv_payload = payload, rcv_dup = dup,
                    rcv_qos = qos, rcv_retain = retain\<rparr>,
                 receive_event := True\<rparr>)"

section \<open>Events\<close>

datatype mt_event =
    Completion conn3_event
  | Message string bytes bool int bool
  | Interrupted int
  | Resumed int bool

text \<open>The callbacks attached to a future run when a completion makes it done.\<close>

definition mt_done_callbacks :: "nat \<Rightarrow> bool \<Rightarrow> (mt_state, unit) py" where
  "mt_done_callbacks k was_done =
     bindE (getE (\<lambda>s. (op_futures (mt_conn s) ! k, filter (\<lambda>(j, pid). j = k) (resubscriptions s)))) (\<lambda>(f, cbs).
       case fut_outcome f of
         Some outcome \<Rightarrow> whenE (\<not> was_done) (forE cbs (\<lambda>(j, pid). on_resubscribe_complete pid outcome))
       | None \<Rightarrow> ret ())"

definition mt_completion :: "crt_errors \<Rightarrow> conn3_event \<Rightarrow> (mt_state, unit) py" where
  "mt_completion E e =
     bindE (getE (\<lambda>s. fut_done (op_futures (mt_conn s) ! op_target e))) (\<lambda>was_done.
     thenE (on_conn (conn3_do E e)) (mt_done_callbacks (op_target e) was_done))"

definition user_returns :: user_env where "user_returns f args = None"

text \<open>Each event goes through the connection's own callback, which calls the program's.\<close>

fun mt_do :: "native_env \<Rightarrow> crt_errors \<Rightarrow> mt_event \<Rightarrow> (mt_state, unit) py" where
  "mt_do N E (Completion e) = mt_completion E e"
| "mt_do N E (Message topic payload dup qos retain) =
     thenE (on_conn (callback_wrapper user_returns False topic payload dup qos retain))
    (bindE (lift_result (enum_call Mqtt3QoS_members Mqtt3QoS_value qos)) (\<lambda>q.
     on_receive_message topic payload dup q retain))"
| "mt_do N E (Interrupted code) =
     thenE (on_conn (Mqtt3.on_connection_interrupted E user_returns code))
       (mt_on_connection_interrupted (from_code E code))"
| "mt_do N E (Resumed return_code session_present) =
     thenE (on_conn (Mqtt3.on_connection_resumed user_returns return_code session_present))
       (mt_on_connection_resumed N return_code session_present)"

abbreviation mt_exec :: "native_env \<Rightarrow> crt_errors \<Rightarrow> mt_event \<Rightarrow> mt_state \<Rightarrow> mt_state" where
  "mt_exec N E e s \<equiv> snd (mt_do N E e s)"

section \<open>The script\<close>

definition mt_wait :: "native_env \<Rightarrow> crt_errors \<Rightarrow> mt_event list \<Rightarrow> (mt_state, unit) py" where
  "mt_wait N E es = updE (run_events (mt_exec N E) es)"

text \<open>\<open>future.result(TIMEOUT)\<close>.\<close>

definition mt_result :: "native_env \<Rightarrow> crt_errors \<Rightarrow> mt_event list \<Rightarrow> nat \<Rightarrow> (mt_state, op_result) py" where
  "mt_result N E es k =
     thenE (mt_wait N E es)
    (bindE (getE (\<lambda>s. op_futures (mt_conn s) ! k)) (\<lambda>f. case f of
        Finished r \<Rightarrow> lift_result r
      | Cancelled \<Rightarrow> raise CancelledError
      | _ \<Rightarrow> raise (BuiltinExc ''TimeoutError'')))"

fun op_session_present :: "op_result \<Rightarrow> pyexc + bool" where
  "op_session_present (RConnect sp) = Inr sp"
| "op_session_present _ = Inl KeyError"

fun op_topic :: "op_result \<Rightarrow> pyexc + string" where
  "op_topic (RSubscribe pid t q) = Inr t"
| "op_topic _ = Inl KeyError"

fun op_qos :: "op_result \<Rightarrow> pyexc + Mqtt3QoS" where
  "op_qos (RSubscribe pid t q) = Inr q"
| "op_qos _ = Inl KeyError"

definition py_decode :: "bytes \<Rightarrow> pyexc + string" where
  "py_decode b = (case decode_utf8 b of None \<Rightarrow> Inl (BuiltinExc ''UnicodeDecodeError'') | Some x \<Rightarrow> Inr x)"

definition pv_at_least_once :: pyval where
  "pv_at_least_once = PEnum ''mqtt.QoS'' (Mqtt3QoS_value Mqtt3QoS.AT_LEAST_ONCE)"

definition mt_connect :: "native_env \<Rightarrow> crt_errors \<Rightarrow> mt_event list \<Rightarrow> (mt_state, 'b) py \<Rightarrow> (mt_state, 'b) py" where
  "mt_connect N E es rest =
     bindE (on_conn (connection_connect N)) (\<lambda>(k, _).
     bindE (mt_result N E es k) (\<lambda>connect_results.
     bindE (lift_result (op_session_present connect_results)) (\<lambda>session_present.
     thenE (py_assert (session_present = False)) rest)))"

definition mt_subscribe ::
  "native_env \<Rightarrow> crt_errors \<Rightarrow> mt_event list \<Rightarrow> string \<Rightarrow> (mt_state, 'b) py \<Rightarrow> (mt_state, 'b) py" where
  "mt_subscribe N E es uid rest =
     thenE (mt_print [PStr ''Subscribing to:'', PStr (TOPIC uid)])
    (bindE (on_conn (connection_subscribe N (TOPIC uid) pv_at_least_once (Some (PFun 2, NewSig)))) (\<lambda>(k, subscribe_packet_id).
     bindE (mt_result N E es k) (\<lambda>subscribe_results.
     bindE (lift_result (op_packet_id subscribe_results)) (\<lambda>packet_id.
     thenE (py_assert (packet_id = subscribe_packet_id))
    (bindE (lift_result (op_topic subscribe_results)) (\<lambda>topic.
     thenE (py_assert (topic = TOPIC uid))
    (thenE (mt_print [pv_op_result subscribe_results])
    (bindE (lift_result (op_qos subscribe_results)) (\<lambda>qos.
     thenE (py_assert (qos = Mqtt3QoS.AT_LEAST_ONCE)) rest)))))))))"

definition mt_publish ::
  "native_env \<Rightarrow> crt_errors \<Rightarrow> mt_event list \<Rightarrow> string \<Rightarrow> (mt_state, 'b) py \<Rightarrow> (mt_state, 'b) py" where
  "mt_publish N E es uid rest =
     thenE (mt_print [PStr (''Publishing to '' @ quoted (TOPIC uid) @ '': '' @ MESSAGE uid)])
    (bindE (on_conn (connection_publish N (TOPIC uid) (PStr (MESSAGE uid)) pv_at_least_once False)) (\<lambda>(k, publish_packet_id).
     bindE (mt_result N E es k) (\<lambda>publish_results.
     bindE (lift_result (op_packet_id publish_results)) (\<lambda>packet_id.
     thenE (py_assert (packet_id = publish_packet_id)) rest))))"

definition mt_receive ::
  "native_env \<Rightarrow> crt_errors \<Rightarrow> mt_event list \<Rightarrow> string \<Rightarrow> (mt_state, 'b) py \<Rightarrow> (mt_state, 'b) py" where
  "mt_receive N E es uid rest =
     thenE (mt_print [PStr ''Waiting to receive message''])
    (thenE (mt_wait N E es)
    (bindE (getE receive_event) (\<lambda>is_set.
     thenE (py_assert is_set)
    (bindE (getE receive_results) (\<lambda>results.
     bindE (lift_result (case results of None \<Rightarrow> Inl KeyError | Some r \<Rightarrow> Inr r)) (\<lambda>r.
     thenE (py_assert (rcv_topic r = TOPIC uid))
    (bindE (lift_result (py_decode (rcv_payload r))) (\<lambda>payload.
     thenE (py_assert (payload = MESSAGE uid)) rest))))))))"

definition mt_unsubscribe ::
  "native_env \<Rightarrow> crt_errors \<Rightarrow> mt_event list \<Rightarrow> string \<Rightarrow> (mt_state, 'b) py \<Rightarrow> (mt_state, 'b) py" where
  "mt_unsubscribe N E es uid rest =
     thenE (mt_print [PStr ''Unsubscribing from topic''])
    (bindE (on_conn (connection_unsubscribe N (TOPIC uid))) (\<lambda>(k, unsubscribe_packet_id).
     bindE (mt_result N E es k) (\<lambda>unsubscribe_results.
     bindE (lift_result (op_packet_id unsubscribe_results)) (\<lambda>packet_id.
     thenE (py_assert (packet_id = unsubscribe_packet_id)) rest))))"

definition mt_disconnect :: "native_env \<Rightarrow> crt_errors \<Rightarrow> mt_event list \<Rightarrow> (mt_state, 'b) py \<Rightarrow> (mt_state, 'b) py" where
  "mt_disconnect N E es rest =
     thenE (mt_print [PStr ''Disconnecting''])
    (bindE (on_conn (connection_disconnect N)) (\<lambda>(k, _).
     bindE (mt_result N E es k) (\<lambda>_. rest)))"

definition mqtt_test_run ::
  "native_env \<Rightarrow> crt_errors \<Rightarrow> (nat \<Rightarrow> mt_event list) \<Rightarrow> string \<Rightarrow> (mt_state, unit) py" where
  "mqtt_test_run N E W uid =
     mt_connect N E (W 0)
    (mt_subscribe N E (W 1) uid
    (mt_publish N E (W 2) uid
    (mt_receive N E (W 3) uid
    (mt_unsubscribe N E (W 4) uid
    (mt_disconnect N E (W 5)
    (mt_print [PStr ''Test Success'']))))))"

definition mt_start :: "connection \<Rightarrow> mt_state" where
  "mt_start c = \<lparr>mt_conn = c, receive_results = None, receive_event = False, resubscriptions = []\<rparr>"

definition mqtt_test ::
  "native_env \<Rightarrow> file_env \<Rightarrow> crt_errors \<Rightarrow> (nat \<Rightarrow> mt_event list) \<Rightarrow> string \<Rightarrow> string \<Rightarrow> string \<Rightarrow> mt_args \<Rightarrow>
    pyexc + unit" where
  "mqtt_test N F E W platform crt_version uid a =
     (case fst (mt_setup N F uid a io_init) of
        Inl e \<Rightarrow> Inl e
      | Inr ca \<Rightarrow> (case Connection_init N platform crt_version ca of
            Inl e \<Rightarrow> Inl e
          | Inr c \<Rightarrow> fst (mqtt_test_run N E W uid (mt_start c))))"

section \<open>What the events do\<close>

definition mt_trigger :: "crt_errors \<Rightarrow> nat \<Rightarrow> mt_event \<Rightarrow> (pyexc + op_result) option" where
  "mt_trigger E k e = (case e of Completion c \<Rightarrow> op_trigger E k c | _ \<Rightarrow> None)"

text \<open>The part of the state the script's verdict depends on.\<close>

definition mt_view :: "mt_state \<Rightarrow> op_result fut list \<times> received option \<times> bool" where
  "mt_view s = (op_futures (mt_conn s), receive_results s, receive_event s)"

interpretation mt_frame: frame "\<lambda>s s'. mt_view s' = mt_view s"
  by unfold_locales simp_all

lemma print_moves: "moves (\<lambda>s s'. mt_view s' = mt_view s) (mt_print vs)"
  by (simp add: moves_def py_monad mt_view_def)

lemma lift_moves:
  "moves (\<lambda>s s'. mt_view s' = mt_view s) (lift_result r)"
  "moves (\<lambda>s s'. mt_view s' = mt_view s) (py_assert b)"
  by (simp_all add: moves_def py_monad)

lemmas mt_moves = mt_frame.moves_intros print_moves lift_moves

lemma resubscribe_complete_moves:
  "moves (\<lambda>s s'. mt_view s' = mt_view s) (on_resubscribe_complete pid r)"
  unfolding on_resubscribe_complete_def by (intro mt_moves)

lemma done_callbacks_view: "mt_view (snd (mt_done_callbacks k d s)) = mt_view s"
proof -
  have "moves (\<lambda>s s'. mt_view s' = mt_view s) (mt_done_callbacks k d)"
    unfolding mt_done_callbacks_def by (intro mt_moves resubscribe_complete_moves)
  then show ?thesis by (simp add: moves_def)
qed

lemma exec_completion:
  "mt_view (mt_exec N E (Completion e) s) = mt_view (s\<lparr>mt_conn := conn3_exec E e (mt_conn s)\<rparr>)"
  by (simp add: mt_completion_def done_callbacks_view bindE_def getE_def thenE_def on_conn_def
      split: prod.splits sum.splits)

text \<open>The message an event delivers: none if its quality of service is not one of the three.\<close>

fun mt_message :: "mt_event \<Rightarrow> received option" where
  "mt_message (Message topic payload dup qos retain) =
     (case enum_call Mqtt3QoS_members Mqtt3QoS_value qos of
        Inl e \<Rightarrow> None
      | Inr q \<Rightarrow> Some \<lparr>rcv_topic = topic, rcv_payload = payload, rcv_dup = dup, rcv_qos = q, rcv_retain = retain\<rparr>)"
| "mt_message _ = None"

definition last_message :: "mt_event list \<Rightarrow> received option \<Rightarrow> received option" where
  "last_message es r = fold (\<lambda>e r. case mt_message e of None \<Rightarrow> r | Some m \<Rightarrow> Some m) es r"

lemma exec_message:
  "mt_view (mt_exec N E (Message topic payload dup qos retain) s) =
     (case mt_message (Message topic payload dup qos retain) of
        None \<Rightarrow> mt_view s
      | Some m \<Rightarrow> mt_view (s\<lparr>receive_results := Some m, receive_event := True\<rparr>))"
  by (auto simp: mt_view_def callback_wrapper_def on_receive_message_def user_returns_def py_monad split: sum.splits)

lemma exec_interrupted: "mt_view (mt_exec N E (Interrupted code) s) = mt_view s"
  by (auto simp: mt_view_def Mqtt3.on_connection_interrupted_def mt_on_connection_interrupted_def user_returns_def py_monad)

lemma resubscribe_futures:
  "\<exists>k pid f. fst (resubscribe_existing_topics N c) = Inr (k, pid) \<and>
     op_futures (snd (resubscribe_existing_topics N c)) = op_futures c @ [f]"
  by (auto simp: resubscribe_existing_topics_def operation_def resolve_op_def resolve_def set_op_future_def py_monad
      split: sum.splits)

lemma bind_on_conn: "m (mt_conn s) = (Inr v, c) \<Longrightarrow> bindE (on_conn m) K s = K v (s\<lparr>mt_conn := c\<rparr>)"
  by (simp add: bindE_def on_conn_def)

definition printed :: "pyval list \<Rightarrow> mt_state \<Rightarrow> mt_state" where
  "printed vs s = s\<lparr>mt_conn := (mt_conn s)\<lparr>trace := trace (mt_conn s) @ [Native ''print'' vs]\<rparr>\<rparr>"

lemma then_print: "thenE (mt_print vs) m s = m (printed vs s)"
  by (simp add: py_monad printed_def)

lemma printed_view [simp]: "mt_view (printed vs s) = mt_view s"
  by (simp add: printed_def mt_view_def)

text \<open>Resuming without the session adds the future of the resubscription, and nothing else.\<close>

lemma resumed_callback_view:
  "\<exists>fs. mt_view (snd (mt_on_connection_resumed N rc sp s)) =
     (op_futures (mt_conn s) @ fs, receive_results s, receive_event s) \<and> (sp \<longrightarrow> fs = [])"
proof -
  have m: "moves (\<lambda>s s'. mt_view s' = mt_view s) (add_resubscribe_callback k pid)" for k pid
    unfolding add_resubscribe_callback_def
    by (intro mt_moves resubscribe_complete_moves mt_frame.moves_updE) (simp add: mt_view_def)
  define s1 where "s1 = printed [PStr ''Connection has been resumed with return code'', PEnum ''ConnectReturnCode'' rc,
       PStr ''and session present:'', PBool sp] s"
  define s2 where "s2 = printed [PStr ''Resubscribing to existing topics''] s1"
  have v: "mt_view s1 = mt_view s" "mt_view s2 = mt_view s" by (simp_all add: s1_def s2_def)
  obtain k pid f c where r: "resubscribe_existing_topics N (mt_conn s2) = (Inr (k, pid), c)"
    and f: "op_futures c = op_futures (mt_conn s2) @ [f]"
    using resubscribe_futures [of N "mt_conn s2"] by (metis surjective_pairing)
  have "mt_on_connection_resumed N rc sp s =
      (if sp then (Inr (), s1) else add_resubscribe_callback k pid (s2\<lparr>mt_conn := c\<rparr>))"
    unfolding mt_on_connection_resumed_def then_print whenE_def s1_def [symmetric]
    by (simp add: then_print ret_def s2_def [symmetric] bind_on_conn [of "resubscribe_existing_topics N", OF r])
  moreover have "mt_view (snd (add_resubscribe_callback k pid (s2\<lparr>mt_conn := c\<rparr>))) = mt_view (s2\<lparr>mt_conn := c\<rparr>)"
    using m by (simp add: moves_def)
  ultimately show ?thesis using v f by (simp add: mt_view_def)
qed

lemma exec_resumed:
  "\<exists>fs. mt_view (mt_exec N E (Resumed rc sp) s) = (op_futures (mt_conn s) @ fs, receive_results s, receive_event s) \<and>
     (sp \<longrightarrow> fs = [])"
proof -
  obtain x s1 where s1: "on_conn (Mqtt3.on_connection_resumed user_returns rc sp) s = (x, s1)" by fastforce
  then have v: "mt_view s1 = mt_view s"
    by (auto simp: mt_view_def Mqtt3.on_connection_resumed_def with_return_code_def user_returns_def py_monad
        split: if_splits sum.splits)
  with s1 resumed_callback_view [of N rc sp s1] show ?thesis
    by (cases x) (simp_all add: thenE_def bindE_def mt_view_def)
qed

interpretation mt_fut: settled_slot "\<lambda>s. k < length (op_futures (mt_conn s))" "\<lambda>s. op_futures (mt_conn s) ! k"
    "mt_exec N E" "mt_trigger E k" for N E k
proof unfold_locales
  fix s :: mt_state and e assume k: "k < length (op_futures (mt_conn s))"
  have "\<exists>fs. op_futures (mt_conn (mt_exec N E e s)) =
    (op_futures (mt_conn s))[k := settle (mt_trigger E k e) (op_futures (mt_conn s) ! k)] @ fs \<or>
    (\<exists>j r. j \<noteq> k \<and> mt_trigger E k e = None \<and> op_futures (mt_conn (mt_exec N E e s)) = (op_futures (mt_conn s))[j := r])"
  proof (cases e)
    case (Completion c)
    show ?thesis
      using exec_completion [of N E c s] Completion
      by (cases "op_target c = k") (auto simp: mt_view_def conn3_exec_futures mt_trigger_def op_trigger_def)
  next
    case (Message t p d q r)
    with exec_message [of N E t p d q r s] show ?thesis
      by (auto simp: mt_view_def mt_trigger_def settle_def split: option.splits)
  next
    case (Interrupted c)
    with exec_interrupted [of N E c s] show ?thesis by (simp add: mt_view_def mt_trigger_def settle_def)
  next
    case (Resumed rc sp)
    with exec_resumed [of N E rc sp s] show ?thesis by (auto simp: mt_view_def mt_trigger_def settle_def)
  qed
  with k show "k < length (op_futures (mt_conn (mt_exec N E e s)))"
    and "op_futures (mt_conn (mt_exec N E e s)) ! k = settle (mt_trigger E k e) (op_futures (mt_conn s) ! k)"
    by (auto simp: nth_append settle_def)
qed

text \<open>Events that create no futures of their own.\<close>

fun mt_quiet :: "mt_event \<Rightarrow> bool" where
  "mt_quiet (Resumed rc sp) = sp"
| "mt_quiet _ = True"

text \<open>The script is at its \<open>n\<close>th operation and \<open>r\<close> is the last message received.\<close>

definition mt_at :: "nat \<Rightarrow> received option \<Rightarrow> mt_state \<Rightarrow> bool" where
  "mt_at n r s = (length (op_futures (mt_conn s)) = n \<and> receive_results s = r \<and> receive_event s = (r \<noteq> None))"

lemma printed_at [simp]: "mt_at n r (printed vs s) = mt_at n r s"
  by (simp add: mt_at_def printed_def)

lemma exec_at:
  assumes "mt_at n r s" "mt_quiet e"
  shows "mt_at n (last_message [e] r) (mt_exec N E e s)"
proof (cases e)
  case (Completion c)
  with assms exec_completion [of N E c s] show ?thesis
    by (simp add: mt_at_def mt_view_def last_message_def conn3_exec_futures)
next
  case (Message t p d q rt)
  with assms exec_message [of N E t p d q rt s] show ?thesis
    by (auto simp: mt_at_def mt_view_def last_message_def split: option.splits)
next
  case (Interrupted c)
  with assms exec_interrupted [of N E c s] show ?thesis by (simp add: mt_at_def mt_view_def last_message_def)
next
  case (Resumed rc sp)
  with assms exec_resumed [of N E rc sp s] show ?thesis by (auto simp: mt_at_def mt_view_def last_message_def)
qed

lemma run_at:
  "mt_at n r s \<Longrightarrow> list_all mt_quiet es \<Longrightarrow> mt_at n (last_message es r) (run_events (mt_exec N E) es s)"
proof (induction es arbitrary: r s)
  case Nil
  then show ?case by (simp add: last_message_def)
next
  case (Cons e es)
  have "mt_at n (last_message [e] r) (mt_exec N E e s)"
    using Cons.prems by (intro exec_at) simp_all
  from Cons.IH [OF this] Cons.prems show ?case by (simp add: last_message_def)
qed

section \<open>The verdict\<close>

text \<open>
  \<open>decides n r m P\<close>: started at the \<open>n\<close>th operation with \<open>r\<close> received last,
  \<open>m\<close> runs to its end exactly if \<open>P\<close>. There is one rule for each kind of step.
\<close>

definition decides :: "nat \<Rightarrow> received option \<Rightarrow> (mt_state, unit) py \<Rightarrow> bool \<Rightarrow> bool" where
  "decides n r m P \<longleftrightarrow> (\<forall>s. mt_at n r s \<longrightarrow> (fst (m s) = Inr ()) = P)"

definition op_returns :: "(connection, nat \<times> pyval) py \<Rightarrow> nat \<Rightarrow> pyval \<Rightarrow> bool" where
  "op_returns m n pid \<longleftrightarrow>
     (\<forall>c. length (op_futures c) = n \<longrightarrow>
        (\<exists>c'. m c = (Inr (n, pid), c') \<and> op_futures c' = op_futures c @ [Pending]))"

lemma op_returnsI:
  assumes "\<And>k. op_ok (body k)" and "\<And>c. fst (body n c) = Inr pid"
  shows "op_returns (operation body) n pid"
  unfolding op_returns_def
proof (intro allI impI)
  fix c :: connection assume n: "length (op_futures c) = n"
  let ?c = "c\<lparr>op_futures := op_futures c @ [Pending]\<rparr>"
  obtain c' where b: "body n ?c = (Inr pid, c')" using assms(2) by (metis surjective_pairing)
  then have "operation body c = (Inr (n, pid), c')"
    unfolding operation_def bindE_def getE_def thenE_def updE_def try_except_def ret_def n [symmetric] by simp
  moreover have "op_futures c' = op_futures c @ [Pending]"
  proof -
    have "op_futures (snd (body n ?c)) = op_futures ?c" using assms(1) unfolding op_ok_def by blast
    then show ?thesis unfolding b by simp
  qed
  ultimately show "\<exists>c'. operation body c = (Inr (n, pid), c') \<and> op_futures c' = op_futures c @ [Pending]"
    by blast
qed

lemma decides_print: "decides n r m P \<Longrightarrow> decides n r (thenE (mt_print vs) m) P"
  by (simp add: decides_def then_print)

lemma decides_last: "decides n r (mt_print vs) True"
  by (simp add: decides_def py_monad)

lemma decides_assert: "decides n r m P \<Longrightarrow> decides n r (thenE (py_assert b) m) (b \<and> P)"
  by (simp add: decides_def py_monad)

lemma decides_lift:
  "(\<And>v. decides n r (k v) (P v)) \<Longrightarrow> decides n r (bindE (lift_result x) k) (\<exists>v. x = Inr v \<and> P v)"
  by (cases x) (simp_all add: decides_def py_monad)

lemma decides_wait:
  "list_all mt_quiet es \<Longrightarrow> decides n (last_message es r) m P \<Longrightarrow> decides n r (thenE (mt_wait N E es) m) P"
  using run_at by (simp add: decides_def mt_wait_def thenE_def bindE_def updE_def)

lemma decides_event: "decides n r (k (r \<noteq> None)) P \<Longrightarrow> decides n r (bindE (getE receive_event) k) P"
  by (simp add: decides_def py_monad mt_at_def)

lemma decides_received: "decides n r (k r) P \<Longrightarrow> decides n r (bindE (getE receive_results) k) P"
  by (simp add: decides_def py_monad mt_at_def)

lemma result_state:
  assumes "mt_at (Suc n) r s" "op_futures (mt_conn s) ! n = Pending" "list_all mt_quiet es"
  shows "mt_at (Suc n) (last_message es r) (snd (mt_result N E es n s)) \<and>
    (fst (mt_result N E es n s) = Inr v \<longleftrightarrow> first_some (mt_trigger E n) es = Some (Inr v))"
proof -
  let ?s = "run_events (mt_exec N E) es s"
  have at: "mt_at (Suc n) (last_message es r) ?s" using assms by (intro run_at)
  have "op_futures (mt_conn ?s) ! n = settle (first_some (mt_trigger E n) es) Pending"
    using mt_fut.settled_run [of n s N E es] assms by (simp add: mt_at_def)
  then show ?thesis using at
    by (cases "first_some (mt_trigger E n) es")
      (simp_all add: mt_result_def mt_wait_def settle_def thenE_def bindE_def updE_def getE_def raise_def lift_result_def)
qed

lemma decides_op:
  assumes op: "op_returns m n pid" and q: "list_all mt_quiet es"
    and k: "\<And>v. decides (Suc n) (last_message es r) (K pid v) (P v)"
  shows "decides n r (bindE (on_conn m) (\<lambda>(k, pid). bindE (mt_result N E es k) (K pid)))
    (\<exists>v. first_some (mt_trigger E n) es = Some (Inr v) \<and> P v)"
  unfolding decides_def
proof (intro allI impI)
  fix s assume at: "mt_at n r s"
  obtain c where c: "m (mt_conn s) = (Inr (n, pid), c)" "op_futures c = op_futures (mt_conn s) @ [Pending]"
    using op at unfolding op_returns_def mt_at_def by blast
  let ?s = "s\<lparr>mt_conn := c\<rparr>"
  have at1: "mt_at (Suc n) r ?s" and p: "op_futures (mt_conn ?s) ! n = Pending"
    using at c(2) by (auto simp: mt_at_def nth_append)
  obtain x s2 where x: "mt_result N E es n ?s = (x, s2)" by fastforce
  note rs = result_state [OF at1 p q, of N E, unfolded x, simplified]
  have e: "bindE (on_conn m) (\<lambda>(k, pid). bindE (mt_result N E es k) (K pid)) s = bindE (mt_result N E es n) (K pid) ?s"
    by (simp add: bind_on_conn [of m, OF c(1)])
  show "(fst (bindE (on_conn m) (\<lambda>(k, pid). bindE (mt_result N E es k) (K pid)) s) = Inr ()) =
    (\<exists>v. first_some (mt_trigger E n) es = Some (Inr v) \<and> P v)"
  proof (cases x)
    case (Inl e)
    with rs show ?thesis unfolding e by (simp add: bindE_def x)
  next
    case (Inr v)
    have "first_some (mt_trigger E n) es = Some (Inr v)" using rs [of v] Inr by simp
    moreover have "(fst (K pid v s2) = Inr ()) = P v" using rs [of v] k [of v] by (simp add: decides_def)
    ultimately show ?thesis unfolding e by (simp add: bindE_def x Inr)
  qed
qed

lemmas decides_rules =
  decides_print decides_last decides_assert decides_lift decides_wait decides_event decides_received

lemma mt_ops_return:
  "(\<And>args. N ''mqtt_client_connection_connect'' args = Inr v) \<Longrightarrow> op_returns (connection_connect N) n v"
  "N ''mqtt_client_connection_subscribe'' [PObj ''Connection'' 0, PStr topic, PInt 1, PBool False, PFun n] = Inr v \<Longrightarrow>
   op_returns (connection_subscribe N topic pv_at_least_once (Some (PFun f, NewSig))) n v"
  "N ''mqtt_client_connection_publish'' [PObj ''Connection'' 0, PStr topic, p, PInt 1, PBool b, PFun n] = Inr v \<Longrightarrow>
   op_returns (connection_publish N topic p pv_at_least_once b) n v"
  "N ''mqtt_client_connection_unsubscribe'' [PObj ''Connection'' 0, PStr topic, PFun n] = Inr v \<Longrightarrow>
   op_returns (connection_unsubscribe N topic) n v"
  "N ''mqtt_client_connection_disconnect'' [PObj ''Connection'' 0, PFun n] = Inr v \<Longrightarrow>
   op_returns (connection_disconnect N) n v"
  unfolding connection_connect_def connection_publish_def connection_unsubscribe_def connection_disconnect_def
    connection_subscribe_def
  by (auto intro!: op_returnsI op_ok_native_args op_ok_native op_ok_bind_lift op_ok_assert
      simp: native_def thenE_def bindE_def emit_def updE_def lift_result_def pv_at_least_once_def ret_def py_assert_def op_ok_def)

lemma last_message_append: "last_message (es @ fs) r = last_message fs (last_message es r)"
  by (simp add: last_message_def)

lemma decides_iff: "decides n r m P \<Longrightarrow> P = Q \<Longrightarrow> decides n r m Q"
  by simp

lemma decides_connect:
  assumes "op_returns (connection_connect N) n PNone" "list_all mt_quiet es"
    and "decides (Suc n) (last_message es r) rest P"
  shows "decides n r (mt_connect N E es rest)
    (first_some (mt_trigger E n) es = Some (Inr (RConnect False)) \<and> P)"
  unfolding mt_connect_def
proof (rule decides_iff [OF decides_op [OF assms(1,2)]])
  show "decides (Suc n) (last_message es r) (bindE (lift_result (op_session_present v))
      (\<lambda>session_present. thenE (py_assert (session_present = False)) rest))
    (\<exists>sp. op_session_present v = Inr sp \<and> sp = False \<and> P)" for v
    by (intro decides_rules assms(3))
qed (auto elim!: op_session_present.elims)

lemma decides_subscribe:
  assumes "op_returns (connection_subscribe N (TOPIC uid) pv_at_least_once (Some (PFun 2, NewSig))) n (PInt p)"
    and "list_all mt_quiet es" and "decides (Suc n) (last_message es r) rest P"
  shows "decides n r (mt_subscribe N E es uid rest)
    (first_some (mt_trigger E n) es = Some (Inr (RSubscribe p (TOPIC uid) Mqtt3QoS.AT_LEAST_ONCE)) \<and> P)"
  unfolding mt_subscribe_def
proof (rule decides_print, rule decides_iff [OF decides_op [OF assms(1,2)]])
  show "decides (Suc n) (last_message es r) (bindE (lift_result (op_packet_id v)) (\<lambda>packet_id.
     thenE (py_assert (packet_id = PInt p))
    (bindE (lift_result (op_topic v)) (\<lambda>topic.
     thenE (py_assert (topic = TOPIC uid))
    (thenE (mt_print [pv_op_result v])
    (bindE (lift_result (op_qos v)) (\<lambda>qos.
     thenE (py_assert (qos = Mqtt3QoS.AT_LEAST_ONCE)) rest)))))))
    (\<exists>pid. op_packet_id v = Inr pid \<and> pid = PInt p \<and>
      (\<exists>t. op_topic v = Inr t \<and> t = TOPIC uid \<and> (\<exists>q. op_qos v = Inr q \<and> q = Mqtt3QoS.AT_LEAST_ONCE \<and> P)))" for v
    by (intro decides_rules assms(3))
qed (auto elim!: op_topic.elims)

lemma decides_packet:
  assumes "decides n r rest P"
  shows "decides n r (bindE (lift_result (op_packet_id v)) (\<lambda>packet_id. thenE (py_assert (packet_id = p)) rest))
    (op_packet_id v = Inr p \<and> P)"
proof (rule decides_iff)
  show "decides n r (bindE (lift_result (op_packet_id v)) (\<lambda>packet_id. thenE (py_assert (packet_id = p)) rest))
    (\<exists>pid. op_packet_id v = Inr pid \<and> pid = p \<and> P)"
    by (intro decides_rules assms)
qed auto

lemma decides_publish:
  assumes "op_returns (connection_publish N (TOPIC uid) (PStr (MESSAGE uid)) pv_at_least_once False) n p"
    and "list_all mt_quiet es" and "decides (Suc n) (last_message es r) rest P"
  shows "decides n r (mt_publish N E es uid rest)
    ((\<exists>v. first_some (mt_trigger E n) es = Some (Inr v) \<and> op_packet_id v = Inr p) \<and> P)"
  unfolding mt_publish_def
  by (rule decides_print, rule decides_iff [OF decides_op [OF assms(1,2)]], rule decides_packet [OF assms(3)]) auto

lemma decides_unsubscribe:
  assumes "op_returns (connection_unsubscribe N (TOPIC uid)) n p"
    and "list_all mt_quiet es" and "decides (Suc n) (last_message es r) rest P"
  shows "decides n r (mt_unsubscribe N E es uid rest)
    ((\<exists>v. first_some (mt_trigger E n) es = Some (Inr v) \<and> op_packet_id v = Inr p) \<and> P)"
  unfolding mt_unsubscribe_def
  by (rule decides_print, rule decides_iff [OF decides_op [OF assms(1,2)]], rule decides_packet [OF assms(3)]) auto

lemma decides_disconnect:
  assumes "op_returns (connection_disconnect N) n p"
    and "list_all mt_quiet es" and "decides (Suc n) (last_message es r) rest P"
  shows "decides n r (mt_disconnect N E es rest)
    ((\<exists>v. first_some (mt_trigger E n) es = Some (Inr v)) \<and> P)"
  unfolding mt_disconnect_def
  by (rule decides_print, rule decides_iff [OF decides_op [OF assms(1,2)]], rule assms(3)) auto

lemma decides_receive:
  assumes "list_all mt_quiet es" and "decides n (last_message es r) rest P"
  shows "decides n r (mt_receive N E es uid rest)
    ((\<exists>m. last_message es r = Some m \<and>
       rcv_topic m = TOPIC uid \<and> py_decode (rcv_payload m) = Inr (MESSAGE uid)) \<and> P)"
  unfolding mt_receive_def
proof (rule decides_print, rule decides_wait [OF assms(1)], rule decides_event, rule decides_iff)
  show "decides n (last_message es r) (thenE (py_assert (last_message es r \<noteq> None))
    (bindE (getE receive_results) (\<lambda>results.
     bindE (lift_result (case results of None \<Rightarrow> Inl KeyError | Some r \<Rightarrow> Inr r)) (\<lambda>r.
     thenE (py_assert (rcv_topic r = TOPIC uid))
    (bindE (lift_result (py_decode (rcv_payload r))) (\<lambda>payload.
     thenE (py_assert (payload = MESSAGE uid)) rest))))))
   (last_message es r \<noteq> None \<and> (\<exists>m. (case last_message es r of None \<Rightarrow> Inl KeyError | Some r \<Rightarrow> Inr r) = Inr m \<and>
      rcv_topic m = TOPIC uid \<and> (\<exists>t. py_decode (rcv_payload m) = Inr t \<and> t = MESSAGE uid \<and> P)))"
    by (intro decides_rules assms(2))
qed (auto split: option.splits)

text \<open>
  (C10) The connection test reports success exactly if the first answers to its five operations that
  arrive in their five seconds are the right ones (a new session; the packet identifier, topic and
  quality of service subscribed with; the packet identifiers of the publish and of the
  unsubscription; any answer to the disconnection), and the last message delivered before it looks is
  the published one on its topic. Interruptions do not matter, nor do resumptions that keep the
  session.
\<close>

theorem mqtt_test_exact:
  assumes "\<And>args. N ''mqtt_client_connection_connect'' args = Inr PNone"
    and "N ''mqtt_client_connection_subscribe''
      [PObj ''Connection'' 0, PStr (TOPIC uid), PInt 1, PBool False, PFun 1] = Inr (PInt sub_id)"
    and "N ''mqtt_client_connection_publish''
      [PObj ''Connection'' 0, PStr (TOPIC uid), PStr (MESSAGE uid), PInt 1, PBool False, PFun 2] = Inr (PInt pub_id)"
    and "N ''mqtt_client_connection_unsubscribe'' [PObj ''Connection'' 0, PStr (TOPIC uid), PFun 3] = Inr (PInt unsub_id)"
    and "N ''mqtt_client_connection_disconnect'' [PObj ''Connection'' 0, PFun 4] = Inr PNone"
    and "\<And>i. list_all mt_quiet (W i)" and "op_futures c = []"
  shows "fst (mqtt_test_run N E W uid (mt_start c)) = Inr () \<longleftrightarrow>
    first_some (mt_trigger E 0) (W 0) = Some (Inr (RConnect False)) \<and>
    first_some (mt_trigger E 1) (W 1) = Some (Inr (RSubscribe sub_id (TOPIC uid) Mqtt3QoS.AT_LEAST_ONCE)) \<and>
    (\<exists>v. first_some (mt_trigger E 2) (W 2) = Some (Inr v) \<and> op_packet_id v = Inr (PInt pub_id)) \<and>
    (\<exists>m. last_message (W 0 @ W 1 @ W 2 @ W 3) None = Some m \<and>
       rcv_topic m = TOPIC uid \<and> py_decode (rcv_payload m) = Inr (MESSAGE uid)) \<and>
    (\<exists>v. first_some (mt_trigger E 3) (W 4) = Some (Inr v) \<and> op_packet_id v = Inr (PInt unsub_id)) \<and>
    (\<exists>v. first_some (mt_trigger E 4) (W 5) = Some (Inr v))" (is "_ \<longleftrightarrow> ?ok")
proof -
  have ops: "op_returns (connection_connect N) 0 PNone"
    "op_returns (connection_subscribe N (TOPIC uid) pv_at_least_once (Some (PFun 2, NewSig))) (Suc 0) (PInt sub_id)"
    "op_returns (connection_publish N (TOPIC uid) (PStr (MESSAGE uid)) pv_at_least_once False) (Suc (Suc 0)) (PInt pub_id)"
    "op_returns (connection_unsubscribe N (TOPIC uid)) (Suc (Suc (Suc 0))) (PInt unsub_id)"
    "op_returns (connection_disconnect N) (Suc (Suc (Suc (Suc 0)))) PNone"
    using assms(1-5) by (auto intro: mt_ops_return simp: numeral_eq_Suc)
  have start: "mt_at 0 None (mt_start c)" using assms(7) by (simp add: mt_at_def mt_start_def)
  have "decides 0 None (mqtt_test_run N E W uid)
   (first_some (mt_trigger E 0) (W 0) = Some (Inr (RConnect False)) \<and>
    first_some (mt_trigger E (Suc 0)) (W 1) = Some (Inr (RSubscribe sub_id (TOPIC uid) Mqtt3QoS.AT_LEAST_ONCE)) \<and>
    (\<exists>v. first_some (mt_trigger E (Suc (Suc 0))) (W 2) = Some (Inr v) \<and> op_packet_id v = Inr (PInt pub_id)) \<and>
    (\<exists>m. last_message (W 3) (last_message (W 2) (last_message (W 1) (last_message (W 0) None))) = Some m \<and>
       rcv_topic m = TOPIC uid \<and> py_decode (rcv_payload m) = Inr (MESSAGE uid)) \<and>
    (\<exists>v. first_some (mt_trigger E (Suc (Suc (Suc 0)))) (W 4) = Some (Inr v) \<and> op_packet_id v = Inr (PInt unsub_id)) \<and>
    (\<exists>v. first_some (mt_trigger E (Suc (Suc (Suc (Suc 0))))) (W 5) = Some (Inr v)) \<and> True)"
    unfolding mqtt_test_run_def
    by (intro decides_connect decides_subscribe decides_publish decides_receive decides_unsubscribe
        decides_disconnect [OF ops(5)] decides_last ops assms(6))
  with start show ?thesis by (simp add: decides_def last_message_append numeral_eq_Suc)
qed

definition mt_native_ex :: native_env where
  "mt_native_ex f args =
     Inr (if f = ''mqtt_client_connection_subscribe'' then PInt 7
          else if f = ''mqtt_client_connection_publish'' then PInt 8
          else if f = ''mqtt_client_connection_unsubscribe'' then PInt 9 else PNone)"

definition mt_events_ex :: "nat \<Rightarrow> mt_event list" where
  "mt_events_ex i =
     (if i = 0 then [Completion (OnConnect 0 0 0 False)]
      else if i = 1 then [Interrupted 1, Completion (OnSuback 1 7 ''test/pubsub/u'' 1 0), Resumed 0 True]
      else if i = 2 then [Completion (OnPacketAck 2 8 0)]
      else if i = 3 then [Message ''test/pubsub/u'' (map (\<lambda>c. word_of_nat (of_char c)) ''test message u'') False 1 False]
      else if i = 4 then [Completion (OnPacketAck 3 9 0)]
      else if i = 5 then [Completion (OnDisconnect 4)] else [])"

theorem mqtt_test_exact_witness:
  "fst (mqtt_test_run mt_native_ex crt_errors_ex mt_events_ex ''u'' (mt_start (mqtt3_ex\<lparr>op_futures := []\<rparr>))) = Inr ()"
proof -
  have "list_all mt_quiet (mt_events_ex i)" for i by (simp add: mt_events_ex_def)
  then show ?thesis
    by (subst mqtt_test_exact [where sub_id = 7 and pub_id = 8 and unsub_id = 9])
      (simp_all add: mt_native_ex_def mt_events_ex_def TOPIC_def MESSAGE_def mt_trigger_def op_trigger_def
        mqtt3_try_qos_def enum_try_def enum_call_def enum_defs last_message_def py_decode_def decode_utf8_def char_of_def bit_0)
qed

end
