(* ===== verification/S3_Benchmark.thy ===== *)
theory S3_Benchmark
  imports Http Auth S3
begin

text \<open>
  \<open>s3_benchmark.py\<close>: many downloads of one object at once, with statistics about the bytes that
  arrive. Body chunks and completions come from the threads of native code; \<open>record_read\<close> is one
  step because its body holds a lock. The clock is a parameter, \<open>C i\<close> being the answer to the
  \<open>i\<close>th call of \<open>time.time()\<close>, and times and rates are rational numbers. Shown: the
  statistics count every byte once and the average rate never exceeds the peak, the number of
  completed downloads is that of the futures with a result, and what the lazily opened upload stream
  delivers.
\<close>

section \<open>Statistics\<close>

record statistics = world +
  clock_calls :: nat
  end_time :: rat
  st_bytes_peak :: rat
  st_bytes_avg :: rat
  st_bytes_read :: int
  st_bytes_sampled :: int
  sec_first_byte :: rat
  star_time :: rat
  last_sample_time :: rat

type_synonym wall_clock = "nat \<Rightarrow> rat"

definition time_time :: "wall_clock \<Rightarrow> ('a statistics_scheme, rat) py" where
  [py_monad]: "time_time C =
     bindE (getE (\<lambda>s. C (clock_calls s))) (\<lambda>t. thenE (updE (\<lambda>s. s\<lparr>clock_calls := Suc (clock_calls s)\<rparr>)) (ret t))"

definition Statistics_init :: "wall_clock \<Rightarrow> statistics" where
  "Statistics_init C = \<lparr>trace = [], clock_calls = 2, end_time = 0, st_bytes_peak = 0, st_bytes_avg = 0,
     st_bytes_read = 0, st_bytes_sampled = 0, sec_first_byte = 0, star_time = C 0, last_sample_time = C 1\<rparr>"

definition take_sample :: "rat \<Rightarrow> 'a statistics_scheme \<Rightarrow> 'a statistics_scheme" where
  "take_sample time_now s =
     (let bytes_this_second = of_int (st_bytes_read s - st_bytes_sampled s) / (time_now - last_sample_time s)
      in s\<lparr>st_bytes_sampled := st_bytes_read s,
           st_bytes_avg := (st_bytes_avg s + bytes_this_second) * (1 / 2),
           st_bytes_peak := (if st_bytes_peak s < bytes_this_second then bytes_this_second else st_bytes_peak s),
           last_sample_time := time_now\<rparr>)"

definition record_read :: "wall_clock \<Rightarrow> int \<Rightarrow> ('a statistics_scheme, unit) py" where
  "record_read C sz =
     with_lock ''Statistics''
      (thenE (updE (\<lambda>s. s\<lparr>st_bytes_read := st_bytes_read s + sz\<rparr>))
      (bindE (getE sec_first_byte) (\<lambda>first.
       thenE (if first = 0
              then bindE (time_time C) (\<lambda>t. updE (\<lambda>s. s\<lparr>sec_first_byte := t - star_time s\<rparr>))
              else ret ())
      (bindE (time_time C) (\<lambda>time_now.
       updE (\<lambda>s. if time_now - last_sample_time s > 1 then take_sample time_now s else s))))))"

definition GBPS :: rat where "GBPS = 1000 * 1000 * 1000"

definition bytes_peak :: "'a statistics_scheme \<Rightarrow> rat" where
  "bytes_peak s = (st_bytes_peak s * 8) / GBPS"

definition bytes_avg :: "'a statistics_scheme \<Rightarrow> rat" where
  "bytes_avg s = (st_bytes_avg s * 8) / GBPS"

section \<open>The lazily opened stream\<close>

text \<open>The underlying stream, once opened, is the content of the file, the position and whether it is
  closed; \<open>F\<close> answers \<open>open\<close>.\<close>

datatype py_file = PyFile bytes nat bool

record lazy_stream = statistics +
  lz_stream :: "py_file option"

fun file_closed :: "py_file \<Rightarrow> bool" where
  "file_closed (PyFile content pos c) = c"

text \<open>\<open>read(n)\<close> of the file; a negative \<open>n\<close> reads to the end.\<close>

fun file_read :: "int \<Rightarrow> py_file \<Rightarrow> bytes \<times> py_file" where
  "file_read n (PyFile content pos c) =
     (let data = (if n < 0 then drop pos content else take (nat n) (drop pos content))
      in (data, PyFile content (pos + length data) c))"

fun file_close :: "py_file \<Rightarrow> py_file" where
  "file_close (PyFile content pos c) = PyFile content pos True"

definition available_stream :: "pyexc + bytes \<Rightarrow> ('a lazy_stream_scheme, py_file) py" where
  "available_stream F =
     bindE (getE lz_stream) (\<lambda>st.
       if (case st of None \<Rightarrow> True | Some f \<Rightarrow> file_closed f)
       then (case F of
               Inl e \<Rightarrow> raise e
             | Inr content \<Rightarrow> thenE (updE (\<lambda>s. s\<lparr>lz_stream := Some (PyFile content 0 False)\<rparr>))
                 (ret (PyFile content 0 False)))
       else ret (the st))"

definition lazy_read :: "wall_clock \<Rightarrow> pyexc + bytes \<Rightarrow> int \<Rightarrow> ('a lazy_stream_scheme, bytes) py" where
  "lazy_read C F n =
     bindE (available_stream F) (\<lambda>f. case file_read n f of (data, f') \<Rightarrow>
       thenE (updE (\<lambda>s. s\<lparr>lz_stream := Some f'\<rparr>))
      (thenE (record_read C (int (length data)))
      (thenE (if data = [] then updE (\<lambda>s. s\<lparr>lz_stream := Some (file_close f')\<rparr>) else ret ())
      (ret data))))"

text \<open>\<open>readinto1(m)\<close> fills at most the memory \<open>m\<close>, here given by what is in it.\<close>

definition lazy_readinto1 ::
  "wall_clock \<Rightarrow> pyexc + bytes \<Rightarrow> bytes \<Rightarrow> ('a lazy_stream_scheme, int \<times> bytes) py" where
  "lazy_readinto1 C F m =
     bindE (available_stream F) (\<lambda>f. case file_read (int (length m)) f of (data, f') \<Rightarrow>
       thenE (updE (\<lambda>s. s\<lparr>lz_stream := Some f'\<rparr>))
      (thenE (record_read C (int (length data)))
      (thenE (if data = [] then updE (\<lambda>s. s\<lparr>lz_stream := Some (file_close f')\<rparr>) else ret ())
      (ret (int (length data), data @ drop (length data) m)))))"

text \<open>\<open>seek\<close> with the three values of \<open>whence\<close>.\<close>

fun file_seek :: "int \<Rightarrow> int \<Rightarrow> py_file \<Rightarrow> pyexc + int \<times> py_file" where
  "file_seek off whence (PyFile content pos c) =
     (let target = (if whence = 0 then off else if whence = 1 then int pos + off else int (length content) + off)
      in if whence \<notin> {0, 1, 2} then Inl (ValueError ''invalid whence'')
         else if target < 0 then Inl (BuiltinExc ''OSError'')
         else Inr (target, PyFile content (nat target) c))"

definition lazy_seek :: "pyexc + bytes \<Rightarrow> int \<Rightarrow> int \<Rightarrow> ('a lazy_stream_scheme, int) py" where
  "lazy_seek F off whence =
     bindE (available_stream F) (\<lambda>f. case file_seek off whence f of
       Inl e \<Rightarrow> raise e
     | Inr (pos, f') \<Rightarrow> thenE (updE (\<lambda>s. s\<lparr>lz_stream := Some f'\<rparr>)) (ret pos))"

definition lazy_close :: "('a lazy_stream_scheme, unit) py" where
  "lazy_close = ret ()"

section \<open>Facts about the statistics\<close>

lemma record_read_Inr [simp]: "fst (record_read C n s) = Inr ()"
  by (simp add: record_read_def py_monad)

definition stats_ok :: "'a statistics_scheme \<Rightarrow> bool" where
  "stats_ok s = (0 \<le> st_bytes_sampled s \<and> st_bytes_sampled s \<le> st_bytes_read s \<and>
     0 \<le> st_bytes_avg s \<and> st_bytes_avg s \<le> st_bytes_peak s)"

lemma take_sample_ok:
  assumes "stats_ok s" "t - last_sample_time s > 1"
  shows "stats_ok (take_sample t s)"
proof -
  define b :: rat where "b = of_int (st_bytes_read s - st_bytes_sampled s) / (t - last_sample_time s)"
  have "b \<ge> 0" using assms by (simp add: b_def stats_ok_def)
  moreover have "take_sample t s = s\<lparr>st_bytes_sampled := st_bytes_read s, st_bytes_avg := (st_bytes_avg s + b) * (1 / 2),
      st_bytes_peak := (if st_bytes_peak s < b then b else st_bytes_peak s), last_sample_time := t\<rparr>"
    unfolding take_sample_def b_def Let_def ..
  ultimately show ?thesis using assms(1) by (auto simp: stats_ok_def)
qed

lemma stats_ok_updates [simp]:
  "stats_ok (s\<lparr>trace := x\<rparr>) = stats_ok s"
  "stats_ok (s\<lparr>clock_calls := n\<rparr>) = stats_ok s"
  "stats_ok (s\<lparr>sec_first_byte := r\<rparr>) = stats_ok s"
  "stats_ok s \<Longrightarrow> i \<ge> 0 \<Longrightarrow> stats_ok (s\<lparr>st_bytes_read := st_bytes_read s + i\<rparr>)"
  by (simp_all add: stats_ok_def)

lemma record_read_ok:
  assumes "stats_ok s" "n \<ge> 0" shows "stats_ok (snd (record_read C n s))"
proof -
  define s1 where "s1 = s\<lparr>trace := trace s @ [Acquire ''Statistics''], st_bytes_read := st_bytes_read s + n\<rparr>"
  define s2 where "s2 = (if sec_first_byte s = 0
    then s1\<lparr>clock_calls := Suc (clock_calls s), sec_first_byte := C (clock_calls s) - star_time s\<rparr> else s1)"
  define t where "t = C (clock_calls s2)"
  define s3 where "s3 = s2\<lparr>clock_calls := Suc (clock_calls s2)\<rparr>"
  have "stats_ok s1" using assms by (simp add: s1_def stats_ok_def)
  then have "stats_ok s3" by (simp add: s3_def s2_def)
  moreover have "snd (record_read C n s) =
      (let s4 = if t - last_sample_time s3 > 1 then take_sample t s3 else s3
       in s4\<lparr>trace := trace s4 @ [Release ''Statistics'']\<rparr>)"
    by (simp add: record_read_def py_monad s1_def s2_def s3_def t_def Let_def)
  ultimately show ?thesis by (simp add: Let_def take_sample_ok)
qed

lemma record_read_bytes: "st_bytes_read (snd (record_read C n s)) = st_bytes_read s + n"
  by (simp add: record_read_def take_sample_def Let_def py_monad)

lemma record_read_stream [simp]: "lz_stream (snd (record_read C n s)) = lz_stream s"
  by (simp add: record_read_def take_sample_def Let_def py_monad)

section \<open>What the lazily opened stream delivers\<close>

text \<open>A consumer that reads \<open>n\<close> bytes at a time until nothing comes.\<close>

fun drain :: "wall_clock \<Rightarrow> pyexc + bytes \<Rightarrow> int \<Rightarrow> nat \<Rightarrow> (lazy_stream, bytes option) py" where
  "drain C F n 0 = ret None"
| "drain C F n (Suc fuel) =
     bindE (lazy_read C F n) (\<lambda>data.
       if data = [] then ret (Some [])
       else bindE (drain C F n fuel) (\<lambda>rest. ret (map_option (\<lambda>r. data @ r) rest)))"

definition stream_fresh :: "'a lazy_stream_scheme \<Rightarrow> bool" where
  "stream_fresh s = (case lz_stream s of None \<Rightarrow> True | Some f \<Rightarrow> file_closed f)"

text \<open>One read of an open file, and the first read of one that is not open.\<close>

lemma lazy_read_open:
  assumes "lz_stream s = Some (PyFile content pos False)" "0 \<le> n" and "data = take (nat n) (drop pos content)"
  shows "\<exists>s'. lazy_read C F n s = (Inr data, s') \<and>
    lz_stream s' = Some (PyFile content (pos + length data) (data = [])) \<and>
    st_bytes_read s' = st_bytes_read s + int (length data)"
proof -
  let ?s = "s\<lparr>lz_stream := Some (PyFile content (pos + length data) False)\<rparr>"
  obtain s1 where s1: "record_read C (int (length data)) ?s = (Inr (), s1)"
    by (metis record_read_Inr surjective_pairing)
  then have f: "lz_stream s1 = Some (PyFile content (pos + length data) False)"
    and b: "st_bytes_read s1 = st_bytes_read s + int (length data)"
    using record_read_stream [of C "int (length data)" ?s] record_read_bytes [of C "int (length data)" ?s]
    by simp_all
  show ?thesis
    using assms s1 f b
    by (auto simp: lazy_read_def available_stream_def bindE_def thenE_def getE_def updE_def ret_def Let_def)
qed

lemma lazy_read_fresh:
  "stream_fresh s \<Longrightarrow>
   lazy_read C (Inr content) n s = lazy_read C (Inr content) n (s\<lparr>lz_stream := Some (PyFile content 0 False)\<rparr>)"
  by (auto simp: lazy_read_def available_stream_def stream_fresh_def bindE_def thenE_def getE_def updE_def ret_def
      split: option.splits)

lemma drain_open:
  assumes "0 < n"
  shows "lz_stream s = Some (PyFile content pos False) \<Longrightarrow> length content - pos < fuel \<Longrightarrow>
    \<exists>s'. drain C F n fuel s = (Inr (Some (drop pos content)), s') \<and> stream_fresh s' \<and>
      st_bytes_read s' = st_bytes_read s + int (length content - pos)"
proof (induction fuel arbitrary: s pos)
  case (Suc fuel)
  let ?data = "take (nat n) (drop pos content)"
  obtain s1 where s1: "lazy_read C F n s = (Inr ?data, s1)"
    "lz_stream s1 = Some (PyFile content (pos + length ?data) (?data = []))"
    "st_bytes_read s1 = st_bytes_read s + int (length ?data)"
    using lazy_read_open [OF Suc.prems(1) _ refl] assms by (meson less_imp_le)
  show ?case
  proof (cases "pos < length content")
    case False
    with s1 show ?thesis by (simp add: bindE_def ret_def stream_fresh_def)
  next
    case True
    then have d: "?data \<noteq> []" "length ?data > 0" using assms by auto
    then have "length content - (pos + length ?data) < fuel" using Suc.prems(2) True by linarith
    from Suc.IH [OF _ this] s1(2) d(1) obtain s2 where s2:
      "drain C F n fuel s1 = (Inr (Some (drop (pos + length ?data) content)), s2)" "stream_fresh s2"
      "st_bytes_read s2 = st_bytes_read s1 + int (length content - (pos + length ?data))"
      by auto
    have "take (nat n) xs @ drop (length (take (nat n) xs)) xs = xs" for xs :: bytes
      by (cases "nat n \<le> length xs") simp_all
    from this [of "drop pos content"] have "?data @ drop (pos + length ?data) content = drop pos content"
      by (simp only: drop_drop add.commute)
    moreover have "length ?data \<le> length content - pos" by simp
    then have c: "int (length ?data) + int (length content - (pos + length ?data)) = int (length content - pos)"
      using True by linarith
    ultimately have "drain C F n (Suc fuel) s = (Inr (Some (drop pos content)), s2)"
      using s1(1) s2(1) d(1) by (simp add: bindE_def ret_def)
    moreover have "st_bytes_read s2 = st_bytes_read s + int (length content - pos)"
      using s1(3) s2(3) c by linarith
    ultimately show ?thesis using s2(2) by blast
  qed
qed simp

text \<open>
  (C28) The lazily opened stream delivers the file: whoever reads \<open>n\<close> bytes at a time until an
  empty read gets its content, after at most one read more than it has bytes, and every byte is
  counted once in the statistics. The stream is then ready to deliver the file again.
\<close>

theorem lazy_stream_delivers:
  assumes "0 < n" "stream_fresh s"
  shows "\<exists>s'. drain C (Inr content) n (Suc (length content)) s = (Inr (Some content), s') \<and>
    stream_fresh s' \<and> st_bytes_read s' = st_bytes_read s + int (length content)"
proof -
  let ?s = "s\<lparr>lz_stream := Some (PyFile content 0 False)\<rparr>"
  have "drain C (Inr content) n (Suc (length content)) s = drain C (Inr content) n (Suc (length content)) ?s"
    using lazy_read_fresh [OF assms(2), of C content n] by (simp add: bindE_def)
  with drain_open [OF assms(1), of ?s content 0 "Suc (length content)" C "Inr content"] show ?thesis by simp
qed

definition lazy_stream_ex :: lazy_stream where
  "lazy_stream_ex = \<lparr>trace = [], clock_calls = 2, end_time = 0, st_bytes_peak = 0, st_bytes_avg = 0,
     st_bytes_read = 0, st_bytes_sampled = 0, sec_first_byte = 0, star_time = 0, last_sample_time = 0,
     lz_stream = None\<rparr>"

theorem lazy_stream_delivers_witness:
  "\<exists>s'. drain of_nat (Inr [1, 2, 3]) 2 4 lazy_stream_ex = (Inr (Some [1, 2, 3]), s') \<and>
    stream_fresh s' \<and> st_bytes_read s' = 3"
  using lazy_stream_delivers [of 2 lazy_stream_ex of_nat "[1, 2, 3]"]
  by (simp add: lazy_stream_ex_def stream_fresh_def numeral_eq_Suc)

section \<open>The benchmark\<close>

record bench = statistics +
  s3_requests :: "s3_request_core list"
  completed_connections :: int

definition region :: string where "region = ''us-west-2''"
definition bucket_name :: string where "bucket_name = ''aws-crt-python-s3-testing-bucket''"
definition object_name :: string where "object_name = ''/0_10GB.txt''"
definition repeat_times :: nat where "repeat_times = 1"
definition bunch_size :: nat where "bunch_size = 160"

text \<open>The objects the module creates before it starts; the result is the request.\<close>

definition bench_client_args :: "nat \<Rightarrow> s3_client_args" where
  "bench_client_args bootstrap = \<lparr>s3_bootstrap = PObj ''ClientBootstrap'' bootstrap, s3_region = PStr ''us-west-2'',
     s3_tls_mode = PNone, s3_signing_config = PNone,
     s3_credential_provider = PObj ''AwsCredentialsProvider'' 0, s3_tls_connection_options = PNone,
     s3_part_size = PNone, s3_multipart_upload_threshold = PNone, s3_throughput_target_gbps = PInt 100,
     s3_enable_s3express = PBool False, s3_memory_limit = PNone, s3_network_interface_names = PNone,
     s3_fio_options = None, s3_max_active_connections_override = PNone\<rparr>"

definition bench_setup :: "native_env \<Rightarrow> (io_state, pyval) py" where
  "bench_setup N =
     bindE (EventLoopGroup_init N (Some 18) None) (\<lambda>event_loop_group.
     bindE (DefaultHostResolver_init N event_loop_group 16) (\<lambda>host_resolver.
     bindE (ClientBootstrap_init N event_loop_group host_resolver) (\<lambda>bootstrap.
     thenE (new_default_chain N (Inr PNone) (PObj ''ClientBootstrap'' bootstrap))
    (thenE (S3Client_init N (Inr PNone) (bench_client_args bootstrap))
    (bindE (HttpHeaders_init N (Some [(''host'', bucket_name @ ''.s3.'' @ region @ ''.amazonaws.com'')])) (\<lambda>headers.
     HttpRequest_init N 0 ''GET'' object_name (Some headers) NoStream))))))"

text \<open>The two callbacks.\<close>

definition on_body :: "wall_clock \<Rightarrow> bytes \<Rightarrow> (bench, unit) py" where
  "on_body C chunk = record_read C (int (length chunk))"

definition on_done :: "(bench, unit) py" where
  "on_done =
     thenE (updE (\<lambda>s. s\<lparr>completed_connections := completed_connections s + 1\<rparr>))
    (bindE (getE completed_connections) (\<lambda>n.
     emit (Native ''print'' [PStr (''Finished connection '' @ str_int n)])))"

definition bench_request_args :: s3_request_args where
  "bench_request_args = \<lparr>rq_type = S3RequestType.GET_OBJECT, rq_request = PObj ''HttpRequest'' 0,
     rq_operation_name = None, rq_recv_filepath = None, rq_send_filepath = None, rq_signing_config = PNone,
     rq_credential_provider = PNone, rq_checksum_config = None, rq_part_size = PNone,
     rq_multipart_upload_threshold = PNone, rq_fio_options = None, rq_max_active_connections_override = PNone,
     rq_on_headers = PNone, rq_on_body = PFun 0, rq_on_done = PFun 1, rq_on_progress = PNone, rq_region = region\<rparr>"

text \<open>The inner loop that makes the requests.\<close>

fun make_requests :: "native_env \<Rightarrow> nat \<Rightarrow> (bench, unit) py" where
  "make_requests N 0 = ret ()"
| "make_requests N (Suc n) =
     (case s3_make_request N region bench_request_args of
        Inl e \<Rightarrow> raise e
      | Inr core \<Rightarrow> thenE (updE (\<lambda>s. s\<lparr>s3_requests := s3_requests s @ [core]\<rparr>)) (make_requests N n))"

section \<open>Events\<close>

datatype bench_event =
    Body nat bytes int
  | Done nat finish_args

definition quiet_user :: user_env where "quiet_user f args = None"

text \<open>
  A body chunk goes through the request's core to \<open>on_body\<close>; a completion completes the future
  and then, if the core gets that far, reaches \<open>on_done\<close>.
\<close>

definition on_core :: "nat \<Rightarrow> (s3_request_core, 'b) py \<Rightarrow> (bench, 'b) py" where
  [py_monad]: "on_core j m = (\<lambda>s. case m (s3_requests s ! j) of
     (r, c) \<Rightarrow> (r, s\<lparr>s3_requests := (s3_requests s)[j := c]\<rparr>))"

fun bench_do :: "wall_clock \<Rightarrow> crt_errors \<Rightarrow> bench_event \<Rightarrow> (bench, unit) py" where
  "bench_do C E (Body j chunk offset) =
     bindE (on_core j (s3_on_body quiet_user chunk offset)) (\<lambda>called.
       if called = None then ret () else on_body C chunk)"
| "bench_do C E (Done j a) =
     thenE (on_core j (s3_on_finish E quiet_user a))
    (bindE (getE (\<lambda>s. on_done_cb (s3_requests s ! j))) (\<lambda>cb. if truthy cb then on_done else ret ()))"

abbreviation bench_exec :: "wall_clock \<Rightarrow> crt_errors \<Rightarrow> bench_event \<Rightarrow> bench \<Rightarrow> bench" where
  "bench_exec C E e s \<equiv> snd (bench_do C E e s)"

text \<open>\<open>j.result(100000)\<close> for every future; \<open>completed\<close> loses one for each that raises.\<close>

fun await_futures :: "unit fut list \<Rightarrow> int \<Rightarrow> int" where
  "await_futures [] completed = completed"
| "await_futures (f # fs) completed =
     await_futures fs (if f = Finished (Inr ()) then completed else completed - 1)"

definition bench_report :: "wall_clock \<Rightarrow> rat \<Rightarrow> int \<Rightarrow> (bench, unit) py" where
  "bench_report C start completed =
     bindE (time_time C) (\<lambda>stop.
     bindE (getE id) (\<lambda>s.
     thenE (emit (Native ''print'' [PStr ''Gbps peak:'', PFloat (bytes_peak s)]))
    (thenE (emit (Native ''print'' [PStr ''Gbps avg:'', PFloat (bytes_avg s)]))
    (thenE (emit (Native ''print'' [PStr ''total time:'', PFloat (stop - start)]))
    (thenE (emit (Native ''print'' [PStr ''completed/all:'', PInt completed, PInt (int (repeat_times * bunch_size))]))
     (emit (Native ''print'' [PStr ''latency:'', PFloat (sec_first_byte s)])))))))"

text \<open>The program with one repetition; \<open>es\<close> are the events until the last future is waited for.\<close>

definition bench_main :: "native_env \<Rightarrow> wall_clock \<Rightarrow> crt_errors \<Rightarrow> bench_event list \<Rightarrow> (bench, int) py" where
  "bench_main N C E es =
     bindE (time_time C) (\<lambda>start.
     thenE (make_requests N bunch_size)
    (thenE (updE (run_events (bench_exec C E) es))
    (bindE (getE (\<lambda>s. await_futures (map finished_future (s3_requests s)) (int (repeat_times * bunch_size)))) (\<lambda>completed.
     thenE (bench_report C start completed) (ret completed)))))"

definition bench_init :: "wall_clock \<Rightarrow> bench" where
  "bench_init C = statistics.extend (Statistics_init C) \<lparr>s3_requests = [], completed_connections = 0\<rparr>"

section \<open>What the benchmark reports\<close>

definition bench_bytes :: "bench_event \<Rightarrow> int" where
  "bench_bytes e = (case e of Body j chunk offset \<Rightarrow> int (length chunk) | Done j a \<Rightarrow> 0)"

text \<open>The requests are as the program makes them: \<open>n\<close> of them, with both callbacks, none of which
  has raised.\<close>

definition bench_wf :: "nat \<Rightarrow> bench \<Rightarrow> bool" where
  "bench_wf n s \<longleftrightarrow> length (s3_requests s) = n \<and>
     (\<forall>c\<in>set (s3_requests s). s3_request_core.on_body_cb c = PFun 0 \<and> on_done_cb c = PFun 1 \<and> python_callback_exception c = None)"

fun event_request :: "bench_event \<Rightarrow> nat" where
  "event_request (Body j chunk offset) = j"
| "event_request (Done j a) = j"

definition bench_trigger :: "crt_errors \<Rightarrow> nat \<Rightarrow> bench_event \<Rightarrow> (pyexc + unit) option" where
  "bench_trigger E j e = (case e of
     Body i chunk offset \<Rightarrow> None
   | Done i a \<Rightarrow> if i = j then Some (s3_outcome (finish_error E None a)) else None)"

lemma record_read_bench [simp]:
  "s3_requests (snd (record_read C n s)) = s3_requests s"
  "completed_connections (snd (record_read C n s)) = completed_connections s"
  by (simp_all add: record_read_def take_sample_def Let_def py_monad)

lemma s3_on_body_core:
  assumes "s3_request_core.on_body_cb c = PFun 0"
  shows "s3_on_body quiet_user chunk offset c =
    (Inr (Some True), c\<lparr>trace := trace c @ [Callback ''on_body'' [PBytes chunk, PInt offset]]\<rparr>)"
  using assms by (simp add: s3_on_body_def callback_guarded_def quiet_user_def py_monad)

lemma s3_on_finish_core:
  assumes "python_callback_exception c = None" "on_done_cb c = PFun 1"
  shows "finished_future (snd (s3_on_finish E quiet_user a c)) =
      settle (Some (s3_outcome (finish_error E None a))) (finished_future c) \<and>
    python_callback_exception (snd (s3_on_finish E quiet_user a c)) = None \<and>
    s3_request_core.on_body_cb (snd (s3_on_finish E quiet_user a c)) = s3_request_core.on_body_cb c \<and>
    on_done_cb (snd (s3_on_finish E quiet_user a c)) = PFun 1"
  using assms
  by (auto simp: s3_on_finish_def resolve_def fut_complete_def settle_def s3_outcome_def quiet_user_def py_monad
      split: sum.splits option.splits)

lemma on_done_fields:
  "s3_requests (snd (on_done s)) = s3_requests s" "stats_ok (snd (on_done s)) = stats_ok s"
  "st_bytes_read (snd (on_done s)) = st_bytes_read s"
  by (simp_all add: on_done_def py_monad stats_ok_def)

lemma stats_ok_requests [simp]: "stats_ok (s\<lparr>s3_requests := cs\<rparr>) = stats_ok s"
  by (simp add: stats_ok_def)

fun core_step :: "crt_errors \<Rightarrow> bench_event \<Rightarrow> s3_request_core \<Rightarrow> s3_request_core" where
  "core_step E (Body j chunk offset) c = snd (s3_on_body quiet_user chunk offset c)"
| "core_step E (Done j a) c = snd (s3_on_finish E quiet_user a c)"

lemma bench_exec_requests:
  "s3_requests (bench_exec C E e s) =
     (s3_requests s)[event_request e := core_step E e (s3_requests s ! event_request e)]"
  by (cases e) (auto simp: on_core_def on_body_def bindE_def thenE_def getE_def ret_def on_done_fields
      split: prod.splits sum.splits)

lemma bench_exec_stats:
  assumes "bench_wf n s" "event_request e < n" "stats_ok s"
  shows "stats_ok (bench_exec C E e s) \<and> st_bytes_read (bench_exec C E e s) = st_bytes_read s + bench_bytes e"
proof (cases e)
  case (Body j chunk offset)
  with assms have "s3_request_core.on_body_cb (s3_requests s ! j) = PFun 0" by (simp add: bench_wf_def)
  from s3_on_body_core [OF this, of chunk offset] Body assms(3) show ?thesis
    by (simp add: on_core_def on_body_def bindE_def record_read_ok record_read_bytes bench_bytes_def)
next
  case (Done j a)
  with assms(3) show ?thesis
    by (auto simp: on_core_def bindE_def thenE_def getE_def ret_def on_done_fields bench_bytes_def
        split: prod.splits sum.splits)
qed

lemma core_step_kept:
  assumes "s3_request_core.on_body_cb c = PFun 0" "on_done_cb c = PFun 1" "python_callback_exception c = None"
  shows "s3_request_core.on_body_cb (core_step E e c) = PFun 0 \<and> on_done_cb (core_step E e c) = PFun 1 \<and>
    python_callback_exception (core_step E e c) = None \<and>
    finished_future (core_step E e c) = settle (bench_trigger E (event_request e) e) (finished_future c)"
  using assms s3_on_body_core [of c] s3_on_finish_core [of c E]
  by (cases e) (simp_all add: bench_trigger_def settle_def)

lemma bench_wf_exec:
  assumes "bench_wf n s" shows "bench_wf n (bench_exec C E e s)"
proof (cases "event_request e < length (s3_requests s)")
  case True
  let ?c = "s3_requests s ! event_request e"
  have "?c \<in> set (s3_requests s)" using True by simp
  then have "s3_request_core.on_body_cb ?c = PFun 0 \<and> on_done_cb ?c = PFun 1 \<and> python_callback_exception ?c = None"
    using assms unfolding bench_wf_def by blast
  then have k: "s3_request_core.on_body_cb (core_step E e ?c) = PFun 0 \<and> on_done_cb (core_step E e ?c) = PFun 1 \<and>
      python_callback_exception (core_step E e ?c) = None"
    using core_step_kept by blast
  have "set ((s3_requests s)[event_request e := core_step E e ?c]) \<subseteq> insert (core_step E e ?c) (set (s3_requests s))"
    by (rule set_update_subset_insert)
  with assms k show ?thesis unfolding bench_wf_def bench_exec_requests by (auto dest!: subsetD)
next
  case False
  then have "s3_requests (bench_exec C E e s) = s3_requests s"
    by (simp add: bench_exec_requests list_update_beyond linorder_not_less)
  with assms show ?thesis by (simp add: bench_wf_def)
qed

interpretation bench_fut: settled_slot "\<lambda>s. bench_wf n s \<and> j < n" "\<lambda>s. finished_future (s3_requests s ! j)"
    "bench_exec C E" "bench_trigger E j" for n j C E
proof unfold_locales
  fix s e assume p: "bench_wf n s \<and> j < n"
  then show "bench_wf n (bench_exec C E e s) \<and> j < n" by (simp add: bench_wf_exec)
  have c: "s3_requests s ! j \<in> set (s3_requests s)" using p by (simp add: bench_wf_def)
  show "finished_future (s3_requests (bench_exec C E e s) ! j) =
    settle (bench_trigger E j e) (finished_future (s3_requests s ! j))"
  proof (cases "event_request e = j")
    case True
    with p c core_step_kept [of "s3_requests s ! j" E e] show ?thesis
      by (simp add: bench_exec_requests bench_wf_def)
  next
    case False
    then have "bench_trigger E j e = None" by (cases e) (simp_all add: bench_trigger_def)
    with False show ?thesis by (simp add: bench_exec_requests settle_def)
  qed
qed

lemma bench_run_stats:
  "bench_wf n s \<Longrightarrow> list_all (\<lambda>e. event_request e < n) es \<Longrightarrow> stats_ok s \<Longrightarrow>
   bench_wf n (run_events (bench_exec C E) es s) \<and> stats_ok (run_events (bench_exec C E) es s) \<and>
   st_bytes_read (run_events (bench_exec C E) es s) = st_bytes_read s + sum_list (map bench_bytes es)"
proof (induction es arbitrary: s)
  case (Cons e es)
  have "bench_wf n (bench_exec C E e s)" using Cons.prems bench_wf_exec by blast
  with Cons bench_exec_stats [of n s e C E] show ?case by simp
qed simp

lemma await_futures_count:
  "await_futures fs k = k - int (length fs) + int (length (filter (\<lambda>f. f = Finished (Inr ())) fs))"
  by (induction fs arbitrary: k) auto

lemma bench_request_core:
  assumes "s3_make_request N region bench_request_args = Inr core"
  shows "s3_request_core.on_body_cb core = PFun 0 \<and> on_done_cb core = PFun 1 \<and>
    python_callback_exception core = None \<and> finished_future core = Pending"
  using assms
  by (auto simp: s3_make_request_def S3Request_init_def bench_request_args_def Let_def split: if_splits sum.splits)

lemma bench_request_made:
  assumes "\<And>args. \<exists>v. N ''s3_client_make_meta_request'' args = Inr v"
  shows "\<exists>core. s3_make_request N region bench_request_args = Inr core"
proof (rule ccontr)
  assume "\<nexists>core. s3_make_request N region bench_request_args = Inr core"
  then obtain args e where "N ''s3_client_make_meta_request'' args = Inl e"
    by (auto simp: s3_make_request_def S3Request_init_def bench_request_args_def s3_request_asserts_def
        opt_isinstance_def Let_def split: sum.splits)
  with assms [of args] show False by simp
qed

lemma make_requests_run:
  assumes "\<And>args. \<exists>v. N ''s3_client_make_meta_request'' args = Inr v"
  shows "\<exists>cs. make_requests N n s = (Inr (), s\<lparr>s3_requests := s3_requests s @ cs\<rparr>) \<and> length cs = n \<and>
    (\<forall>c\<in>set cs. s3_request_core.on_body_cb c = PFun 0 \<and> on_done_cb c = PFun 1 \<and>
       python_callback_exception c = None \<and> finished_future c = Pending)"
proof (induction n arbitrary: s)
  case (Suc n)
  obtain core where core: "s3_make_request N region bench_request_args = Inr core"
    using bench_request_made [of N] assms by blast
  note kept = bench_request_core [OF this]
  from Suc.IH [of "s\<lparr>s3_requests := s3_requests s @ [core]\<rparr>"] obtain cs where
    "make_requests N n (s\<lparr>s3_requests := s3_requests s @ [core]\<rparr>) = (Inr (), s\<lparr>s3_requests := s3_requests s @ core # cs\<rparr>)"
    "length cs = n" "\<forall>c\<in>set cs. s3_request_core.on_body_cb c = PFun 0 \<and> on_done_cb c = PFun 1 \<and>
       python_callback_exception c = None \<and> finished_future c = Pending"
    by auto
  with core kept show ?case
    by (intro exI [of _ "core # cs"]) (simp add: thenE_def bindE_def updE_def)
qed (simp add: ret_def)

lemma bench_report_kept:
  "\<exists>s'. bench_report C start k s = (Inr (), s') \<and> st_bytes_read s' = st_bytes_read s \<and> stats_ok s' = stats_ok s"
  by (simp add: bench_report_def py_monad)

text \<open>
  (C25) Whatever the order in which chunks and completions of the downloads arrive, the benchmark
  reports as completed exactly the downloads whose first completion is a success, it has counted
  every byte delivered once, and the average rate it prints is at most the peak rate.
\<close>

theorem benchmark_reports:
  assumes "\<And>args. \<exists>v. N ''s3_client_make_meta_request'' args = Inr v"
    and "list_all (\<lambda>e. event_request e < 160) es"
  shows "\<exists>s'. bench_main N C E es (bench_init C) =
      (Inr (int (length (filter (\<lambda>j. first_some (bench_trigger E j) es = Some (Inr ())) [0..<160]))), s') \<and>
    st_bytes_read s' = sum_list (map bench_bytes es) \<and> bytes_avg s' \<le> bytes_peak s'"
proof -
  let ?s0 = "(bench_init C)\<lparr>clock_calls := 3\<rparr>"
  obtain cs where cs: "make_requests N 160 ?s0 = (Inr (), ?s0\<lparr>s3_requests := s3_requests ?s0 @ cs\<rparr>)" "length cs = 160"
    "\<forall>c\<in>set cs. s3_request_core.on_body_cb c = PFun 0 \<and> on_done_cb c = PFun 1 \<and>
       python_callback_exception c = None \<and> finished_future c = Pending"
    using make_requests_run [of N 160 ?s0] assms(1) by blast
  define s1 where "s1 = ?s0\<lparr>s3_requests := cs\<rparr>"
  define s2 where "s2 = run_events (bench_exec C E) es s1"
  have wf: "bench_wf 160 s1" using cs by (simp add: bench_wf_def s1_def)
  have "stats_ok s1" by (simp add: s1_def bench_init_def Statistics_init_def stats_ok_def statistics.defs)
  from bench_run_stats [OF wf assms(2) this, of C E] have s2: "bench_wf 160 s2" "stats_ok s2"
    "st_bytes_read s2 = sum_list (map bench_bytes es)"
    by (simp_all add: s2_def s1_def bench_init_def Statistics_init_def statistics.defs)
  have f: "(finished_future (s3_requests s2 ! j) = Finished (Inr ())) =
      (first_some (bench_trigger E j) es = Some (Inr ()))" if "j < 160" for j
  proof -
    have "finished_future (s3_requests s1 ! j) = Pending" using cs(2,3) that by (simp add: s1_def)
    with bench_fut.settled_run [of 160 s1 j C E es] wf that show ?thesis
      by (simp add: s2_def settle_def split: option.splits)
  qed
  have "await_futures (map finished_future (s3_requests s2)) 160 =
      int (length (filter (\<lambda>j. first_some (bench_trigger E j) es = Some (Inr ())) [0..<160]))"
  proof -
    have "map finished_future (s3_requests s2) = map (\<lambda>j. finished_future (s3_requests s2 ! j)) [0..<160]"
      using s2(1) by (intro nth_equalityI) (simp_all add: bench_wf_def)
    moreover have "filter (\<lambda>j. finished_future (s3_requests s2 ! j) = Finished (Inr ())) [0..<160] =
        filter (\<lambda>j. first_some (bench_trigger E j) es = Some (Inr ())) [0..<160]"
      using f by (intro filter_cong) simp_all
    ultimately show ?thesis by (simp add: await_futures_count filter_map o_def)
  qed
  moreover obtain s' where s': "bench_report C (C 2) (await_futures (map finished_future (s3_requests s2)) 160) s2 = (Inr (), s')"
    "st_bytes_read s' = st_bytes_read s2" "stats_ok s' = stats_ok s2"
    using bench_report_kept [of C "C 2" "await_futures (map finished_future (s3_requests s2)) 160" s2] by blast
  moreover have "bench_main N C E es (bench_init C) =
      (Inr (await_futures (map finished_future (s3_requests s2)) 160), s')"
  proof -
    have "time_time C (bench_init C) = (Inr (C 2), ?s0)"
      by (simp add: time_time_def bindE_def getE_def thenE_def updE_def ret_def bench_init_def Statistics_init_def
          statistics.defs)
    moreover have "make_requests N 160 ?s0 = (Inr (), s1)"
      using cs(1) by (simp add: s1_def bench_init_def statistics.defs)
    ultimately show ?thesis
      using s'(1) by (simp add: bench_main_def bunch_size_def repeat_times_def bindE_def thenE_def updE_def getE_def ret_def
          s2_def [symmetric])
  qed
  moreover have "bytes_avg s' \<le> bytes_peak s'"
    using s2(2) s'(3) by (simp add: stats_ok_def bytes_avg_def bytes_peak_def GBPS_def)
  ultimately show ?thesis using s2(3) by simp
qed

theorem benchmark_reports_witness:
  "\<exists>s'. bench_main (\<lambda>_ _. Inr PNone) of_nat crt_errors_ex
      [Body 3 [1, 2] 0, Done 3 (s3_ex_finish\<lparr>f_error_code := 0\<rparr>), Body 4 [5] 0, Done 4 s3_ex_finish] (bench_init of_nat) =
    (Inr 1, s') \<and> st_bytes_read s' = 3 \<and> bytes_avg s' \<le> bytes_peak s'"
proof -
  have "(\<lambda>j. first_some (bench_trigger crt_errors_ex j)
      [Body 3 [1, 2] 0, Done 3 (s3_ex_finish\<lparr>f_error_code := 0\<rparr>), Body 4 [5] 0, Done 4 s3_ex_finish] = Some (Inr ())) =
    (\<lambda>j. j = 3)"
    by (auto simp: fun_eq_iff bench_trigger_def s3_outcome_def finish_error_def finish_status_def s3_ex_finish_def
        from_code_def crt_errors_ex_def)
  moreover have "filter (\<lambda>j. j = 3) [0..<160::nat] = [3]" by code_simp
  ultimately show ?thesis
    using benchmark_reports [of "\<lambda>_ _. Inr PNone" "[Body 3 [1, 2] 0, Done 3 (s3_ex_finish\<lparr>f_error_code := 0\<rparr>),
      Body 4 [5] 0, Done 4 s3_ex_finish]" of_nat crt_errors_ex]
    by (simp add: bench_bytes_def)
qed

end
