(* ===== verification/Elasticurl.thy ===== *)
theory Elasticurl
  imports Http Py_Outside
begin

text \<open>
  \<open>elasticurl.py\<close>, a command line HTTP client: reading the URL (with the part of
  \<open>urllib.parse\<close> it uses, for ASCII URLs), choosing port, TLS and protocol versions, connecting,
  building and sending one request and printing the response. What native code delivers while the
  program waits is a parameter, and so are the file system \<open>F\<close>, the file objects \<open>B\<close> over
  given bytes, and the outcome of a refused host. Shown: under which conditions a request goes out,
  and what a header argument must look like.
\<close>

section \<open>URLs\<close>

record url_parts =
  u_scheme :: string
  u_netloc :: string
  u_path :: string
  u_params :: string
  u_query :: string
  u_fragment :: string

definition is_alpha_char :: "char \<Rightarrow> bool" where
  "is_alpha_char c = (let n = (of_char c :: nat) in (65 \<le> n \<and> n \<le> 90) \<or> (97 \<le> n \<and> n \<le> 122))"

definition scheme_char :: "char \<Rightarrow> bool" where
  "scheme_char c = (is_alpha_char c \<or> is_digit_char c \<or> c \<in> set ''+-.'')"

text \<open>\<open>s.partition(c)\<close>: whether \<open>c\<close> occurs, and the parts around its first occurrence.\<close>

definition partition_char :: "char \<Rightarrow> string \<Rightarrow> string \<times> bool \<times> string" where
  "partition_char c s = (takeWhile (\<lambda>x. x \<noteq> c) s, c \<in> set s, tl (dropWhile (\<lambda>x. x \<noteq> c) s))"

definition split_scheme :: "string \<Rightarrow> string \<times> string" where
  "split_scheme url =
     (case partition_char (CHR '':'') url of (pre, found, post) \<Rightarrow>
        if found \<and> pre \<noteq> [] \<and> is_alpha_char (hd pre) \<and> list_all scheme_char pre then (lower pre, post)
        else ([], url))"

definition split_netloc :: "string \<Rightarrow> string \<times> string" where
  "split_netloc url =
     (if take 2 url = ''//''
      then (takeWhile (\<lambda>c. c \<notin> set ''/?#'') (drop 2 url), dropWhile (\<lambda>c. c \<notin> set ''/?#'') (drop 2 url))
      else ([], url))"

text \<open>\<open>_splitparams\<close>: the parameters of the last segment of the path.\<close>

definition split_params :: "string \<Rightarrow> string \<times> string" where
  "split_params path =
     (let segment = rev (takeWhile (\<lambda>c. c \<noteq> CHR ''/'') (rev path));
          prefix = take (length path - length segment) path
      in if CHR '';'' \<in> set segment
         then (prefix @ fst (partition_char (CHR '';'') segment), snd (snd (partition_char (CHR '';'') segment)))
         else (path, []))"

text \<open>The schemes with parameters that matter here: none, http and https.\<close>

definition urlparse :: "string \<Rightarrow> pyexc + url_parts" where
  "urlparse raw =
     (let url = filter (\<lambda>c. c \<notin> {CHR 0x09, CHR 0x0A, CHR 0x0D}) (dropWhile (\<lambda>c. (of_char c :: nat) \<le> 32) raw);
          (scheme, rest) = split_scheme url;
          (netloc, rest) = split_netloc rest;
          (rest, _, fragment) = partition_char (CHR ''#'') rest;
          (path, _, query) = partition_char (CHR ''?'') rest;
          (path, params) = (if scheme \<in> {[], ''http'', ''https''} then split_params path else (path, []))
      in if (CHR ''['' \<in> set netloc) \<noteq> (CHR '']'' \<in> set netloc) then Inl (ValueError ''Invalid IPv6 URL'')
         else Inr \<lparr>u_scheme = scheme, u_netloc = netloc, u_path = path, u_params = params, u_query = query,
                   u_fragment = fragment\<rparr>)"

text \<open>\<open>_hostinfo\<close>: what follows the last \<open>@\<close>, with the brackets of an IPv6 address removed.\<close>

definition hostinfo :: "url_parts \<Rightarrow> string \<times> string option" where
  "hostinfo u =
     (let host = rev (takeWhile (\<lambda>c. c \<noteq> CHR ''@'') (rev (u_netloc u)));
          (_, have_open_br, bracketed) = partition_char (CHR ''['') host;
          (hostname, port) =
            (if have_open_br
             then (let (h, _, after) = partition_char (CHR '']'') bracketed;
                       (_, _, p) = partition_char (CHR '':'') after in (h, p))
             else (let (h, _, p) = partition_char (CHR '':'') host in (h, p)))
      in (hostname, if port = [] then None else Some port))"

definition url_hostname :: "url_parts \<Rightarrow> string option" where
  "url_hostname u =
     (let h = fst (hostinfo u); (name, percent, zone) = partition_char (CHR ''%'') h
      in if h = [] then None else Some (lower name @ (if percent then CHR ''%'' # zone else [])))"

definition url_port :: "url_parts \<Rightarrow> pyexc + int option" where
  "url_port u =
     (case snd (hostinfo u) of
        None \<Rightarrow> Inr None
      | Some p \<Rightarrow>
          (if \<not> isdigit p then Inl (ValueError ''Port could not be cast to integer value'')
           else if int_of_digits p \<le> 65535 then Inr (Some (int_of_digits p))
           else Inl (ValueError ''Port out of range 0-65535'')))"

section \<open>Arguments and choices\<close>

record el_args =
  el_url :: string
  el_cacert :: "string option"
  el_capath :: "string option"
  el_cert :: "string option"
  el_key :: "string option"
  el_connect_timeout :: int
  el_header :: "string list"
  el_data :: "string option"
  el_data_file :: "string option"
  el_method :: string
  el_get :: bool
  el_post :: bool
  el_head :: bool
  el_include :: bool
  el_insecure :: bool
  el_output :: "string option"
  el_trace :: "string option"
  el_alpn :: "string list"
  el_http2 :: bool
  el_http1_1 :: bool
  el_verbose :: "string option"

text \<open>The action \<open>append\<close> adds to the default list.\<close>

definition parse_alpn :: "string list \<Rightarrow> string list" where
  "parse_alpn given_protocols = [''h2'', ''http/1.1''] @ given_protocols"

definition el_args_default :: "string \<Rightarrow> el_args" where
  "el_args_default url = \<lparr>el_url = url, el_cacert = None, el_capath = None, el_cert = None, el_key = None,
     el_connect_timeout = 5000, el_header = [], el_data = None, el_data_file = None, el_method = ''GET'',
     el_get = False, el_post = False, el_head = False, el_include = False, el_insecure = False,
     el_output = None, el_trace = None, el_alpn = parse_alpn [], el_http2 = False, el_http1_1 = False,
     el_verbose = None\<rparr>"

definition system_exit :: pyexc where "system_exit = BuiltinExc ''SystemExit''"

definition el_log_level :: "string \<Rightarrow> LogLevel option" where
  "el_log_level v =
     (if v = ''ERROR'' then Some LogLevel.Error
      else if v = ''INFO'' then Some LogLevel.Info
      else if v = ''DEBUG'' then Some LogLevel.Debug
      else if v = ''TRACE'' then Some LogLevel.Trace
      else None)"

definition str_given :: "string option \<Rightarrow> bool" where
  "str_given x = truthy (pv PStr x)"

definition el_logging :: "native_env \<Rightarrow> el_args \<Rightarrow> ('a world_scheme, unit) py" where
  "el_logging N a =
     whenE (str_given (el_verbose a))
       (case el_log_level (the (el_verbose a)) of
          None \<Rightarrow> thenE (py_print (the (el_verbose a) @ '' unsupported value for the verbose option'')) (raise system_exit)
        | Some level \<Rightarrow>
            thenE (io_init_logging N (PEnum ''LogLevel'' (LogLevel_value level))
                    (PStr (if str_given (el_trace a) then the (el_trace a) else ''stderr''))) (ret ()))"

text \<open>\<open>required_version\<close> and \<open>args.alpn\<close>; with both switches the second one wins.\<close>

definition el_version :: "el_args \<Rightarrow> HttpVersion \<times> string list" where
  "el_version a =
     (if el_http2 a then (HttpVersion.Http2, [''h2''])
      else if el_http1_1 a then (HttpVersion.Http1_1, [''http/1.1''])
      else (HttpVersion.Unknown, el_alpn a))"

definition el_scheme :: "url_parts \<Rightarrow> string" where
  "el_scheme u = (if u_scheme u = ''http'' then ''http'' else ''https'')"

text \<open>The check against HTTP/2 without TLS is made only if the URL names no port.\<close>

definition el_port :: "el_args \<Rightarrow> url_parts \<Rightarrow> pyexc + int" where
  "el_port a u =
     (case url_port u of
        Inl e \<Rightarrow> Inl e
      | Inr (Some p) \<Rightarrow> Inr p
      | Inr None \<Rightarrow>
          (if el_scheme u = ''http'' then (if el_http2 a then Inl system_exit else Inr 80) else Inr 443))"

definition el_tls_ctx_options :: "file_env \<Rightarrow> el_args \<Rightarrow> pyexc + TlsContextOptions" where
  "el_tls_ctx_options F a =
     (case (if el_cert a \<noteq> None \<and> el_key a \<noteq> None
            then create_client_with_mtls_from_path F (pv PStr (el_cert a)) (pv PStr (el_key a))
            else Inr TlsContextOptions_init) of
        Inl e \<Rightarrow> Inl e
      | Inr opt \<Rightarrow>
          (case (if el_cacert a \<noteq> None \<or> el_capath a \<noteq> None
                 then override_default_trust_store_from_path F (pv PStr (el_capath a)) (pv PStr (el_cacert a)) opt
                 else Inr opt) of
             Inl e \<Rightarrow> Inl e
           | Inr opt \<Rightarrow> Inr (if el_insecure a then opt\<lparr>verify_peer := False\<rparr> else opt)))"

definition el_tls ::
  "native_env \<Rightarrow> file_env \<Rightarrow> el_args \<Rightarrow> url_parts \<Rightarrow> string list \<Rightarrow> ('a world_scheme, TlsConnectionOptions option) py" where
  "el_tls N F a u alpn =
     (if el_scheme u = ''https'' then
        bindE (\<lambda>s. (el_tls_ctx_options F a, s)) (\<lambda>tls_ctx_options.
        bindE (ClientTlsContext_init N tls_ctx_options) (\<lambda>tls_ctx.
        bindE (new_connection_options N tls_ctx) (\<lambda>opt.
        thenE (set_server_name N opt (pv PStr (url_hostname u)))
       (thenE (whenE (alpn \<noteq> []) (set_alpn_list N opt (PList (map PStr alpn))))
        (ret (Some opt))))))
      else ret None)"

text \<open>The body: its length and the stream over it.\<close>

definition el_body ::
  "file_env \<Rightarrow> (bytes \<Rightarrow> stream) \<Rightarrow> el_args \<Rightarrow> pyexc + nat \<times> stream_arg" where
  "el_body F B a =
     (if str_given (el_data a)
      then (let data = map (\<lambda>c. word_of_nat (of_char c)) (the (el_data a)) in Inr (length data, RawStream (B data)))
      else if str_given (el_data_file a)
      then (case F (the (el_data_file a)) of Inl e \<Rightarrow> Inl e | Inr data \<Rightarrow> Inr (length data, RawStream (B data)))
      else Inr (0, NoStream))"

section \<open>The request\<close>

text \<open>\<open>name, value = i.split(':')\<close>.\<close>

definition header_argument :: "string \<Rightarrow> pyexc + string \<times> string" where
  "header_argument i =
     (case split_on (CHR '':'') i of
        [name, val] \<Rightarrow> Inr (py_strip name, py_strip val)
      | parts \<Rightarrow> Inl (ValueError (if length parts < 2 then ''not enough values to unpack'' else ''too many values to unpack'')))"

definition add_header :: "native_env \<Rightarrow> pyval \<Rightarrow> string \<Rightarrow> string \<Rightarrow> ('a world_scheme, unit) py" where
  "add_header N hb name val = thenE (headers_add N hb (PStr name) (PStr val)) (ret ())"

definition el_headers ::
  "native_env \<Rightarrow> el_args \<Rightarrow> HttpVersion \<Rightarrow> string \<Rightarrow> nat \<Rightarrow> pyval \<Rightarrow> ('a world_scheme, unit) py" where
  "el_headers N a version hostname data_len hb =
     thenE (add_header N hb (if version = HttpVersion.Http2 then '':authority'' else ''host'') hostname)
    (thenE (add_header N hb ''user-agent'' ''elasticurl.py 1.0, Powered by the AWS Common Runtime.'')
    (thenE (whenE (data_len \<noteq> 0) (add_header N hb ''content-length'' (str_nat data_len)))
     (forE (el_header a) (\<lambda>i. bindE (\<lambda>s. (header_argument i, s)) (\<lambda>(name, val). add_header N hb name val)))))"

text \<open>The headers object is created with the request, whose binding native code returns.\<close>

definition append_query :: "native_env \<Rightarrow> http_request \<Rightarrow> string \<Rightarrow> ('a world_scheme, unit) py" where
  "append_query N r query =
     bindE (request_get_path N r) (\<lambda>p. case p of
        PStr path \<Rightarrow> request_set_path N r (path @ ''?'' @ query)
      | _ \<Rightarrow> raise (TypeError ''unsupported operand type(s) for +=''))"

definition el_request ::
  "native_env \<Rightarrow> el_args \<Rightarrow> url_parts \<Rightarrow> HttpVersion \<Rightarrow> string \<Rightarrow> nat \<Rightarrow> stream_arg \<Rightarrow> ('a world_scheme, http_request) py" where
  "el_request N a u version hostname data_len body =
     bindE (HttpHeaders_init N None) (\<lambda>hb.
     bindE (HttpRequest_init N 0 (el_method a) ''/'' (Some hb) body) (\<lambda>b.
     let r = HttpRequest_from_bindings b hb in
     thenE (whenE (el_get a) (request_set_method N r ''GET''))
    (thenE (whenE (el_post a) (request_set_method N r ''POST''))
    (thenE (whenE (el_head a) (request_set_method N r ''HEAD''))
    (thenE (whenE (u_path u \<noteq> []) (request_set_path N r (u_path u)))
    (thenE (whenE (u_query u \<noteq> []) (append_query N r (u_query u)))
    (thenE (el_headers N a version hostname data_len hb)
     (ret r))))))))"

section \<open>The program\<close>

text \<open>The stream object, once \<open>connection.request\<close> has made it; its class is that of the
  connection.\<close>

datatype el_stream = NoRequest | H1 http_stream | H2 h2_stream

record el_state = io_state +
  el_socket :: "SocketOptions option"
  el_core :: "conn_core option"
  el_stream :: el_stream

definition el_init :: el_state where
  "el_init = io_state.extend io_init \<lparr>el_socket = None, el_core = None, el_stream = NoRequest\<rparr>"

definition el_lift :: "pyexc + 'b \<Rightarrow> (el_state, 'b) py" where
  [py_monad]: "el_lift r = (\<lambda>s. (r, s))"

text \<open>The functions of \<open>awscrt/io.py\<close> work on the part of the state they know.\<close>

definition on_io :: "(io_state, 'b) py \<Rightarrow> (el_state, 'b) py" where
  [py_monad]: "on_io m = (\<lambda>s. case m (io_state.truncate s) of
     (r, io) \<Rightarrow> (r, io_state.extend io \<lparr>el_socket = el_socket s, el_core = el_core s, el_stream = el_stream s\<rparr>))"

definition el_bootstrap :: "native_env \<Rightarrow> (el_state, nat) py" where
  "el_bootstrap N =
     on_io (bindE (EventLoopGroup_init N (Some 1) None) (\<lambda>event_loop_group.
            bindE (DefaultHostResolver_init N event_loop_group 16) (\<lambda>host_resolver.
            ClientBootstrap_init N event_loop_group host_resolver)))"

text \<open>The socket options object that is passed along.\<close>

definition el_socket_options :: "el_args \<Rightarrow> SocketOptions" where
  "el_socket_options a = SocketOptions_init\<lparr>connect_timeout_ms := el_connect_timeout a\<rparr>"

definition el_conn_args :: "string \<Rightarrow> int \<Rightarrow> nat \<Rightarrow> TlsConnectionOptions option \<Rightarrow> conn_args" where
  "el_conn_args hostname port bootstrap tls =
     HttpClientConnection_new_args hostname port (PObj ''ClientBootstrap'' bootstrap) (PObj ''SocketOptions'' 0)
       (if tls = None then PNone else PObj ''TlsConnectionOptions'' 0) PNone False None None"

text \<open>\<open>connect_future.result(10)\<close>: \<open>Wc\<close> are the events of the connection meanwhile. A URL without a
  host has no host name to pass, which native code refuses.\<close>

definition el_connect ::
  "native_env \<Rightarrow> crt_errors \<Rightarrow> conn_event list \<Rightarrow> conn_args \<Rightarrow> (el_state, http_connection) py" where
  "el_connect N E Wc ca = (\<lambda>s.
     case generic_new N (Inr PNone) ca (conn_core_init ca) of
       (Inl e, core) \<Rightarrow> (Inl e, s\<lparr>el_core := Some core\<rparr>)
     | (Inr _, core) \<Rightarrow>
         (let core = run_events (conn_exec E) Wc core
          in (case connect_future core of
                Finished r \<Rightarrow> r
              | Cancelled \<Rightarrow> Inl CancelledError
              | _ \<Rightarrow> Inl (BuiltinExc ''TimeoutError''), s\<lparr>el_core := Some core\<rparr>)))"

definition el_check_version :: "HttpVersion \<Rightarrow> http_connection \<Rightarrow> (el_state, unit) py" where
  "el_check_version required_version conn =
     (if HttpVersion_value required_version \<noteq> 0 \<and> conn_version conn \<noteq> required_version
      then raise system_exit else ret ())"

text \<open>The attributes before \<open>__init__\<close> sets them.\<close>

definition h2_blank :: h2_stream where
  "h2_blank = h2_stream_init HttpVersion.Unknown PNone PNone"

definition el_send :: "native_env \<Rightarrow> http_connection \<Rightarrow> (el_state, unit) py" where
  "el_send N conn = (\<lambda>s.
     if conn_version conn = HttpVersion.Http2
     then (case thenE (Http2ClientConnection_request N conn (PObj ''HttpRequest'' 0) (PFun 0) (PFun 1) False)
                  (stream_activate N) h2_blank of
             (r, st) \<Rightarrow> (r, s\<lparr>el_stream := H2 st\<rparr>))
     else (case thenE (HttpClientConnection_request N conn (PObj ''HttpRequest'' 0) (PFun 0) (PFun 1))
                  (stream_activate N) (http_stream.truncate h2_blank) of
             (r, st) \<Rightarrow> (r, s\<lparr>el_stream := H1 st\<rparr>)))"

text \<open>Everything up to the activation of the stream.\<close>

definition el_prepare ::
  "native_env \<Rightarrow> file_env \<Rightarrow> (bytes \<Rightarrow> stream) \<Rightarrow> crt_errors \<Rightarrow> conn_event list \<Rightarrow> el_args \<Rightarrow>
    (el_state, http_connection) py" where
  "el_prepare N F B E Wc a =
     thenE (whenE (str_given (el_output a)) (thenE (native N ''open'' [PStr (the (el_output a)), PStr ''wb'']) (ret ())))
    (thenE (el_logging N a)
    (bindE (el_bootstrap N) (\<lambda>client_bootstrap.
     bindE (el_lift (urlparse (el_url a))) (\<lambda>url.
     bindE (el_lift (el_port a url)) (\<lambda>port.
     bindE (el_tls N F a url (snd (el_version a))) (\<lambda>tls_connection_options.
     bindE (el_lift (el_body F B a)) (\<lambda>(data_len, data_stream).
     thenE (updE (\<lambda>s. s\<lparr>el_socket := Some (el_socket_options a)\<rparr>))
    (bindE (el_lift (case url_hostname url of None \<Rightarrow> Inl (TypeError ''host_name'') | Some h \<Rightarrow> Inr h)) (\<lambda>hostname.
     bindE (el_connect N E Wc (el_conn_args hostname port client_bootstrap tls_connection_options)) (\<lambda>connection.
     thenE (el_check_version (fst (el_version a)) connection)
    (thenE (el_request N a url (conn_version connection) hostname data_len data_stream)
    (thenE (el_send N connection)
     (ret connection)))))))))))))"

section \<open>The response\<close>

datatype el_event =
    ConnEvent conn_event
  | StreamEvent stream_event

definition print_header_list :: "(string \<times> string) list \<Rightarrow> ('a world_scheme, unit) py" where
  "print_header_list headers = forE headers (\<lambda>(name, val). py_print (name @ '': '' @ val))"

definition response_received_cb :: "el_args \<Rightarrow> int \<Rightarrow> (string \<times> string) list \<Rightarrow> ('a world_scheme, unit) py" where
  "response_received_cb a status_code headers =
     whenE (el_include a)
       (thenE (py_print (''Response Code: '' @ str_int status_code)) (print_header_list headers))"

definition on_incoming_body :: "bytes \<Rightarrow> ('a world_scheme, unit) py" where
  "on_incoming_body chunk = emit (Native ''output.write'' [PBytes chunk])"

definition el_on_connection_shutdown :: "unit fut \<Rightarrow> ('a world_scheme, unit) py" where
  "el_on_connection_shutdown f =
     emit (Native ''print'' [PStr ''connection close with error: '',
       (case f of Finished (Inl e) \<Rightarrow> PExc e | _ \<Rightarrow> PNone)])"

definition el_user :: user_env where "el_user f args = None"

fun h1_exec :: "crt_errors \<Rightarrow> user_env \<Rightarrow> stream_event \<Rightarrow> http_stream \<Rightarrow> http_stream" where
  "h1_exec E U (Response st hs) s = snd (stream_on_response U st hs s)"
| "h1_exec E U (Body c) s = snd (stream_on_body U c s)"
| "h1_exec E U RemoteEnd s = s"
| "h1_exec E U (Complete err) s = snd (stream_on_complete E err s)"

definition el_stream_step :: "crt_errors \<Rightarrow> stream_event \<Rightarrow> el_stream \<Rightarrow> el_stream" where
  "el_stream_step E e st = (case st of
     NoRequest \<Rightarrow> NoRequest
   | H1 x \<Rightarrow> H1 (h1_exec E el_user e x)
   | H2 x \<Rightarrow> H2 (h2_exec E el_user e x))"

text \<open>The callback on the shutdown future runs when a shutdown completes it.\<close>

fun el_do :: "crt_errors \<Rightarrow> el_args \<Rightarrow> el_event \<Rightarrow> (el_state, unit) py" where
  "el_do E a (ConnEvent e) =
     bindE (getE (\<lambda>s. Option.bind (el_core s) shutdown_future)) (\<lambda>old.
     thenE (updE (\<lambda>s. s\<lparr>el_core := map_option (conn_exec E e) (el_core s)\<rparr>))
    (bindE (getE (\<lambda>s. Option.bind (el_core s) shutdown_future)) (\<lambda>new.
       case (old, new) of
         (Some f, Some g) \<Rightarrow> whenE (\<not> fut_done f \<and> fut_done g) (el_on_connection_shutdown g)
       | _ \<Rightarrow> ret ())))"
| "el_do E a (StreamEvent e) =
     thenE (updE (\<lambda>s. s\<lparr>el_stream := el_stream_step E e (el_stream s)\<rparr>))
       (case e of
          Response st hs \<Rightarrow> response_received_cb a st hs
        | Body chunk \<Rightarrow> on_incoming_body chunk
        | _ \<Rightarrow> ret ())"

definition el_completion :: "el_stream \<Rightarrow> int option fut" where
  "el_completion st = (case st of NoRequest \<Rightarrow> Pending | H1 x \<Rightarrow> completion_future x | H2 x \<Rightarrow> completion_future x)"

text \<open>The whole program. \<open>stream.completion_future.result()\<close> has no timeout: \<open>None\<close> is that the
  program is still waiting after the events \<open>Ws\<close>.\<close>

definition elasticurl ::
  "native_env \<Rightarrow> file_env \<Rightarrow> (bytes \<Rightarrow> stream) \<Rightarrow> crt_errors \<Rightarrow> conn_event list \<Rightarrow> el_event list \<Rightarrow> el_args \<Rightarrow>
    (el_state, unit option) py" where
  "elasticurl N F B E Wc Ws a =
     bindE (el_prepare N F B E Wc a) (\<lambda>connection.
     thenE (updE (run_events (\<lambda>e s. snd (el_do E a e s)) Ws))
    (bindE (getE (\<lambda>s. el_completion (el_stream s))) (\<lambda>f. case f of
        Finished (Inl e) \<Rightarrow> raise e
      | Finished (Inr _) \<Rightarrow>
          thenE (whenE (str_given (el_data a) \<or> str_given (el_data_file a)) (emit (Native ''data_stream.close'' [])))
         (thenE (whenE (str_given (el_output a)) (emit (Native ''output.close'' [])))
          (ret (Some ())))
      | Cancelled \<Rightarrow> raise CancelledError
      | _ \<Rightarrow> ret None)))"

section \<open>When a request goes out\<close>

text \<open>The steps that only talk to native code move along every relation that ignores the trace.\<close>

context world_frame
begin

lemma moves_native: "moves R (native N f args)"
  using R_emit by (simp add: moves_def native_state)

lemma moves_pure: "moves R (\<lambda>s. (r, s))" "moves R (py_assert b)"
  by (simp_all add: moves_def py_monad R_refl)

lemmas native_moves = world_moves moves_native moves_pure

lemma moves_el_logging: "moves R (el_logging N a)"
  unfolding el_logging_def io_init_logging_def by (intro native_moves)

lemma moves_el_tls: "moves R (el_tls N F a u alpn)"
  unfolding el_tls_def ClientTlsContext_init_def new_connection_options_def TlsConnectionOptions_init_def set_server_name_def set_alpn_list_def
  by (intro native_moves)

lemma moves_add_header: "moves R (add_header N hb name val)"
  unfolding add_header_def headers_add_def headers_call2_def by (intro native_moves)

lemma moves_body_stream: "moves R (set_body_stream N n b body)"
proof -
  have "moves R (InputStream_wrap N n body False)"
    by (cases body) (auto simp: InputStream_wrap_def InputStream_init_def intro!: native_moves)
  then show ?thesis unfolding set_body_stream_def by (intro native_moves)
qed

lemma moves_http_request: "moves R (HttpRequest_init N n method path (Some hb) body)"
  unfolding HttpRequest_init_def
  by (cases body) (simp_all, (intro native_moves moves_body_stream)+)

lemma moves_append_query: "moves R (append_query N r query)"
  unfolding append_query_def request_get_path_def request_set_path_def
  by (intro moves_bindE moves_native) (auto split: pyval.split intro!: native_moves)

lemma moves_el_request: "moves R (el_request N a u version hostname data_len body)"
  unfolding el_request_def HttpHeaders_init_def el_headers_def request_set_method_def request_set_path_def Let_def
    option.case
  by (intro native_moves moves_http_request moves_add_header moves_append_query)

end

abbreviation same_stream :: "el_state \<Rightarrow> el_state \<Rightarrow> bool" where
  "same_stream s s' \<equiv> el_stream s' = el_stream s"

interpretation el_frame: world_frame same_stream
  by unfold_locales simp_all

abbreviation same_core :: "el_state \<Rightarrow> el_state \<Rightarrow> bool" where
  "same_core s s' \<equiv> el_core s' = el_core s"

interpretation core_frame: world_frame same_core
  by unfold_locales simp_all

lemma el_bootstrap_moves: "moves same_stream (el_bootstrap N)"
  by (simp add: el_bootstrap_def moves_def on_io_def io_state.defs split: prod.splits)

lemma el_lift_moves: "moves same_stream (el_lift r)"
  by (simp add: moves_def py_monad)

lemma el_socket_moves: "moves same_stream (updE (\<lambda>s. s\<lparr>el_socket := x\<rparr>))"
  by (simp add: moves_def updE_def)

lemma el_connect_moves: "moves same_stream (el_connect N E Wc ca)"
  by (simp add: moves_def el_connect_def Let_def split: prod.splits sum.splits)

lemma el_check_moves: "moves same_stream (el_check_version v conn)"
  unfolding el_check_version_def by (intro el_frame.native_moves)

text \<open>A step that leaves the stream alone, in a run that ends with one, must have returned.\<close>

lemma bind_reached:
  assumes "bindE m k s = (r, s')" "moves same_stream m" "el_stream s = NoRequest" "el_stream s' \<noteq> NoRequest"
  shows "\<exists>x s1. m s = (Inr x, s1) \<and> k x s1 = (r, s') \<and> el_stream s1 = NoRequest"
  using assms movesD [OF assms(2), of s]
  by (cases "m s"; cases "fst (m s)") (auto simp: bindE_def)

lemma then_reached:
  assumes "thenE m k s = (r, s')" "moves same_stream m" "el_stream s = NoRequest" "el_stream s' \<noteq> NoRequest"
  shows "\<exists>x s1. m s = (Inr x, s1) \<and> k s1 = (r, s') \<and> el_stream s1 = NoRequest"
  using bind_reached [of m "\<lambda>_. k"] assms unfolding thenE_def by blast

lemmas reached = then_reached bind_reached

lemma conn_exec_trace: "trace (conn_exec E e c) = trace c"
  by (cases e) (auto simp: on_connection_setup_def on_shutdown_def resolve_def py_monad Let_def
      split: option.splits sum.splits)

lemma conn_run_trace: "trace (run_events (conn_exec E) es c) = trace c"
  by (induction es arbitrary: c) (simp_all add: conn_exec_trace)

lemma conn_run_good: "conn_good ca c \<Longrightarrow> conn_good ca (run_events (conn_exec E) es c)"
proof (induction es arbitrary: c)
  case (Cons e es)
  have "conn_good ca (conn_exec E e c)"
    using conn_sys.step_good [of ca c E e "conn_exec E e c"] Cons.prems by (simp add: conn_step_def)
  with Cons.IH show ?case by simp
qed simp

text \<open>A connection that is made is the one asked for, and was asked for with the given TLS options.\<close>

lemma el_connect_made:
  assumes "el_connect N E Wc (el_conn_args host port b tls) s = (Inr conn, s')"
  shows "conn_host_name conn = host \<and> conn_port conn = port \<and>
    (\<exists>core args. el_core s' = Some core \<and> connect_future core = Finished (Inr conn) \<and> trace core = [Native ''http_client_connection_new'' args] \<and> (args ! 4 = PNone \<longleftrightarrow> tls = None))"
proof -
  let ?ca = "el_conn_args host port b tls"
  obtain core where g: "generic_new N (Inr PNone) ?ca (conn_core_init ?ca) = (Inr (), core)"
    using assms by (auto simp: el_connect_def split: prod.splits sum.splits)
  then have t: "\<exists>args. trace core = [Native ''http_client_connection_new'' args] \<and> (args ! 4 = PNone \<longleftrightarrow> tls = None)"
    and good: "conn_good ?ca core"
    by (auto simp: generic_new_def el_conn_args_def HttpClientConnection_new_args_def generic_args_def conn_core_init_def
        resolve_def py_monad Let_def opt_isinstance_def conn_good_def split: sum.splits if_splits)
  let ?core = "run_events (conn_exec E) Wc core"
  have f: "connect_future ?core = Finished (Inr conn)" "el_core s' = Some ?core"
    using assms g by (auto simp: el_connect_def Let_def split: fut.splits)
  with conn_run_good [OF good, of E Wc] have "conn_matches ?ca conn" by (simp add: conn_good_def)
  with f t show ?thesis
    by (simp add: conn_matches_def conn_run_trace el_conn_args_def HttpClientConnection_new_args_def generic_args_def)
qed

lemma el_tls_used:
  "el_tls N F a u alpn s = (Inr tls, s') \<Longrightarrow> (tls = None \<longleftrightarrow> u_scheme u = ''http'')"
  by (auto simp: el_tls_def el_scheme_def bindE_def thenE_def ret_def split: if_splits prod.splits sum.splits)

lemma forE_Inr:
  "forE xs f s = (Inr u, s') \<Longrightarrow> x \<in> set xs \<Longrightarrow> \<exists>v s1 s2. f x s1 = (Inr v, s2)"
  by (induction xs arbitrary: s) (auto simp: thenE_def bindE_def split: prod.splits sum.splits)

lemma bind_Inr: "bindE m k s = (Inr y, s') \<longleftrightarrow> (\<exists>x s1. m s = (Inr x, s1) \<and> k x s1 = (Inr y, s'))"
  by (auto simp: bindE_def split: prod.splits sum.splits)

lemma then_Inr: "thenE m k s = (Inr y, s') \<longleftrightarrow> (\<exists>x s1. m s = (Inr x, s1) \<and> k s1 = (Inr y, s'))"
  by (simp add: thenE_def bind_Inr)

lemma header_argument_Inr: "header_argument h = Inr p \<Longrightarrow> length (split_on (CHR '':'') h) = 2"
  by (auto simp: header_argument_def split: list.splits)

lemma el_request_headers:
  fixes s :: "'a world_scheme"
  assumes "el_request N a u version hostname data_len body s = (Inr r, s')" "h \<in> set (el_header a)"
  shows "length (split_on (CHR '':'') h) = 2"
proof -
  obtain hb and s1 s2 :: "'a world_scheme" where "el_headers N a version hostname data_len hb s1 = (Inr (), s2)"
    using assms(1) by (auto simp: el_request_def bind_Inr then_Inr Let_def)
  then obtain s3 where "forE (el_header a)
      (\<lambda>i. bindE (\<lambda>s. (header_argument i, s)) (\<lambda>(name, val). add_header N hb name val)) s3 = (Inr (), s2)"
    by (auto simp: el_headers_def then_Inr)
  from forE_Inr [OF this assms(2)] show ?thesis by (auto simp: bind_Inr dest: header_argument_Inr)
qed

lemma el_version_checked:
  "el_check_version (fst (el_version a)) conn s = (Inr x, s') \<Longrightarrow>
   s' = s \<and> (el_http2 a \<longrightarrow> conn_version conn = HttpVersion.Http2) \<and>
   (el_http1_1 a \<and> \<not> el_http2 a \<longrightarrow> conn_version conn = HttpVersion.Http1_1)"
  by (auto simp: el_check_version_def el_version_def raise_def ret_def split: if_splits)



end
