(* ===== verification/Release_Scripts.thy ===== *)
theory Release_Scripts
  imports Py_Outside
begin

text \<open>
  The scripts that maintain and release the package: \<open>scripts/\<close>, \<open>format-check.py\<close>,
  \<open>continuous-delivery/\<close> and the action of the builder. They run other programs and move files;
  what programs answer and what is on the disk is a parameter. Shown: the retry loop around
  \<open>pip install\<close> ends after at most 91 attempts with the exit status of the last one.
\<close>

section \<open>Programs and files\<close>

text \<open>\<open>m_run i args\<close> is the return code of the program started as the \<open>i\<close>th event.\<close>

record script_env =
  m_executable :: string
  m_run :: "nat \<Rightarrow> string list \<Rightarrow> pyexc + int"
  m_glob :: "nat \<Rightarrow> string \<Rightarrow> string list"
  m_isfile :: "nat \<Rightarrow> string \<Rightarrow> bool"
  m_exists :: "nat \<Rightarrow> string \<Rightarrow> bool"
  m_remove :: "nat \<Rightarrow> string \<Rightarrow> pyexc option"

definition pv_cmd :: "string list \<Rightarrow> pyval" where
  "pv_cmd args = PList (map PStr args)"

definition start_program :: "script_env \<Rightarrow> string list \<Rightarrow> ('a world_scheme, int) py" where
  "start_program M args =
     thenE (emit (Native ''subprocess.run'' [pv_cmd args])) (\<lambda>s. (m_run M (length (trace s)) args, s))"

definition remove_path :: "script_env \<Rightarrow> string \<Rightarrow> string \<Rightarrow> ('a world_scheme, unit) py" where
  "remove_path M f path =
     thenE (emit (Native f [PStr path]))
       (\<lambda>s. (case m_remove M (length (trace s)) path of None \<Rightarrow> Inr () | Some e \<Rightarrow> Inl e, s))"

section \<open>scripts/utils.py\<close>

text \<open>\<open>shlex.split\<close>: words separated by white space, with both kinds of quotes and the backslash.\<close>

datatype quote_mode = Plain | Single | Double

fun shlex_go :: "quote_mode \<Rightarrow> string option \<Rightarrow> string \<Rightarrow> pyexc + string list" where
  "shlex_go Plain w [] = Inr (case w of None \<Rightarrow> [] | Some x \<Rightarrow> [x])"
| "shlex_go Single w [] = Inl (ValueError ''No closing quotation'')"
| "shlex_go Double w [] = Inl (ValueError ''No closing quotation'')"
| "shlex_go Plain w (c # cs) =
     (let x = (case w of None \<Rightarrow> [] | Some x \<Rightarrow> x) in
      if c \<in> {CHR '' '', CHR 0x09, CHR 0x0A, CHR 0x0D}
      then (case w of
              None \<Rightarrow> shlex_go Plain None cs
            | Some x \<Rightarrow> map_sum id (\<lambda>ws. x # ws) (shlex_go Plain None cs))
      else if c = CHR 0x27 then shlex_go Single (Some x) cs
      else if c = CHR 0x22 then shlex_go Double (Some x) cs
      else if c = CHR 0x5C
      then (case cs of [] \<Rightarrow> Inl (ValueError ''No escaped character'') | d # ds \<Rightarrow> shlex_go Plain (Some (x @ [d])) ds)
      else shlex_go Plain (Some (x @ [c])) cs)"
| "shlex_go Single w (c # cs) =
     (let x = (case w of None \<Rightarrow> [] | Some x \<Rightarrow> x) in
      if c = CHR 0x27 then shlex_go Plain (Some x) cs else shlex_go Single (Some (x @ [c])) cs)"
| "shlex_go Double w (c # cs) =
     (let x = (case w of None \<Rightarrow> [] | Some x \<Rightarrow> x) in
      if c = CHR 0x22 then shlex_go Plain (Some x) cs
      else if c = CHR 0x5C
      then (case cs of
              [] \<Rightarrow> Inl (ValueError ''No escaped character'')
            | d # ds \<Rightarrow> shlex_go Double (Some (x @ (if d = CHR 0x22 \<or> d = CHR 0x5C then [d] else [c, d]))) ds)
      else shlex_go Double (Some (x @ [c])) cs)"

definition shlex_split :: "string \<Rightarrow> pyexc + string list" where
  "shlex_split s = shlex_go Plain None s"

datatype command = Line string | Words "string list"

definition command_words :: "command \<Rightarrow> pyexc + string list" where
  "command_words c = (case c of Line l \<Rightarrow> shlex_split l | Words ws \<Rightarrow> Inr ws)"

text \<open>An empty command has no first word to look at.\<close>

definition utils_run :: "script_env \<Rightarrow> command \<Rightarrow> ('a world_scheme, unit) py" where
  "utils_run M c =
     bindE (\<lambda>s. (command_words c, s)) (\<lambda>args. case args of
       [] \<Rightarrow> raise (BuiltinExc ''IndexError'')
     | a # as \<Rightarrow>
         (let args = (if a = ''python3'' then m_executable M else a) # as
          in thenE (emit (Native ''print'' [PStr ''+ '', pv_cmd args]))
            (bindE (start_program M args) (\<lambda>returncode.
             if returncode \<noteq> 0 then raise (BuiltinExc ''SystemExit'') else ret ()))))"

definition chdir_project_root :: "('a world_scheme, unit) py" where
  "chdir_project_root = emit (Native ''os.chdir'' [PStr ''root''])"

section \<open>The scripts\<close>

definition NONRECURSIVE_PATTERNS :: "string list" where
  "NONRECURSIVE_PATTERNS =
     [''build/'', ''_awscrt*.*'', ''*.egg-info/'', ''dist/'', ''wheelhouse/'', ''docsrc/build/'']"

definition RECURSIVE_PATTERNS :: "string list" where
  "RECURSIVE_PATTERNS = [''*.pyc'', ''__pycache__'']"

definition APPROVED_RECURSIVE_FOLDERS :: "string list" where
  "APPROVED_RECURSIVE_FOLDERS = [''awscrt'', ''scripts'', ''test'', ''.builder'']"

text \<open>The patterns in the order they are looked up.\<close>

definition clean_patterns :: "string list" where
  "clean_patterns =
     NONRECURSIVE_PATTERNS @
     concat (map (\<lambda>p. map (\<lambda>f. f @ ''/**/'' @ p) APPROVED_RECURSIVE_FOLDERS) RECURSIVE_PATTERNS)"

fun glob_all :: "script_env \<Rightarrow> string list \<Rightarrow> ('a world_scheme, string list) py" where
  "glob_all M [] = ret []"
| "glob_all M (p # ps) =
     thenE (emit (Native ''glob.glob'' [PStr p]))
    (bindE (getE (\<lambda>s. m_glob M (length (trace s)) p)) (\<lambda>found.
     bindE (glob_all M ps) (\<lambda>rest. ret (found @ rest))))"

definition clean :: "script_env \<Rightarrow> ('a world_scheme, unit) py" where
  "clean M =
     thenE chdir_project_root
    (thenE (utils_run M (Line ''python3 -m pip uninstall -y awscrt''))
    (bindE (glob_all M clean_patterns) (\<lambda>paths.
     forE paths (\<lambda>path.
       thenE (py_print (''delete: '' @ path))
      (bindE (getE (\<lambda>s. m_isfile M (length (trace s)) path)) (\<lambda>isfile.
       remove_path M (if isfile then ''os.remove'' else ''shutil.rmtree'') path))))))"

definition rmtree_if_exists :: "script_env \<Rightarrow> string \<Rightarrow> ('a world_scheme, unit) py" where
  "rmtree_if_exists M path =
     bindE (getE (\<lambda>s. m_exists M (length (trace s)) path)) (\<lambda>b. whenE b (remove_path M ''shutil.rmtree'' path))"

definition make_docs :: "script_env \<Rightarrow> bool \<Rightarrow> ('a world_scheme, unit) py" where
  "make_docs M skip_clean =
     thenE chdir_project_root
    (thenE (whenE (\<not> skip_clean) (thenE (rmtree_if_exists M ''docs'') (rmtree_if_exists M ''docsrc/build'')))
    (thenE (emit (Native ''os.chdir'' [PStr ''docsrc'']))
    (thenE (utils_run M (Line (''make html SPHINXOPTS='' @ [CHR 0x22] @ ''-W --keep-going'' @ [CHR 0x22])))
    (thenE chdir_project_root
    (thenE (rmtree_if_exists M ''docs'')
    (thenE (emit (Native ''shutil.copytree'' [PStr ''docsrc/build/html'', PStr ''docs'']))
     (emit (Native ''touch'' [PStr ''docs/.nojekyll'']))))))))"

definition FILES_AND_FOLDERS_TO_FORMAT :: "string list" where
  "FILES_AND_FOLDERS_TO_FORMAT = [''.builder/'', ''awscrt/'', ''scripts/'', ''test/'', ''setup.py'']"

definition format_python :: "script_env \<Rightarrow> ('a world_scheme, unit) py" where
  "format_python M =
     thenE chdir_project_root
       (utils_run M (Words ([''python3'', ''-m'', ''autopep8'', ''--in-place'', ''--recursive'', ''--jobs'', ''0''] @
          FILES_AND_FOLDERS_TO_FORMAT)))"

definition format_all :: "script_env \<Rightarrow> ('a world_scheme, unit) py" where
  "format_all M =
     thenE chdir_project_root
    (thenE (utils_run M (Line ''python3 format-check.py -i''))
     (utils_run M (Line ''python3 scripts/format-python.py'')))"

definition install_dev :: "script_env \<Rightarrow> ('a world_scheme, unit) py" where
  "install_dev M =
     thenE chdir_project_root
       (utils_run M (Line (''python3 -m pip install --verbose --editable '' @ [CHR 0x22] @ ''.[dev]'' @ [CHR 0x22])))"

section \<open>format-check.py\<close>

text \<open>The regular expression \<open>^source/.*\.(c|h)$\<close>; the dollar also matches before a final newline.\<close>

definition INCLUDE_REGEX_match :: "string \<Rightarrow> bool" where
  "INCLUDE_REGEX_match path =
     (let body = (if path \<noteq> [] \<and> last path = CHR 0x0A then butlast path else path)
      in take 7 body = ''source/'' \<and> CHR 0x0A \<notin> set body \<and> 9 \<le> length body \<and>
         drop (length body - 2) body \<in> {''.c'', ''.h''})"

definition EXCLUDE_REGEX_match :: "string \<Rightarrow> bool" where
  "EXCLUDE_REGEX_match path = (path \<in> {[], [CHR 0x0A]})"

definition files_to_format :: "string list \<Rightarrow> string list" where
  "files_to_format walked = filter (\<lambda>p. INCLUDE_REGEX_match p \<and> \<not> EXCLUDE_REGEX_match p) walked"

definition clang_format_cmd :: "string \<Rightarrow> bool \<Rightarrow> string list" where
  "clang_format_cmd list_file inplace_edit =
     [''pipx'', ''run'', ''clang-format==18.1.6'', ''--files='' @ list_file] @
     (if inplace_edit then [''-i''] else [''--Werror'', ''--dry-run''])"

definition format_check :: "script_env \<Rightarrow> string list \<Rightarrow> string \<Rightarrow> bool \<Rightarrow> ('a world_scheme, unit) py" where
  "format_check M walked list_file inplace_edit =
     thenE (emit (Native ''os.chdir'' [PStr ''parent'']))
    (thenE (forE (files_to_format walked) (\<lambda>p. emit (Native ''write'' [PStr (p @ nl)])))
    (thenE (emit (Native ''print'' [pv_cmd (clang_format_cmd list_file inplace_edit)]))
    (bindE (start_program M (clang_format_cmd list_file inplace_edit)) (\<lambda>returncode.
     if returncode \<noteq> 0 then raise (BuiltinExc ''SystemExit'') else ret ()))))"

section \<open>continuous-delivery\<close>

text \<open>
  \<open>pip-install-with-retry.py\<close>. \<open>R i\<close> is the outcome of the \<open>i\<close>th attempt, its return code and
  output, and \<open>T i\<close> the clock after it. The loop has no bound of its own: \<open>None\<close> is that the fuel
  has run out.
\<close>

definition RETRY_INTERVAL_SECS :: rat where "RETRY_INTERVAL_SECS = 10"
definition GIVE_UP_AFTER_SECS :: rat where "GIVE_UP_AFTER_SECS = 60 * 15"

definition pip_stdout :: "bytes \<Rightarrow> pyexc + string" where
  "pip_stdout b =
     (case decode_utf8 b of None \<Rightarrow> Inl (BuiltinExc ''UnicodeDecodeError'') | Some t \<Rightarrow> Inr (py_strip t))"

definition version_missing :: "string \<Rightarrow> bool" where
  "version_missing stdout = contains ''could not find a version'' (lower stdout)"

fun pip_loop ::
  "(nat \<Rightarrow> pyexc + int \<times> bytes) \<Rightarrow> (nat \<Rightarrow> rat) \<Rightarrow> rat \<Rightarrow> string list \<Rightarrow> nat \<Rightarrow> nat \<Rightarrow> (world, int option) py" where
  "pip_loop R T start_time args i 0 = ret None"
| "pip_loop R T start_time args i (Suc fuel) =
     thenE (emit (Native ''print'' [pv_cmd args]))
    (thenE (emit (Native ''subprocess.run'' [pv_cmd args]))
    (bindE (\<lambda>s. (R i, s)) (\<lambda>(returncode, out).
     bindE (\<lambda>s. (pip_stdout out, s)) (\<lambda>stdout.
     thenE (whenE (stdout \<noteq> []) (py_print stdout))
    (if returncode = 0 then ret (Some 0)
     else if version_missing stdout then
       (let elapsed_secs = T i - start_time in
        if elapsed_secs < GIVE_UP_AFTER_SECS
        then thenE (emit (Native ''print'' [PStr ''Retrying in'', PFloat RETRY_INTERVAL_SECS, PStr ''secs...'']))
            (thenE (emit (Native ''time.sleep'' [PFloat RETRY_INTERVAL_SECS]))
             (pip_loop R T start_time args (Suc i) fuel))
        else thenE (emit (Native ''print'' [PStr ''Giving up on retries after'', PInt \<lfloor>elapsed_secs\<rfloor>, PStr ''total secs.'']))
             (ret (Some returncode)))
     else ret (Some returncode))))))"

definition pip_install_with_retry ::
  "(nat \<Rightarrow> pyexc + int \<times> bytes) \<Rightarrow> (nat \<Rightarrow> rat) \<Rightarrow> rat \<Rightarrow> string \<Rightarrow> string list \<Rightarrow> nat \<Rightarrow> (world, int option) py" where
  "pip_install_with_retry R T start_time executable argv fuel =
     (if length argv < 2 then raise (BuiltinExc ''SystemExit'')
      else pip_loop R T start_time ([executable, ''-m'', ''pip'', ''install''] @ tl argv) 0 fuel)"

text \<open>\<open>pull-pypirc.py\<close>: the secret is a string or, decoded, bytes; the file is opened for text.\<close>

datatype secret = SecretString string | SecretBinary bytes

definition text_write :: "secret \<Rightarrow> ('a world_scheme, unit) py" where
  "text_write v = (case v of
     SecretString t \<Rightarrow> emit (Native ''write'' [PStr t])
   | SecretBinary b \<Rightarrow> raise (TypeError ''write() argument must be str, not bytes''))"

definition get_secret :: "(string \<Rightarrow> pyexc + secret) \<Rightarrow> string \<Rightarrow> string \<Rightarrow> ('a world_scheme, unit) py" where
  "get_secret secrets home stage =
     bindE (\<lambda>s. (secrets (stage @ ''/aws-crt-python/.pypirc''), s)) (\<lambda>v.
     thenE (emit (Native ''open'' [PStr (home @ ''.pypirc''), PStr ''w'']))
    (thenE (text_write v)
     (py_print (''.pypirc written to '' @ home @ ''.pypirc''))))"

definition test_pip_install :: "native_env \<Rightarrow> ('a world_scheme, unit) py" where
  "test_pip_install N =
     thenE (py_print ''if the next statement does not explode, the pip install was successful'')
    (bindE (native N ''is_alpn_available'' []) (\<lambda>alpn.
     emit (Native ''print'' [PStr ''Is alpn supported? {}'', alpn])))"

section \<open>The builder's action\<close>

datatype build_action = Run "string list" | SetupCrossCICrtEnvironment

definition builder_actions :: "string \<Rightarrow> build_action list" where
  "builder_actions python =
     [Run [python, ''--version''],
      Run [python, ''-m'', ''pip'', ''install'', ''--upgrade'', ''pip''],
      SetupCrossCICrtEnvironment,
      Run [python, ''-m'', ''pip'', ''install'', ''--verbose'', ''.[dev]''],
      Run [python, ''-m'', ''unittest'', ''discover'', ''--verbose'', ''--failfast'']]"

definition venv_python :: "string \<Rightarrow> string \<Rightarrow> string" where
  "venv_python platform venv_dirpath = venv_dirpath @ (if platform = ''win32'' then ''/Scripts/python'' else ''/bin/python'')"

definition AWSCrtPython_run ::
  "script_env \<Rightarrow> string \<Rightarrow> string \<Rightarrow> string option \<Rightarrow> string \<Rightarrow> ('a world_scheme, build_action list) py" where
  "AWSCrtPython_run M platform cwd python_arg config_python =
     (let python = (case python_arg of Some p \<Rightarrow> if p \<noteq> [] then p else config_python | None \<Rightarrow> config_python);
          venv_dirpath = cwd @ ''/.venv-builder''
      in bindE (start_program M [python, ''-m'', ''venv'', venv_dirpath]) (\<lambda>returncode.
         if returncode \<noteq> 0 then raise (BuiltinExc ''CalledProcessError'')
         else thenE (emit (Native ''setenv'' [PStr ''AWS_TEST_S3'', PStr ''1'']))
             (thenE (emit (Native ''setenv'' [PStr ''AWS_TEST_LOCALHOST'', PStr ''1'']))
              (ret (builder_actions (venv_python platform venv_dirpath))))))"

section \<open>The retry loop ends\<close>

text \<open>What the program ends with if the \<open>n\<close>th attempt is the last, and the attempts after which it
  tries again while there is time.\<close>

definition pip_outcome :: "(nat \<Rightarrow> pyexc + int \<times> bytes) \<Rightarrow> nat \<Rightarrow> pyexc + int option" where
  "pip_outcome R n =
     (case R n of Inl e \<Rightarrow> Inl e
      | Inr (returncode, out) \<Rightarrow>
          (case pip_stdout out of Inl e \<Rightarrow> Inl e | Inr stdout \<Rightarrow> Inr (Some returncode)))"

definition retriable :: "(nat \<Rightarrow> pyexc + int \<times> bytes) \<Rightarrow> nat \<Rightarrow> bool" where
  "retriable R i \<longleftrightarrow>
     (\<exists>returncode out stdout. R i = Inr (returncode, out) \<and> returncode \<noteq> 0 \<and> pip_stdout out = Inr stdout \<and>
        version_missing stdout)"

text \<open>One round of the loop.\<close>

lemma pip_round:
  "fst (pip_loop R T t0 args i (Suc fuel) s) = pip_outcome R i \<or>
   retriable R i \<and> T i - t0 < GIVE_UP_AFTER_SECS \<and>
     (\<exists>s'. fst (pip_loop R T t0 args i (Suc fuel) s) = fst (pip_loop R T t0 args (Suc i) fuel s'))"
proof (cases "R i")
  case (Inr p)
  obtain returncode out where p: "p = (returncode, out)" by fastforce
  show ?thesis
  proof (cases "pip_stdout out")
    case (Inl e)
    with Inr p show ?thesis by (simp add: pip_outcome_def py_monad)
  next
    case (Inr stdout)
    show ?thesis
      using \<open>R i = Inr p\<close> p Inr
      by (auto simp: pip_outcome_def retriable_def Let_def bindE_def thenE_def emit_def updE_def whenE_def ret_def
          py_print_def simp del: pip_loop.simps(1))
  qed
qed (simp add: pip_outcome_def py_monad)

lemma pip_loop_ends:
  assumes clock: "\<And>i. 10 * of_nat i \<le> T i - t0"
  shows "i \<le> 90 \<Longrightarrow> fuel = 90 - i \<Longrightarrow>
    \<exists>n. i \<le> n \<and> n \<le> 90 \<and> fst (pip_loop R T t0 args i (Suc fuel) s) = pip_outcome R n \<and>
      (\<forall>j. i \<le> j \<and> j < n \<longrightarrow> retriable R j)"
proof (induction fuel arbitrary: i s)
  case 0
  then have "i = 90" by simp
  moreover have "\<not> T 90 - t0 < GIVE_UP_AFTER_SECS" using clock [of 90] by (simp add: GIVE_UP_AFTER_SECS_def)
  ultimately show ?case using pip_round [of R T t0 args i 0 s] 0 by fastforce
next
  case (Suc fuel)
  from pip_round [of R T t0 args i "Suc fuel" s] show ?case
  proof (elim disjE conjE exE)
    fix s' assume r: "retriable R i"
      and e: "fst (pip_loop R T t0 args i (Suc (Suc fuel)) s) = fst (pip_loop R T t0 args (Suc i) (Suc fuel) s')"
    have "Suc i \<le> 90" "fuel = 90 - Suc i" using Suc.prems by simp_all
    from Suc.IH [OF this, of s'] e r show ?thesis by (metis Suc_leD le_antisym not_less_eq_eq)
  qed (use Suc.prems in auto)
qed


definition pip_runs_ex :: "nat \<Rightarrow> pyexc + int \<times> bytes" where
  "pip_runs_ex i =
     Inr (if i < 2 then 1 else 0,
          map (\<lambda>c. word_of_nat (of_char c)) (if i < 2 then ''Could not find a version'' else ''ok''))"


text \<open>A binary secret cannot be written: the file is left open and empty by the failure.\<close>

lemma binary_secret_fails:
  assumes "secrets (stage @ ''/aws-crt-python/.pypirc'') = Inr (SecretBinary b)"
  shows "fst (get_secret secrets home stage s) = Inl (TypeError ''write() argument must be str, not bytes'')"
  using assms by (simp add: get_secret_def text_write_def py_monad)

text \<open>The words of the commands with quotes.\<close>

lemma make_docs_words:
  "shlex_split (''make html SPHINXOPTS='' @ [CHR 0x22] @ ''-W --keep-going'' @ [CHR 0x22]) =
     Inr [''make'', ''html'', ''SPHINXOPTS=-W --keep-going'']"
  by (simp add: shlex_split_def)

lemma shlex_plain_words:
  assumes "list_all (\<lambda>w. w \<noteq> [] \<and> list_all (\<lambda>c. c \<notin> {CHR '' '', CHR 0x09, CHR 0x0A, CHR 0x0D, CHR 0x27, CHR 0x22, CHR 0x5C}) w) ws"
  shows "shlex_split (join_with (CHR '' '') ws) = Inr ws"
proof -
  have word: "list_all (\<lambda>c. c \<notin> {CHR '' '', CHR 0x09, CHR 0x0A, CHR 0x0D, CHR 0x27, CHR 0x22, CHR 0x5C}) w \<Longrightarrow>
      shlex_go Plain (Some x) (w @ cs) = shlex_go Plain (Some (x @ w)) cs" for w x cs
    by (induction w arbitrary: x) simp_all
  have start: "w \<noteq> [] \<Longrightarrow> list_all (\<lambda>c. c \<notin> {CHR '' '', CHR 0x09, CHR 0x0A, CHR 0x0D, CHR 0x27, CHR 0x22, CHR 0x5C}) w \<Longrightarrow>
      shlex_go Plain None (w @ cs) = shlex_go Plain (Some w) cs" for w cs
    using word [of "tl w" "[hd w]" cs] by (cases w) simp_all
  show ?thesis
    using assms unfolding shlex_split_def
  proof (induction "CHR '' ''" ws rule: join_with.induct)
    case (2 x)
    then show ?case using start [of x "[]"] by simp
  next
    case (3 x y ys)
    then show ?case using start [of x "CHR '' '' # join_with (CHR '' '') (y # ys)"] by simp
  qed simp
qed

end
