(* ===== verification/Spec2Isabelle.thy ===== *)
theory Spec2Isabelle
  imports Aio_Http Eventstream_Rpc Websocket Mqtt3 S3 Request_Response Auth Cbor_Roundtrip Crt_Logging
    Checksums Crypto Native_Resources Canary_Wrapper Build_Setup Mqtt_Test S3_Benchmark Elasticurl Release_Scripts
begin

text \<open>
  A verification development of aws-crt-python, the Python binding of the AWS Common Runtime.

  \<^bold>\<open>The program.\<close> The package \<open>awscrt\<close> wraps native libraries. Its Python code
  checks and converts arguments, calls the extension module \<open>_awscrt\<close>, and receives native
  callbacks on native threads, which it turns into futures and calls of user functions. The native
  libraries are git submodules and not part of the repository; the C files under \<open>source\<close>
  convert between the two worlds.

  \<^bold>\<open>How it is modelled.\<close> A method is a function of type \<open>('s, 'a) py\<close> from the
  state of its component to a result or exception together with the new state, so effects before a
  \<open>raise\<close> are kept; code without effects is a plain function into a sum type. The state is
  a record of the attributes. Calls of native code, invocations of user callbacks and the entry and
  exit of locks are appended to a trace. Native code is a parameter \<open>N\<close> that gives the outcome
  of every call, user callbacks are a parameter \<open>U\<close> or, where they call back into the object
  they are given, programs of a datatype. Native callbacks are events; a property that speaks of
  every order and number of them quantifies over event sequences or over the runs of an inductive
  step relation. Integers are unbounded, as Python's are, except where C or a wire format fixes a
  width; there they are words.

  \<^bold>\<open>The theories.\<close>

  \<^item> \<open>Py_Prelude\<close>: values, exceptions, the effect combinators, \<open>try/except/finally\<close>,
    locks, native calls. \<open>Py_Strings\<close>, \<open>Py_Dict\<close>: the string and dict operations used.
    \<open>Py_Logic\<close>: runs of step relations, invariants, lock orders.
  \<^item> \<open>Int_Enum\<close>: \<open>IntEnum\<close> classes as an interface (locales \<open>codec\<close> and
    \<open>int_enum\<close>), interpreted for every enumeration of the package.
  \<^item> \<open>Futures\<close>: \<open>concurrent.futures.Future\<close>, and the interface of a future that is
    settled once by the first of the events meant for it (locale \<open>settled_slot\<close>), interpreted by
    the MQTT, RPC and request-response components.
  \<^item> \<open>Crt_Exceptions\<close>: \<open>exceptions.py\<close>.
  \<^item> \<open>Io_Types\<close>, \<open>Io\<close>: \<open>io.py\<close>. The process-wide default event loop group,
    resolver and bootstrap and their locks: one object until released, one global lock order. Reading
    a Python stream into a native buffer: bounds. TLS options and ALPN lists.
  \<^item> \<open>Http\<close>: \<open>http.py\<close>. Establishing connections, settings, HTTP/1.1 and HTTP/2
    streams, headers. What a delivered connection satisfies, that streams complete, that settings
    convert exactly.
  \<^item> \<open>Aio_Http\<close>: \<open>aio/http.py\<close>. The chunk queue between the native thread and the
    coroutines, at the granularity of its lock and of the event loop: order, no lost wake-up, the end
    reaches everyone; what cancellation breaks; request bodies from generators.
  \<^item> \<open>Eventstream\<close>, \<open>Eventstream_Rpc\<close>: \<open>eventstream/__init__.py\<close> and
    \<open>eventstream/rpc.py\<close>. Typed headers and their wire ranges, round trips of headers and
    messages, futures of connections and streams.
  \<^item> \<open>Websocket\<close>: \<open>websocket.py\<close>. Frames in order, user exceptions contained.
  \<^item> \<open>Iot_Metrics\<close>, \<open>Mqtt5_Packets\<close>: \<open>aws_iot_metrics.py\<close> and the data
    classes of \<open>mqtt5.py\<close>. The encoded feature lists against a table, merging against map
    override, the rules of the metadata.
  \<^item> \<open>Mqtt5_Enums\<close>, \<open>Ws_Handshake\<close>, \<open>Mqtt5_Client\<close>: \<open>mqtt5.py\<close>
    and the C function that delivers a publish. Acknowledgement exactly once, handshake completion
    exactly once, futures of the operations.
  \<^item> \<open>Mqtt3\<close>: \<open>mqtt.py\<close> and \<open>Client.new_connection\<close> of \<open>mqtt5.py\<close>.
    Constructor conditions, operations that never raise, futures.
  \<^item> \<open>S3\<close>: \<open>s3.py\<close>. The error a finished request reports, the order of future and
    callback, the cross-process lock.
  \<^item> \<open>Request_Response\<close>: \<open>mqtt_request_response.py\<close>. Validation and requests.
  \<^item> \<open>Auth\<close>: \<open>auth.py\<close>. Expiration of credentials, providers, signing configurations.
  \<^item> \<open>Cbor\<close>, \<open>Cbor_Roundtrip\<close>: \<open>cbor.py\<close> and \<open>source/cbor.c\<close>. The
    encoder and the recursive decoder over CBOR elements: termination on every input (locale
    \<open>consuming\<close>), refinement of a reference encoding, round trip, the nesting limit, and the
    input that crashes it.
  \<^item> \<open>Crt_Logging\<close>: \<open>logging.py\<close> and the logger of \<open>source/module.c\<close>. The
    level tables fit together.
  \<^item> \<open>Checksums\<close>: \<open>checksums.py\<close> and \<open>source/crc.c\<close>. Running and combined
    checksums. \<open>Crypto\<close>: \<open>crypto.py\<close> and the decisions made in \<open>source/crypto.c\<close>.
  \<^item> \<open>Native_Resources\<close>: \<open>__init__.py\<close>, \<open>common.py\<close>, \<open>XXHash\<close> and the leak
    checker of \<open>_test.py\<close>. When the check succeeds, that it ends, and that its report keeps the
    contents of the leaking objects secret.
  \<^item> \<open>Py_Outside\<close>: scripts that call services and other programs. The services are a parameter
    whose answers may change from call to call; a program that moves only along a relation of states
    (locales \<open>frame\<close> and \<open>world_frame\<close>) is shown once for every combinator.
  \<^item> \<open>Canary_Snapshot\<close>, \<open>Canary_Monitors\<close>, \<open>Canary_Wrapper\<close>: the canary wrapper
    under \<open>codebuild\<close>. The snapshot of metrics with its log, alarms and reports; the monitors of
    metrics, of the application and of an S3 object; tickets; the script around them. The run ends, how
    often it reports, its verdict, and why alarms have no effect.
  \<^item> \<open>Build_Setup\<close>: \<open>setup.py\<close> and the substitution of \<open>update-version.py\<close>.
    The choice of the Windows SDK, the order of the linker's search paths, the wheel tag against the
    ABI, the version from the git tag to the build.
  \<^item> \<open>Mqtt_Test\<close>, \<open>S3_Benchmark\<close>, \<open>Elasticurl\<close>: the programs
    \<open>mqtt_test.py\<close>, \<open>s3_benchmark.py\<close> and \<open>elasticurl.py\<close>, which use the package
    the way its users do: on top of the models of the connection, of S3 requests and of HTTP streams,
    exactly when the first reports success (rules for the predicate \<open>decides\<close>), what the
    second counts, and on which conditions the third sends its request.
  \<^item> \<open>Release_Scripts\<close>: \<open>scripts\<close>, \<open>format-check.py\<close>, the remaining files of
    \<open>continuous-delivery\<close> and the builder's action. The retries of \<open>pip install\<close> end.

  \<^bold>\<open>Bounds and fuel.\<close> All recursion is structural or has a termination proof. The loops of
  the CBOR decoder over indefinite-length items carry a bound of one iteration per remaining element,
  one more than they can use, since every item consumes an element; that the bound is never reached
  is proved. The nesting depth of that decoder is the code's own limit of 128. The loop of the canary
  wrapper and the waiting loop of the leak checker may run for ever and are partial functions into
  option; that they return, and when, is proved (\<open>canary_run_ends\<close>,
  \<open>leak_check_decides\<close>). The retry loop around \<open>pip install\<close> has fuel; 91 rounds are
  enough because it gives up after 900 seconds and sleeps for ten between attempts
  (\<open>pip_retry_ends\<close>). A consumer of the lazily opened upload stream has fuel for one read more
  than the file has bytes (\<open>lazy_stream_delivers\<close>).

  \<^bold>\<open>Hypotheses about code outside the repository.\<close> Where a property rests on native code,
  the hypothesis is its documented behaviour: a float is encoded without loss of precision
  (\<open>float_law\<close>), checksums continue and combine (\<open>crc_running\<close>,
  \<open>crc_combining\<close>), a message is logged if its level is enabled, a stream does not read more
  than it was asked to, the process of the canary is not running for ever, a sleep takes at least its
  time, native calls that start an MQTT or S3 operation return. Each has an instance,
  among the witnesses or, for checksums, in \<open>sum_bytes_laws\<close>.

  \<^bold>\<open>This theory\<close> holds two properties that span components: connections opened without a
  bootstrap share the process-wide one, and a message travels unchanged from the sending to the
  receiving side of an event-stream RPC connection.

  \<^bold>\<open>Not modelled.\<close> The argument conversion of the other C files; garbage collection and
  object lifetimes. Command line parsing of the programs is the standard library's: their arguments are
  records. Operations of the canary's monitors that are stubs have no definition.
  Floats are finite, and text is its UTF-8 encoding; case conversion and digit tests are those of
  ASCII.
\<close>

section \<open>Connections and the default bootstrap\<close>

text \<open>
  Opening an HTTP connection with the process-wide state it may touch: once the assertions of
  \<open>_generic_new\<close> hold and no bootstrap is given, it asks for the static default. The result is
  the state of the new connection's core and that of the process-wide defaults.
\<close>

definition generic_asserts :: "conn_args \<Rightarrow> bool" where
  "generic_asserts a \<longleftrightarrow> opt_isinstance (arg_bootstrap a) ''ClientBootstrap'' \<and>
     opt_isinstance (arg_tls_connection_options a) ''TlsConnectionOptions'' \<and>
     opt_isinstance (arg_socket_options a) ''SocketOptions'' \<and>
     opt_isinstance (arg_proxy_options a) ''HttpProxyOptions'' \<and>
     (\<not> arg_manual_window_management a \<or> arg_initial_window_size a \<noteq> None)"

definition open_connection :: "native_env \<Rightarrow> conn_args \<Rightarrow> io_state \<Rightarrow> conn_core \<times> io_state" where
  "open_connection N a io =
     (if \<not> generic_asserts a \<or> truthy (arg_bootstrap a)
      then (snd (generic_new N (Inr PNone) a (conn_core_init a)), io)
      else (case ClientBootstrap_get_or_create_static_default N io of
              (r, io') \<Rightarrow>
                (snd (generic_new N (map_sum id (PObj ''ClientBootstrap'') r) a (conn_core_init a)), io')))"

text \<open>Arguments that pass the assertions and name no bootstrap.\<close>

definition default_args :: "conn_args \<Rightarrow> bool" where
  "default_args a \<longleftrightarrow> arg_bootstrap a = PNone \<and> generic_asserts a"

lemma open_connection_uses:
  assumes "default_args a" "ClientBootstrap_get_or_create_static_default N io = (Inr b, io')"
  shows "snd (open_connection N a io) = io' \<and>
    (\<exists>args. trace (fst (open_connection N a io)) =
       [Native ''http_client_connection_new'' (PObj ''ClientBootstrap'' b # args)])"
  using assms
  by (auto simp: open_connection_def default_args_def generic_asserts_def generic_new_def
      conn_core_init_def opt_isinstance_def resolve_def py_monad Let_def split: sum.splits)

text \<open>
  (C16) Connections opened without a bootstrap share one: from any state the process-wide defaults can
  be in, once one connection has been opened with the default bootstrap, every later one is opened
  with the same bootstrap object, whatever else is requested or released in between, as long as the
  default bootstrap itself is not released.
\<close>

theorem connections_share_bootstrap:
  assumes "run_steps (io_step N) io_init ops0 io0"
    and "default_args a" and "default_args a'"
    and "fst (ClientBootstrap_get_or_create_static_default N io0) = Inr b"
    and "run_steps (io_step N) (snd (open_connection N a io0)) ops io2"
    and "ReleaseBootstrap \<notin> set ops"
  shows "\<exists>args args'. trace (fst (open_connection N a io0)) =
      [Native ''http_client_connection_new'' (PObj ''ClientBootstrap'' b # args)] \<and>
    trace (fst (open_connection N a' io2)) =
      [Native ''http_client_connection_new'' (PObj ''ClientBootstrap'' b # args')]"
proof -
  obtain io1 where g: "ClientBootstrap_get_or_create_static_default N io0 = (Inr b, io1)"
    using assms(4) by (metis prod.collapse)
  note u = open_connection_uses [OF assms(2) g]
  have "run_steps (io_step N) io1 ops io2"
    using assms(5) u by simp
  from bootstrap_get_present [OF bootstrap_stays [OF assms(1) g this assms(6)]]
  obtain io3 where "ClientBootstrap_get_or_create_static_default N io2 = (Inr b, io3)" ..
  from open_connection_uses [OF assms(3) this] u show ?thesis by blast
qed

theorem connections_share_bootstrap_witness:
  "\<exists>args. trace (fst (open_connection native_ok (generic_args ''h'' 443)
       (snd (open_connection native_ok (generic_args ''g'' 80) io_init)))) =
     [Native ''http_client_connection_new'' (PObj ''ClientBootstrap'' 2 # args)]"
proof -
  have g: "fst (ClientBootstrap_get_or_create_static_default native_ok io_init) = Inr 2"
    by (simp add: io_defs io_init_def py_monad)
  have d: "default_args (generic_args ''g'' 80)" "default_args (generic_args ''h'' 443)"
    by (simp_all add: default_args_def generic_asserts_def generic_args_def opt_isinstance_def)
  from connections_share_bootstrap [OF run_Nil d g run_Nil] show ?thesis by auto
qed

section \<open>Messages from one peer to the other\<close>

text \<open>
  (C9) A protocol message sent over an event-stream RPC connection, carried unchanged, reaches the
  handler of the receiving connection: sending makes exactly one native call, and delivering the
  message of that call invokes the handler exactly once, with the headers, payload, type and flags
  that were sent; an omitted argument arrives as no headers, an empty payload or no flags.
\<close>

theorem rpc_message_delivered:
  assumes "list_all header_wf (case m_headers a of None \<Rightarrow> [] | Some hs \<Rightarrow> hs)"
  shows "\<exists>b k. trace (snd (send_protocol_message N a on_flush s)) = trace s @
      [Native ''event_stream_rpc_client_connection_send_protocol_message''
         (PObj ''ClientConnection'' 0 # pv_binding_msg b @ [PFun k])] \<and>
    trace (snd (on_protocol_message U b peer)) = trace peer @
      [Callback ''on_protocol_message''
        [PList (map pv_header (case m_headers a of None \<Rightarrow> [] | Some hs \<Rightarrow> hs)),
         PBytes (case m_payload a of None \<Rightarrow> [] | Some p \<Rightarrow> p),
         PEnum ''MessageType'' (MessageType_value (m_message_type a)),
         PInt (case m_flags a of None \<Rightarrow> 0 | Some f \<Rightarrow> f)]]"
proof -
  obtain b where b: "to_binding_msg_args a = Inr b"
    "from_binding_msg_args b = Inr \<lparr>r_headers = (case m_headers a of None \<Rightarrow> [] | Some hs \<Rightarrow> hs),
      r_payload = (case m_payload a of None \<Rightarrow> [] | Some p \<Rightarrow> p),
      r_message_type = m_message_type a,
      r_flags = (case m_flags a of None \<Rightarrow> 0 | Some f \<Rightarrow> f)\<rparr>"
    using binding_msg_roundtrip [OF assms] by blast
  have "trace (snd (on_protocol_message U b peer)) = trace peer @
      [Callback ''on_protocol_message''
        [PList (map pv_header (case m_headers a of None \<Rightarrow> [] | Some hs \<Rightarrow> hs)),
         PBytes (case m_payload a of None \<Rightarrow> [] | Some p \<Rightarrow> p),
         PEnum ''MessageType'' (MessageType_value (m_message_type a)),
         PInt (case m_flags a of None \<Rightarrow> 0 | Some f \<Rightarrow> f)]]"
    by (simp add: on_protocol_message_def b(2) callback_state pv_received_def)
  moreover have "trace (snd (send_protocol_message N a on_flush s)) = trace s @
      [Native ''event_stream_rpc_client_connection_send_protocol_message''
         (PObj ''ClientConnection'' 0 # pv_binding_msg b @ [PFun (length (flushes s))])]"
    by (simp add: send_protocol_message_def send_with_def b(1) py_monad split: sum.splits)
  ultimately show ?thesis by blast
qed

definition rpc_message_ex :: msg_args where
  "rpc_message_ex = \<lparr>m_headers = Some [from_bool ''ok'' True], m_payload = None,
     m_message_type = MessageType.PING, m_flags = Some 2\<rparr>"

theorem rpc_message_delivered_witness:
  "\<exists>b. trace (snd (on_protocol_message (\<lambda>_ _. None) b (ClientConnection_init ''h'' 1))) =
      [Callback ''on_protocol_message''
        [PList [pv_header (from_bool ''ok'' True)], PBytes [],
         PEnum ''MessageType'' (MessageType_value MessageType.PING), PInt 2]]"
  using rpc_message_delivered [of rpc_message_ex "\<lambda>_ _. Inr PNone" PNone "ClientConnection_init ''h'' 1"
      "\<lambda>_ _. None" "ClientConnection_init ''h'' 1"]
  by (auto simp: rpc_message_ex_def header_wf_def from_bool_def ClientConnection_init_def)

end
